(* ===== verification/Prelude.thy ===== *)
theory Prelude
  imports Main "HOL-Library.Word" "HOL-Library.Multiset"
begin

unbundle bit_operations_syntax

text \<open>
  Shared vocabulary of the development: the widths of the C integer types, the
  collections of facts the component theories hand to the simplifier, the C
  counting loop as a combinator with an early return, and generic lemmas on
  lists and words.

  The platform is LP64: \<open>size_t\<close>, \<open>uintptr_t\<close> and pointers are 64 bits wide.
\<close>

type_synonym u8 = "8 word"
type_synonym u16 = "16 word"
type_synonym u32 = "32 word"
type_synonym u64 = "64 word"
type_synonym usize = "64 word"
type_synonym addr = "64 word"

abbreviation (input) SIZE_MAX :: usize where "SIZE_MAX \<equiv> -1"
abbreviation (input) UINT64_MAX :: u64 where "UINT64_MAX \<equiv> -1"
abbreviation (input) NULL :: addr where "NULL \<equiv> 0"

named_theorems codec \<open>decode/encode laws of the C structures\<close>
named_theorems region \<open>loads from and stores to memory regions\<close>
named_theorems loop \<open>C loops as recursion over lists\<close>
named_theorems status \<open>which status an operation may return\<close>

section \<open>Words\<close>

lemma unat_lt_64 [simp]: "unat (x :: u64) < 18446744073709551616"
  using unsigned_less [of x, where ?'a = nat] by simp

lemma unat_lt_32 [simp]: "unat (x :: u32) < 4294967296"
  using unsigned_less [of x, where ?'a = nat] by simp

lemma unat_SIZE_MAX [simp]: "unat (- 1 :: u64) = 18446744073709551615"
  by (simp add: unsigned_minus_1_eq_mask mask_eq_exp_minus_1)

lemma unat_of_nat_small:
  "n < 2 ^ LENGTH('a) \<Longrightarrow> unat (of_nat n :: 'a::len word) = n"
  by (simp add: unat_of_nat)

lemma unat_ucast_32_64 [simp]: "unat (ucast (x :: u32) :: u64) = unat x"
  by (simp add: unsigned_ucast_eq take_bit_nat_eq_self_iff order_less_trans [OF unat_lt_32])

lemma unat_inc:
  fixes i :: "'a::len word"
  assumes "i < n"
  shows "unat (i + 1) = Suc (unat i)"
proof -
  have "1 + i \<noteq> 0"
  proof
    assume "1 + i = 0"
    then have "i = - 1" by (simp add: add_eq_0_iff)
    with assms show False by (simp add: word_order.not_eq_extremum)
  qed
  then show ?thesis by (metis add.commute unatSuc)
qed

lemma word_le_SIZE_MAX [simp]: "(x :: u64) \<le> - 1"
  by (rule word_n1_ge)

section \<open>The C counting loop\<close>

text \<open>
  \<open>for (T i = first; i < n && guard; ++i) body\<close>, with \<open>T\<close> an unsigned type. The
  body reads the index and the loop's state; \<open>Inl r\<close> is a \<open>return r\<close> inside the
  body, \<open>Inr s\<close> the state at the end of the body (or at a \<open>continue\<close>).
\<close>

function for_guard ::
  "'a::len word \<Rightarrow> 'a word \<Rightarrow> ('s \<Rightarrow> bool) \<Rightarrow> ('a word \<Rightarrow> 's \<Rightarrow> 'r + 's) \<Rightarrow> 's \<Rightarrow> 'r + 's" where
  "for_guard i n g body s =
     (if i < n \<and> g s
      then (case body i s of Inl r \<Rightarrow> Inl r | Inr s' \<Rightarrow> for_guard (i + 1) n g body s')
      else Inr s)"
  by pat_completeness auto
termination
  by (relation "measure (\<lambda>(i, n, g, body, s). unat n - unat i)")
     (auto simp: unat_inc word_less_nat_alt)

declare for_guard.simps [simp del]

definition for_loop ::
  "'a::len word \<Rightarrow> ('a word \<Rightarrow> 's \<Rightarrow> 'r + 's) \<Rightarrow> 's \<Rightarrow> 'r + 's" where
  "for_loop n body s = for_guard 0 n (\<lambda>_. True) body s"

text \<open>The same loops as structural recursion over the list of the indices.\<close>

fun fold_guard :: "('s \<Rightarrow> bool) \<Rightarrow> ('i \<Rightarrow> 's \<Rightarrow> 'r + 's) \<Rightarrow> 'i list \<Rightarrow> 's \<Rightarrow> 'r + 's" where
  "fold_guard g body [] s = Inr s"
| "fold_guard g body (i # is) s =
     (if g s then (case body i s of Inl r \<Rightarrow> Inl r | Inr s' \<Rightarrow> fold_guard g body is s')
      else Inr s)"

abbreviation fold_body :: "('i \<Rightarrow> 's \<Rightarrow> 'r + 's) \<Rightarrow> 'i list \<Rightarrow> 's \<Rightarrow> 'r + 's" where
  "fold_body \<equiv> fold_guard (\<lambda>_. True)"

lemma for_guard_eq_fold:
  "for_guard i n g body s = fold_guard g body (map of_nat [unat i..<unat n]) s"
proof (induction i n g body s rule: for_guard.induct)
  case (1 i n g body s)
  show ?case
  proof (cases "i < n")
    case True
    then have "[unat i..<unat n] = unat i # [unat (i + 1)..<unat n]"
      by (simp add: unat_inc word_less_nat_alt upt_conv_Cons)
    with True 1 show ?thesis
      by (subst for_guard.simps) (simp split: sum.splits)
  next
    case False
    then show ?thesis
      by (subst for_guard.simps) (simp add: word_less_nat_alt)
  qed
qed

lemma for_loop_eq_fold [loop]:
  "for_loop n body s = fold_body body (map of_nat [0..<unat n]) s"
  by (simp add: for_loop_def for_guard_eq_fold)

lemma set_index_list: "set (map of_nat [0..<unat n]) = {i :: 'a::len word. i < n}"
proof (intro equalityI subsetI)
  fix i :: "'a word" assume "i \<in> {i. i < n}"
  then have "unat i \<in> set [0..<unat n]" by (simp add: word_less_nat_alt)
  then have "of_nat (unat i) \<in> set (map of_nat [0..<unat n] :: 'a word list)"
    by (simp only: set_map image_eqI)
  then show "i \<in> set (map of_nat [0..<unat n])" by (simp only: of_nat_unat ucast_id)
next
  fix i :: "'a word" assume "i \<in> set (map of_nat [0..<unat n])"
  then obtain k where k: "k < unat n" "i = of_nat k" by auto
  have "unat i = k" unfolding k(2) using k(1)
    using unsigned_less [of n, where ?'a = nat] by (intro unat_of_nat_small) linarith
  with k show "i \<in> {i. i < n}" by (simp add: word_less_nat_alt)
qed

lemma all_index_iff:
  "(\<forall>i \<in> set (map of_nat [0..<unat n]). P i) \<longleftrightarrow> (\<forall>i < n. P (i :: 'a::len word))"
  by (simp only: set_index_list mem_Collect_eq Ball_def)

lemma unat_of_nat_index: "i < unat (n :: 'a::len word) \<Longrightarrow> unat (of_nat i :: 'a word) = i"
  using unsigned_less [of n, where ?'a = nat] by (intro unat_of_nat_small) linarith

lemma ex_index_nat: "(\<exists>i < n. P (unat (i :: 'a::len word))) \<longleftrightarrow> (\<exists>k < unat n. P k)"
proof
  assume "\<exists>k < unat n. P k"
  then obtain k where "k < unat n" "P k" by blast
  then have "of_nat k < n \<and> P (unat (of_nat k :: 'a word))"
    using unat_of_nat_index [of k n] by (simp add: word_less_nat_alt)
  then show "\<exists>i < n. P (unat i)" by blast
qed (auto simp: word_less_nat_alt)

lemma fold_guard_append:
  "fold_body body (xs @ ys) s =
     (case fold_body body xs s of Inl r \<Rightarrow> Inl r | Inr s' \<Rightarrow> fold_body body ys s')"
  by (induction xs arbitrary: s) (auto split: sum.splits)

lemma fold_guard_map:
  "fold_guard g body (map f xs) s = fold_guard g (body \<circ> f) xs s"
  by (induction xs arbitrary: s) (auto split: sum.splits)

lemma fold_guard_cong [fundef_cong]:
  assumes "xs = ys" "s = t" "\<And>x u. x \<in> set ys \<Longrightarrow> b x u = c x u"
  shows "fold_guard g b xs s = fold_guard g c ys t"
proof -
  have "(\<And>x u. x \<in> set ys \<Longrightarrow> b x u = c x u) \<Longrightarrow> fold_guard g b ys s = fold_guard g c ys s"
    for ys s
    by (induction ys arbitrary: s) (auto split: sum.splits)
  with assms show ?thesis by simp
qed

lemma for_loop_cong:
  assumes "n = k" "\<And>i s. i < k \<Longrightarrow> b i s = c i s" "s = t"
  shows "for_loop n b s = for_loop k c t"
  unfolding for_loop_eq_fold
  using assms by (intro fold_guard_cong) (auto simp only: set_index_list)

text \<open>A loop that only looks for a reason to return.\<close>

lemma fold_body_search:
  "fold_body (\<lambda>x (u::unit). if P x then Inl r else Inr u) xs () =
     (if \<exists>x \<in> set xs. P x then Inl r else Inr ())"
  by (induction xs) auto

text \<open>A loop that never returns is a fold.\<close>

lemma fold_body_total:
  "fold_body (\<lambda>x s. Inr (f x s)) xs s = Inr (fold f xs s)"
  by (induction xs arbitrary: s) auto

text \<open>A loop that rewrites the element at its index, over a whole array.\<close>

lemma fold_update_prefix:
  "k \<le> length xs \<Longrightarrow>
     fold (\<lambda>i ys. ys[i := g i (ys ! i)]) [0..<k] xs = map (\<lambda>i. g i (xs ! i)) [0..<k] @ drop k xs"
proof (induction k)
  case 0
  then show ?case by simp
next
  case (Suc k)
  then have "fold (\<lambda>i ys. ys[i := g i (ys ! i)]) [0..<k] xs =
    map (\<lambda>i. g i (xs ! i)) [0..<k] @ drop k xs" by simp
  moreover have "drop k xs = xs ! k # drop (Suc k) xs"
    using Suc.prems by (simp add: Cons_nth_drop_Suc)
  ultimately show ?case
    using nth_append_length [of "map (\<lambda>i. g i (xs ! i)) [0..<k]" "xs ! k" "drop (Suc k) xs"]
      list_update_length [of "map (\<lambda>i. g i (xs ! i)) [0..<k]" "xs ! k" "drop (Suc k) xs"]
    by simp
qed

lemma for_loop_update:
  assumes "length xs = unat (n :: 'a::len word)"
  shows "for_loop n (\<lambda>i ys. Inr (ys[unat i := g i (ys ! unat i)])) xs =
    (Inr (map (\<lambda>i. g (of_nat i) (xs ! i)) [0..<unat n]) :: 'r + 'b list)"
proof -
  have "for_loop n (\<lambda>i ys. Inr (ys[unat i := g i (ys ! unat i)])) xs =
    (fold_body (\<lambda>i ys. Inr (ys[i := g (of_nat i) (ys ! i)])) [0..<unat n] xs :: 'r + 'b list)"
    unfolding for_loop_eq_fold fold_guard_map
    by (intro fold_guard_cong) (auto simp: unat_of_nat_index)
  also have "\<dots> = Inr (fold (\<lambda>i ys. ys[i := g (of_nat i) (ys ! i)]) [0..<unat n] xs)"
    by (rule fold_body_total)
  finally show ?thesis
    using assms fold_update_prefix [of "unat n" xs "\<lambda>i. g (of_nat i)"] by simp
qed

text \<open>
  Nested loops with \<open>continue\<close> guards are one loop over the list of the index pairs
  that reach the inner body.
\<close>

definition index_list :: "'a::len word \<Rightarrow> 'a word list" where
  "index_list n = map of_nat [0..<unat n]"

lemma for_loop_index_list: "for_loop n body s = fold_body body (index_list n) s"
  by (simp add: for_loop_eq_fold index_list_def)

lemma for_guard_index_list: "for_guard 0 n g body s = fold_guard g body (index_list n) s"
  by (simp add: for_guard_eq_fold index_list_def)

lemma set_index_list_eq [simp]: "set (index_list n) = {i. i < n}"
  by (simp only: index_list_def set_index_list)

lemma length_index_list [simp]: "length (index_list n) = unat n"
  by (simp add: index_list_def)

lemma distinct_index_list [simp]: "distinct (index_list n)"
proof -
  have "inj_on (of_nat :: nat \<Rightarrow> 'a word) (set [0..<unat n])"
    by (rule inj_onI) (metis atLeastLessThan_iff set_upt unat_of_nat_index)
  then show ?thesis by (simp add: index_list_def distinct_map)
qed

lemma sorted_index_list [simp]: "sorted (index_list n)"
proof -
  have "(of_nat i :: 'a word) \<le> of_nat j" if "i \<le> j" "j < unat n" for i j
    using that unat_of_nat_index [of i n] unat_of_nat_index [of j n] by (simp add: word_le_nat_alt)
  then show ?thesis by (auto simp: index_list_def sorted_iff_nth_mono)
qed

lemma fold_skip [loop]:
  "fold_body (\<lambda>x s. if P x then Inr s else h x s) xs s = fold_body h (filter (\<lambda>x. \<not> P x) xs) s"
  by (induction xs arbitrary: s) (auto split: sum.splits)

lemma fold_nested [loop]:
  "fold_body (\<lambda>x s. fold_body (h x) (ys x) s) xs s =
     fold_body (\<lambda>(x, y). h x y) (concat (map (\<lambda>x. map (Pair x) (ys x)) xs)) s"
  by (induction xs arbitrary: s) (auto simp: fold_guard_append fold_guard_map comp_def split: sum.splits)

lemma fold_count [loop]:
  "unat n + length xs < 2 ^ LENGTH('a) \<Longrightarrow>
     fold_body (\<lambda>_ n. if n = - 1 then Inl r else Inr (n + 1)) xs (n :: 'a::len word) =
       Inr (n + of_nat (length xs))"
proof (induction xs arbitrary: n)
  case Nil
  then show ?case by simp
next
  case (Cons x xs)
  then have "unat n < unat (- 1 :: 'a word)"
    by (simp add: unsigned_minus_1_eq_mask mask_eq_exp_minus_1)
  then have "n < - 1" by (simp add: word_less_nat_alt)
  then have "n \<noteq> - 1" "unat (n + 1) = Suc (unat n)" by (auto simp: unat_inc)
  with Cons show ?case by (simp add: algebra_simps)
qed

text \<open>A loop that appends to a buffer through an output index.\<close>

lemma fold_emit [loop]:
  "k + length xs \<le> length buf \<Longrightarrow> length buf < 2 ^ LENGTH('a) \<Longrightarrow>
     fold_body (\<lambda>x (n, ys). Inr (n + 1, ys[unat n := f x])) xs (of_nat k :: 'a::len word, buf) =
       Inr (of_nat (k + length xs), take k buf @ map f xs @ drop (k + length xs) buf)"
proof (induction xs arbitrary: k buf)
  case Nil
  then show ?case by simp
next
  case (Cons x xs)
  have u: "unat (of_nat k :: 'a word) = k" using Cons.prems by (intro unat_of_nat_small) simp
  from Cons.prems Cons.IH [of "Suc k" "buf[k := f x]"] show ?case
    by (simp add: u add.commute take_Suc_conv_app_nth drop_update_cancel)
qed

text \<open>Counting, and appending while there is room, the elements that pass a test.\<close>

lemma fold_count_if [loop]:
  "fold_body (\<lambda>x n. if P x then Inr (n + 1) else Inr n) xs (n :: 'a::len word) =
     Inr (n + of_nat (length (filter P xs)))"
  by (induction xs arbitrary: n) (auto simp: algebra_simps)

lemma fold_emit_guard [loop]:
  assumes "k \<le> unat (limit :: 'a::len word)" "unat limit \<le> length buf"
  shows "fold_guard (\<lambda>(n, ys). n < limit)
      (\<lambda>x (n, ys). if \<not> P x then Inr (n, ys) else Inr (n + 1, ys[unat n := f x]))
      xs (of_nat k, buf) =
    (let zs = take (unat limit - k) (map f (filter P xs))
     in Inr (of_nat (k + length zs), take k buf @ zs @ drop (k + length zs) buf))"
  using assms
proof (induction xs arbitrary: k buf)
  case Nil
  then show ?case by simp
next
  case (Cons x xs)
  have u: "unat (of_nat k :: 'a word) = k"
    using Cons.prems unsigned_less [of limit, where ?'a = nat] by (intro unat_of_nat_small) linarith
  have lt: "of_nat k < limit \<longleftrightarrow> k < unat limit" by (simp add: word_less_nat_alt u)
  show ?case
  proof (cases "k < unat limit \<and> P x")
    case True
    then have "Suc k \<le> unat limit" "unat limit - k = Suc (unat limit - Suc k)" by auto
    with True Cons.prems Cons.IH [of "Suc k" "buf[k := f x]"] show ?thesis
      by (simp add: u lt add.commute take_Suc_conv_app_nth drop_update_cancel Let_def)
  next
    case False
    with Cons.prems Cons.IH [of k buf] show ?thesis by (auto simp: lt Let_def)
  qed
qed

section \<open>Lists\<close>

lemma nth_map_upt0: "i < n \<Longrightarrow> map f [0..<n] ! i = f i"
  by simp

lemma take_Suc_snoc: "i < length xs \<Longrightarrow> take (Suc i) xs = take i xs @ [xs ! i]"
  by (rule take_Suc_conv_app_nth)

lemma update_append_drop:
  "k = length xs \<Longrightarrow> k < length ys \<Longrightarrow>
    (xs @ drop k ys)[k := y] = (xs @ [y]) @ drop (Suc k) ys"
  by (simp add: list_update_append upd_conv_take_nth_drop Cons_nth_drop_Suc [symmetric])

end
