(* ===== verification/C_Memory.thy ===== *)
theory C_Memory
  imports Prelude
begin

unbundle bit_operations_syntax

text \<open>
  The caller's memory, byte addressed, and the representation of unsigned C
  integers in it on a little-endian target. Everything the library reads from or
  writes to caller storage (topology records and arrays, options, transaction
  bytes, event slots, output counters, ingress buffers) goes through
  \<open>load_bytes\<close> and \<open>store_bytes\<close>, so aliasing, strides and untouched bytes are
  visible to the theorems.
\<close>

type_synonym memory = "addr \<Rightarrow> u8"

definition load_bytes :: "memory \<Rightarrow> addr \<Rightarrow> nat \<Rightarrow> u8 list" where
  "load_bytes m a n = map (\<lambda>i. m (a + of_nat i)) [0..<n]"

definition store_bytes :: "memory \<Rightarrow> addr \<Rightarrow> u8 list \<Rightarrow> memory" where
  "store_bytes m a bs =
     (\<lambda>x. let i = unat (x - a) in if i < length bs then bs ! i else m x)"

definition in_region :: "addr \<Rightarrow> addr \<Rightarrow> nat \<Rightarrow> bool" where
  "in_region x a n \<longleftrightarrow> unat (x - a) < n"

text \<open>Two regions share no address (each starts past the end of the other).\<close>

definition disjoint_regions :: "addr \<Rightarrow> nat \<Rightarrow> addr \<Rightarrow> nat \<Rightarrow> bool" where
  "disjoint_regions a n b k \<longleftrightarrow> n \<le> unat (b - a) \<and> k \<le> unat (a - b)"

lemma length_load_bytes [simp]: "length (load_bytes m a n) = n"
  by (simp add: load_bytes_def)

lemma nth_load_bytes [simp]: "i < n \<Longrightarrow> load_bytes m a n ! i = m (a + of_nat i)"
  by (simp add: load_bytes_def)

lemma disjoint_regions_sym: "disjoint_regions a n b k = disjoint_regions b k a n"
  by (auto simp: disjoint_regions_def)

lemma disjoint_regions_mono:
  "disjoint_regions a n b k \<Longrightarrow> n' \<le> n \<Longrightarrow> k' \<le> k \<Longrightarrow> disjoint_regions a n' b k'"
  by (auto simp: disjoint_regions_def)

lemma store_bytes_outside [region]:
  "\<not> in_region x a (length bs) \<Longrightarrow> store_bytes m a bs x = m x"
  by (simp add: store_bytes_def in_region_def)

lemma unat_sub_offset:
  fixes a :: u64
  assumes "unat a + k < 2 ^ 64"
  shows "unat (a + of_nat k) = unat a + k"
proof -
  from assms have "unat (of_nat k :: u64) = k" by (simp add: unat_of_nat)
  with assms show ?thesis by (subst unat_add_lem [THEN iffD1]) simp_all
qed

lemma load_store_same:
  assumes "k + n \<le> length bs" "length bs \<le> 2 ^ 64"
  shows "load_bytes (store_bytes m a bs) (a + of_nat k) n = take n (drop k bs)"
proof (rule nth_equalityI)
  fix i assume "i < length (load_bytes (store_bytes m a bs) (a + of_nat k) n)"
  then have i: "i < n" by simp
  have "unat (of_nat (k + i) :: u64) = k + i"
    using i assms by (simp only: unat_of_nat) simp
  moreover have "a + of_nat k + of_nat i - a = (of_nat (k + i) :: u64)" by simp
  ultimately show "load_bytes (store_bytes m a bs) (a + of_nat k) n ! i = take n (drop k bs) ! i"
    using i assms by (simp add: store_bytes_def)
qed (use assms in simp)

lemma load_store_whole [region]:
  assumes "n = length bs" "length bs \<le> 2 ^ 64"
  shows "load_bytes (store_bytes m a bs) a n = bs"
  using load_store_same [of 0 n bs m a] assms by simp

lemma disjoint_offset:
  assumes "disjoint_regions a n b k" "i < n"
  shows "k \<le> unat (a + of_nat i - b)"
proof -
  have n: "n \<le> unat (b - a)" and k: "k \<le> unat (a - b)"
    using assms by (auto simp: disjoint_regions_def)
  have "b - a \<noteq> 0" using n assms(2) by (cases "b - a = 0") auto
  then have "unat a \<noteq> unat b" using word_eq_iff_unsigned [where ?'a = nat, of a b] by simp
  then have "unat (a - b) = 18446744073709551616 - unat (b - a)"
    using unsigned_less [of a, where ?'a = nat] unsigned_less [of b, where ?'a = nat]
    by (simp only: unat_sub_if' split: if_splits) (simp del: unat_lt_64, linarith?)
  then have "unat (a - b) + i < 18446744073709551616"
    using n assms(2) unat_lt_64 [of "b - a"] by linarith
  then have "unat (a - b + of_nat i) = unat (a - b) + i" by (intro unat_sub_offset) simp
  moreover have "a + of_nat i - b = a - b + of_nat i" by simp
  ultimately show ?thesis using k by (metis trans_le_add1)
qed

lemma in_region_disjoint:
  assumes "in_region x a n" "disjoint_regions a n b k"
  shows "\<not> in_region x b k"
proof -
  have "x = a + of_nat (unat (x - a))" by simp
  moreover have "unat (x - a) < n" using assms(1) by (simp add: in_region_def)
  ultimately have "k \<le> unat (x - b)" using disjoint_offset [OF assms(2)] by metis
  then show ?thesis by (simp add: in_region_def)
qed

lemma load_store_disjoint [region]:
  assumes "disjoint_regions a n b (length bs)"
  shows "load_bytes (store_bytes m b bs) a n = load_bytes m a n"
  using disjoint_offset [OF assms]
  by (intro nth_equalityI) (auto simp: store_bytes_def Let_def not_less [symmetric])

lemma load_bytes_cong:
  "(\<And>x. in_region x a n \<Longrightarrow> m x = m' x) \<Longrightarrow> n \<le> 2 ^ 64 \<Longrightarrow> load_bytes m a n = load_bytes m' a n"
  by (intro nth_equalityI) (auto simp: in_region_def unat_of_nat)

lemma store_store_same [simp]:
  "length xs = length ys \<Longrightarrow> store_bytes (store_bytes m a xs) a ys = store_bytes m a ys"
  by (simp add: store_bytes_def fun_eq_iff Let_def)

text \<open>A store inside a stored region, and a part of a region.\<close>

lemma store_within [region]:
  assumes "k + length cs \<le> length bs" "length bs < 2 ^ 64"
  shows "store_bytes (store_bytes m a bs) (a + of_nat k) cs =
    store_bytes m a (take k bs @ cs @ drop (k + length cs) bs)"
proof
  fix x
  let ?i = "unat (x - a)"
  have k: "unat (of_nat k :: u64) = k" using assms by (intro unat_of_nat_small) simp
  have x: "x - (a + of_nat k) = (x - a) - of_nat k" by simp
  show "store_bytes (store_bytes m a bs) (a + of_nat k) cs x =
    store_bytes m a (take k bs @ cs @ drop (k + length cs) bs) x"
  proof (cases "k \<le> ?i")
    case True
    then have "unat (x - (a + of_nat k)) = ?i - k"
      unfolding x using k by (simp add: unat_sub word_le_nat_alt)
    with True assms(1) show ?thesis
      by (auto simp: store_bytes_def Let_def nth_append)
  next
    case False
    then have "unat (x - (a + of_nat k)) = ?i + 2 ^ 64 - k"
      unfolding x using k unat_sub_if' [of "x - a" "of_nat k"] by simp
    then have "\<not> unat (x - (a + of_nat k)) < length cs" using assms by simp
    with False assms(1) show ?thesis
      by (auto simp: store_bytes_def Let_def nth_append)
  qed
qed

lemma disjoint_regions_part:
  assumes "disjoint_regions a n b k" "off + len \<le> n" "0 < len"
  shows "disjoint_regions (a + of_nat off) len b k"
proof -
  have n: "n \<le> unat (b - a)" using assms(1) by (simp add: disjoint_regions_def)
  have "k \<le> unat (a + of_nat off - b)"
    using disjoint_offset [OF assms(1), of off] assms(2,3) by simp
  moreover have "len \<le> unat (b - (a + of_nat off))"
  proof -
    have o: "unat (of_nat off :: u64) = off"
      using n assms(2) unat_lt_64 [of "b - a"]
      by (intro unat_of_nat_small) (simp del: unat_lt_64)
    have e: "b - (a + of_nat off) = (b - a) - of_nat off" by simp
    have "unat ((b - a) - of_nat off) = unat (b - a) - off"
      using n assms(2) o by (simp add: unat_sub word_le_nat_alt)
    then show ?thesis unfolding e using n assms(2) by linarith
  qed
  ultimately show ?thesis by (simp add: disjoint_regions_def)
qed

text \<open>A sequence of stores.\<close>

definition store_all :: "(addr \<times> u8 list) list \<Rightarrow> memory \<Rightarrow> memory" where
  "store_all ps m = fold (\<lambda>(a, bs) m. store_bytes m a bs) ps m"

lemma store_all_simps [simp]:
  "store_all [] m = m" "store_all ((a, bs) # ps) m = store_all ps (store_bytes m a bs)"
  by (simp_all add: store_all_def)

lemma store_all_outside:
  "(\<And>a bs. (a, bs) \<in> set ps \<Longrightarrow> \<not> in_region x a (length bs)) \<Longrightarrow> store_all ps m x = m x"
  by (induction ps arbitrary: m) (auto simp: store_bytes_outside)

lemma store_all_disjoint:
  "(\<And>b bs. (b, bs) \<in> set ps \<Longrightarrow> disjoint_regions a n b (length bs)) \<Longrightarrow>
     load_bytes (store_all ps m) a n = load_bytes m a n"
  by (induction ps arbitrary: m) (auto simp: load_store_disjoint)

lemma store_all_read:
  assumes "sorted_wrt (\<lambda>(a, bs) (b, cs). disjoint_regions a (length bs) b (length cs)) ps"
    and "(a, bs) \<in> set ps" "length bs \<le> 2 ^ 64"
  shows "load_bytes (store_all ps m) a (length bs) = bs"
  using assms
proof (induction ps arbitrary: m)
  case Nil
  then show ?case by simp
next
  case (Cons p ps)
  then show ?case
    by (cases p) (auto simp: store_all_disjoint load_store_whole split: prod.splits)
qed

text \<open>The slots of a strided array of \<open>n\<close> elements are disjoint when it fits in memory.\<close>

lemma slots_disjoint:
  fixes stride :: usize
  assumes "i < j" "j < n" "k \<le> unat stride" "n * unat stride < 2 ^ 64"
  shows "disjoint_regions (base + of_nat i * stride) k (base + of_nat j * stride) k"
proof -
  have "Suc (j - i) \<le> n" using assms(1,2) by linarith
  from mult_le_mono1 [OF this, of "unat stride"]
  have "(j - i) * unat stride + unat stride \<le> n * unat stride" by simp
  then have fit: "(j - i) * unat stride + unat stride < 2 ^ 64" using assms(4) by simp
  have "unat stride \<le> (j - i) * unat stride" using assms(1) by (simp add: Suc_le_eq)
  define d where "d = (of_nat ((j - i) * unat stride) :: u64)"
  have d: "unat d = (j - i) * unat stride" unfolding d_def
    using fit by (intro unat_of_nat_small) simp
  have "base + of_nat j * stride - (base + of_nat i * stride) = d"
    using assms(1) by (simp add: d_def of_nat_diff algebra_simps)
  moreover from this have "base + of_nat i * stride - (base + of_nat j * stride) = - d"
    by (metis minus_diff_eq)
  moreover have "k \<le> unat (- d)"
  proof (cases "d = 0")
    case True
    then show ?thesis using d \<open>unat stride \<le> _\<close> assms(1,3) by auto
  next
    case False
    then have "unat d \<noteq> 0" by (simp add: unsigned_eq_0_iff)
    with unat_sub_if' [of 0 d] have "unat (- d) = 2 ^ 64 - unat d" by simp
    then show ?thesis using fit assms(3) d by simp
  qed
  ultimately show ?thesis
    using d order.trans [OF assms(3) \<open>unat stride \<le> _\<close>] by (simp add: disjoint_regions_def)
qed

section \<open>Little-endian integers\<close>

primrec word_of_le :: "u8 list \<Rightarrow> 'a::len word" where
  "word_of_le [] = 0"
| "word_of_le (b # bs) = ucast b OR push_bit 8 (word_of_le bs)"

primrec le_of_word :: "nat \<Rightarrow> 'a::len word \<Rightarrow> u8 list" where
  "le_of_word 0 w = []"
| "le_of_word (Suc n) w = ucast w # le_of_word n (drop_bit 8 w)"

lemma length_le_of_word [simp]: "length (le_of_word n w) = n"
  by (induction n arbitrary: w) auto

lemma bit_word_of_le:
  "bit (word_of_le bs :: 'a::len word) k \<longleftrightarrow>
     k < LENGTH('a) \<and> k div 8 < length bs \<and> bit (bs ! (k div 8)) (k mod 8)"
proof (induction bs arbitrary: k)
  case Nil
  then show ?case by simp
next
  case (Cons b bs)
  show ?case
  proof (cases "k < 8")
    case True
    then show ?thesis by (auto simp: bit_or_iff bit_push_bit_iff bit_ucast_iff)
  next
    case False
    then obtain j where j: "k = j + 8" by (metis le_add_diff_inverse2 not_less)
    have "\<not> bit b k" using False bit_imp_le_length [of b k] by auto
    moreover have "(j + 8) div 8 = Suc (j div 8)" by simp
    ultimately show ?thesis using Cons [of j] j
      by (auto simp: bit_or_iff bit_push_bit_iff bit_ucast_iff)
  qed
qed

lemma nth_le_of_word: "i < n \<Longrightarrow> le_of_word n w ! i = ucast (drop_bit (8 * i) w)"
proof (induction n arbitrary: i w)
  case 0
  then show ?case by simp
next
  case (Suc n)
  then show ?case by (cases i) (auto simp: algebra_simps)
qed

lemma word_of_le_of_word [codec]:
  assumes "LENGTH('a::len) \<le> 8 * n"
  shows "word_of_le (le_of_word n (w :: 'a word)) = w"
proof (rule bit_word_eqI)
  fix k assume k: "k < LENGTH('a)"
  then have "k div 8 < n" using assms by auto
  with k show "bit (word_of_le (le_of_word n w) :: 'a word) k \<longleftrightarrow> bit w k"
    by (auto simp: bit_word_of_le nth_le_of_word bit_ucast_iff bit_drop_bit_eq)
qed

lemma le_of_word_of_le [codec]:
  assumes "8 * length bs \<le> LENGTH('a::len)" "n = length bs"
  shows "le_of_word n (word_of_le bs :: 'a word) = bs"
proof (rule nth_equalityI)
  fix i assume "i < length (le_of_word n (word_of_le bs :: 'a word))"
  then have i: "i < n" by simp
  show "le_of_word n (word_of_le bs :: 'a word) ! i = bs ! i"
  proof (rule bit_word_eqI)
    fix k assume k: "k < LENGTH(8)"
    then have "8 * i + k < LENGTH('a)" "(8 * i + k) div 8 = i" "(8 * i + k) mod 8 = k"
      using i assms by auto
    with i k assms show "bit (le_of_word n (word_of_le bs :: 'a word) ! i) k = bit (bs ! i) k"
      by (simp add: nth_le_of_word bit_ucast_iff bit_drop_bit_eq bit_word_of_le)
  qed
qed (simp add: assms)

declare le_of_word.simps [simp del]

text \<open>Scalar loads and stores through a pointer.\<close>

abbreviation load_u64 :: "memory \<Rightarrow> addr \<Rightarrow> u64" where
  "load_u64 m a \<equiv> word_of_le (load_bytes m a 8)"

abbreviation store_u64 :: "memory \<Rightarrow> addr \<Rightarrow> u64 \<Rightarrow> memory" where
  "store_u64 m a x \<equiv> store_bytes m a (le_of_word 8 x)"

lemma load_store_u64 [simp]: "load_u64 (store_u64 m a x) a = x"
  by (simp add: load_store_whole codec)

section \<open>Structure layout\<close>

text \<open>The bytes of a field at an offset of a structure.\<close>

definition field :: "u8 list \<Rightarrow> nat \<Rightarrow> nat \<Rightarrow> u8 list" where
  "field bs off n = take n (drop off bs)"

lemma length_field [simp]: "off + n \<le> length bs \<Longrightarrow> length (field bs off n) = n"
  by (simp add: field_def)

lemma field_append1 [simp]: "off + n \<le> length xs \<Longrightarrow> field (xs @ ys) off n = field xs off n"
  by (simp add: field_def)

lemma field_append2 [simp]:
  "length xs \<le> off \<Longrightarrow> field (xs @ ys) off n = field ys (off - length xs) n"
  by (simp add: field_def)

lemma field_whole [simp]: "n = length xs \<Longrightarrow> field xs 0 n = xs"
  by (simp add: field_def)

lemma field_load: "off + n \<le> k \<Longrightarrow> field (load_bytes m a k) off n = load_bytes m (a + of_nat off) n"
  by (rule nth_equalityI) (auto simp: field_def add.assoc)

lemma field_join:
  "off' = off + n \<Longrightarrow> field bs off n @ field bs off' k = field bs off (n + k)"
  by (metis add.commute drop_drop field_def take_add)

lemma field_split: "field bs off (n + k) = field bs off n @ field bs (off + n) k"
  by (metis add.commute drop_drop field_def take_add)

section \<open>Codecs\<close>

text \<open>
  The interface of a C structure type: its size, the well-formed records (array
  members at their declared length), and the two conversions. The lemmas of the
  block are what the components use when they read a structure through a pointer,
  copy it with \<open>memcpy\<close> or write it to caller storage.
\<close>

locale structure_codec =
  fixes decode :: "u8 list \<Rightarrow> 'a"
    and encode :: "'a \<Rightarrow> u8 list"
    and wf :: "'a \<Rightarrow> bool"
    and size :: nat
  assumes length_encode: "wf x \<Longrightarrow> length (encode x) = size"
    and decode_encode: "wf x \<Longrightarrow> decode (encode x) = x"
    and encode_decode: "length bs = size \<Longrightarrow> encode (decode bs) = bs"
    and wf_decode: "length bs = size \<Longrightarrow> wf (decode bs)"
    and size_small: "size \<le> 2 ^ 32"
begin

lemma wf_load [simp]: "wf (decode (load_bytes m a size))"
  by (simp add: wf_decode)

lemma load_of_store:
  assumes "wf x" "n = size"
  shows "decode (load_bytes (store_bytes m a (encode x)) a n) = x"
  using assms size_small by (simp add: load_store_whole length_encode decode_encode)

lemma load_of_store_other:
  assumes "wf x" "disjoint_regions a n b size"
  shows "load_bytes (store_bytes m b (encode x)) a n = load_bytes m a n"
  using assms by (simp add: load_store_disjoint length_encode)

lemma decode_inject:
  "length bs = size \<Longrightarrow> length cs = size \<Longrightarrow> decode bs = decode cs \<Longrightarrow> bs = cs"
  by (metis encode_decode)

lemma copy_faithful: "encode (decode (load_bytes m a size)) = load_bytes m a size"
  by (simp add: encode_decode)

end

end
