(* ===== verification/Delivery_Abi.thy ===== *)
theory Delivery_Abi
  imports C_Memory
begin

text \<open>
  The public C ABI of \<open>include/solana/delivery.h\<close>: constants, one record per
  structure with the source's fields, the layout the C rules give each structure,
  and the codec between a record and its bytes in memory. Fixed-size byte arrays
  are byte lists; \<open>wf_\<dots>\<close> states their lengths.
\<close>

section \<open>Constants\<close>

type_synonym solana_delivery_status_t = u32
type_synonym solana_delivery_request_id_t = u64
type_synonym solana_delivery_attempt_id_t = u64

abbreviation (input) SOLANA_DELIVERY_STATUS_OK :: solana_delivery_status_t where
  "SOLANA_DELIVERY_STATUS_OK \<equiv> 0"
abbreviation (input) SOLANA_DELIVERY_STATUS_INVALID_ARGUMENT :: solana_delivery_status_t where
  "SOLANA_DELIVERY_STATUS_INVALID_ARGUMENT \<equiv> 1"
abbreviation (input) SOLANA_DELIVERY_STATUS_UNSUPPORTED :: solana_delivery_status_t where
  "SOLANA_DELIVERY_STATUS_UNSUPPORTED \<equiv> 2"
abbreviation (input) SOLANA_DELIVERY_STATUS_RESOURCE_EXHAUSTED :: solana_delivery_status_t where
  "SOLANA_DELIVERY_STATUS_RESOURCE_EXHAUSTED \<equiv> 3"
abbreviation (input) SOLANA_DELIVERY_STATUS_TOPOLOGY_UNAVAILABLE :: solana_delivery_status_t where
  "SOLANA_DELIVERY_STATUS_TOPOLOGY_UNAVAILABLE \<equiv> 4"
abbreviation (input) SOLANA_DELIVERY_STATUS_TOPOLOGY_STALE :: solana_delivery_status_t where
  "SOLANA_DELIVERY_STATUS_TOPOLOGY_STALE \<equiv> 5"
abbreviation (input) SOLANA_DELIVERY_STATUS_INTERNAL_ERROR :: solana_delivery_status_t where
  "SOLANA_DELIVERY_STATUS_INTERNAL_ERROR \<equiv> 6"

abbreviation (input) SOLANA_DELIVERY_REQUEST_ID_NONE :: solana_delivery_request_id_t where
  "SOLANA_DELIVERY_REQUEST_ID_NONE \<equiv> 0"
abbreviation (input) SOLANA_DELIVERY_ATTEMPT_ID_NONE :: solana_delivery_attempt_id_t where
  "SOLANA_DELIVERY_ATTEMPT_ID_NONE \<equiv> 0"

abbreviation (input) SOLANA_DELIVERY_ADDRESS_UNSPEC :: u8 where "SOLANA_DELIVERY_ADDRESS_UNSPEC \<equiv> 0"
abbreviation (input) SOLANA_DELIVERY_ADDRESS_IPV4 :: u8 where "SOLANA_DELIVERY_ADDRESS_IPV4 \<equiv> 4"
abbreviation (input) SOLANA_DELIVERY_ADDRESS_IPV6 :: u8 where "SOLANA_DELIVERY_ADDRESS_IPV6 \<equiv> 6"
abbreviation (input) SOLANA_DELIVERY_TRANSPORT_UNSPEC :: u8 where "SOLANA_DELIVERY_TRANSPORT_UNSPEC \<equiv> 0"
abbreviation (input) SOLANA_DELIVERY_TRANSPORT_QUIC :: u8 where "SOLANA_DELIVERY_TRANSPORT_QUIC \<equiv> 1"
abbreviation (input) SOLANA_DELIVERY_ENDPOINT_ROLE_UNSPEC :: u8 where
  "SOLANA_DELIVERY_ENDPOINT_ROLE_UNSPEC \<equiv> 0"
abbreviation (input) SOLANA_DELIVERY_ENDPOINT_ROLE_TPU :: u8 where
  "SOLANA_DELIVERY_ENDPOINT_ROLE_TPU \<equiv> 1"
abbreviation (input) SOLANA_DELIVERY_SUBMIT_FLAGS_NONE :: u32 where
  "SOLANA_DELIVERY_SUBMIT_FLAGS_NONE \<equiv> 0"
abbreviation (input) SOLANA_DELIVERY_EVENT_CLASS_REQUEST :: u32 where
  "SOLANA_DELIVERY_EVENT_CLASS_REQUEST \<equiv> 1"
abbreviation (input) SOLANA_DELIVERY_REQUEST_EVENT_ACCEPTED :: u32 where
  "SOLANA_DELIVERY_REQUEST_EVENT_ACCEPTED \<equiv> 1"

section \<open>C structure layout\<close>

text \<open>
  A structure is the list of its members' sizes and alignments. Each member is
  placed at the next multiple of its alignment; the structure is as aligned as
  its most aligned member and its size is padded to that alignment.
\<close>

type_synonym layout = "(nat \<times> nat) list"

definition align_up :: "nat \<Rightarrow> nat \<Rightarrow> nat" where
  "align_up n a = ((n + a - 1) div a) * a"

fun offsets_from :: "nat \<Rightarrow> layout \<Rightarrow> nat list" where
  "offsets_from pos [] = []"
| "offsets_from pos ((sz, al) # fs) =
     (let off = align_up pos al in off # offsets_from (off + sz) fs)"

definition c_alignof :: "layout \<Rightarrow> nat" where
  "c_alignof fs = fold (\<lambda>(sz, al). max al) fs 1"

definition c_offsetof :: "layout \<Rightarrow> nat \<Rightarrow> nat" where
  "c_offsetof fs k = offsets_from 0 fs ! k"

text \<open>The macro \<open>STRUCT_MIN_SIZE(type, field)\<close> of \<open>solana_delivery.c\<close>.\<close>

definition STRUCT_MIN_SIZE :: "layout \<Rightarrow> nat \<Rightarrow> nat" where
  "STRUCT_MIN_SIZE fs k = c_offsetof fs k + fst (fs ! k)"

definition c_sizeof :: "layout \<Rightarrow> nat" where
  "c_sizeof fs = align_up (STRUCT_MIN_SIZE fs (length fs - 1)) (c_alignof fs)"

definition validator_layout :: layout where
  "validator_layout = [(4, 4), (4, 4), (32, 1), (8, 1)]"
definition endpoint_layout :: layout where
  "endpoint_layout =
     [(4, 4), (1, 1), (1, 1), (1, 1), (1, 1), (2, 2), (2, 2), (16, 1), (4, 1)]"
definition validator_endpoint_layout :: layout where
  "validator_endpoint_layout = [(4, 4), (4, 4), (4, 4), (4, 4)]"
definition leader_layout :: layout where
  "leader_layout = [(4, 4), (4, 4), (8, 8), (8, 8), (8, 8)]"
definition topology_layout :: layout where
  "topology_layout =
     [(4, 4), (4, 4), (8, 8), (8, 8), (8, 8), (4, 4), (4, 4), (8, 8), (4, 4), (4, 4),
      (8, 8), (4, 4), (4, 4), (8, 8), (4, 4), (4, 4)]"
definition submit_options_layout :: layout where
  "submit_options_layout = [(4, 4), (4, 4), (8, 8), (4, 4), (4, 4)]"
definition event_layout :: layout where
  "event_layout = [(4, 4), (4, 4), (4, 4), (4, 4), (8, 8), (8, 8), (8, 8), (8, 8), (16, 8)]"

lemmas layout_defs =
  validator_layout_def endpoint_layout_def validator_endpoint_layout_def leader_layout_def
  topology_layout_def submit_options_layout_def event_layout_def

lemma sizeof_simps [simp]:
  "c_sizeof validator_layout = 48" "c_sizeof endpoint_layout = 32"
  "c_sizeof validator_endpoint_layout = 16" "c_sizeof leader_layout = 32"
  "c_sizeof topology_layout = 88" "c_sizeof submit_options_layout = 24"
  "c_sizeof event_layout = 64"
  by code_simp+

lemma alignof_simps [simp]:
  "c_alignof validator_layout = 4" "c_alignof endpoint_layout = 4"
  "c_alignof validator_endpoint_layout = 4" "c_alignof leader_layout = 8"
  "c_alignof topology_layout = 8" "c_alignof submit_options_layout = 8"
  "c_alignof event_layout = 8"
  by code_simp+

lemma min_size_simps [simp]:
  "STRUCT_MIN_SIZE validator_layout 3 = 48" "STRUCT_MIN_SIZE endpoint_layout 8 = 32"
  "STRUCT_MIN_SIZE validator_endpoint_layout 3 = 16" "STRUCT_MIN_SIZE leader_layout 4 = 32"
  "STRUCT_MIN_SIZE topology_layout 15 = 88" "STRUCT_MIN_SIZE submit_options_layout 4 = 24"
  by code_simp+

section \<open>Structures\<close>

record solana_delivery_endpoint_t =
  ep_struct_size :: u32
  ep_address_family :: u8
  ep_transport :: u8
  ep_role :: u8
  ep_reserved0 :: u8
  ep_port :: u16
  ep_reserved1 :: u16
  ep_address :: "u8 list"
  ep_reserved2 :: "u8 list"

record solana_delivery_validator_t =
  va_struct_size :: u32
  va_reserved0 :: u32
  va_identity :: "u8 list"
  va_reserved1 :: "u8 list"

record solana_delivery_validator_endpoint_t =
  ve_struct_size :: u32
  ve_validator_index :: u32
  ve_endpoint_index :: u32
  ve_reserved0 :: u32

record solana_delivery_leader_t =
  ld_struct_size :: u32
  ld_validator_index :: u32
  ld_first_slot :: u64
  ld_last_slot :: u64
  ld_reserved0 :: u64

record solana_delivery_topology_t =
  tp_struct_size :: u32
  tp_reserved0 :: u32
  tp_generation :: u64
  tp_current_slot :: u64
  tp_validators :: addr
  tp_validator_count :: u32
  tp_validator_stride :: u32
  tp_endpoints :: addr
  tp_endpoint_count :: u32
  tp_endpoint_stride :: u32
  tp_validator_endpoints :: addr
  tp_validator_endpoint_count :: u32
  tp_validator_endpoint_stride :: u32
  tp_leaders :: addr
  tp_leader_count :: u32
  tp_leader_stride :: u32

record solana_delivery_submit_options_t =
  so_struct_size :: u32
  so_flags :: u32
  so_max_topology_age_ns :: u64
  so_target_limit :: u32
  so_reserved0 :: u32

record solana_delivery_event_t =
  ev_struct_size :: u32
  ev_event_class :: u32
  ev_event_code :: u32
  ev_diagnostic_code :: u32
  ev_request_id :: solana_delivery_request_id_t
  ev_attempt_id :: solana_delivery_attempt_id_t
  ev_request_sequence :: u64
  ev_monotonic_time_ns :: u64
  ev_reserved :: "u64 \<times> u64"

text \<open>
  \<open>int32_t diagnostic_code\<close> is kept as the word that represents it; its signed
  value is \<open>sint\<close>.
\<close>

section \<open>Records and their bytes\<close>

definition wf_endpoint :: "solana_delivery_endpoint_t \<Rightarrow> bool" where
  "wf_endpoint e \<longleftrightarrow> length (ep_address e) = 16 \<and> length (ep_reserved2 e) = 4"

definition endpoint_of_bytes :: "u8 list \<Rightarrow> solana_delivery_endpoint_t" where
  "endpoint_of_bytes bs =
     \<lparr>ep_struct_size = word_of_le (field bs 0 4), ep_address_family = word_of_le (field bs 4 1),
      ep_transport = word_of_le (field bs 5 1), ep_role = word_of_le (field bs 6 1),
      ep_reserved0 = word_of_le (field bs 7 1), ep_port = word_of_le (field bs 8 2),
      ep_reserved1 = word_of_le (field bs 10 2), ep_address = field bs 12 16,
      ep_reserved2 = field bs 28 4\<rparr>"

definition bytes_of_endpoint :: "solana_delivery_endpoint_t \<Rightarrow> u8 list" where
  "bytes_of_endpoint e =
     le_of_word 4 (ep_struct_size e) @ le_of_word 1 (ep_address_family e) @
     le_of_word 1 (ep_transport e) @ le_of_word 1 (ep_role e) @ le_of_word 1 (ep_reserved0 e) @
     le_of_word 2 (ep_port e) @ le_of_word 2 (ep_reserved1 e) @ ep_address e @ ep_reserved2 e"

definition wf_validator :: "solana_delivery_validator_t \<Rightarrow> bool" where
  "wf_validator v \<longleftrightarrow> length (va_identity v) = 32 \<and> length (va_reserved1 v) = 8"

definition validator_of_bytes :: "u8 list \<Rightarrow> solana_delivery_validator_t" where
  "validator_of_bytes bs =
     \<lparr>va_struct_size = word_of_le (field bs 0 4), va_reserved0 = word_of_le (field bs 4 4),
      va_identity = field bs 8 32, va_reserved1 = field bs 40 8\<rparr>"

definition bytes_of_validator :: "solana_delivery_validator_t \<Rightarrow> u8 list" where
  "bytes_of_validator v =
     le_of_word 4 (va_struct_size v) @ le_of_word 4 (va_reserved0 v) @
     va_identity v @ va_reserved1 v"

definition validator_endpoint_of_bytes :: "u8 list \<Rightarrow> solana_delivery_validator_endpoint_t" where
  "validator_endpoint_of_bytes bs =
     \<lparr>ve_struct_size = word_of_le (field bs 0 4), ve_validator_index = word_of_le (field bs 4 4),
      ve_endpoint_index = word_of_le (field bs 8 4), ve_reserved0 = word_of_le (field bs 12 4)\<rparr>"

definition bytes_of_validator_endpoint :: "solana_delivery_validator_endpoint_t \<Rightarrow> u8 list" where
  "bytes_of_validator_endpoint a =
     le_of_word 4 (ve_struct_size a) @ le_of_word 4 (ve_validator_index a) @
     le_of_word 4 (ve_endpoint_index a) @ le_of_word 4 (ve_reserved0 a)"

definition leader_of_bytes :: "u8 list \<Rightarrow> solana_delivery_leader_t" where
  "leader_of_bytes bs =
     \<lparr>ld_struct_size = word_of_le (field bs 0 4), ld_validator_index = word_of_le (field bs 4 4),
      ld_first_slot = word_of_le (field bs 8 8), ld_last_slot = word_of_le (field bs 16 8),
      ld_reserved0 = word_of_le (field bs 24 8)\<rparr>"

definition bytes_of_leader :: "solana_delivery_leader_t \<Rightarrow> u8 list" where
  "bytes_of_leader l =
     le_of_word 4 (ld_struct_size l) @ le_of_word 4 (ld_validator_index l) @
     le_of_word 8 (ld_first_slot l) @ le_of_word 8 (ld_last_slot l) @
     le_of_word 8 (ld_reserved0 l)"

definition topology_of_bytes :: "u8 list \<Rightarrow> solana_delivery_topology_t" where
  "topology_of_bytes bs =
     \<lparr>tp_struct_size = word_of_le (field bs 0 4), tp_reserved0 = word_of_le (field bs 4 4),
      tp_generation = word_of_le (field bs 8 8), tp_current_slot = word_of_le (field bs 16 8),
      tp_validators = word_of_le (field bs 24 8), tp_validator_count = word_of_le (field bs 32 4),
      tp_validator_stride = word_of_le (field bs 36 4),
      tp_endpoints = word_of_le (field bs 40 8), tp_endpoint_count = word_of_le (field bs 48 4),
      tp_endpoint_stride = word_of_le (field bs 52 4),
      tp_validator_endpoints = word_of_le (field bs 56 8),
      tp_validator_endpoint_count = word_of_le (field bs 64 4),
      tp_validator_endpoint_stride = word_of_le (field bs 68 4),
      tp_leaders = word_of_le (field bs 72 8), tp_leader_count = word_of_le (field bs 80 4),
      tp_leader_stride = word_of_le (field bs 84 4)\<rparr>"

definition bytes_of_topology :: "solana_delivery_topology_t \<Rightarrow> u8 list" where
  "bytes_of_topology t =
     le_of_word 4 (tp_struct_size t) @ le_of_word 4 (tp_reserved0 t) @
     le_of_word 8 (tp_generation t) @ le_of_word 8 (tp_current_slot t) @
     le_of_word 8 (tp_validators t) @ le_of_word 4 (tp_validator_count t) @
     le_of_word 4 (tp_validator_stride t) @
     le_of_word 8 (tp_endpoints t) @ le_of_word 4 (tp_endpoint_count t) @
     le_of_word 4 (tp_endpoint_stride t) @
     le_of_word 8 (tp_validator_endpoints t) @ le_of_word 4 (tp_validator_endpoint_count t) @
     le_of_word 4 (tp_validator_endpoint_stride t) @
     le_of_word 8 (tp_leaders t) @ le_of_word 4 (tp_leader_count t) @
     le_of_word 4 (tp_leader_stride t)"

definition submit_options_of_bytes :: "u8 list \<Rightarrow> solana_delivery_submit_options_t" where
  "submit_options_of_bytes bs =
     \<lparr>so_struct_size = word_of_le (field bs 0 4), so_flags = word_of_le (field bs 4 4),
      so_max_topology_age_ns = word_of_le (field bs 8 8),
      so_target_limit = word_of_le (field bs 16 4), so_reserved0 = word_of_le (field bs 20 4)\<rparr>"

definition bytes_of_submit_options :: "solana_delivery_submit_options_t \<Rightarrow> u8 list" where
  "bytes_of_submit_options x =
     le_of_word 4 (so_struct_size x) @ le_of_word 4 (so_flags x) @
     le_of_word 8 (so_max_topology_age_ns x) @ le_of_word 4 (so_target_limit x) @
     le_of_word 4 (so_reserved0 x)"

definition event_of_bytes :: "u8 list \<Rightarrow> solana_delivery_event_t" where
  "event_of_bytes bs =
     \<lparr>ev_struct_size = word_of_le (field bs 0 4), ev_event_class = word_of_le (field bs 4 4),
      ev_event_code = word_of_le (field bs 8 4), ev_diagnostic_code = word_of_le (field bs 12 4),
      ev_request_id = word_of_le (field bs 16 8), ev_attempt_id = word_of_le (field bs 24 8),
      ev_request_sequence = word_of_le (field bs 32 8),
      ev_monotonic_time_ns = word_of_le (field bs 40 8),
      ev_reserved = (word_of_le (field bs 48 8), word_of_le (field bs 56 8))\<rparr>"

definition bytes_of_event :: "solana_delivery_event_t \<Rightarrow> u8 list" where
  "bytes_of_event e =
     le_of_word 4 (ev_struct_size e) @ le_of_word 4 (ev_event_class e) @
     le_of_word 4 (ev_event_code e) @ le_of_word 4 (ev_diagnostic_code e) @
     le_of_word 8 (ev_request_id e) @ le_of_word 8 (ev_attempt_id e) @
     le_of_word 8 (ev_request_sequence e) @ le_of_word 8 (ev_monotonic_time_ns e) @
     le_of_word 8 (fst (ev_reserved e)) @ le_of_word 8 (snd (ev_reserved e))"

lemmas endpoint_codec_defs = endpoint_of_bytes_def bytes_of_endpoint_def wf_endpoint_def
lemmas validator_codec_defs = validator_of_bytes_def bytes_of_validator_def wf_validator_def

interpretation endpoint: structure_codec endpoint_of_bytes bytes_of_endpoint wf_endpoint 32
  by unfold_locales (auto simp: endpoint_codec_defs codec field_join)

interpretation validator: structure_codec validator_of_bytes bytes_of_validator wf_validator 48
  by unfold_locales (auto simp: validator_codec_defs codec field_join)

interpretation validator_endpoint: structure_codec
    validator_endpoint_of_bytes bytes_of_validator_endpoint "\<lambda>_. True" 16
  by unfold_locales
    (auto simp: validator_endpoint_of_bytes_def bytes_of_validator_endpoint_def codec field_join)

interpretation leader: structure_codec leader_of_bytes bytes_of_leader "\<lambda>_. True" 32
  by unfold_locales (auto simp: leader_of_bytes_def bytes_of_leader_def codec field_join)

interpretation topology: structure_codec topology_of_bytes bytes_of_topology "\<lambda>_. True" 88
  by unfold_locales (auto simp: topology_of_bytes_def bytes_of_topology_def codec field_join)

interpretation submit_options: structure_codec
    submit_options_of_bytes bytes_of_submit_options "\<lambda>_. True" 24
  by unfold_locales
    (auto simp: submit_options_of_bytes_def bytes_of_submit_options_def codec field_join)

interpretation event: structure_codec event_of_bytes bytes_of_event "\<lambda>_. True" 64
  by unfold_locales (auto simp: event_of_bytes_def bytes_of_event_def codec field_join)

section \<open>The layout of the structures\<close>

text \<open>The bytes of the \<open>k\<close>-th member of the structure behind a pointer.\<close>

definition load_field :: "layout \<Rightarrow> nat \<Rightarrow> memory \<Rightarrow> addr \<Rightarrow> u8 list" where
  "load_field l k m p = load_bytes m (p + of_nat (c_offsetof l k)) (fst (l ! k))"

lemma member_offsets:
  "offsets_from 0 validator_layout = [0, 4, 8, 40]"
  "offsets_from 0 endpoint_layout = [0, 4, 5, 6, 7, 8, 10, 12, 28]"
  "offsets_from 0 validator_endpoint_layout = [0, 4, 8, 12]"
  "offsets_from 0 leader_layout = [0, 4, 8, 16, 24]"
  "offsets_from 0 topology_layout =
     [0, 4, 8, 16, 24, 32, 36, 40, 48, 52, 56, 64, 68, 72, 80, 84]"
  "offsets_from 0 submit_options_layout = [0, 4, 8, 16, 20]"
  "offsets_from 0 event_layout = [0, 4, 8, 12, 16, 24, 32, 40, 48]"
  by code_simp+


end
