(* ===== verification/Platform.thy ===== *)
theory Platform
  imports Delivery_Abi
begin

text \<open>
  What the library sees of its surroundings. The world holds the caller's memory,
  the C heap and the clock as the operating system presents them, and the state
  of the caller's own callbacks (\<open>user\<close>). Allocator and clock are function tables
  of the client (\<open>solana_delivery_internal.h\<close>), so they are values of the model;
  the system ones of \<open>solana_delivery.c\<close> are defined here over libc.

  The heap is a ledger of the blocks handed out. What a block contains is kept
  with its owner (\<open>block\<close>): the contract of an allocator is that a new block
  overlaps no block that is still live.
\<close>

record 'u world =
  mem :: memory
  heap_live :: "addr list"
  heap_supply :: "addr list"
  heap_faults :: nat
  clock_script :: "(bool \<times> u64 \<times> u64) list"
  user :: 'u

section \<open>The allocator interface\<close>

type_synonym 'u solana_delivery_calloc_fn = "addr \<Rightarrow> usize \<Rightarrow> usize \<Rightarrow> 'u world \<Rightarrow> addr \<times> 'u world"
type_synonym 'u solana_delivery_free_fn = "addr \<Rightarrow> addr \<Rightarrow> 'u world \<Rightarrow> 'u world"

record 'u solana_delivery_allocator_t =
  calloc_fn :: "'u solana_delivery_calloc_fn option"
  free_fn :: "'u solana_delivery_free_fn option"
  al_context :: addr

text \<open>A pointer to an allocator table is an option; a null function pointer is None.\<close>

definition allocator_is_valid :: "'u solana_delivery_allocator_t option \<Rightarrow> bool" where
  "allocator_is_valid allocator =
     (case allocator of None \<Rightarrow> False
      | Some a \<Rightarrow> calloc_fn a \<noteq> None \<and> free_fn a \<noteq> None)"

text \<open>
  Calls through the table. The code calls through it only after
  \<open>allocator_is_valid\<close>; the other branch is never taken.
\<close>

definition call_calloc ::
  "'u solana_delivery_allocator_t \<Rightarrow> usize \<Rightarrow> usize \<Rightarrow> 'u world \<Rightarrow> addr \<times> 'u world" where
  "call_calloc a n sz w =
     (case calloc_fn a of None \<Rightarrow> (NULL, w) | Some f \<Rightarrow> f (al_context a) n sz w)"

definition call_free :: "'u solana_delivery_allocator_t \<Rightarrow> addr \<Rightarrow> 'u world \<Rightarrow> 'u world" where
  "call_free a p w = (case free_fn a of None \<Rightarrow> w | Some f \<Rightarrow> f (al_context a) p w)"

text \<open>The pointers of a list that name a block.\<close>

definition owns :: "addr list \<Rightarrow> addr multiset" where
  "owns ps = mset (filter (\<lambda>p. p \<noteq> NULL) ps)"

lemma owns_simps [simp]:
  "owns [] = {#}"
  "owns (p # ps) = (if p = NULL then owns ps else add_mset p (owns ps))"
  "owns (ps @ qs) = owns ps + owns qs"
  by (simp_all add: owns_def)

text \<open>
  What the library relies on in an allocator: \<open>live\<close> is the multiset of blocks
  handed out, \<open>faults\<close> what a valid call leaves alone, such as the number of frees of
  something that is not a live block.
\<close>

locale allocator_contract =
  fixes A :: "'u solana_delivery_allocator_t"
    and live :: "'u world \<Rightarrow> addr multiset"
    and faults :: "'u world \<Rightarrow> 'f"
  assumes valid: "allocator_is_valid (Some A)"
    and calloc_null: "call_calloc A n s w = (NULL, w') \<Longrightarrow> live w' = live w"
    and calloc_block: "call_calloc A n s w = (p, w') \<Longrightarrow> p \<noteq> NULL \<Longrightarrow>
          p \<notin># live w \<and> live w' = add_mset p (live w)"
    and calloc_frame: "call_calloc A n s w = (p, w') \<Longrightarrow> mem w' = mem w \<and> faults w' = faults w"
    and free_null: "live (call_free A NULL w) = live w \<and> faults (call_free A NULL w) = faults w"
    and free_block: "p \<in># live w \<Longrightarrow> p \<noteq> NULL \<Longrightarrow>
          live (call_free A p w) = live w - {#p#} \<and> faults (call_free A p w) = faults w"
    and free_frame: "mem (call_free A p w) = mem w"
begin

lemma calloc_live:
  "call_calloc A n s w = (p, w') \<Longrightarrow>
     live w' = live w + owns [p] \<and> mem w' = mem w \<and> faults w' = faults w"
  using calloc_null calloc_block calloc_frame by (cases "p = NULL") auto

text \<open>Freeing a list of pointers, in order, some of them NULL.\<close>

lemma free_list:
  assumes "owns ps \<subseteq># live w"
  shows "live (fold (call_free A) ps w) = live w - owns ps \<and>
         faults (fold (call_free A) ps w) = faults w \<and> mem (fold (call_free A) ps w) = mem w"
  using assms
proof (induction ps arbitrary: w)
  case Nil
  then show ?case by simp
next
  case (Cons p ps)
  show ?case
  proof (cases "p = NULL")
    case True
    with Cons free_null free_frame show ?thesis by simp
  next
    case False
    with Cons.prems have "p \<in># live w"
      by (simp add: insert_subset_eq_iff)
    with False have *: "live (call_free A p w) = live w - {#p#}"
      "faults (call_free A p w) = faults w" using free_block by auto
    have "owns ps \<subseteq># live (call_free A p w)"
      using Cons.prems False by (simp add: * insert_subset_eq_iff)
    from Cons.IH [OF this] show ?thesis
      using False by (simp add: * free_frame)
  qed
qed

end

section \<open>The clock interface\<close>

text \<open>
  A clock reads \<open>out_time_ns\<close>'s nullness (True: a valid pointer) and returns its
  status, the value it wrote through the pointer if it wrote one, and the world.
\<close>

type_synonym 'u solana_delivery_monotonic_time_fn =
  "addr \<Rightarrow> bool \<Rightarrow> 'u world \<Rightarrow> solana_delivery_status_t \<times> u64 option \<times> 'u world"

text \<open>
  A local that receives a value through an out pointer (a time, or the address of a new
  block) starts at zero or NULL and keeps it if nothing is written.
\<close>

definition written :: "u64 option \<Rightarrow> u64" where
  "written t = (case t of None \<Rightarrow> 0 | Some x \<Rightarrow> x)"

lemma written_simps [simp]: "written None = 0" "written (Some x) = x"
  by (simp_all add: written_def)

text \<open>
  The heap and the clock together: what every client operation is run against.
  \<open>clk\<close> is the clock's own state: what it answers depends on nothing else, and only
  reading it changes it.
\<close>

locale client_platform = allocator_contract A live faults
  for A :: "'u solana_delivery_allocator_t" and live faults +
  fixes T :: "'u solana_delivery_monotonic_time_fn"
    and clk :: "'u world \<Rightarrow> 'k"
  assumes clock_frame: "T ctx out w = (st, t, w') \<Longrightarrow>
     live w' = live w \<and> faults w' = faults w \<and> mem w' = mem w"
    and store_frame: "live (w\<lparr>mem := m\<rparr>) = live w \<and> faults (w\<lparr>mem := m\<rparr>) = faults w"
    and clock_reads: "T ctx out w = (st, t, w') \<Longrightarrow> clk v = clk w \<Longrightarrow>
     \<exists>v'. T ctx out v = (st, t, v') \<and> clk v' = clk w'"
    and calloc_clock: "call_calloc A n s w = (p, w') \<Longrightarrow> clk w' = clk w"
    and free_clock: "clk (call_free A p w) = clk w"
    and store_clock: "clk (w\<lparr>mem := m\<rparr>) = clk w"
begin

lemma frees_clock: "clk (fold (call_free A) ps w) = clk w"
  by (induction ps arbitrary: w) (simp_all add: free_clock)

end

section \<open>libc\<close>

text \<open>
  \<open>calloc\<close> finds the next address of \<open>heap_supply\<close>: any script of addresses and
  failures is a behaviour of the heap. It fails where the script is exhausted or
  gives NULL or a block that is still live, and where the byte count overflows.
\<close>

definition libc_calloc :: "usize \<Rightarrow> usize \<Rightarrow> 'u world \<Rightarrow> addr \<times> 'u world" where
  "libc_calloc n sz w =
     (case heap_supply w of [] \<Rightarrow> (NULL, w)
      | a # rest \<Rightarrow>
          if a = NULL \<or> a \<in> set (heap_live w) \<or> unat SIZE_MAX < unat n * unat sz
          then (NULL, w\<lparr>heap_supply := rest\<rparr>)
          else (a, w\<lparr>heap_live := a # heap_live w, heap_supply := rest\<rparr>))"

definition libc_free :: "addr \<Rightarrow> 'u world \<Rightarrow> 'u world" where
  "libc_free p w =
     (if p = NULL then w
      else if p \<in> set (heap_live w) then w\<lparr>heap_live := remove1 p (heap_live w)\<rparr>
      else w\<lparr>heap_faults := Suc (heap_faults w)\<rparr>)"

text \<open>
  \<open>clock_gettime(CLOCK_MONOTONIC, \<dots>)\<close>: whether it succeeded, \<open>tv_sec\<close> and
  \<open>tv_nsec\<close> (signed, 64 bits), from a script of the readings to come.
\<close>

definition clock_gettime :: "'u world \<Rightarrow> (bool \<times> u64 \<times> u64) \<times> 'u world" where
  "clock_gettime w =
     (case clock_script w of [] \<Rightarrow> ((False, 0, 0), w)
      | r # rest \<Rightarrow> (r, w\<lparr>clock_script := rest\<rparr>))"

section \<open>The system allocator and clock\<close>

definition system_calloc :: "'u solana_delivery_calloc_fn" where
  "system_calloc context n sz w = libc_calloc n sz w"

definition system_free :: "'u solana_delivery_free_fn" where
  "system_free context pointer w = libc_free pointer w"

definition SYSTEM_ALLOCATOR :: "'u solana_delivery_allocator_t" where
  "SYSTEM_ALLOCATOR =
     \<lparr>calloc_fn = Some system_calloc, free_fn = Some system_free, al_context = NULL\<rparr>"

definition system_monotonic_time_ns :: "'u solana_delivery_monotonic_time_fn" where
  "system_monotonic_time_ns context out_time_ns w =
     (if \<not> out_time_ns then (SOLANA_DELIVERY_STATUS_INTERNAL_ERROR, None, w)
      else
        let ((ok, tv_sec, tv_nsec), w) = clock_gettime w
        in if \<not> ok \<or> sint tv_sec < 0 \<or> sint tv_nsec < 0 \<or> 1000000000 \<le> sint tv_nsec
           then (SOLANA_DELIVERY_STATUS_INTERNAL_ERROR, None, w)
           else
             let seconds = tv_sec
             in if UINT64_MAX div 1000000000 < seconds
                then (SOLANA_DELIVERY_STATUS_INTERNAL_ERROR, None, w)
                else (SOLANA_DELIVERY_STATUS_OK, Some (seconds * 1000000000 + tv_nsec), w))"

abbreviation libc_live :: "'u world \<Rightarrow> addr multiset" where
  "libc_live w \<equiv> mset (heap_live w)"

lemma call_system_calloc [simp]: "call_calloc SYSTEM_ALLOCATOR n s w = libc_calloc n s w"
  by (simp add: call_calloc_def SYSTEM_ALLOCATOR_def system_calloc_def)

lemma call_system_free [simp]: "call_free SYSTEM_ALLOCATOR p w = libc_free p w"
  by (simp add: call_free_def SYSTEM_ALLOCATOR_def system_free_def)

lemma libc_calloc_props:
  assumes "libc_calloc n s w = (p, w')"
  shows "mem w' = mem w" "heap_faults w' = heap_faults w" "clock_script w' = clock_script w"
    "user w' = user w"
    "libc_live w' = libc_live w + owns [p]" "p \<noteq> NULL \<Longrightarrow> p \<notin># libc_live w"
  using assms by (auto simp: libc_calloc_def split: list.splits if_splits)

lemma libc_free_props:
  "mem (libc_free p w) = mem w" "clock_script (libc_free p w) = clock_script w"
  "heap_supply (libc_free p w) = heap_supply w" "user (libc_free p w) = user w"
  by (simp_all add: libc_free_def)

lemma system_clock_props:
  assumes "system_monotonic_time_ns ctx out w = (st, t, w')"
  shows "mem w' = mem w" "heap_live w' = heap_live w" "heap_faults w' = heap_faults w"
    "heap_supply w' = heap_supply w" "user w' = user w"
  using assms
  by (auto simp: system_monotonic_time_ns_def clock_gettime_def Let_def
      split: list.splits if_splits prod.splits)

lemma system_clock_status:
  "system_monotonic_time_ns ctx out w = (st, t, w') \<Longrightarrow>
     st = SOLANA_DELIVERY_STATUS_OK \<or> st = SOLANA_DELIVERY_STATUS_INTERNAL_ERROR"
  by (auto simp: system_monotonic_time_ns_def Let_def split: if_splits prod.splits)

lemma system_clock_writes:
  "system_monotonic_time_ns ctx out w = (SOLANA_DELIVERY_STATUS_OK, t, w') \<Longrightarrow> t = Some (written t)"
  by (auto simp: system_monotonic_time_ns_def Let_def split: if_splits prod.splits)

text \<open>The system clock reads the script and nothing else.\<close>

lemma system_clock_reads:
  assumes "system_monotonic_time_ns ctx out w = (st, t, w')" "clock_script v = clock_script w"
  shows "\<exists>v'. system_monotonic_time_ns ctx out v = (st, t, v') \<and> clock_script v' = clock_script w'"
  using assms
  by (cases "clock_script w")
    (auto simp: system_monotonic_time_ns_def clock_gettime_def Let_def split: if_splits)

lemma system_allocator_valid: "allocator_is_valid (Some SYSTEM_ALLOCATOR)"
  by (simp add: allocator_is_valid_def SYSTEM_ALLOCATOR_def)

interpretation sys: client_platform SYSTEM_ALLOCATOR libc_live heap_faults system_monotonic_time_ns
  clock_script
proof unfold_locales
  show "allocator_is_valid (Some SYSTEM_ALLOCATOR)"
    by (simp add: allocator_is_valid_def SYSTEM_ALLOCATOR_def)
next
  fix n s and w w' :: "'a world" assume "call_calloc SYSTEM_ALLOCATOR n s w = (NULL, w')"
  then show "libc_live w' = libc_live w" using libc_calloc_props(5) [of n s w NULL w'] by simp
next
  fix n s p and w w' :: "'a world"
  assume "call_calloc SYSTEM_ALLOCATOR n s w = (p, w')" "p \<noteq> NULL"
  then show "p \<notin># libc_live w \<and> libc_live w' = add_mset p (libc_live w)"
    using libc_calloc_props(5,6) [of n s w p w'] by simp
next
  fix n s p and w w' :: "'a world"
  assume "call_calloc SYSTEM_ALLOCATOR n s w = (p, w')"
  then show "mem w' = mem w \<and> heap_faults w' = heap_faults w"
    using libc_calloc_props(1,2) [of n s w p w'] by simp
next
  fix ctx out st t and w w' :: "'a world"
  assume "system_monotonic_time_ns ctx out w = (st, t, w')"
  then show "libc_live w' = libc_live w \<and> heap_faults w' = heap_faults w \<and> mem w' = mem w"
    using system_clock_props by metis
next
  fix n s p and w w' :: "'a world"
  assume "call_calloc SYSTEM_ALLOCATOR n s w = (p, w')"
  then show "clock_script w' = clock_script w" using libc_calloc_props(3) [of n s w p w'] by simp
qed (auto simp: libc_free_def intro: system_clock_reads)

text \<open>The same contract with the caller's callback state as what is left alone.\<close>

interpretation caller: client_platform SYSTEM_ALLOCATOR libc_live user system_monotonic_time_ns
  clock_script
proof unfold_locales
  fix n s and w w' :: "'a world" assume "call_calloc SYSTEM_ALLOCATOR n s w = (NULL, w')"
  then show "libc_live w' = libc_live w" by (rule sys.calloc_null)
next
  fix n s p and w w' :: "'a world"
  assume a: "call_calloc SYSTEM_ALLOCATOR n s w = (p, w')"
  then show "mem w' = mem w \<and> user w' = user w"
    using libc_calloc_props(1,4) [of n s w p w'] by simp
  assume "p \<noteq> NULL"
  with a show "p \<notin># libc_live w \<and> libc_live w' = add_mset p (libc_live w)"
    by (rule sys.calloc_block)
next
  fix ctx out st t and w w' :: "'a world"
  assume "system_monotonic_time_ns ctx out w = (st, t, w')"
  then show "libc_live w' = libc_live w \<and> user w' = user w \<and> mem w' = mem w"
    using system_clock_props by metis
qed (auto simp: libc_free_def system_allocator_valid
    intro: sys.clock_reads sys.calloc_clock)

section \<open>A heap that does not fail\<close>

text \<open>The heap serves the next allocations at the given addresses.\<close>

definition heap_serves :: "addr list \<Rightarrow> 'u world \<Rightarrow> bool" where
  "heap_serves ps w \<longleftrightarrow> distinct ps \<and> NULL \<notin> set ps \<and> set ps \<inter> set (heap_live w) = {} \<and>
     (\<exists>rest. heap_supply w = ps @ rest)"

lemma calloc_serves:
  assumes "heap_serves (p # ps) w" "unat n * unat s < 2 ^ 64"
  obtains w' where "libc_calloc n s w = (p, w')" "p \<noteq> NULL" "heap_serves ps w'"
    "mem w' = mem w" "clock_script w' = clock_script w"
proof -
  obtain rest where r: "heap_supply w = p # ps @ rest"
    using assms(1) by (auto simp: heap_serves_def)
  let ?w = "w\<lparr>heap_live := p # heap_live w, heap_supply := ps @ rest\<rparr>"
  have "libc_calloc n s w = (p, ?w)"
    using assms r by (auto simp: libc_calloc_def heap_serves_def)
  moreover have "p \<noteq> NULL" "heap_serves ps ?w" using assms(1) by (auto simp: heap_serves_def)
  ultimately show thesis by (rule that) simp_all
qed

lemma free_serves: "heap_serves ps w \<Longrightarrow> heap_serves ps (libc_free p w)"
  by (auto simp: heap_serves_def libc_free_def dest: set_remove1_subset [THEN subsetD])

lemma frees_serve: "heap_serves ps w \<Longrightarrow> heap_serves ps (fold libc_free qs w)"
  by (induction qs arbitrary: w) (simp_all add: free_serves)

text \<open>At least \<open>n\<close> further allocations succeed.\<close>

definition heap_ready :: "nat \<Rightarrow> 'u world \<Rightarrow> bool" where
  "heap_ready n w \<longleftrightarrow> (\<exists>ps. length ps = n \<and> heap_serves ps w)"

lemma heap_ready_less: "heap_ready (Suc n) w \<Longrightarrow> heap_ready n w"
proof -
  assume "heap_ready (Suc n) w"
  then obtain ps where ps: "length ps = Suc n" "heap_serves ps w" by (auto simp: heap_ready_def)
  then have "heap_serves (butlast ps) w"
    by (auto simp: heap_serves_def distinct_butlast dest: in_set_butlastD)
      (metis append.assoc append_butlast_last_id list.size(3) nat.distinct(1))
  with ps(1) show ?thesis unfolding heap_ready_def by (intro exI [of _ "butlast ps"]) simp
qed

lemma ready_calloc:
  assumes "heap_ready (Suc n) w" "unat k * unat s < 2 ^ 64"
  obtains p w' where "libc_calloc k s w = (p, w')" "p \<noteq> NULL" "heap_ready n w'"
    "mem w' = mem w" "clock_script w' = clock_script w"
proof -
  obtain p ps where "length ps = n" "heap_serves (p # ps) w"
    using assms(1) by (auto simp: heap_ready_def length_Suc_conv)
  with assms(2) that show thesis unfolding heap_ready_def by (metis calloc_serves)
qed

lemma ready_frees: "heap_ready n w \<Longrightarrow> heap_ready n (fold libc_free qs w)"
  using frees_serve by (auto simp: heap_ready_def)

lemma libc_frees_props:
  "mem (fold libc_free ps w) = mem w" "clock_script (fold libc_free ps w) = clock_script w"
  "heap_supply (fold libc_free ps w) = heap_supply w" "user (fold libc_free ps w) = user w"
  by (induction ps arbitrary: w) (simp_all add: libc_free_props)

lemma call_system_free_fun [simp]: "call_free SYSTEM_ALLOCATOR = libc_free"
  by (simp add: fun_eq_iff)

end
