(* ===== verification/Topology_Validation.thy ===== *)
theory Topology_Validation
  imports Platform
begin

text \<open>
  Structural validation of a caller-owned topology view, \<open>solana_delivery.c\<close> lines
  41 to 406: the helpers, the four element validators and
  \<open>solana_delivery_topology_validate\<close>, which reads the view and its strided arrays
  from the caller's memory. The second half states declaratively what is accepted
  and shows that the code accepts exactly that, which status each defect gives, and
  which bytes the code's answer depends on.
\<close>

section \<open>The code\<close>

definition bytes_are_zero :: "u8 list \<Rightarrow> usize \<Rightarrow> bool" where
  "bytes_are_zero bytes len =
     (case for_loop len (\<lambda>i u. if bytes ! unat i \<noteq> 0 then Inl False else Inr u) ()
      of Inl r \<Rightarrow> r | Inr u \<Rightarrow> True)"

definition pointer_is_aligned :: "addr \<Rightarrow> usize \<Rightarrow> bool" where
  "pointer_is_aligned pointer alignment \<longleftrightarrow> alignment \<noteq> 0 \<and> pointer mod alignment = 0"

definition array_layout_is_valid ::
  "addr \<Rightarrow> u32 \<Rightarrow> u32 \<Rightarrow> usize \<Rightarrow> usize \<Rightarrow> bool" where
  "array_layout_is_valid base cnt stride minimum_element_size element_alignment =
     (if cnt = 0 then True
      else if base = NULL \<or> ucast stride < minimum_element_size
         \<or> \<not> pointer_is_aligned base element_alignment
         \<or> (ucast stride :: usize) mod element_alignment \<noteq> 0 then False
      else
        let final_index = (ucast cnt :: usize) - 1; stride_size = (ucast stride :: usize)
        in if (SIZE_MAX - minimum_element_size) div stride_size < final_index
           then False else True)"

definition array_element :: "addr \<Rightarrow> u32 \<Rightarrow> u32 \<Rightarrow> addr" where
  "array_element base index stride = base + (ucast index :: usize) * (ucast stride :: usize)"

definition element_size_is_valid :: "u32 \<Rightarrow> u32 \<Rightarrow> usize \<Rightarrow> bool" where
  "element_size_is_valid struct_size stride minimum_size \<longleftrightarrow>
     minimum_size \<le> (ucast struct_size :: usize) \<and> struct_size \<le> stride"

definition validate_validator ::
  "solana_delivery_validator_t \<Rightarrow> u32 \<Rightarrow> solana_delivery_status_t" where
  "validate_validator validator stride =
     (if \<not> element_size_is_valid (va_struct_size validator) stride
             (of_nat (STRUCT_MIN_SIZE validator_layout 3))
         \<or> va_reserved0 validator \<noteq> 0
         \<or> \<not> bytes_are_zero (va_reserved1 validator) 8
      then SOLANA_DELIVERY_STATUS_INVALID_ARGUMENT
      else SOLANA_DELIVERY_STATUS_OK)"

definition validate_endpoint ::
  "solana_delivery_endpoint_t \<Rightarrow> u32 \<Rightarrow> solana_delivery_status_t" where
  "validate_endpoint endpoint stride =
     (if \<not> element_size_is_valid (ep_struct_size endpoint) stride
             (of_nat (STRUCT_MIN_SIZE endpoint_layout 8))
         \<or> ep_reserved0 endpoint \<noteq> 0
         \<or> ep_reserved1 endpoint \<noteq> 0
         \<or> \<not> bytes_are_zero (ep_reserved2 endpoint) 4
         \<or> ep_port endpoint = 0
      then SOLANA_DELIVERY_STATUS_INVALID_ARGUMENT
      else if ep_address_family endpoint = SOLANA_DELIVERY_ADDRESS_UNSPEC
      then SOLANA_DELIVERY_STATUS_INVALID_ARGUMENT
      else if ep_address_family endpoint \<noteq> SOLANA_DELIVERY_ADDRESS_IPV4
         \<and> ep_address_family endpoint \<noteq> SOLANA_DELIVERY_ADDRESS_IPV6
      then SOLANA_DELIVERY_STATUS_UNSUPPORTED
      else if ep_transport endpoint = SOLANA_DELIVERY_TRANSPORT_UNSPEC
      then SOLANA_DELIVERY_STATUS_INVALID_ARGUMENT
      else if ep_transport endpoint \<noteq> SOLANA_DELIVERY_TRANSPORT_QUIC
      then SOLANA_DELIVERY_STATUS_UNSUPPORTED
      else if ep_role endpoint = SOLANA_DELIVERY_ENDPOINT_ROLE_UNSPEC
      then SOLANA_DELIVERY_STATUS_INVALID_ARGUMENT
      else if ep_role endpoint \<noteq> SOLANA_DELIVERY_ENDPOINT_ROLE_TPU
      then SOLANA_DELIVERY_STATUS_UNSUPPORTED
      else if ep_address_family endpoint = SOLANA_DELIVERY_ADDRESS_IPV4
         \<and> \<not> bytes_are_zero (drop 4 (ep_address endpoint)) (16 - 4)
      then SOLANA_DELIVERY_STATUS_INVALID_ARGUMENT
      else SOLANA_DELIVERY_STATUS_OK)"

definition validate_association ::
  "solana_delivery_validator_endpoint_t \<Rightarrow> u32 \<Rightarrow> u32 \<Rightarrow> u32 \<Rightarrow> solana_delivery_status_t" where
  "validate_association association stride validator_count endpoint_count =
     (if \<not> element_size_is_valid (ve_struct_size association) stride
             (of_nat (STRUCT_MIN_SIZE validator_endpoint_layout 3))
         \<or> ve_reserved0 association \<noteq> 0
         \<or> validator_count \<le> ve_validator_index association
         \<or> endpoint_count \<le> ve_endpoint_index association
      then SOLANA_DELIVERY_STATUS_INVALID_ARGUMENT
      else SOLANA_DELIVERY_STATUS_OK)"

definition validate_leader ::
  "solana_delivery_leader_t \<Rightarrow> u32 \<Rightarrow> u32 \<Rightarrow> solana_delivery_status_t" where
  "validate_leader leader stride validator_count =
     (if \<not> element_size_is_valid (ld_struct_size leader) stride
             (of_nat (STRUCT_MIN_SIZE leader_layout 4))
         \<or> ld_reserved0 leader \<noteq> 0
         \<or> validator_count \<le> ld_validator_index leader
         \<or> ld_last_slot leader < ld_first_slot leader
      then SOLANA_DELIVERY_STATUS_INVALID_ARGUMENT
      else SOLANA_DELIVERY_STATUS_OK)"

text \<open>Reading a structure through a pointer.\<close>

abbreviation load_topology :: "memory \<Rightarrow> addr \<Rightarrow> solana_delivery_topology_t" where
  "load_topology m p \<equiv> topology_of_bytes (load_bytes m p 88)"
abbreviation load_validator :: "memory \<Rightarrow> addr \<Rightarrow> solana_delivery_validator_t" where
  "load_validator m p \<equiv> validator_of_bytes (load_bytes m p 48)"
abbreviation load_endpoint :: "memory \<Rightarrow> addr \<Rightarrow> solana_delivery_endpoint_t" where
  "load_endpoint m p \<equiv> endpoint_of_bytes (load_bytes m p 32)"
abbreviation load_association :: "memory \<Rightarrow> addr \<Rightarrow> solana_delivery_validator_endpoint_t" where
  "load_association m p \<equiv> validator_endpoint_of_bytes (load_bytes m p 16)"
abbreviation load_leader :: "memory \<Rightarrow> addr \<Rightarrow> solana_delivery_leader_t" where
  "load_leader m p \<equiv> leader_of_bytes (load_bytes m p 32)"

text \<open>The body of each of the four loops: validate one element, return its status if not OK.\<close>

definition return_unless_ok ::
  "solana_delivery_status_t \<Rightarrow> unit \<Rightarrow> solana_delivery_status_t + unit" where
  "return_unless_ok status u = (if status \<noteq> SOLANA_DELIVERY_STATUS_OK then Inl status else Inr u)"

definition validate_validators ::
  "memory \<Rightarrow> solana_delivery_topology_t \<Rightarrow> solana_delivery_status_t + unit" where
  "validate_validators m t =
     for_loop (tp_validator_count t) (\<lambda>i. return_unless_ok
       (validate_validator
          (load_validator m (array_element (tp_validators t) i (tp_validator_stride t)))
          (tp_validator_stride t))) ()"

definition validate_endpoints ::
  "memory \<Rightarrow> solana_delivery_topology_t \<Rightarrow> solana_delivery_status_t + unit" where
  "validate_endpoints m t =
     for_loop (tp_endpoint_count t) (\<lambda>i. return_unless_ok
       (validate_endpoint
          (load_endpoint m (array_element (tp_endpoints t) i (tp_endpoint_stride t)))
          (tp_endpoint_stride t))) ()"

definition validate_associations ::
  "memory \<Rightarrow> solana_delivery_topology_t \<Rightarrow> solana_delivery_status_t + unit" where
  "validate_associations m t =
     for_loop (tp_validator_endpoint_count t) (\<lambda>i. return_unless_ok
       (validate_association
          (load_association m
             (array_element (tp_validator_endpoints t) i (tp_validator_endpoint_stride t)))
          (tp_validator_endpoint_stride t) (tp_validator_count t) (tp_endpoint_count t))) ()"

definition validate_leaders ::
  "memory \<Rightarrow> solana_delivery_topology_t \<Rightarrow> solana_delivery_status_t + unit" where
  "validate_leaders m t =
     for_loop (tp_leader_count t) (\<lambda>i. return_unless_ok
       (validate_leader
          (load_leader m (array_element (tp_leaders t) i (tp_leader_stride t)))
          (tp_leader_stride t) (tp_validator_count t))) ()"

definition solana_delivery_topology_validate ::
  "memory \<Rightarrow> addr \<Rightarrow> solana_delivery_status_t" where
  "solana_delivery_topology_validate m topology =
     (if topology = NULL \<or> \<not> pointer_is_aligned topology (of_nat (c_alignof topology_layout))
      then SOLANA_DELIVERY_STATUS_INVALID_ARGUMENT
      else let t = load_topology m topology in
      if (ucast (tp_struct_size t) :: usize) < of_nat (STRUCT_MIN_SIZE topology_layout 15)
         \<or> tp_reserved0 t \<noteq> 0
      then SOLANA_DELIVERY_STATUS_INVALID_ARGUMENT
      else if \<not> array_layout_is_valid (tp_validators t) (tp_validator_count t)
             (tp_validator_stride t) (of_nat (STRUCT_MIN_SIZE validator_layout 3))
             (of_nat (c_alignof validator_layout))
         \<or> \<not> array_layout_is_valid (tp_endpoints t) (tp_endpoint_count t)
             (tp_endpoint_stride t) (of_nat (STRUCT_MIN_SIZE endpoint_layout 8))
             (of_nat (c_alignof endpoint_layout))
         \<or> \<not> array_layout_is_valid (tp_validator_endpoints t) (tp_validator_endpoint_count t)
             (tp_validator_endpoint_stride t)
             (of_nat (STRUCT_MIN_SIZE validator_endpoint_layout 3))
             (of_nat (c_alignof validator_endpoint_layout))
         \<or> \<not> array_layout_is_valid (tp_leaders t) (tp_leader_count t)
             (tp_leader_stride t) (of_nat (STRUCT_MIN_SIZE leader_layout 4))
             (of_nat (c_alignof leader_layout))
      then SOLANA_DELIVERY_STATUS_INVALID_ARGUMENT
      else
        (case validate_validators m t of Inl status \<Rightarrow> status | Inr u \<Rightarrow>
        (case validate_endpoints m t of Inl status \<Rightarrow> status | Inr u \<Rightarrow>
        (case validate_associations m t of Inl status \<Rightarrow> status | Inr u \<Rightarrow>
        (case validate_leaders m t of Inl status \<Rightarrow> status | Inr u \<Rightarrow>
           SOLANA_DELIVERY_STATUS_OK)))))"

section \<open>The loops\<close>

lemma fold_return_unless_ok:
  "fold_body (\<lambda>i. return_unless_ok (f i)) is () =
     (case find (\<lambda>s. s \<noteq> 0) (map f is) of None \<Rightarrow> Inr () | Some s \<Rightarrow> Inl s)"
  by (induction "is") (auto simp: return_unless_ok_def split: option.splits)

lemma validation_loop_ok:
  "for_loop n (\<lambda>i. return_unless_ok (f i)) () = Inr () \<longleftrightarrow> (\<forall>i < n. f i = 0)"
  unfolding all_index_iff [symmetric]
  by (simp add: for_loop_eq_fold fold_return_unless_ok option.case_eq_if find_None_iff)

lemma validation_loop_error:
  assumes "for_loop n (\<lambda>i. return_unless_ok (f i)) () = Inl st"
  shows "st \<noteq> 0 \<and> (\<exists>i < n. f i = st)"
proof -
  have "find (\<lambda>s. s \<noteq> 0) (map f (map of_nat [0..<unat n])) = Some st"
    using assms by (simp add: for_loop_eq_fold fold_return_unless_ok split: option.splits)
  then have "st \<noteq> 0" "st \<in> set (map f (map of_nat [0..<unat n]))"
    by (auto simp: find_Some_iff)
  moreover have "\<not> (\<forall>i \<in> set (map of_nat [0..<unat n]). f i \<noteq> st)"
    using calculation(2) by auto
  ultimately show ?thesis unfolding all_index_iff by blast
qed

lemma bytes_are_zero_iff:
  "unat len \<le> length bytes \<Longrightarrow>
     bytes_are_zero bytes len \<longleftrightarrow> (\<forall>b \<in> set (take (unat len) bytes). b = 0)"
proof -
  assume len: "unat len \<le> length bytes"
  have "(\<exists>i < unat len. bytes ! unat (of_nat i :: usize) \<noteq> 0) \<longleftrightarrow>
        (\<exists>i < unat len. bytes ! i \<noteq> 0)"
  proof -
    have "unat (of_nat i :: usize) = i" if "i < unat len" for i
      using that unat_lt_64 [of len] by (intro unat_of_nat_small) (simp del: unat_lt_64)
    then show ?thesis by auto
  qed
  moreover have "(\<forall>b \<in> set (take (unat len) bytes). b = 0) \<longleftrightarrow> (\<forall>i < unat len. bytes ! i = 0)"
    using len by (simp add: all_set_conv_all_nth)
  ultimately show ?thesis
    by (auto simp: bytes_are_zero_def for_loop_eq_fold fold_body_search)
qed

section \<open>What is accepted\<close>

definition validator_ok :: "solana_delivery_validator_t \<Rightarrow> u32 \<Rightarrow> bool" where
  "validator_ok v stride \<longleftrightarrow>
     48 \<le> va_struct_size v \<and> va_struct_size v \<le> stride \<and> va_reserved0 v = 0 \<and>
     va_reserved1 v = replicate 8 0"

definition endpoint_ok :: "solana_delivery_endpoint_t \<Rightarrow> u32 \<Rightarrow> bool" where
  "endpoint_ok e stride \<longleftrightarrow>
     32 \<le> ep_struct_size e \<and> ep_struct_size e \<le> stride \<and> ep_reserved0 e = 0 \<and>
     ep_reserved1 e = 0 \<and> ep_reserved2 e = replicate 4 0 \<and> ep_port e \<noteq> 0 \<and>
     ep_transport e = SOLANA_DELIVERY_TRANSPORT_QUIC \<and>
     ep_role e = SOLANA_DELIVERY_ENDPOINT_ROLE_TPU \<and>
     (ep_address_family e = SOLANA_DELIVERY_ADDRESS_IPV6 \<or>
      ep_address_family e = SOLANA_DELIVERY_ADDRESS_IPV4 \<and>
      drop 4 (ep_address e) = replicate 12 0)"

definition association_ok ::
  "solana_delivery_validator_endpoint_t \<Rightarrow> u32 \<Rightarrow> u32 \<Rightarrow> u32 \<Rightarrow> bool" where
  "association_ok a stride nv ne \<longleftrightarrow>
     16 \<le> ve_struct_size a \<and> ve_struct_size a \<le> stride \<and> ve_reserved0 a = 0 \<and>
     ve_validator_index a < nv \<and> ve_endpoint_index a < ne"

definition leader_ok :: "solana_delivery_leader_t \<Rightarrow> u32 \<Rightarrow> u32 \<Rightarrow> bool" where
  "leader_ok l stride nv \<longleftrightarrow>
     32 \<le> ld_struct_size l \<and> ld_struct_size l \<le> stride \<and> ld_reserved0 l = 0 \<and>
     ld_validator_index l < nv \<and> ld_first_slot l \<le> ld_last_slot l"

definition layout_ok :: "addr \<Rightarrow> u32 \<Rightarrow> u32 \<Rightarrow> nat \<Rightarrow> nat \<Rightarrow> bool" where
  "layout_ok base cnt stride sz al \<longleftrightarrow>
     cnt \<noteq> 0 \<longrightarrow> base \<noteq> NULL \<and> sz \<le> unat stride \<and> al dvd unat base \<and> al dvd unat stride"

definition validators_ok :: "memory \<Rightarrow> solana_delivery_topology_t \<Rightarrow> bool" where
  "validators_ok m t \<longleftrightarrow> (\<forall>i < tp_validator_count t. validator_ok
     (load_validator m (array_element (tp_validators t) i (tp_validator_stride t)))
     (tp_validator_stride t))"

definition endpoints_ok :: "memory \<Rightarrow> solana_delivery_topology_t \<Rightarrow> bool" where
  "endpoints_ok m t \<longleftrightarrow> (\<forall>i < tp_endpoint_count t. endpoint_ok
     (load_endpoint m (array_element (tp_endpoints t) i (tp_endpoint_stride t)))
     (tp_endpoint_stride t))"

definition associations_ok :: "memory \<Rightarrow> solana_delivery_topology_t \<Rightarrow> bool" where
  "associations_ok m t \<longleftrightarrow> (\<forall>i < tp_validator_endpoint_count t. association_ok
     (load_association m
        (array_element (tp_validator_endpoints t) i (tp_validator_endpoint_stride t)))
     (tp_validator_endpoint_stride t) (tp_validator_count t) (tp_endpoint_count t))"

definition leaders_ok :: "memory \<Rightarrow> solana_delivery_topology_t \<Rightarrow> bool" where
  "leaders_ok m t \<longleftrightarrow> (\<forall>i < tp_leader_count t. leader_ok
     (load_leader m (array_element (tp_leaders t) i (tp_leader_stride t)))
     (tp_leader_stride t) (tp_validator_count t))"

definition layouts_ok :: "solana_delivery_topology_t \<Rightarrow> bool" where
  "layouts_ok t \<longleftrightarrow>
     layout_ok (tp_validators t) (tp_validator_count t) (tp_validator_stride t) 48 4 \<and>
     layout_ok (tp_endpoints t) (tp_endpoint_count t) (tp_endpoint_stride t) 32 4 \<and>
     layout_ok (tp_validator_endpoints t) (tp_validator_endpoint_count t)
       (tp_validator_endpoint_stride t) 16 4 \<and>
     layout_ok (tp_leaders t) (tp_leader_count t) (tp_leader_stride t) 32 8"

definition topology_ok :: "memory \<Rightarrow> addr \<Rightarrow> bool" where
  "topology_ok m p \<longleftrightarrow>
     p \<noteq> NULL \<and> 8 dvd unat p \<and>
     (let t = load_topology m p in
        88 \<le> tp_struct_size t \<and> tp_reserved0 t = 0 \<and> layouts_ok t \<and>
        validators_ok m t \<and> endpoints_ok m t \<and> associations_ok m t \<and> leaders_ok m t)"

lemma all_zero_iff: "length bs = n \<Longrightarrow> (\<forall>b \<in> set bs. b = 0) \<longleftrightarrow> bs = replicate n 0"
  by (metis in_set_replicate replicate_eqI)

lemma element_size_iff:
  "element_size_is_valid sz stride k \<longleftrightarrow> unat k \<le> unat sz \<and> sz \<le> stride"
  by (simp add: element_size_is_valid_def word_le_nat_alt)

lemma validate_validator_iff:
  "wf_validator v \<Longrightarrow> validate_validator v stride = (if validator_ok v stride then 0 else 1)"
  by (auto simp: validate_validator_def validator_ok_def element_size_iff bytes_are_zero_iff
      wf_validator_def all_zero_iff word_le_nat_alt)

lemma validate_association_iff:
  "validate_association a stride nv ne = (if association_ok a stride nv ne then 0 else 1)"
  by (auto simp: validate_association_def association_ok_def element_size_iff word_le_nat_alt
      not_le [symmetric])

lemma validate_leader_iff:
  "validate_leader l stride nv = (if leader_ok l stride nv then 0 else 1)"
  by (auto simp: validate_leader_def leader_ok_def element_size_iff word_le_nat_alt
      not_le [symmetric])

lemma validate_endpoint_ok [status]:
  "wf_endpoint e \<Longrightarrow> validate_endpoint e stride = 0 \<longleftrightarrow> endpoint_ok e stride"
  by (auto simp: validate_endpoint_def endpoint_ok_def element_size_iff bytes_are_zero_iff
      wf_endpoint_def all_zero_iff word_le_nat_alt)

lemma element_status_ok [status]:
  "wf_validator v \<Longrightarrow> validate_validator v stride = 0 \<longleftrightarrow> validator_ok v stride"
  "validate_association a stride nv ne = 0 \<longleftrightarrow> association_ok a stride nv ne"
  "validate_leader l stride nv = 0 \<longleftrightarrow> leader_ok l stride nv"
  by (simp_all add: validate_validator_iff validate_association_iff validate_leader_iff)

text \<open>A represented but unsupported discriminator of an endpoint.\<close>

definition endpoint_unsupported :: "solana_delivery_endpoint_t \<Rightarrow> bool" where
  "endpoint_unsupported e \<longleftrightarrow>
     ep_address_family e \<notin> {0, 4, 6} \<or> ep_transport e \<notin> {0, 1} \<or> ep_role e \<notin> {0, 1}"

lemma validate_endpoint_range [status]:
  "validate_endpoint e stride \<in> {0, 1, 2} \<and>
   (validate_endpoint e stride = 2 \<longrightarrow> endpoint_unsupported e)"
  by (auto simp: validate_endpoint_def endpoint_unsupported_def)

lemma pointer_is_aligned_iff:
  "pointer_is_aligned p al \<longleftrightarrow> al \<noteq> 0 \<and> unat al dvd unat p"
  by (auto simp: pointer_is_aligned_def unat_mod_distrib word_eq_iff_unsigned [where ?'a = nat]
      dvd_eq_mod_eq_0)

text \<open>With 32-bit counts and strides the size computation cannot overflow \<open>size_t\<close>.\<close>

lemma extent_fits:
  fixes cnt stride :: u32
  assumes "cnt \<noteq> 0" "stride \<noteq> 0" "sz \<le> 4294967296"
  shows "\<not> (SIZE_MAX - of_nat sz) div (ucast stride) < (ucast cnt :: usize) - 1"
proof -
  let ?c = "unat cnt" and ?s = "unat stride"
  have c: "0 < ?c" "?c < 4294967296" "0 < ?s" "?s < 4294967296"
    using assms by (auto simp: unat_gt_0)
  have "(?c - 1) * ?s \<le> 4294967294 * 4294967295"
    using c by (intro mult_mono) linarith+
  then have "(?c - 1) * ?s \<le> 18446744073709551615 - sz" using assms(3) by simp
  then have le: "?c - 1 \<le> (18446744073709551615 - sz) div ?s"
    using c by (simp add: less_eq_div_iff_mult_less_eq)
  have "unat ((ucast cnt :: usize) - 1) = ?c - 1"
    using c by (subst unat_sub) (auto simp: word_le_nat_alt)
  moreover have "unat (of_nat sz :: usize) = sz" using assms(3) by (simp add: unat_of_nat_small)
  then have "unat (SIZE_MAX - of_nat sz) = 18446744073709551615 - sz"
    using assms(3) by (subst unat_sub) (auto simp: word_le_nat_alt)
  ultimately show ?thesis using le by (simp add: not_less word_le_nat_alt unat_div_distrib)
qed

lemma array_layout_iff:
  assumes "0 < sz" "sz \<le> 64" "0 < al" "al \<le> 64"
  shows "array_layout_is_valid base cnt stride (of_nat sz) (of_nat al) \<longleftrightarrow>
    layout_ok base cnt stride sz al"
proof -
  have u: "unat (of_nat sz :: usize) = sz" "unat (of_nat al :: usize) = al"
    using assms by (simp_all add: unat_of_nat_small)
  have nz: "(of_nat al :: usize) \<noteq> 0" using u(2) assms by (metis unat_0 less_irrefl)
  have m: "(ucast stride :: usize) mod of_nat al = 0 \<longleftrightarrow> al dvd unat stride"
    by (simp add: word_eq_iff_unsigned [where ?'a = nat] unat_mod_distrib u dvd_eq_mod_eq_0)
  have s: "(ucast stride :: usize) < of_nat sz \<longleftrightarrow> unat stride < sz"
    by (simp add: word_less_nat_alt u)
  have "stride \<noteq> 0" if "sz \<le> unat stride" using that assms by auto
  then have "cnt \<noteq> 0 \<Longrightarrow> sz \<le> unat stride \<Longrightarrow>
      ((SIZE_MAX - of_nat sz) div ucast stride < (ucast cnt :: usize) - 1) = False"
    using extent_fits [of cnt stride sz] assms by simp
  then show ?thesis
    by (auto simp: array_layout_is_valid_def layout_ok_def pointer_is_aligned_iff Let_def u nz m s)
qed

section \<open>Correctness\<close>

text \<open>Each loop finishes exactly when its records are acceptable, else returns a status.\<close>

lemma loops_ok:
  "validate_validators m t = Inr () \<longleftrightarrow> validators_ok m t"
  "validate_endpoints m t = Inr () \<longleftrightarrow> endpoints_ok m t"
  "validate_associations m t = Inr () \<longleftrightarrow> associations_ok m t"
  "validate_leaders m t = Inr () \<longleftrightarrow> leaders_ok m t"
  by (simp_all add: validate_validators_def validators_ok_def validate_endpoints_def
      endpoints_ok_def validate_associations_def associations_ok_def validate_leaders_def
      leaders_ok_def validation_loop_ok status)

lemma loops_invalid:
  "validate_validators m t = Inl st \<Longrightarrow> st = 1"
  "validate_associations m t = Inl st \<Longrightarrow> st = 1"
  "validate_leaders m t = Inl st \<Longrightarrow> st = 1"
  unfolding validate_validators_def validate_associations_def validate_leaders_def
  by (drule validation_loop_error,
      force simp: validate_validator_iff validate_association_iff validate_leader_iff
        split: if_splits)+

lemma endpoints_error:
  assumes "validate_endpoints m t = Inl st"
  shows "st \<in> {1, 2}"
    and "st = 2 \<Longrightarrow> \<exists>i < tp_endpoint_count t. endpoint_unsupported
      (load_endpoint m (array_element (tp_endpoints t) i (tp_endpoint_stride t)))"
  using validation_loop_error [OF assms [unfolded validate_endpoints_def]] validate_endpoint_range
  by blast+

lemma array_layout_iffs:
  "array_layout_is_valid b c s 48 4 = layout_ok b c s 48 4"
  "array_layout_is_valid b c s 32 4 = layout_ok b c s 32 4"
  "array_layout_is_valid b c s 16 4 = layout_ok b c s 16 4"
  "array_layout_is_valid b c s 32 8 = layout_ok b c s 32 8"
  using array_layout_iff [of 48 4 b c s] array_layout_iff [of 32 4 b c s]
    array_layout_iff [of 16 4 b c s] array_layout_iff [of 32 8 b c s]
  by simp_all

lemma topology_validate_eq:
  "solana_delivery_topology_validate m p =
     (if p = NULL \<or> \<not> 8 dvd unat p then 1
      else let t = load_topology m p in
        if \<not> 88 \<le> tp_struct_size t \<or> tp_reserved0 t \<noteq> 0 \<or> \<not> layouts_ok t \<or> \<not> validators_ok m t
        then 1
        else (case validate_endpoints m t of Inl st \<Rightarrow> st | Inr u \<Rightarrow>
                if associations_ok m t \<and> leaders_ok m t then 0 else 1))"
proof -
  have sz: "(ucast (x :: u32) :: usize) < 88 \<longleftrightarrow> \<not> 88 \<le> x" for x
    by (simp add: word_less_nat_alt word_le_nat_alt not_le)
  show ?thesis
    unfolding solana_delivery_topology_validate_def Let_def
    by (auto simp: pointer_is_aligned_iff array_layout_iffs sz layouts_ok_def
        simp flip: loops_ok dest: loops_invalid split: sum.splits)
qed

lemma topology_validate_range:
  "solana_delivery_topology_validate m p \<in> {0, 1, 2}"
  by (auto simp: topology_validate_eq Let_def dest: endpoints_error(1) split: sum.splits)

lemma validate_topology_ok:
  "solana_delivery_topology_validate m p = SOLANA_DELIVERY_STATUS_OK \<longleftrightarrow> topology_ok m p"
  by (auto simp: topology_validate_eq topology_ok_def Let_def simp flip: loops_ok(2)
      dest: endpoints_error(1) split: sum.splits)

text \<open>C4: \<^const>\<open>solana_delivery_topology_validate\<close> returns OK exactly on the
  structurally valid views: aligned non-null view covering the known prefix, valid
  array layouts, and every record of the four strided arrays acceptable, with all
  indices in range and every leader range non-empty.\<close>

theorem topology_validate_ok_iff:
  "solana_delivery_topology_validate m p = SOLANA_DELIVERY_STATUS_OK \<longleftrightarrow> topology_ok m p"
  by (rule validate_topology_ok)

text \<open>When validation answers UNSUPPORTED, some endpoint of the view carries an
  address family, transport or role that is none of the known constants: the
  status never hides a structural defect.\<close>

lemma topology_validate_unsupported:
  assumes "solana_delivery_topology_validate m p = SOLANA_DELIVERY_STATUS_UNSUPPORTED"
  shows "\<exists>i < tp_endpoint_count (load_topology m p). endpoint_unsupported
    (load_endpoint m (array_element (tp_endpoints (load_topology m p)) i
       (tp_endpoint_stride (load_topology m p))))"
proof -
  from assms have "validate_endpoints m (load_topology m p) = Inl 2"
    by (auto simp: topology_validate_eq Let_def split: sum.splits if_splits)
  from endpoints_error(2) [OF this] show ?thesis by simp
qed

section \<open>The bytes validation reads\<close>

text \<open>
  The view's own 88 bytes and the known prefix of every record of the four arrays;
  not the bytes an extended record or a wider stride leaves between the prefixes.
\<close>

definition topology_footprint :: "memory \<Rightarrow> addr \<Rightarrow> addr \<Rightarrow> bool" where
  "topology_footprint m p x \<longleftrightarrow>
     (let t = load_topology m p in
        in_region x p 88 \<or>
        (\<exists>i < tp_validator_count t.
           in_region x (array_element (tp_validators t) i (tp_validator_stride t)) 48) \<or>
        (\<exists>i < tp_endpoint_count t.
           in_region x (array_element (tp_endpoints t) i (tp_endpoint_stride t)) 32) \<or>
        (\<exists>i < tp_validator_endpoint_count t.
           in_region x
             (array_element (tp_validator_endpoints t) i (tp_validator_endpoint_stride t)) 16) \<or>
        (\<exists>i < tp_leader_count t.
           in_region x (array_element (tp_leaders t) i (tp_leader_stride t)) 32))"

lemma footprint_loads:
  assumes "\<And>x. topology_footprint m p x \<Longrightarrow> m x = m' x"
  defines "t \<equiv> load_topology m p"
  shows "load_bytes m' p 88 = load_bytes m p 88"
    and "i < tp_validator_count t \<Longrightarrow>
      load_bytes m' (array_element (tp_validators t) i (tp_validator_stride t)) 48 =
      load_bytes m (array_element (tp_validators t) i (tp_validator_stride t)) 48"
    and "i < tp_endpoint_count t \<Longrightarrow>
      load_bytes m' (array_element (tp_endpoints t) i (tp_endpoint_stride t)) 32 =
      load_bytes m (array_element (tp_endpoints t) i (tp_endpoint_stride t)) 32"
    and "i < tp_validator_endpoint_count t \<Longrightarrow>
      load_bytes m'
        (array_element (tp_validator_endpoints t) i (tp_validator_endpoint_stride t)) 16 =
      load_bytes m
        (array_element (tp_validator_endpoints t) i (tp_validator_endpoint_stride t)) 16"
    and "i < tp_leader_count t \<Longrightarrow>
      load_bytes m' (array_element (tp_leaders t) i (tp_leader_stride t)) 32 =
      load_bytes m (array_element (tp_leaders t) i (tp_leader_stride t)) 32"
proof -
  have agree: "load_bytes m' a n = load_bytes m a n"
    if "\<And>x. in_region x a n \<Longrightarrow> topology_footprint m p x" "n \<le> 2 ^ 64" for a n
    using assms(1) that by (metis load_bytes_cong)
  show "load_bytes m' p 88 = load_bytes m p 88"
    by (rule agree) (auto simp: topology_footprint_def Let_def)
  show "load_bytes m' (array_element (tp_validators t) i (tp_validator_stride t)) 48 =
      load_bytes m (array_element (tp_validators t) i (tp_validator_stride t)) 48"
    if "i < tp_validator_count t"
    by (rule agree) (use that in \<open>auto simp: topology_footprint_def Let_def t_def\<close>)
  show "load_bytes m' (array_element (tp_endpoints t) i (tp_endpoint_stride t)) 32 =
      load_bytes m (array_element (tp_endpoints t) i (tp_endpoint_stride t)) 32"
    if "i < tp_endpoint_count t"
    by (rule agree) (use that in \<open>auto simp: topology_footprint_def Let_def t_def\<close>)
  show "load_bytes m'
        (array_element (tp_validator_endpoints t) i (tp_validator_endpoint_stride t)) 16 =
      load_bytes m
        (array_element (tp_validator_endpoints t) i (tp_validator_endpoint_stride t)) 16"
    if "i < tp_validator_endpoint_count t"
    by (rule agree) (use that in \<open>auto simp: topology_footprint_def Let_def t_def\<close>)
  show "load_bytes m' (array_element (tp_leaders t) i (tp_leader_stride t)) 32 =
      load_bytes m (array_element (tp_leaders t) i (tp_leader_stride t)) 32"
    if "i < tp_leader_count t"
    by (rule agree) (use that in \<open>auto simp: topology_footprint_def Let_def t_def\<close>)
qed

text \<open>C36: Validation of extensible records never looks past the known prefix: two
  memories that agree on the view and on the prefixes of its records get the same
  answer, whatever the remaining bytes of each stride hold.\<close>

theorem topology_validate_footprint:
  assumes "\<And>x. topology_footprint m p x \<Longrightarrow> m x = m' x"
  shows "solana_delivery_topology_validate m' p = solana_delivery_topology_validate m p"
proof -
  note eqs = footprint_loads [OF assms]
  have loops: "validate_validators m' (load_topology m p) = validate_validators m (load_topology m p)"
    "validate_endpoints m' (load_topology m p) = validate_endpoints m (load_topology m p)"
    "validate_associations m' (load_topology m p) = validate_associations m (load_topology m p)"
    "validate_leaders m' (load_topology m p) = validate_leaders m (load_topology m p)"
    unfolding validate_validators_def validate_endpoints_def validate_associations_def
      validate_leaders_def
    by (rule for_loop_cong; simp add: eqs)+
  show ?thesis
    by (simp only: solana_delivery_topology_validate_def eqs(1) loops Let_def)
qed

end
