(* ===== verification/Client_State.thy ===== *)
theory Client_State
  imports Topology_Validation
begin

text \<open>
  The library-owned state of \<open>src/solana_delivery_internal.h\<close>: owned topology,
  accepted requests, the event ring and the client. An owned array is a block: the
  pointer the allocator returned and the array's contents. The \<open>next\<close> links of the
  requests are the order of the list \<open>cl_request_head\<close>, head first.
\<close>

record 'a block =
  bl_ptr :: addr
  bl_data :: "'a list"

definition null_block :: "'a block" where
  "null_block = \<lparr>bl_ptr = NULL, bl_data = []\<rparr>"

lemma null_block_simps [simp]: "bl_ptr null_block = 0" "bl_data null_block = []"
  by (simp_all add: null_block_def)

definition map_block :: "('a \<Rightarrow> 'b) \<Rightarrow> 'a block \<Rightarrow> 'b block" where
  "map_block f b = \<lparr>bl_ptr = bl_ptr b, bl_data = map f (bl_data b)\<rparr>"

lemma map_block_simps [simp]:
  "bl_ptr (map_block f b) = bl_ptr b" "bl_data (map_block f b) = map f (bl_data b)"
  by (simp_all add: map_block_def)

record solana_delivery_owned_topology_t =
  ot_view :: solana_delivery_topology_t
  ot_validators :: "solana_delivery_validator_t block"
  ot_endpoints :: "solana_delivery_endpoint_t block"
  ot_validator_endpoints :: "solana_delivery_validator_endpoint_t block"
  ot_leaders :: "solana_delivery_leader_t block"
  ot_received_monotonic_ns :: u64

text \<open>\<open>memset(owned, 0, sizeof(*owned))\<close>\<close>

definition zero_view :: solana_delivery_topology_t where
  "zero_view = topology_of_bytes (replicate 88 0)"

definition zero_owned :: solana_delivery_owned_topology_t where
  "zero_owned =
     \<lparr>ot_view = zero_view, ot_validators = null_block, ot_endpoints = null_block,
      ot_validator_endpoints = null_block, ot_leaders = null_block,
      ot_received_monotonic_ns = 0\<rparr>"

record solana_delivery_owned_request_target_t =
  rt_leader_index :: u32
  rt_validator_index :: u32
  rt_endpoint_index :: u32
  rt_validator_identity :: "u8 list"
  rt_endpoint :: solana_delivery_endpoint_t

abbreviation (input) SOLANA_DELIVERY_REQUEST_STATE_ACCEPTED :: u32 where
  "SOLANA_DELIVERY_REQUEST_STATE_ACCEPTED \<equiv> 1"

abbreviation (input) SOLANA_DELIVERY_EVENT_QUEUE_CAPACITY :: usize where
  "SOLANA_DELIVERY_EVENT_QUEUE_CAPACITY \<equiv> 64"

text \<open>\<open>rq_self\<close> is the address of the request's own block.\<close>

record solana_delivery_owned_request_t =
  rq_self :: addr
  rq_request_id :: solana_delivery_request_id_t
  rq_topology_generation :: u64
  rq_routing_slot :: u64
  rq_transaction_bytes :: "u8 block"
  rq_transaction_length :: usize
  rq_targets :: "solana_delivery_owned_request_target_t block"
  rq_target_count :: usize
  rq_state :: u32
  rq_next_event_sequence :: u64

record solana_delivery_event_queue_t =
  eq_entries :: "solana_delivery_event_t list"
  eq_head :: usize
  eq_count :: usize

definition zero_queue :: solana_delivery_event_queue_t where
  "zero_queue =
     \<lparr>eq_entries = replicate 64 (event_of_bytes (replicate 64 0)), eq_head = 0, eq_count = 0\<rparr>"

record 'u solana_delivery_client_t =
  cl_self :: addr
  cl_allocator :: "'u solana_delivery_allocator_t"
  cl_monotonic_time_fn :: "'u solana_delivery_monotonic_time_fn"
  cl_monotonic_time_context :: addr
  cl_has_topology :: bool
  cl_topology :: solana_delivery_owned_topology_t
  cl_next_request_id :: solana_delivery_request_id_t
  cl_request_head :: "solana_delivery_owned_request_t list"
  cl_event_queue :: solana_delivery_event_queue_t

text \<open>
  A client block as \<open>calloc\<close> returns it, with the four fields
  \<open>solana_delivery_client_create_with_dependencies\<close> sets.
\<close>

definition fresh_client ::
  "addr \<Rightarrow> 'u solana_delivery_allocator_t \<Rightarrow> 'u solana_delivery_monotonic_time_fn \<Rightarrow> addr \<Rightarrow>
   'u solana_delivery_client_t" where
  "fresh_client self allocator time_fn context =
     \<lparr>cl_self = self, cl_allocator = allocator, cl_monotonic_time_fn = time_fn,
      cl_monotonic_time_context = context, cl_has_topology = False, cl_topology = zero_owned,
      cl_next_request_id = 1, cl_request_head = [], cl_event_queue = zero_queue\<rparr>"

record solana_delivery_submission_policy_t =
  sp_max_topology_age_ns :: u64
  sp_target_limit :: usize

record solana_delivery_topology_candidate_t =
  cd_leader_index :: u32
  cd_validator_index :: u32
  cd_endpoint_index :: u32

record solana_delivery_route_target_t =
  rr_leader_index :: u32
  rr_validator_index :: u32
  rr_endpoint_index :: u32

section \<open>Sizes of the internal structures\<close>

definition candidate_layout :: layout where
  "candidate_layout = [(4, 4), (4, 4), (4, 4)]"
definition route_target_layout :: layout where
  "route_target_layout = [(4, 4), (4, 4), (4, 4)]"
definition request_target_layout :: layout where
  "request_target_layout =
     [(4, 4), (4, 4), (4, 4), (32, 1), (c_sizeof endpoint_layout, c_alignof endpoint_layout)]"
definition request_layout :: layout where
  "request_layout =
     [(8, 8), (8, 8), (8, 8), (8, 8), (8, 8), (8, 8), (8, 8), (4, 4), (8, 8), (8, 8)]"
definition owned_topology_layout :: layout where
  "owned_topology_layout =
     [(c_sizeof topology_layout, c_alignof topology_layout), (8, 8), (8, 8), (8, 8), (8, 8), (8, 8)]"
definition event_queue_layout :: layout where
  "event_queue_layout = [(64 * c_sizeof event_layout, c_alignof event_layout), (8, 8), (8, 8)]"
definition client_layout :: layout where
  "client_layout =
     [(24, 8), (8, 8), (8, 8), (1, 1),
      (c_sizeof owned_topology_layout, c_alignof owned_topology_layout),
      (8, 8), (8, 8), (c_sizeof event_queue_layout, c_alignof event_queue_layout)]"

lemmas sizeof_eval = c_sizeof_def STRUCT_MIN_SIZE_def c_offsetof_def c_alignof_def align_up_def Let_def

lemma nested_sizes:
  "c_sizeof owned_topology_layout = 128" "c_alignof owned_topology_layout = 8"
  "c_sizeof event_queue_layout = 4112" "c_alignof event_queue_layout = 8"
  by (simp_all add: owned_topology_layout_def event_queue_layout_def)
    (simp_all add: sizeof_eval)

lemma internal_sizes [simp]:
  "c_sizeof candidate_layout = 12" "c_sizeof route_target_layout = 12"
  "c_sizeof request_target_layout = 76" "c_sizeof request_layout = 80"
  "c_sizeof client_layout = 4304"
  by (simp_all add: candidate_layout_def route_target_layout_def request_target_layout_def
      request_layout_def client_layout_def nested_sizes)
    (simp_all add: sizeof_eval)

section \<open>What the client owns\<close>

definition topology_ptrs :: "solana_delivery_owned_topology_t \<Rightarrow> addr list" where
  "topology_ptrs owned =
     [bl_ptr (ot_validators owned), bl_ptr (ot_endpoints owned),
      bl_ptr (ot_validator_endpoints owned), bl_ptr (ot_leaders owned)]"

definition request_ptrs :: "solana_delivery_owned_request_t \<Rightarrow> addr list" where
  "request_ptrs r = [bl_ptr (rq_transaction_bytes r), bl_ptr (rq_targets r), rq_self r]"

definition requests_ptrs :: "solana_delivery_owned_request_t list \<Rightarrow> addr list" where
  "requests_ptrs rs = concat (map request_ptrs rs)"

definition client_ptrs :: "'u solana_delivery_client_t \<Rightarrow> addr list" where
  "client_ptrs c =
     requests_ptrs (cl_request_head c) @ topology_ptrs (cl_topology c) @ [cl_self c]"

text \<open>A client on the system allocator and clock, as \<open>solana_delivery_client_create\<close> makes it.\<close>

definition system_client :: "'u solana_delivery_client_t \<Rightarrow> bool" where
  "system_client c \<longleftrightarrow>
     cl_allocator c = SYSTEM_ALLOCATOR \<and> cl_monotonic_time_fn c = system_monotonic_time_ns"

text \<open>
  The heap ledger is exact for a client: the live blocks are the client's own
  together with the blocks \<open>F\<close> of the rest of the process.
\<close>

definition heap_exact :: "'u solana_delivery_client_t \<Rightarrow> addr multiset \<Rightarrow> 'u world \<Rightarrow> bool" where
  "heap_exact c F w \<longleftrightarrow> libc_live w = owns (client_ptrs c) + F"

lemma requests_ptrs_simps [simp]:
  "requests_ptrs [] = []" "requests_ptrs (r # rs) = request_ptrs r @ requests_ptrs rs"
  by (simp_all add: requests_ptrs_def)

lemma topology_ptrs_zero [simp]: "owns (topology_ptrs zero_owned) = {#}"
  by (simp add: topology_ptrs_def zero_owned_def)

section \<open>Consistency of the owned state\<close>

text \<open>
  The owned arrays have the counts the view declares, and every index of an
  association or a leader is in range.
\<close>

definition owned_consistent :: "solana_delivery_owned_topology_t \<Rightarrow> bool" where
  "owned_consistent owned \<longleftrightarrow>
     length (bl_data (ot_validators owned)) = unat (tp_validator_count (ot_view owned)) \<and>
     length (bl_data (ot_endpoints owned)) = unat (tp_endpoint_count (ot_view owned)) \<and>
     length (bl_data (ot_validator_endpoints owned)) =
       unat (tp_validator_endpoint_count (ot_view owned)) \<and>
     length (bl_data (ot_leaders owned)) = unat (tp_leader_count (ot_view owned)) \<and>
     (\<forall>a \<in> set (bl_data (ot_validator_endpoints owned)).
        ve_validator_index a < tp_validator_count (ot_view owned) \<and>
        ve_endpoint_index a < tp_endpoint_count (ot_view owned)) \<and>
     (\<forall>l \<in> set (bl_data (ot_leaders owned)).
        ld_validator_index l < tp_validator_count (ot_view owned) \<and>
        ld_first_slot l \<le> ld_last_slot l)"

lemma owned_consistent_zero [simp]: "owned_consistent zero_owned"
proof -
  have "field (replicate 88 (0 :: u8)) off n = replicate (min n (88 - off)) 0" for off n
    by (simp add: field_def)
  moreover have "word_of_le (replicate n 0) = (0 :: u32)" for n
    by (induction n) auto
  ultimately show ?thesis
    by (simp add: owned_consistent_def zero_owned_def zero_view_def topology_of_bytes_def)
qed

end
