(* ===== verification/Example_Data.thy ===== *)
theory Example_Data
  imports Client_State
begin

text \<open>
  The objects \<open>main\<close> of \<open>examples/delivery_local_acceptance.c\<close> sets up (lines 9 to
  65), laid out in the caller's memory: one validator, one endpoint, one
  association, one leader range, the topology view over them, a one-byte
  transaction and the submission options. \<open>examples/discovery_refresh.c\<close> sets up the
  same records. The properties' witnesses run on this memory.
\<close>

definition example_validator :: solana_delivery_validator_t where
  "example_validator =
     \<lparr>va_struct_size = 48, va_reserved0 = 0, va_identity = replicate 32 0,
      va_reserved1 = replicate 8 0\<rparr>"

definition example_endpoint :: solana_delivery_endpoint_t where
  "example_endpoint =
     \<lparr>ep_struct_size = 32, ep_address_family = SOLANA_DELIVERY_ADDRESS_IPV4,
      ep_transport = SOLANA_DELIVERY_TRANSPORT_QUIC,
      ep_role = SOLANA_DELIVERY_ENDPOINT_ROLE_TPU, ep_reserved0 = 0, ep_port = 8000,
      ep_reserved1 = 0, ep_address = [127, 0, 0, 1] @ replicate 12 0,
      ep_reserved2 = replicate 4 0\<rparr>"

definition example_association :: solana_delivery_validator_endpoint_t where
  "example_association =
     \<lparr>ve_struct_size = 16, ve_validator_index = 0, ve_endpoint_index = 0, ve_reserved0 = 0\<rparr>"

definition example_leader :: solana_delivery_leader_t where
  "example_leader =
     \<lparr>ld_struct_size = 32, ld_validator_index = 0, ld_first_slot = 10, ld_last_slot = 10,
      ld_reserved0 = 0\<rparr>"

definition example_topology :: solana_delivery_topology_t where
  "example_topology =
     \<lparr>tp_struct_size = 88, tp_reserved0 = 0, tp_generation = 1, tp_current_slot = 10,
      tp_validators = 0x2000, tp_validator_count = 1, tp_validator_stride = 48,
      tp_endpoints = 0x3000, tp_endpoint_count = 1, tp_endpoint_stride = 32,
      tp_validator_endpoints = 0x4000, tp_validator_endpoint_count = 1,
      tp_validator_endpoint_stride = 16,
      tp_leaders = 0x5000, tp_leader_count = 1, tp_leader_stride = 32\<rparr>"

definition example_options :: solana_delivery_submit_options_t where
  "example_options =
     \<lparr>so_struct_size = 24, so_flags = SOLANA_DELIVERY_SUBMIT_FLAGS_NONE,
      so_max_topology_age_ns = 60000000000, so_target_limit = 1, so_reserved0 = 0\<rparr>"

text \<open>The view at 0x1000, its arrays above, the transaction at 0x6000, the options at 0x7000.\<close>

definition example_mem :: memory where
  "example_mem =
     store_bytes (store_bytes (store_bytes (store_bytes (store_bytes (store_bytes (store_bytes
       (\<lambda>_. 0)
       0x7000 (bytes_of_submit_options example_options))
       0x6000 [1])
       0x5000 (bytes_of_leader example_leader))
       0x4000 (bytes_of_validator_endpoint example_association))
       0x3000 (bytes_of_endpoint example_endpoint))
       0x2000 (bytes_of_validator example_validator))
       0x1000 (bytes_of_topology example_topology)"

lemma example_wf [simp]: "wf_validator example_validator" "wf_endpoint example_endpoint"
  by (simp_all add: wf_validator_def example_validator_def wf_endpoint_def example_endpoint_def)

lemma example_lengths [simp]:
  "length (bytes_of_submit_options example_options) = 24"
  "length (bytes_of_leader example_leader) = 32"
  "length (bytes_of_validator_endpoint example_association) = 16"
  "length (bytes_of_endpoint example_endpoint) = 32"
  "length (bytes_of_validator example_validator) = 48"
  "length (bytes_of_topology example_topology) = 88"
  by (simp_all add: submit_options.length_encode leader.length_encode
      validator_endpoint.length_encode endpoint.length_encode validator.length_encode
      topology.length_encode)

lemma example_loads [simp]:
  "load_topology example_mem 0x1000 = example_topology"
  "load_validator example_mem 0x2000 = example_validator"
  "load_endpoint example_mem 0x3000 = example_endpoint"
  "load_association example_mem 0x4000 = example_association"
  "load_leader example_mem 0x5000 = example_leader"
  "load_bytes example_mem 0x6000 1 = [1]"
  "submit_options_of_bytes (load_bytes example_mem 0x7000 24) = example_options"
  by (simp_all add: example_mem_def load_store_whole load_store_disjoint disjoint_regions_def
      topology.decode_encode validator.decode_encode endpoint.decode_encode
      validator_endpoint.decode_encode leader.decode_encode submit_options.decode_encode)

lemma all_below_one [simp]: "(\<forall>i < (1 :: 'a::len word). P i) \<longleftrightarrow> P 0"
  by (auto simp: word_less_1)

lemma example_elements_ok:
  "validator_ok example_validator 48" "endpoint_ok example_endpoint 32"
  "association_ok example_association 16 1 1" "leader_ok example_leader 32 1"
  by (simp_all add: validator_ok_def example_validator_def endpoint_ok_def example_endpoint_def
      association_ok_def example_association_def leader_ok_def example_leader_def)

lemma example_topology_ok: "topology_ok example_mem 0x1000"
  using example_elements_ok
  by (simp add: topology_ok_def validators_ok_def endpoints_ok_def associations_ok_def
      leaders_ok_def layouts_ok_def layout_ok_def array_element_def)
    (simp add: example_topology_def)

text \<open>
  A client at block 0x100 in a process that owns nothing else, a heap that serves the
  next addresses, and a clock that ticks one second per reading.
\<close>

definition example_client :: "unit solana_delivery_client_t" where
  "example_client = fresh_client 0x100 SYSTEM_ALLOCATOR system_monotonic_time_ns NULL"

definition example_world :: "unit world" where
  "example_world =
     \<lparr>mem = example_mem, heap_live = [0x100],
      heap_supply = map (\<lambda>i. 0x200 + of_nat i * 0x100) [0..<9], heap_faults = 0,
      clock_script = [(True, 1, 0), (True, 2, 0), (True, 3, 0)], user = ()\<rparr>"

lemma example_client_facts [simp]:
  "system_client example_client" "cl_has_topology example_client = False"
  "cl_request_head example_client = []" "cl_topology example_client = zero_owned"
  "cl_allocator example_client = SYSTEM_ALLOCATOR"
  "cl_monotonic_time_fn example_client = system_monotonic_time_ns"
  by (simp_all add: system_client_def example_client_def fresh_client_def)

lemma example_heap_exact: "heap_exact example_client {#} example_world"
  by (simp add: heap_exact_def client_ptrs_def example_client_def fresh_client_def example_world_def)

text \<open>The client once the example topology is installed from that world.\<close>

definition example_owned :: solana_delivery_owned_topology_t where
  "example_owned =
     \<lparr>ot_view = example_topology\<lparr>tp_validators := 0x200, tp_endpoints := 0x300,
        tp_validator_endpoints := 0x400, tp_leaders := 0x500\<rparr>,
      ot_validators = \<lparr>bl_ptr = 0x200, bl_data = [example_validator]\<rparr>,
      ot_endpoints = \<lparr>bl_ptr = 0x300, bl_data = [example_endpoint]\<rparr>,
      ot_validator_endpoints = \<lparr>bl_ptr = 0x400, bl_data = [example_association]\<rparr>,
      ot_leaders = \<lparr>bl_ptr = 0x500, bl_data = [example_leader]\<rparr>,
      ot_received_monotonic_ns = 1000000000\<rparr>"

definition installed_client :: "unit solana_delivery_client_t" where
  "installed_client = example_client\<lparr>cl_topology := example_owned, cl_has_topology := True\<rparr>"

definition installed_world :: "unit world" where
  "installed_world = example_world\<lparr>heap_live := [0x500, 0x400, 0x300, 0x200, 0x100],
     heap_supply := map (\<lambda>i. 0x600 + of_nat i * 0x100) [0..<5],
     clock_script := [(True, 2, 0), (True, 3, 0)]\<rparr>"

lemma installed_client_facts [simp]:
  "cl_topology installed_client = example_owned" "cl_has_topology installed_client"
  "system_client installed_client" "cl_request_head installed_client = []"
  "cl_next_request_id installed_client = 1" "cl_self installed_client = 0x100"
  "cl_event_queue installed_client = zero_queue" "owned_consistent example_owned"
  "cl_allocator installed_client = SYSTEM_ALLOCATOR"
  "cl_monotonic_time_fn installed_client = system_monotonic_time_ns"
  by (simp_all add: installed_client_def example_client_def fresh_client_def system_client_def
      owned_consistent_def example_owned_def example_topology_def example_association_def
      example_leader_def)

lemma installed_heap_exact: "heap_exact installed_client {#} installed_world"
  by (simp add: heap_exact_def client_ptrs_def topology_ptrs_def installed_world_def
      example_owned_def)

section \<open>Witnesses of the validation properties\<close>

definition unsupported_mem :: memory where
  "unsupported_mem =
     store_bytes example_mem 0x3000 (bytes_of_endpoint (example_endpoint\<lparr>ep_transport := 2\<rparr>))"

lemma unsupported_loads:
  "load_topology unsupported_mem 0x1000 = example_topology"
  "load_validator unsupported_mem 0x2000 = example_validator"
  "load_endpoint unsupported_mem 0x3000 = example_endpoint\<lparr>ep_transport := 2\<rparr>"
  using example_loads
  by (simp_all add: unsupported_mem_def endpoint.load_of_store_other endpoint.load_of_store
      disjoint_regions_def wf_endpoint_def example_endpoint_def)

lemma topology_validate_unsupported_witness:
  "solana_delivery_topology_validate unsupported_mem 0x1000 = SOLANA_DELIVERY_STATUS_UNSUPPORTED \<and>
   (\<exists>i < tp_endpoint_count (load_topology unsupported_mem 0x1000). endpoint_unsupported
    (load_endpoint unsupported_mem
      (array_element (tp_endpoints (load_topology unsupported_mem 0x1000)) i
       (tp_endpoint_stride (load_topology unsupported_mem 0x1000)))))"
proof -
  have "validate_endpoint (example_endpoint\<lparr>ep_transport := 2\<rparr>) 32 = 2"
    by (simp add: validate_endpoint_def example_endpoint_def element_size_iff bytes_are_zero_iff)
  then have "validate_endpoints unsupported_mem example_topology = Inl 2"
    by (simp add: validate_endpoints_def for_loop_eq_fold return_unless_ok_def array_element_def
        example_topology_def unsupported_loads)
  moreover have "validators_ok unsupported_mem example_topology" "layouts_ok example_topology"
    "tp_struct_size example_topology = 88" "tp_reserved0 example_topology = 0"
    using example_elements_ok
    by (simp_all add: validators_ok_def layouts_ok_def layout_ok_def example_topology_def
        array_element_def unsupported_loads)
  ultimately have "solana_delivery_topology_validate unsupported_mem 0x1000 =
      SOLANA_DELIVERY_STATUS_UNSUPPORTED"
    by (simp add: topology_validate_eq unsupported_loads)
  with topology_validate_unsupported [OF this] show ?thesis by blast
qed

text \<open>A byte outside the footprint, here between two of the objects, changes nothing.\<close>

lemma topology_validate_footprint_witness:
  "solana_delivery_topology_validate (example_mem(0x1F00 := 255)) 0x1000 =
   solana_delivery_topology_validate example_mem 0x1000 \<and> example_mem 0x1F00 \<noteq> 255"
proof -
  have "topology_footprint example_mem 0x1000 x \<Longrightarrow> example_mem x = (example_mem(0x1F00 := 255)) x"
    for x
    by (auto simp: topology_footprint_def Let_def in_region_def array_element_def
        example_topology_def word_less_1)
  moreover have "example_mem 0x1F00 \<noteq> 255" by (simp add: example_mem_def store_bytes_def)
  ultimately show ?thesis using topology_validate_footprint by blast
qed

end
