(* ===== verification/Monotonic_Clock.thy ===== *)
theory Monotonic_Clock
  imports Platform
begin

text \<open>
  What \<open>system_monotonic_time_ns\<close> (\<open>solana_delivery.c\<close> lines 652 to 682) makes of a
  reading of \<open>CLOCK_MONOTONIC\<close>: when it succeeds, which number it stores, and the one
  second at the end of the range in which the sum wraps.
\<close>

text \<open>A reading the operating system may deliver, in nanoseconds.\<close>

definition valid_reading :: "bool \<times> u64 \<times> u64 \<Rightarrow> bool" where
  "valid_reading r = (case r of (ok, tv_sec, tv_nsec) \<Rightarrow>
     ok \<and> 0 \<le> sint tv_sec \<and> 0 \<le> sint tv_nsec \<and> sint tv_nsec < 1000000000)"

definition reading_ns :: "bool \<times> u64 \<times> u64 \<Rightarrow> nat" where
  "reading_ns r = (case r of (ok, tv_sec, tv_nsec) \<Rightarrow> unat tv_sec * 1000000000 + unat tv_nsec)"

lemma sint_nonneg_unat:
  assumes "0 \<le> sint (x :: u64)" shows "sint x = int (unat x)"
proof -
  have "sint x < 2 ^ 63" using sint_lt [of x] by simp
  with assms have "take_bit 64 (sint x) = sint x" by (simp add: take_bit_int_eq_self_iff)
  then show ?thesis using uint_sint [of x] by simp
qed

lemma system_clock_eq:
  "system_monotonic_time_ns ctx True w =
     (let (r, w) = clock_gettime w in
      if valid_reading r \<and> unat (fst (snd r)) \<le> 18446744073
      then (SOLANA_DELIVERY_STATUS_OK,
            Some (fst (snd r) * 1000000000 + snd (snd r)), w)
      else (SOLANA_DELIVERY_STATUS_INTERNAL_ERROR, None, w))"
proof -
  have le: "s \<le> 18446744073 \<longleftrightarrow> unat s \<le> 18446744073" for s :: u64
    by (simp add: word_le_nat_alt)
  obtain ok s n w1 where r: "clock_gettime w = ((ok, s, n), w1)"
    by (cases "clock_gettime w") auto
  show ?thesis
    by (simp add: system_monotonic_time_ns_def valid_reading_def Let_def r le [symmetric])
      (auto simp: not_le not_less)
qed

lemma reading_sum:
  assumes "valid_reading (ok, s, n)" "unat s < 18446744073"
  shows "unat (s * 1000000000 + n) = reading_ns (ok, s, n)"
proof -
  have "int (unat n) < 1000000000" using assms(1) sint_nonneg_unat [of n]
    by (simp add: valid_reading_def)
  then have "unat s * 1000000000 + unat n < 18446744073709551616" using assms(2) by linarith
  then show ?thesis
    by (simp add: reading_ns_def unat_word_ariths unat_mult_lem)
qed

text \<open>C37: The system clock reads exactly: with a valid \<open>timespec\<close> below
  \<open>tv_sec = 18446744073\<close> the call succeeds and stores \<open>tv_sec * 10^9 + tv_nsec\<close> without
  wrapping; a failing \<open>clock_gettime\<close>, a negative field, \<open>tv_nsec\<close> of a second or more,
  or more seconds than fit is an internal error and nothing is stored. One reading is
  consumed and nothing else changes.\<close>

theorem system_clock_reading:
  assumes "clock_script w = r # rest"
  shows "(valid_reading r \<and> unat (fst (snd r)) < 18446744073 \<longrightarrow>
      (\<exists>t. system_monotonic_time_ns ctx True w =
             (SOLANA_DELIVERY_STATUS_OK, Some t, w\<lparr>clock_script := rest\<rparr>) \<and>
           unat t = reading_ns r)) \<and>
    (\<not> valid_reading r \<or> 18446744073 < unat (fst (snd r)) \<longrightarrow>
      system_monotonic_time_ns ctx True w =
        (SOLANA_DELIVERY_STATUS_INTERNAL_ERROR, None, w\<lparr>clock_script := rest\<rparr>))"
  using assms reading_sum
  by (cases r) (auto simp: system_clock_eq clock_gettime_def)

lemma system_clock_reading_witness:
  "\<exists>t w'. system_monotonic_time_ns NULL True
      \<lparr>mem = (\<lambda>_. 0), heap_live = [], heap_supply = [], heap_faults = 0,
       clock_script = [(True, 3, 5)], user = ()\<rparr> = (SOLANA_DELIVERY_STATUS_OK, Some t, w') \<and>
    unat t = 3000000005"
  using system_clock_reading [of "\<lparr>mem = (\<lambda>_. 0), heap_live = [], heap_supply = [], heap_faults = 0,
       clock_script = [(True, 3, 5)], user = ()\<rparr>" "(True, 3, 5)" "[]" NULL]
  by (auto simp: valid_reading_def reading_ns_def)

lemma reading_sum_mod:
  assumes "valid_reading (ok, s, n)"
  shows "unat (s * 1000000000 + n) = reading_ns (ok, s, n) mod 2 ^ 64" "unat n < 1000000000"
proof -
  have "int (unat n) < 1000000000" using assms sint_nonneg_unat [of n]
    by (simp add: valid_reading_def)
  then show "unat n < 1000000000" by linarith
  show "unat (s * 1000000000 + n) = reading_ns (ok, s, n) mod 2 ^ 64"
    by (simp add: reading_ns_def unat_word_ariths mod_simps)
qed

text \<open>C38: In the last second that passes the guard, \<open>tv_sec = 18446744073\<close>, the guard lets
  sums through that do not fit. On a valid reading of that second the call succeeds and
  stores it modulo \<open>2^64\<close>: exactly for \<open>tv_nsec\<close> above 709551615 it reports the reading less \<open>2^64\<close>, a
  time below 290448384 (less than a third of a second). The clock is then not monotone:
  a valid reading taken just before that does fit and is not itself below that bound is
  reported as a greater time than the later, wrapped one.\<close>

theorem system_clock_wraps:
  assumes "clock_script w = r1 # r2 # rest" "valid_reading r1" "valid_reading r2"
    and "unat (fst (snd r1)) \<le> 18446744073" "unat (fst (snd r2)) = 18446744073"
  shows "\<exists>t1 t2 w1 w2. system_monotonic_time_ns ctx True w = (SOLANA_DELIVERY_STATUS_OK, Some t1, w1) \<and>
     system_monotonic_time_ns ctx True w1 = (SOLANA_DELIVERY_STATUS_OK, Some t2, w2) \<and>
     unat t1 = reading_ns r1 mod 2 ^ 64 \<and>
     (if unat (snd (snd r2)) \<le> 709551615 then unat t2 = reading_ns r2
      else reading_ns r2 = unat t2 + 2 ^ 64 \<and> unat t2 < 290448384 \<and>
        (290448384 \<le> reading_ns r1 \<longrightarrow> reading_ns r1 < 2 ^ 64 \<longrightarrow> t2 < t1))"
proof -
  obtain s1 n1 s2 n2 where r: "r1 = (True, s1, n1)" "r2 = (True, s2, n2)"
    using assms(2,3) by (cases r1, cases r2) (auto simp: valid_reading_def)
  let ?t1 = "s1 * 1000000000 + n1" and ?t2 = "s2 * 1000000000 + n2"
  note m1 = reading_sum_mod [OF assms(2) [unfolded r]] and m2 = reading_sum_mod [OF assms(3) [unfolded r]]
  have sum: "reading_ns r2 = 18446744073000000000 + unat n2"
    using assms(5) by (simp add: r reading_ns_def)
  have run: "system_monotonic_time_ns ctx True w =
      (SOLANA_DELIVERY_STATUS_OK, Some ?t1, w\<lparr>clock_script := r2 # rest\<rparr>)"
    "system_monotonic_time_ns ctx True (w\<lparr>clock_script := r2 # rest\<rparr>) =
      (SOLANA_DELIVERY_STATUS_OK, Some ?t2, w\<lparr>clock_script := rest\<rparr>)"
    using assms by (simp_all add: system_clock_eq clock_gettime_def r)
  have t2: "unat ?t2 = (if unat n2 \<le> 709551615 then reading_ns r2 else reading_ns r2 - 2 ^ 64)"
    using m2 sum by (simp add: r mod_if)
  have "?t2 < ?t1" if "709551615 < unat n2" "290448384 \<le> reading_ns r1" "reading_ns r1 < 2 ^ 64"
    using that m1(1) m2(2) t2 sum by (simp add: word_less_nat_alt r)
  with run t2 m1(1) m2(2) sum show ?thesis
    by (intro exI [of _ ?t1] exI [of _ ?t2] exI conjI) (assumption | auto simp: r)+
qed

lemma system_clock_wraps_witness:
  "\<exists>t1 t2 w1 w2. system_monotonic_time_ns NULL True
      \<lparr>mem = (\<lambda>_. 0), heap_live = [], heap_supply = [], heap_faults = 0,
       clock_script = [(True, 18446744073, 0), (True, 18446744073, 999999999)], user = ()\<rparr> =
         (SOLANA_DELIVERY_STATUS_OK, Some t1, w1) \<and>
     system_monotonic_time_ns NULL True w1 = (SOLANA_DELIVERY_STATUS_OK, Some t2, w2) \<and>
     unat t1 = 18446744073000000000 \<and> unat t2 = 290448383 \<and> t2 < t1"
  using system_clock_wraps [of "\<lparr>mem = (\<lambda>_. 0), heap_live = [], heap_supply = [], heap_faults = 0,
       clock_script = [(True, 18446744073, 0), (True, 18446744073, 999999999)], user = ()\<rparr>"
      "(True, 18446744073, 0)" "(True, 18446744073, 999999999)" "[]" NULL]
  by (auto simp: valid_reading_def reading_ns_def)

end
