(* ===== verification/Topology_Install.thy ===== *)
theory Topology_Install
  imports Example_Data Monotonic_Clock
begin

text \<open>
  Ownership of topology, \<open>solana_delivery.c\<close> lines 408 to 650 and 768 to 820:
  releasing an owned topology, cloning a strided caller array, building the owned
  copy with its failure path, and \<open>solana_delivery_client_install_topology\<close>. The
  lemmas of the context block account for every heap block under any allocator that
  meets the contract; the properties state them for the system allocator.
\<close>

section \<open>The code\<close>

definition owned_topology_release ::
  "'u solana_delivery_allocator_t option \<Rightarrow> solana_delivery_owned_topology_t option \<Rightarrow>
   'u world \<Rightarrow> solana_delivery_owned_topology_t option \<times> 'u world" where
  "owned_topology_release allocator owned w =
     (case owned of None \<Rightarrow> (None, w)
      | Some ow \<Rightarrow>
        if \<not> allocator_is_valid allocator then (Some ow, w)
        else
          let a = the allocator;
              w = call_free a (bl_ptr (ot_validators ow)) w;
              w = call_free a (bl_ptr (ot_endpoints ow)) w;
              w = call_free a (bl_ptr (ot_validator_endpoints ow)) w;
              w = call_free a (bl_ptr (ot_leaders ow)) w
          in (Some zero_owned, w))"

text \<open>
  \<open>clone_array\<close>: the copy starts as the zeroed array \<open>calloc\<close> returns, and the
  loop copies the first \<open>element_size\<close> bytes of each strided source element. An out
  pointer is its non-nullness; its result is the value written, None if it was left alone.
\<close>

definition clone_array ::
  "'u solana_delivery_allocator_t option \<Rightarrow> addr \<Rightarrow> u32 \<Rightarrow> u32 \<Rightarrow> usize \<Rightarrow> bool \<Rightarrow> 'u world \<Rightarrow>
   solana_delivery_status_t \<times> u8 list block option \<times> 'u world" where
  "clone_array allocator source cnt source_stride element_size out_array w =
     (if \<not> allocator_is_valid allocator \<or> \<not> out_array \<or> element_size = 0
      then (SOLANA_DELIVERY_STATUS_INTERNAL_ERROR, None, w)
      else if cnt = 0 then (SOLANA_DELIVERY_STATUS_OK, Some null_block, w)
      else if SIZE_MAX div element_size < ucast cnt
      then (SOLANA_DELIVERY_STATUS_RESOURCE_EXHAUSTED, Some null_block, w)
      else
        let (copy, w) = call_calloc (the allocator) (ucast cnt) element_size w
        in if copy = NULL then (SOLANA_DELIVERY_STATUS_RESOURCE_EXHAUSTED, Some null_block, w)
           else
             let zeroed = replicate (unat cnt) (replicate (unat element_size) 0)
             in case for_loop cnt
                  (\<lambda>i array. Inr (array[unat i :=
                     load_bytes (mem w) (array_element source i source_stride)
                       (unat element_size)])) zeroed
                of Inl (r :: unit) \<Rightarrow> (SOLANA_DELIVERY_STATUS_OK, Some null_block, w)
                 | Inr array \<Rightarrow>
                     (SOLANA_DELIVERY_STATUS_OK, Some \<lparr>bl_ptr = copy, bl_data = array\<rparr>, w))"

text \<open>One loop of \<open>normalize_owned_struct_sizes\<close>: a field update on each element.\<close>

definition for_each_element :: "u32 \<Rightarrow> ('a \<Rightarrow> 'a) \<Rightarrow> 'a block \<Rightarrow> 'a block" where
  "for_each_element cnt upd b =
     (case for_loop cnt (\<lambda>i xs. Inr (xs[unat i := upd (xs ! unat i)])) (bl_data b)
      of Inl (r :: unit) \<Rightarrow> b | Inr xs \<Rightarrow> b\<lparr>bl_data := xs\<rparr>)"

definition normalize_owned_struct_sizes ::
  "solana_delivery_owned_topology_t \<Rightarrow> solana_delivery_owned_topology_t" where
  "normalize_owned_struct_sizes owned =
     owned\<lparr>
       ot_validators := for_each_element (tp_validator_count (ot_view owned))
         (\<lambda>v. v\<lparr>va_struct_size := of_nat (c_sizeof validator_layout)\<rparr>) (ot_validators owned),
       ot_endpoints := for_each_element (tp_endpoint_count (ot_view owned))
         (\<lambda>e. e\<lparr>ep_struct_size := of_nat (c_sizeof endpoint_layout)\<rparr>) (ot_endpoints owned),
       ot_validator_endpoints := for_each_element (tp_validator_endpoint_count (ot_view owned))
         (\<lambda>a. a\<lparr>ve_struct_size := of_nat (c_sizeof validator_endpoint_layout)\<rparr>)
         (ot_validator_endpoints owned),
       ot_leaders := for_each_element (tp_leader_count (ot_view owned))
         (\<lambda>l. l\<lparr>ld_struct_size := of_nat (c_sizeof leader_layout)\<rparr>) (ot_leaders owned)\<rparr>"

text \<open>The assignments to \<open>owned->view\<close> after the four copies (lines 614 to 641).\<close>

definition fill_owned_view ::
  "solana_delivery_topology_t \<Rightarrow> solana_delivery_owned_topology_t \<Rightarrow>
   solana_delivery_owned_topology_t" where
  "fill_owned_view source owned =
     owned\<lparr>ot_view := (ot_view owned)\<lparr>
       tp_struct_size := of_nat (c_sizeof topology_layout),
       tp_generation := tp_generation source,
       tp_current_slot := tp_current_slot source,
       tp_validators := bl_ptr (ot_validators owned),
       tp_validator_count := tp_validator_count source,
       tp_validator_stride := of_nat (c_sizeof validator_layout),
       tp_endpoints := bl_ptr (ot_endpoints owned),
       tp_endpoint_count := tp_endpoint_count source,
       tp_endpoint_stride := of_nat (c_sizeof endpoint_layout),
       tp_validator_endpoints := bl_ptr (ot_validator_endpoints owned),
       tp_validator_endpoint_count := tp_validator_endpoint_count source,
       tp_validator_endpoint_stride := of_nat (c_sizeof validator_endpoint_layout),
       tp_leaders := bl_ptr (ot_leaders owned),
       tp_leader_count := tp_leader_count source,
       tp_leader_stride := of_nat (c_sizeof leader_layout)\<rparr>\<rparr>"

text \<open>The label \<open>fail\<close> of \<open>build_owned_topology\<close>.\<close>

definition build_fail ::
  "'u solana_delivery_allocator_t option \<Rightarrow> solana_delivery_status_t \<Rightarrow>
   solana_delivery_owned_topology_t \<Rightarrow> 'u world \<Rightarrow>
   solana_delivery_status_t \<times> solana_delivery_owned_topology_t option \<times> 'u world" where
  "build_fail allocator status owned w =
     (let (owned, w) = owned_topology_release allocator (Some owned) w
      in (status, owned, w))"

definition build_owned_topology ::
  "'u solana_delivery_allocator_t option \<Rightarrow> addr \<Rightarrow> bool \<Rightarrow> 'u world \<Rightarrow>
   solana_delivery_status_t \<times> solana_delivery_owned_topology_t option \<times> 'u world" where
  "build_owned_topology allocator source owned w =
     (if \<not> allocator_is_valid allocator \<or> source = NULL \<or> \<not> owned
      then (SOLANA_DELIVERY_STATUS_INTERNAL_ERROR, None, w)
      else
        let owned = zero_owned; s = load_topology (mem w) source;
            (status, copy, w) = clone_array allocator (tp_validators s) (tp_validator_count s)
              (tp_validator_stride s) (of_nat (c_sizeof validator_layout)) True w
        in if status \<noteq> SOLANA_DELIVERY_STATUS_OK then build_fail allocator status owned w
        else
        let owned = owned\<lparr>ot_validators := map_block validator_of_bytes (the copy)\<rparr>;
            s = load_topology (mem w) source;
            (status, copy, w) = clone_array allocator (tp_endpoints s) (tp_endpoint_count s)
              (tp_endpoint_stride s) (of_nat (c_sizeof endpoint_layout)) True w
        in if status \<noteq> SOLANA_DELIVERY_STATUS_OK then build_fail allocator status owned w
        else
        let owned = owned\<lparr>ot_endpoints := map_block endpoint_of_bytes (the copy)\<rparr>;
            s = load_topology (mem w) source;
            (status, copy, w) = clone_array allocator (tp_validator_endpoints s)
              (tp_validator_endpoint_count s) (tp_validator_endpoint_stride s)
              (of_nat (c_sizeof validator_endpoint_layout)) True w
        in if status \<noteq> SOLANA_DELIVERY_STATUS_OK then build_fail allocator status owned w
        else
        let owned = owned\<lparr>ot_validator_endpoints := map_block validator_endpoint_of_bytes (the copy)\<rparr>;
            s = load_topology (mem w) source;
            (status, copy, w) = clone_array allocator (tp_leaders s) (tp_leader_count s)
              (tp_leader_stride s) (of_nat (c_sizeof leader_layout)) True w
        in if status \<noteq> SOLANA_DELIVERY_STATUS_OK then build_fail allocator status owned w
        else
        let owned = owned\<lparr>ot_leaders := map_block leader_of_bytes (the copy)\<rparr>;
            owned = fill_owned_view (load_topology (mem w) source) owned
        in (SOLANA_DELIVERY_STATUS_OK, Some (normalize_owned_struct_sizes owned), w))"

definition solana_delivery_client_install_topology ::
  "'u solana_delivery_client_t option \<Rightarrow> addr \<Rightarrow> 'u world \<Rightarrow>
   solana_delivery_status_t \<times> 'u solana_delivery_client_t option \<times> 'u world" where
  "solana_delivery_client_install_topology client topology w =
     (case client of None \<Rightarrow> (SOLANA_DELIVERY_STATUS_INVALID_ARGUMENT, None, w)
      | Some c \<Rightarrow>
        let status = solana_delivery_topology_validate (mem w) topology
        in if status \<noteq> SOLANA_DELIVERY_STATUS_OK then (status, Some c, w)
        else if cl_has_topology c \<and>
          tp_generation (load_topology (mem w) topology) \<le> tp_generation (ot_view (cl_topology c))
        then (SOLANA_DELIVERY_STATUS_TOPOLOGY_STALE, Some c, w)
        else
        let (status, replacement, w) = build_owned_topology (Some (cl_allocator c)) topology True w
        in if status \<noteq> SOLANA_DELIVERY_STATUS_OK then (status, Some c, w)
        else
        let (status, t, w) = cl_monotonic_time_fn c (cl_monotonic_time_context c) True w;
            replacement = (the replacement)\<lparr>ot_received_monotonic_ns := written t\<rparr>
        in if status \<noteq> SOLANA_DELIVERY_STATUS_OK then
             let (_, w) = owned_topology_release (Some (cl_allocator c)) (Some replacement) w
             in (status, Some c, w)
        else
        let (_, w) = owned_topology_release (Some (cl_allocator c)) (Some (cl_topology c)) w
        in (SOLANA_DELIVERY_STATUS_OK,
            Some (c\<lparr>cl_topology := replacement, cl_has_topology := True\<rparr>), w))"

section \<open>What the loops compute\<close>

text \<open>The known prefixes of the elements of a strided caller array.\<close>

definition array_prefixes :: "memory \<Rightarrow> addr \<Rightarrow> u32 \<Rightarrow> u32 \<Rightarrow> nat \<Rightarrow> u8 list list" where
  "array_prefixes m base cnt stride k =
     map (\<lambda>i. load_bytes m (array_element base (of_nat i) stride) k) [0..<unat cnt]"

lemma length_array_prefixes [simp]: "length (array_prefixes m base cnt stride k) = unat cnt"
  by (simp add: array_prefixes_def)

lemma for_each_element_map [loop]:
  assumes "length (bl_data b) = unat cnt"
  shows "for_each_element cnt upd b = map_block upd b"
proof -
  have "(for_loop cnt (\<lambda>i xs. Inr (xs[unat i := upd (xs ! unat i)])) (bl_data b) ::
      unit + 'a list) = Inr (map (\<lambda>i. upd (bl_data b ! i)) [0..<unat cnt])"
    by (rule for_loop_update [OF assms])
  moreover have "map (\<lambda>i. upd (bl_data b ! i)) [0..<unat cnt] = map upd (bl_data b)"
    using assms by (simp add: list_eq_iff_nth_eq)
  ultimately show ?thesis
    by (cases b) (simp add: for_each_element_def map_block_def)
qed

lemma clone_loop [loop]:
  "(for_loop cnt (\<lambda>i array. Inr (array[unat i := load_bytes m (array_element src i stride) k]))
      (replicate (unat cnt) z) :: unit + u8 list list) = Inr (array_prefixes m src cnt stride k)"
  using for_loop_update [of "replicate (unat cnt) z" cnt
      "\<lambda>i _. load_bytes m (array_element src i stride) k"]
  by (simp add: array_prefixes_def)

text \<open>With 32-bit counts and small elements the overflow guard of \<open>clone_array\<close> never fires.\<close>

lemma clone_count_fits:
  "0 < k \<Longrightarrow> k \<le> 64 \<Longrightarrow> \<not> SIZE_MAX div (of_nat k) < (ucast (cnt :: u32) :: usize)"
proof -
  assume k: "0 < k" "k \<le> 64"
  have "18446744073709551615 div 64 \<le> 18446744073709551615 div k"
    using k by (intro div_le_mono2) auto
  moreover have "unat (of_nat k :: usize) = k" using k by (simp add: unat_of_nat_small)
  ultimately show ?thesis
    using unat_lt_32 [of cnt]
    by (simp add: word_less_nat_alt unat_div_distrib not_less del: unat_lt_32)
qed

lemma clone_array_eq:
  assumes "allocator_is_valid (Some A)" "0 < k" "k \<le> 64"
    and "\<And>n s w p w'. call_calloc A n s w = (p, w') \<Longrightarrow> mem w' = mem w"
  shows "clone_array (Some A) src cnt stride (of_nat k) True w =
    (if cnt = 0 then (0, Some null_block, w)
     else let (p, w') = call_calloc A (ucast cnt) (of_nat k) w
          in if p = NULL then (3, Some null_block, w')
             else (0, Some \<lparr>bl_ptr = p, bl_data = array_prefixes (mem w) src cnt stride k\<rparr>, w'))"
proof -
  have u: "unat (of_nat k :: usize) = k" using assms by (simp add: unat_of_nat_small)
  then have "(of_nat k :: usize) \<noteq> 0" using assms(2) by (metis less_irrefl unat_0)
  with assms u show ?thesis
    by (auto simp: clone_array_def clone_count_fits clone_loop split: prod.splits)
qed

lemma topology_ptrs_simps [simp]:
  "topology_ptrs (owned\<lparr>ot_received_monotonic_ns := t\<rparr>) = topology_ptrs owned"
  by (simp add: topology_ptrs_def)

text \<open>
  What an owned topology holds after a successful build from the view \<open>s\<close>: the
  caller's generation, slot and counts, the known prefix of every record with its
  \<open>struct_size\<close> set to the native one, native strides and its own pointers.
\<close>

definition copied_topology ::
  "memory \<Rightarrow> solana_delivery_topology_t \<Rightarrow> solana_delivery_owned_topology_t \<Rightarrow> bool" where
  "copied_topology m s ow \<longleftrightarrow>
     ot_view ow =
       \<lparr>tp_struct_size = 88, tp_reserved0 = 0,
        tp_generation = tp_generation s, tp_current_slot = tp_current_slot s,
        tp_validators = bl_ptr (ot_validators ow), tp_validator_count = tp_validator_count s,
        tp_validator_stride = 48,
        tp_endpoints = bl_ptr (ot_endpoints ow), tp_endpoint_count = tp_endpoint_count s,
        tp_endpoint_stride = 32,
        tp_validator_endpoints = bl_ptr (ot_validator_endpoints ow),
        tp_validator_endpoint_count = tp_validator_endpoint_count s,
        tp_validator_endpoint_stride = 16,
        tp_leaders = bl_ptr (ot_leaders ow), tp_leader_count = tp_leader_count s,
        tp_leader_stride = 32\<rparr> \<and>
     bl_data (ot_validators ow) =
       map (\<lambda>bs. (validator_of_bytes bs)\<lparr>va_struct_size := 48\<rparr>)
         (array_prefixes m (tp_validators s) (tp_validator_count s) (tp_validator_stride s) 48) \<and>
     bl_data (ot_endpoints ow) =
       map (\<lambda>bs. (endpoint_of_bytes bs)\<lparr>ep_struct_size := 32\<rparr>)
         (array_prefixes m (tp_endpoints s) (tp_endpoint_count s) (tp_endpoint_stride s) 32) \<and>
     bl_data (ot_validator_endpoints ow) =
       map (\<lambda>bs. (validator_endpoint_of_bytes bs)\<lparr>ve_struct_size := 16\<rparr>)
         (array_prefixes m (tp_validator_endpoints s) (tp_validator_endpoint_count s)
            (tp_validator_endpoint_stride s) 16) \<and>
     bl_data (ot_leaders ow) =
       map (\<lambda>bs. (leader_of_bytes bs)\<lparr>ld_struct_size := 32\<rparr>)
         (array_prefixes m (tp_leaders s) (tp_leader_count s) (tp_leader_stride s) 32)"

lemma zero_view_reserved: "tp_reserved0 zero_view = 0"
  by (simp add: zero_view_def topology_of_bytes_def field_def numeral_eq_Suc)

lemma normalize_fill_copied:
  assumes "bl_data v = array_prefixes m (tp_validators s) (tp_validator_count s)
      (tp_validator_stride s) 48"
    and "bl_data e = array_prefixes m (tp_endpoints s) (tp_endpoint_count s)
      (tp_endpoint_stride s) 32"
    and "bl_data a = array_prefixes m (tp_validator_endpoints s) (tp_validator_endpoint_count s)
      (tp_validator_endpoint_stride s) 16"
    and "bl_data l = array_prefixes m (tp_leaders s) (tp_leader_count s) (tp_leader_stride s) 32"
  defines "ow \<equiv> zero_owned\<lparr>ot_validators := map_block validator_of_bytes v,
      ot_endpoints := map_block endpoint_of_bytes e,
      ot_validator_endpoints := map_block validator_endpoint_of_bytes a,
      ot_leaders := map_block leader_of_bytes l\<rparr>"
  shows "copied_topology m s (normalize_owned_struct_sizes (fill_owned_view s ow))"
    and "topology_ptrs (normalize_owned_struct_sizes (fill_owned_view s ow)) =
      [bl_ptr v, bl_ptr e, bl_ptr a, bl_ptr l]"
  using assms
  by (simp_all add: copied_topology_def normalize_owned_struct_sizes_def fill_owned_view_def
      for_each_element_map topology_ptrs_def zero_owned_def zero_view_reserved)

context client_platform
begin

lemma owned_topology_release_eq:
  "owned_topology_release (Some A) (Some owned) w =
     (Some zero_owned, fold (call_free A) (topology_ptrs owned) w)"
  using valid by (simp add: owned_topology_release_def topology_ptrs_def)

lemma clone_array_accounts:
  assumes "clone_array (Some A) src cnt stride (of_nat k) True w = (st, b, w')" "0 < k" "k \<le> 64"
  shows "live w' = live w + owns [bl_ptr (the b)]" "mem w' = mem w" "faults w' = faults w"
    "st = 0 \<or> st = 3 \<and> b = Some null_block"
    "st = 0 \<Longrightarrow> bl_data (the b) = array_prefixes (mem w) src cnt stride k"
proof -
  have "live w' = live w + owns [bl_ptr (the b)] \<and> mem w' = mem w \<and> faults w' = faults w \<and>
    (st = 0 \<or> st = 3 \<and> b = Some null_block) \<and>
    (st = 0 \<longrightarrow> bl_data (the b) = array_prefixes (mem w) src cnt stride k)"
  proof (cases "cnt = 0")
    case True
    with assms(1) show ?thesis
      by (auto simp: clone_array_eq [OF valid assms(2,3) calloc_frame [THEN conjunct1]]
          array_prefixes_def)
  next
    case False
    obtain p w1 where c: "call_calloc A (ucast cnt) (of_nat k) w = (p, w1)" by force
    from calloc_live [OF c] False assms(1) show ?thesis
      by (auto simp: clone_array_eq [OF valid assms(2,3) calloc_frame [THEN conjunct1]] c
          split: if_splits)
  qed
  then show "live w' = live w + owns [bl_ptr (the b)]" "mem w' = mem w" "faults w' = faults w"
    "st = 0 \<or> st = 3 \<and> b = Some null_block"
    "st = 0 \<Longrightarrow> bl_data (the b) = array_prefixes (mem w) src cnt stride k" by auto
qed

lemma build_fail_accounts:
  assumes "build_fail (Some A) st ow w = (st', ow', w')"
    and "live w = L + owns (topology_ptrs ow)"
  shows "st' = st" "ow' = Some zero_owned" "live w' = L" "mem w' = mem w" "faults w' = faults w"
  using assms free_list [of "topology_ptrs ow" w]
  by (auto simp: build_fail_def owned_topology_release_eq)

lemma build_accounts:
  assumes "build_owned_topology (Some A) source True w = (st, ow, w')" "source \<noteq> NULL"
  shows "live w' = live w + owns (topology_ptrs (the ow)) \<and> mem w' = mem w \<and> faults w' = faults w \<and>
    (st = 0 \<and> copied_topology (mem w) (load_topology (mem w) source) (the ow) \<or>
     st = 3 \<and> ow = Some zero_owned)"
proof -
  let ?s = "load_topology (mem w) source"
  obtain s1 v w1 where c1: "clone_array (Some A) (tp_validators ?s) (tp_validator_count ?s)
      (tp_validator_stride ?s) 48 True w = (s1, v, w1)" by (cases "clone_array (Some A)
      (tp_validators ?s) (tp_validator_count ?s) (tp_validator_stride ?s) 48 True w")
  note a1 = clone_array_accounts [where k = 48, simplified, OF c1]
  obtain s2 e w2 where c2: "clone_array (Some A) (tp_endpoints ?s) (tp_endpoint_count ?s)
      (tp_endpoint_stride ?s) 32 True w1 = (s2, e, w2)" by (cases "clone_array (Some A)
      (tp_endpoints ?s) (tp_endpoint_count ?s) (tp_endpoint_stride ?s) 32 True w1")
  note a2 = clone_array_accounts [where k = 32, simplified, OF c2]
  obtain s3 a w3 where c3: "clone_array (Some A) (tp_validator_endpoints ?s)
      (tp_validator_endpoint_count ?s) (tp_validator_endpoint_stride ?s) 16 True w2 = (s3, a, w3)"
    by (cases "clone_array (Some A) (tp_validator_endpoints ?s)
      (tp_validator_endpoint_count ?s) (tp_validator_endpoint_stride ?s) 16 True w2")
  note a3 = clone_array_accounts [where k = 16, simplified, OF c3]
  obtain s4 l w4 where c4: "clone_array (Some A) (tp_leaders ?s) (tp_leader_count ?s)
      (tp_leader_stride ?s) 32 True w3 = (s4, l, w4)" by (cases "clone_array (Some A)
      (tp_leaders ?s) (tp_leader_count ?s) (tp_leader_stride ?s) 32 True w3")
  note a4 = clone_array_accounts [where k = 32, simplified, OF c4]
  note run = assms(1) and steps = build_owned_topology_def Let_def valid assms(2)
    c1 c2 c3 c4 a1(2) a2(2) a3(2) a4(2)
  consider "s1 \<noteq> 0" | "s1 = 0" "s2 \<noteq> 0" | "s1 = 0" "s2 = 0" "s3 \<noteq> 0"
    | "s1 = 0" "s2 = 0" "s3 = 0" "s4 \<noteq> 0" | "s1 = 0" "s2 = 0" "s3 = 0" "s4 = 0" by auto
  then show ?thesis
  proof cases
    case 1
    with run have "build_fail (Some A) s1 zero_owned w1 = (st, ow, w')" by (simp add: steps)
    from build_fail_accounts [OF this, of "live w"] 1 a1 show ?thesis by auto
  next
    case 2
    with run have "build_fail (Some A) s2
      (zero_owned\<lparr>ot_validators := map_block validator_of_bytes (the v)\<rparr>) w2 = (st, ow, w')" by (simp add: steps)
    from build_fail_accounts [OF this, of "live w"] 2 a1 a2 show ?thesis
      by (auto simp: topology_ptrs_def zero_owned_def)
  next
    case 3
    with run have "build_fail (Some A) s3
      (zero_owned\<lparr>ot_validators := map_block validator_of_bytes (the v),
         ot_endpoints := map_block endpoint_of_bytes (the e)\<rparr>) w3 = (st, ow, w')" by (simp add: steps)
    from build_fail_accounts [OF this, of "live w"] 3 a1 a2 a3 show ?thesis
      by (auto simp: topology_ptrs_def zero_owned_def)
  next
    case 4
    with run have "build_fail (Some A) s4
      (zero_owned\<lparr>ot_validators := map_block validator_of_bytes (the v),
         ot_endpoints := map_block endpoint_of_bytes (the e),
         ot_validator_endpoints := map_block validator_endpoint_of_bytes (the a)\<rparr>) w4 = (st, ow, w')"
      by (simp add: steps)
    from build_fail_accounts [OF this, of "live w"] 4 a1 a2 a3 a4 show ?thesis
      by (auto simp: topology_ptrs_def zero_owned_def)
  next
    case 5
    note filled = normalize_fill_copied [of "the v" "mem w" ?s "the e" "the a" "the l"]
    have "copied_topology (mem w) ?s (the ow)"
      "topology_ptrs (the ow) = [bl_ptr (the v), bl_ptr (the e), bl_ptr (the a), bl_ptr (the l)]"
      "st = 0" "w' = w4"
      using filled run 5 a1 a2 a3 a4 by (auto simp: steps)
    with 5 a1 a2 a3 a4 show ?thesis by auto
  qed
qed

text \<open>One installation, under any allocator and clock that meet the contract.\<close>

lemma install_accounts:
  assumes run: "solana_delivery_client_install_topology (Some c) p w = (st, c', w')"
    and A: "cl_allocator c = A" and T: "cl_monotonic_time_fn c = T"
    and own: "owns (topology_ptrs (cl_topology c)) \<subseteq># live w"
  shows "mem w' = mem w \<and> faults w' = faults w \<and>
    (st \<noteq> 0 \<and> c' = Some c \<and> live w' = live w \<or>
     st = 0 \<and> topology_ok (mem w) p \<and>
     (cl_has_topology c \<longrightarrow>
        tp_generation (ot_view (cl_topology c)) < tp_generation (load_topology (mem w) p)) \<and>
     (\<exists>ow w1 w2 t. c' = Some (c\<lparr>cl_topology := ow, cl_has_topology := True\<rparr>) \<and>
        copied_topology (mem w) (load_topology (mem w) p) ow \<and>
        T (cl_monotonic_time_context c) True w1 = (0, t, w2) \<and>
        ot_received_monotonic_ns ow = written t \<and>
        live w' + owns (topology_ptrs (cl_topology c)) = live w + owns (topology_ptrs ow)))"
proof (cases "solana_delivery_topology_validate (mem w) p = 0 \<and>
    \<not> (cl_has_topology c \<and>
       tp_generation (load_topology (mem w) p) \<le> tp_generation (ot_view (cl_topology c)))")
  case False
  with run show ?thesis
    by (auto simp: solana_delivery_client_install_topology_def Let_def split: if_splits)
next
  case True
  then have ok: "topology_ok (mem w) p" by (simp add: validate_topology_ok)
  then have "p \<noteq> NULL" by (simp add: topology_ok_def)
  obtain s1 ow w1 where b: "build_owned_topology (Some A) p True w = (s1, ow, w1)"
    by (cases "build_owned_topology (Some A) p True w")
  obtain s2 t w2 where clk: "T (cl_monotonic_time_context c) True w1 = (s2, t, w2)"
    by (cases "T (cl_monotonic_time_context c) True w1")
  note ba = build_accounts [OF b \<open>p \<noteq> NULL\<close>] and ca = clock_frame [OF clk]
  let ?new = "(the ow)\<lparr>ot_received_monotonic_ns := written t\<rparr>"
  note steps = solana_delivery_client_install_topology_def Let_def A T b clk owned_topology_release_eq
  have copied: "copied_topology (mem w) s ?new = copied_topology (mem w) s (the ow)" for s
    by (simp add: copied_topology_def)
  consider "s1 \<noteq> 0" | "s1 = 0" "s2 \<noteq> 0" | "s1 = 0" "s2 = 0" by auto
  then show ?thesis
  proof cases
    case 1
    with run True have "st = s1" "c' = Some c" "w' = w1" by (auto simp: steps)
    with 1 ba show ?thesis by auto
  next
    case 2
    with run True have "st = s2" "c' = Some c" "w' = fold (call_free A) (topology_ptrs (the ow)) w2"
      by (auto simp: steps)
    with 2 ba ca free_list [of "topology_ptrs (the ow)" w2] show ?thesis by auto
  next
    case 3
    with run True have r: "st = 0"
      "c' = Some (c\<lparr>cl_topology := ?new, cl_has_topology := True\<rparr>)"
      "w' = fold (call_free A) (topology_ptrs (cl_topology c)) w2"
      by (auto simp: steps)
    have "owns (topology_ptrs (cl_topology c)) \<subseteq># live w2"
      using own ba ca by (simp add: subset_mset.add_increasing2)
    from free_list [OF this] this have "live w' + owns (topology_ptrs (cl_topology c)) = live w2"
      "mem w' = mem w2" "faults w' = faults w2" using r(3) by simp_all
    with 3 r ba ca ok True clk copied show ?thesis
      by (intro conjI disjI2 exI [of _ ?new] exI [of _ w1] exI [of _ w2] exI [of _ t])
        (auto simp: not_le)
  qed
qed

end

section \<open>Properties of installation\<close>

lemma nth_array_prefixes:
  "i < unat cnt \<Longrightarrow>
     array_prefixes m base cnt stride k ! i = load_bytes m (array_element base (of_nat i) stride) k"
  by (simp add: array_prefixes_def)

lemma set_array_prefixes:
  "set (array_prefixes m base cnt stride k) =
     (\<lambda>i. load_bytes m (array_element base i stride) k) ` {i. i < cnt}"
proof -
  have "set (array_prefixes m base cnt stride k) =
    (\<lambda>i. load_bytes m (array_element base i stride) k) ` set (map of_nat [0..<unat cnt])"
    by (auto simp: array_prefixes_def)
  then show ?thesis by (simp only: set_index_list)
qed

lemma copied_consistent:
  assumes "topology_ok m p" "copied_topology m (load_topology m p) ow"
  shows "owned_consistent ow"
  using assms
  by (auto simp: owned_consistent_def copied_topology_def set_array_prefixes topology_ok_def
      Let_def associations_ok_def association_ok_def leaders_ok_def leader_ok_def)

lemma client_ptrs_topology:
  "owns (client_ptrs (c\<lparr>cl_topology := ow, cl_has_topology := h\<rparr>)) + owns (topology_ptrs (cl_topology c)) =
   owns (client_ptrs c) + owns (topology_ptrs ow)"
  by (simp add: client_ptrs_def)

lemma heap_exact_topology:
  "heap_exact c F w \<Longrightarrow> owns (topology_ptrs (cl_topology c)) \<subseteq># libc_live w"
  by (simp add: heap_exact_def client_ptrs_def)

lemma system_install:
  fixes c :: "'u solana_delivery_client_t"
  assumes "solana_delivery_client_install_topology (Some c) p w = (st, c', w')"
    and "system_client c" "heap_exact c F w"
  shows "mem w' = mem w \<and> heap_faults w' = heap_faults w \<and>
    (st \<noteq> 0 \<and> c' = Some c \<and> libc_live w' = libc_live w \<or>
     st = 0 \<and> topology_ok (mem w) p \<and>
     (cl_has_topology c \<longrightarrow>
        tp_generation (ot_view (cl_topology c)) < tp_generation (load_topology (mem w) p)) \<and>
     (\<exists>ow (w1 :: 'u world) w2 t. c' = Some (c\<lparr>cl_topology := ow, cl_has_topology := True\<rparr>) \<and>
        copied_topology (mem w) (load_topology (mem w) p) ow \<and>
        system_monotonic_time_ns (cl_monotonic_time_context c) True w1 = (0, t, w2) \<and>
        ot_received_monotonic_ns ow = written t \<and>
        libc_live w' + owns (topology_ptrs (cl_topology c)) =
          libc_live w + owns (topology_ptrs ow)))"
  by (rule sys.install_accounts [OF assms(1) _ _ heap_exact_topology [OF assms(3)]])
    (use assms(2) in \<open>auto simp: system_client_def\<close>)

lemma system_install_heap:
  assumes "solana_delivery_client_install_topology (Some c) p w = (st, c', w')"
    and "system_client c" "heap_exact c F w"
  shows "heap_exact (the c') F w' \<and> heap_faults w' = heap_faults w"
proof (cases "st = 0")
  case False
  with system_install [OF assms] assms(3) show ?thesis by (auto simp: heap_exact_def)
next
  case True
  with system_install [OF assms] obtain ow where
    c': "c' = Some (c\<lparr>cl_topology := ow, cl_has_topology := True\<rparr>)" and f: "heap_faults w' = heap_faults w"
    and l: "libc_live w' + owns (topology_ptrs (cl_topology c)) = libc_live w + owns (topology_ptrs ow)"
    by auto
  have "libc_live w' + owns (topology_ptrs (cl_topology c)) =
    owns (client_ptrs (the c')) + F + owns (topology_ptrs (cl_topology c))"
    using l assms(3) client_ptrs_topology [where c = c and ow = ow and h = True]
    by (simp add: heap_exact_def c' ac_simps del: owns_simps)
  with f show ?thesis by (simp add: heap_exact_def)
qed

lemma system_install_user:
  assumes "solana_delivery_client_install_topology (Some c) p w = (st, c', w')"
    and "system_client c" "heap_exact c F w"
  shows "user w' = user w"
  using caller.install_accounts [OF assms(1) _ _ heap_exact_topology [OF assms(3)]] assms(2)
  by (auto simp: system_client_def)

text \<open>C7: A successful installation replaces the client's topology by a copy of the
  caller's: same generation, slot and counts, every record equal to the known prefix
  of the caller's record at its stride with only \<open>struct_size\<close> normalised, native
  strides and library-owned pointers; the copy is consistent (array lengths match the
  counts and all indices are in range), nothing else of the client changes, and the
  caller's memory is untouched.\<close>

theorem install_success_copies:
  assumes "solana_delivery_client_install_topology (Some c) p w = (SOLANA_DELIVERY_STATUS_OK, c', w')"
    and "system_client c" "heap_exact c F w"
  shows "\<exists>ow. c' = Some (c\<lparr>cl_topology := ow, cl_has_topology := True\<rparr>) \<and>
    copied_topology (mem w) (load_topology (mem w) p) ow \<and> owned_consistent ow \<and>
    topology_ok (mem w) p \<and> mem w' = mem w"
  using system_install [OF assms] by (auto dest: copied_consistent)

text \<open>C8: A failing installation, whatever fails (validation, a stale generation, any
  of the four allocations, the clock), leaves the client exactly as it was, returns
  every block it had allocated, and writes nothing to the caller's memory.\<close>

theorem install_failure_atomic:
  assumes "solana_delivery_client_install_topology (Some c) p w = (st, c', w')"
    and "st \<noteq> SOLANA_DELIVERY_STATUS_OK" and "system_client c" "heap_exact c F w"
  shows "c' = Some c \<and> libc_live w' = libc_live w \<and> heap_faults w' = heap_faults w \<and> mem w' = mem w"
  using system_install [OF assms(1,3,4)] assms(2) by auto

text \<open>The status of installing a structurally valid view.\<close>

lemma install_status:
  assumes "solana_delivery_client_install_topology (Some c) p w = (st, c', w')"
    and "system_client c" "topology_ok (mem w) p"
  shows "if cl_has_topology c \<and>
        tp_generation (load_topology (mem w) p) \<le> tp_generation (ot_view (cl_topology c))
      then st = SOLANA_DELIVERY_STATUS_TOPOLOGY_STALE
      else st = SOLANA_DELIVERY_STATUS_OK \<or> st = SOLANA_DELIVERY_STATUS_RESOURCE_EXHAUSTED \<or>
        st = SOLANA_DELIVERY_STATUS_INTERNAL_ERROR"
proof (cases "cl_has_topology c \<and>
    tp_generation (load_topology (mem w) p) \<le> tp_generation (ot_view (cl_topology c))")
  case True
  with assms(1,3) show ?thesis
    by (auto simp: solana_delivery_client_install_topology_def validate_topology_ok [symmetric])
next
  case False
  have sys: "cl_allocator c = SYSTEM_ALLOCATOR" "cl_monotonic_time_fn c = system_monotonic_time_ns"
    using assms(2) by (simp_all add: system_client_def)
  have p: "p \<noteq> NULL" using assms(3) by (auto simp: topology_ok_def)
  obtain s1 ow w1 where b: "build_owned_topology (Some SYSTEM_ALLOCATOR) p True w = (s1, ow, w1)"
    by (cases "build_owned_topology (Some SYSTEM_ALLOCATOR) p True w")
  obtain s2 t w2 where t: "system_monotonic_time_ns (cl_monotonic_time_context c) True w1 = (s2, t, w2)"
    by (cases "system_monotonic_time_ns (cl_monotonic_time_context c) True w1")
  from assms(1) False have "st = s1 \<or> st = s2 \<or> st = 0"
    using assms(3) b t
    by (auto simp: solana_delivery_client_install_topology_def validate_topology_ok [symmetric] sys
        Let_def split: if_splits prod.splits)
  moreover have "s1 = 0 \<or> s1 = 3" using sys.build_accounts [OF b p] by auto
  ultimately show ?thesis using False system_clock_status [OF t] by auto
qed

text \<open>C21: Generations order installations: a structurally valid view is refused as
  stale exactly when a topology is installed and the view's generation does not exceed
  its generation (on a client without a topology any generation, zero included, is
  accepted unless the heap or the clock fails), and the generation of a client grows
  strictly with every successful installation after the first.\<close>

theorem install_generation_order:
  assumes "solana_delivery_client_install_topology (Some c) p w = (st, c', w')"
    and "system_client c" "heap_exact c F w" and "topology_ok (mem w) p"
  shows "(st = SOLANA_DELIVERY_STATUS_TOPOLOGY_STALE \<longleftrightarrow>
       cl_has_topology c \<and>
       tp_generation (load_topology (mem w) p) \<le> tp_generation (ot_view (cl_topology c))) \<and>
    (\<not> cl_has_topology c \<longrightarrow> st = SOLANA_DELIVERY_STATUS_OK \<or>
       st = SOLANA_DELIVERY_STATUS_RESOURCE_EXHAUSTED \<or> st = SOLANA_DELIVERY_STATUS_INTERNAL_ERROR) \<and>
    (st = SOLANA_DELIVERY_STATUS_OK \<longrightarrow>
       tp_generation (ot_view (cl_topology (the c'))) = tp_generation (load_topology (mem w) p) \<and>
       (cl_has_topology c \<longrightarrow>
         tp_generation (ot_view (cl_topology c)) < tp_generation (ot_view (cl_topology (the c')))))"
  using install_status [OF assms(1,2,4)] system_install [OF assms(1,2,3)]
  by (auto simp: copied_topology_def split: if_splits)

text \<open>Installation keeps the heap ledger exact: afterwards the live blocks are the
  client's own (the old topology's released, the new one's added) and the rest of the
  process's, and no pointer was freed that was not a live block.\<close>

lemma install_heap_exact:
  assumes "solana_delivery_client_install_topology (Some c) p w = (st, c', w')"
    and "system_client c" "heap_exact c F w"
  shows "heap_exact (the c') F w' \<and> heap_faults w' = heap_faults w"
  using system_install_heap [OF assms] .

section \<open>When installation succeeds\<close>

lemma system_clone_eq:
  assumes "0 < k" "k \<le> 64"
  shows "clone_array (Some SYSTEM_ALLOCATOR) src cnt stride (of_nat k) True w =
    (if cnt = 0 then (0, Some null_block, w)
     else let (p, w') = libc_calloc (ucast cnt) (of_nat k) w
          in if p = NULL then (3, Some null_block, w')
             else (0, Some \<lparr>bl_ptr = p, bl_data = array_prefixes (mem w) src cnt stride k\<rparr>, w'))"
  unfolding call_system_calloc [symmetric]
  by (rule clone_array_eq [OF sys.valid assms]) (simp, metis libc_calloc_props(1))

lemmas system_clone =
  system_clone_eq [of 48, simplified] system_clone_eq [of 32, simplified]
  system_clone_eq [of 16, simplified]

lemma ready_clone:
  assumes "heap_ready (Suc n) w" "0 < k" "k \<le> 64"
  obtains copy w' where
    "clone_array (Some SYSTEM_ALLOCATOR) src cnt stride (of_nat k) True w = (0, copy, w')"
    "heap_ready n w'" "mem w' = mem w" "clock_script w' = clock_script w"
proof (cases "cnt = 0")
  case True
  then show thesis using assms heap_ready_less [OF assms(1)] by (intro that [of "Some null_block" w]) (simp_all add: system_clone_eq)
next
  case False
  have "unat (of_nat k :: usize) = k" using assms(3) by (simp add: unat_of_nat_small)
  moreover have "unat cnt * k \<le> 4294967296 * 64"
    using unat_lt_32 [of cnt] assms(3) by (intro mult_le_mono) (simp_all del: unat_lt_32)
  ultimately have "unat (ucast cnt :: usize) * unat (of_nat k :: usize) < 2 ^ 64" by simp
  from ready_calloc [OF assms(1) this] obtain p w' where
    "libc_calloc (ucast cnt) (of_nat k) w = (p, w')" "p \<noteq> NULL"
    "heap_ready n w'" "mem w' = mem w" "clock_script w' = clock_script w" .
  then show thesis using False assms(2,3) by (intro that [of _ w']) (simp_all add: system_clone_eq)
qed

lemmas ready_clones = ready_clone [of _ _ 48, simplified] ready_clone [of _ _ 32, simplified]
  ready_clone [of _ _ 16, simplified]

lemma build_ready:
  assumes "heap_ready (Suc (Suc (Suc (Suc n)))) w" "p \<noteq> NULL"
  obtains ow w' where
    "build_owned_topology (Some SYSTEM_ALLOCATOR) p True w = (0, Some ow, w')"
    "heap_ready n w'" "mem w' = mem w" "clock_script w' = clock_script w"
proof -
  let ?s = "load_topology (mem w) p"
  obtain b1 w1 where 1: "clone_array (Some SYSTEM_ALLOCATOR) (tp_validators ?s) (tp_validator_count ?s)
      (tp_validator_stride ?s) 48 True w = (0, b1, w1)" "heap_ready (Suc (Suc (Suc n))) w1"
    "mem w1 = mem w" "clock_script w1 = clock_script w"
    using ready_clones(1) [OF assms(1)] .
  obtain b2 w2 where 2: "clone_array (Some SYSTEM_ALLOCATOR) (tp_endpoints ?s) (tp_endpoint_count ?s)
      (tp_endpoint_stride ?s) 32 True w1 = (0, b2, w2)" "heap_ready (Suc (Suc n)) w2"
    "mem w2 = mem w1" "clock_script w2 = clock_script w1"
    using ready_clones(2) [OF 1(2)] .
  obtain b3 w3 where 3: "clone_array (Some SYSTEM_ALLOCATOR) (tp_validator_endpoints ?s)
      (tp_validator_endpoint_count ?s) (tp_validator_endpoint_stride ?s) 16 True w2 = (0, b3, w3)"
    "heap_ready (Suc n) w3" "mem w3 = mem w2" "clock_script w3 = clock_script w2"
    using ready_clones(3) [OF 2(2)] .
  obtain b4 w4 where 4: "clone_array (Some SYSTEM_ALLOCATOR) (tp_leaders ?s) (tp_leader_count ?s)
      (tp_leader_stride ?s) 32 True w3 = (0, b4, w4)" "heap_ready n w4"
    "mem w4 = mem w3" "clock_script w4 = clock_script w3"
    using ready_clones(2) [OF 3(2)] .
  obtain ow where "build_owned_topology (Some SYSTEM_ALLOCATOR) p True w = (0, Some ow, w4)"
    using assms(2) 1 2 3 4 by (simp add: build_owned_topology_def sys.valid Let_def)
  then show thesis using 1 2 3 4 by (intro that [of ow w4]) simp_all
qed

lemma install_ready:
  fixes c :: "'u solana_delivery_client_t"
  assumes "system_client c" "topology_ok (mem w) p"
    and "cl_has_topology c \<Longrightarrow>
      tp_generation (ot_view (cl_topology c)) < tp_generation (load_topology (mem w) p)"
    and "heap_ready (Suc (Suc (Suc (Suc n)))) w" "clock_script w = r # rest"
    and "valid_reading r" "unat (fst (snd r)) < 18446744073"
  obtains ow w' where "solana_delivery_client_install_topology (Some c) p w =
      (SOLANA_DELIVERY_STATUS_OK, Some (c\<lparr>cl_topology := ow, cl_has_topology := True\<rparr>), w')"
    "heap_ready n w'" "mem w' = mem w" "clock_script w' = rest"
    "unat (ot_received_monotonic_ns ow) = reading_ns r"
proof -
  have v: "solana_delivery_topology_validate (mem w) p = 0"
    using assms(2) by (simp add: validate_topology_ok)
  have p: "p \<noteq> NULL" using assms(2) by (auto simp: topology_ok_def)
  obtain ow w1 where b: "build_owned_topology (Some SYSTEM_ALLOCATOR) p True w = (0, Some ow, w1)"
    "heap_ready n w1" "mem w1 = mem w" "clock_script w1 = clock_script w"
    using build_ready [OF assms(4) p] .
  have sys: "cl_allocator c = SYSTEM_ALLOCATOR" "cl_monotonic_time_fn c = system_monotonic_time_ns"
    using assms(1) by (simp_all add: system_client_def)
  let ?t = "fst (snd r) * 1000000000 + snd (snd r)" and ?w2 = "w1\<lparr>clock_script := rest\<rparr>"
  have t: "system_monotonic_time_ns (cl_monotonic_time_context c) True w1 = (0, Some ?t, ?w2)"
    using b(4) assms(5-7) by (simp add: system_clock_eq clock_gettime_def)
  let ?w3 = "snd (owned_topology_release (Some SYSTEM_ALLOCATOR) (Some (cl_topology c)) ?w2)"
  have "heap_ready n ?w2" using b(2) by (simp add: heap_ready_def heap_serves_def)
  have "solana_delivery_client_install_topology (Some c) p w = (SOLANA_DELIVERY_STATUS_OK,
      Some (c\<lparr>cl_topology := ow\<lparr>ot_received_monotonic_ns := ?t\<rparr>, cl_has_topology := True\<rparr>), ?w3)"
    using v b(1) t assms(3) sys
    by (auto simp: solana_delivery_client_install_topology_def split: prod.splits)
  moreover have "heap_ready n ?w3" "mem ?w3 = mem w" "clock_script ?w3 = rest"
    using ready_frees [OF \<open>heap_ready n ?w2\<close>] b(3)
    by (simp_all add: sys.owned_topology_release_eq libc_frees_props)
  moreover have "unat (ot_received_monotonic_ns (ow\<lparr>ot_received_monotonic_ns := ?t\<rparr>)) = reading_ns r"
    using reading_sum [of "fst r" "fst (snd r)" "snd (snd r)"] assms(6,7) by simp
  ultimately show thesis by (rule that)
qed

text \<open>C18: Installation is not vacuously safe: a structurally valid view with a new
  generation is installed whenever the heap serves four allocations and the clock
  gives a valid reading before its last second, and the receipt time is that reading.\<close>

theorem install_succeeds:
  assumes "system_client c" "topology_ok (mem w) p"
    and "cl_has_topology c \<Longrightarrow>
      tp_generation (ot_view (cl_topology c)) < tp_generation (load_topology (mem w) p)"
    and "heap_ready 4 w" "clock_script w = r # rest"
    and "valid_reading r" "unat (fst (snd r)) < 18446744073"
  shows "\<exists>ow w'. solana_delivery_client_install_topology (Some c) p w =
      (SOLANA_DELIVERY_STATUS_OK, Some (c\<lparr>cl_topology := ow, cl_has_topology := True\<rparr>), w') \<and>
    unat (ot_received_monotonic_ns ow) = reading_ns r"
proof -
  have "heap_ready (Suc (Suc (Suc (Suc 0)))) w" using assms(4) by (simp add: numeral_eq_Suc)
  from install_ready [OF assms(1-3) this assms(5-7)] show ?thesis by metis
qed

section \<open>Witnesses\<close>

lemma example_mem_world [simp]: "mem example_world = example_mem"
  by (simp add: example_world_def)

lemma example_install_ok:
  "\<exists>c' w'. solana_delivery_client_install_topology (Some example_client) 0x1000 example_world =
     (SOLANA_DELIVERY_STATUS_OK, c', w')"
  using example_topology_ok
  by (simp add: solana_delivery_client_install_topology_def validate_topology_ok [symmetric]
      build_owned_topology_def sys.valid system_clone libc_calloc_def example_world_def Let_def
      system_monotonic_time_ns_def clock_gettime_def owned_topology_release_def
      example_topology_def upt_conv_Cons)

text \<open>A heap that serves one block only: the second array cannot be copied.\<close>

definition starved_world :: "unit world" where
  "starved_world = example_world\<lparr>heap_supply := [0x200]\<rparr>"

lemma starved_facts [simp]:
  "mem starved_world = example_mem" "heap_exact example_client {#} starved_world"
  using example_heap_exact by (simp_all add: starved_world_def heap_exact_def)

lemma example_install_starved:
  "\<exists>c' w'. solana_delivery_client_install_topology (Some example_client) 0x1000 starved_world =
     (SOLANA_DELIVERY_STATUS_RESOURCE_EXHAUSTED, c', w')"
  using example_topology_ok
  by (simp add: solana_delivery_client_install_topology_def validate_topology_ok [symmetric]
      build_owned_topology_def sys.valid system_clone libc_calloc_def Let_def build_fail_def
      owned_topology_release_def starved_world_def example_world_def example_topology_def)

lemma install_success_copies_witness:
  "\<exists>c' w' ow. solana_delivery_client_install_topology (Some example_client) 0x1000 example_world =
      (SOLANA_DELIVERY_STATUS_OK, c', w') \<and>
    c' = Some (example_client\<lparr>cl_topology := ow, cl_has_topology := True\<rparr>) \<and>
    copied_topology example_mem example_topology ow \<and> owned_consistent ow"
proof -
  obtain c' w' where i: "solana_delivery_client_install_topology (Some example_client) 0x1000
      example_world = (SOLANA_DELIVERY_STATUS_OK, c', w')" using example_install_ok by blast
  from install_success_copies [OF i _ example_heap_exact] i show ?thesis by auto
qed

lemma install_failure_atomic_witness:
  "\<exists>c' w'. solana_delivery_client_install_topology (Some example_client) 0x1000 starved_world =
      (SOLANA_DELIVERY_STATUS_RESOURCE_EXHAUSTED, c', w') \<and>
    c' = Some example_client \<and> libc_live w' = libc_live starved_world"
proof -
  obtain c' w' where i: "solana_delivery_client_install_topology (Some example_client) 0x1000
      starved_world = (SOLANA_DELIVERY_STATUS_RESOURCE_EXHAUSTED, c', w')"
    using example_install_starved by blast
  from install_failure_atomic [OF i, of "{#}"] i show ?thesis by auto
qed

lemma install_generation_order_witness:
  "(\<exists>c w c' w'. cl_has_topology c \<and>
     solana_delivery_client_install_topology (Some c) 0x1000 (w :: unit world) =
       (SOLANA_DELIVERY_STATUS_TOPOLOGY_STALE, c', w')) \<and>
   (\<exists>st c' w'. solana_delivery_client_install_topology (Some example_client) 0x1000 example_world =
       (st, c', w') \<and> st \<noteq> SOLANA_DELIVERY_STATUS_TOPOLOGY_STALE \<and>
     tp_generation (ot_view (cl_topology (the c'))) = tp_generation example_topology)"
proof -
  obtain c1 w1 where i: "solana_delivery_client_install_topology (Some example_client) 0x1000
      example_world = (SOLANA_DELIVERY_STATUS_OK, c1, w1)" using example_install_ok by blast
  from system_install [OF i _ example_heap_exact] obtain ow where
    c1: "c1 = Some (example_client\<lparr>cl_topology := ow, cl_has_topology := True\<rparr>)"
    and cp: "copied_topology example_mem example_topology ow" and m: "mem w1 = example_mem"
    by auto
  define c where "c = example_client\<lparr>cl_topology := ow, cl_has_topology := True\<rparr>"
  have h: "heap_exact c {#} w1" "system_client c" "cl_has_topology c"
    using system_install_heap [OF i _ example_heap_exact] example_client_facts(1)
    by (auto simp: c1 c_def system_client_def)
  obtain st c' w' where j: "solana_delivery_client_install_topology (Some c) 0x1000 w1 = (st, c', w')"
    by (cases "solana_delivery_client_install_topology (Some c) 0x1000 w1")
  have "tp_generation (ot_view (cl_topology c)) = tp_generation example_topology"
    using cp by (simp add: copied_topology_def c_def)
  with install_generation_order [OF j h(2,1)] example_topology_ok m h(3) have
    "st = SOLANA_DELIVERY_STATUS_TOPOLOGY_STALE" by simp
  moreover have "tp_generation (ot_view (cl_topology (the c1))) = tp_generation example_topology"
    using install_generation_order [OF i example_client_facts(1) example_heap_exact] example_topology_ok
    by simp
  ultimately show ?thesis using i j h(3) by (intro conjI) (blast, fastforce)
qed

lemma install_heap_exact_witness:
  "\<exists>c' w'. solana_delivery_client_install_topology (Some example_client) 0x1000 example_world =
      (SOLANA_DELIVERY_STATUS_OK, c', w') \<and> heap_exact (the c') {#} w' \<and> heap_faults w' = 0"
proof -
  obtain c' w' where i: "solana_delivery_client_install_topology (Some example_client) 0x1000
      example_world = (SOLANA_DELIVERY_STATUS_OK, c', w')" using example_install_ok by blast
  from install_heap_exact [OF i _ example_heap_exact] i show ?thesis
    by (auto simp: example_world_def)
qed

lemma install_succeeds_witness:
  "\<exists>ow w'. solana_delivery_client_install_topology (Some example_client) 0x1000 example_world =
      (SOLANA_DELIVERY_STATUS_OK,
       Some (example_client\<lparr>cl_topology := ow, cl_has_topology := True\<rparr>), w') \<and>
    unat (ot_received_monotonic_ns ow) = 1000000000"
proof -
  have "heap_serves [0x200, 0x300, 0x400, 0x500] example_world"
    by (simp add: heap_serves_def example_world_def upt_conv_Cons)
  then have "heap_ready 4 example_world"
    unfolding heap_ready_def by (intro exI [of _ "[0x200, 0x300, 0x400, 0x500]"]) simp
  from install_succeeds [of example_client example_world "0x1000", OF _ _ _ this, of "(True, 1, 0)"]
  show ?thesis
    using example_topology_ok
    by (simp add: example_world_def valid_reading_def reading_ns_def)
qed

end
