(* ===== verification/Admission.thy ===== *)
theory Admission
  imports Topology_Install Monotonic_Clock
begin

text \<open>
  Submission admission, \<open>solana_delivery_admission.c\<close>: an installed topology is fresh
  enough for a policy, by the client's clock.
\<close>

definition solana_delivery_client_evaluate_submission_policy ::
  "'u solana_delivery_client_t option \<Rightarrow> solana_delivery_submission_policy_t option \<Rightarrow>
   'u world \<Rightarrow> solana_delivery_status_t \<times> 'u world" where
  "solana_delivery_client_evaluate_submission_policy client policy w =
     (case (client, policy) of
        (Some c, Some p) \<Rightarrow>
          if sp_max_topology_age_ns p = 0 \<or> sp_target_limit p = 0
          then (SOLANA_DELIVERY_STATUS_INVALID_ARGUMENT, w)
          else if \<not> cl_has_topology c
          then (SOLANA_DELIVERY_STATUS_TOPOLOGY_UNAVAILABLE, w)
          else
            let (status, time, w) =
                  cl_monotonic_time_fn c (cl_monotonic_time_context c) True w;
                now_monotonic_ns = written time
            in if status \<noteq> SOLANA_DELIVERY_STATUS_OK then (status, w)
            else if now_monotonic_ns < ot_received_monotonic_ns (cl_topology c)
            then (SOLANA_DELIVERY_STATUS_INTERNAL_ERROR, w)
            else
              let topology_age_ns = now_monotonic_ns - ot_received_monotonic_ns (cl_topology c)
              in if sp_max_topology_age_ns p < topology_age_ns
                 then (SOLANA_DELIVERY_STATUS_TOPOLOGY_STALE, w)
                 else (SOLANA_DELIVERY_STATUS_OK, w)
      | _ \<Rightarrow> (SOLANA_DELIVERY_STATUS_INVALID_ARGUMENT, w))"

text \<open>Freshness in unbounded arithmetic: the clock has not gone back and the age fits.\<close>

definition fresh_at :: "'u solana_delivery_client_t \<Rightarrow> u64 \<Rightarrow> u64 \<Rightarrow> bool" where
  "fresh_at c max_age now \<longleftrightarrow>
     unat (ot_received_monotonic_ns (cl_topology c)) \<le> unat now \<and>
     unat now \<le> unat (ot_received_monotonic_ns (cl_topology c)) + unat max_age"

lemma age_iff:
  assumes "r \<le> (now :: u64)"
  shows "now - r \<le> a \<longleftrightarrow> unat now \<le> unat r + unat a"
  using assms by (simp add: word_le_nat_alt unat_sub) linarith

lemma evaluate_policy_ok:
  assumes "solana_delivery_client_evaluate_submission_policy (Some c) (Some p) w =
    (SOLANA_DELIVERY_STATUS_OK, w')"
  shows "cl_has_topology c \<and> sp_max_topology_age_ns p \<noteq> 0 \<and> sp_target_limit p \<noteq> 0 \<and>
    (\<exists>t. cl_monotonic_time_fn c (cl_monotonic_time_context c) True w = (0, t, w') \<and>
       fresh_at c (sp_max_topology_age_ns p) (written t))"
  using assms
  by (auto simp: solana_delivery_client_evaluate_submission_policy_def Let_def fresh_at_def
      not_less age_iff word_le_nat_alt [symmetric] split: prod.splits if_splits)

lemma evaluate_policy_world:
  assumes "solana_delivery_client_evaluate_submission_policy (Some c) p w = (st, w')"
  shows "w' = w \<or> (\<exists>s t. cl_monotonic_time_fn c (cl_monotonic_time_context c) True w = (s, t, w'))"
  using assms
  by (auto simp: solana_delivery_client_evaluate_submission_policy_def Let_def
      split: prod.splits if_splits option.splits)

context client_platform
begin

lemma evaluate_policy_frame:
  assumes "solana_delivery_client_evaluate_submission_policy (Some c) p w = (st, w')"
    and "cl_monotonic_time_fn c = T"
  shows "live w' = live w \<and> faults w' = faults w \<and> mem w' = mem w"
  using evaluate_policy_world [OF assms(1)] assms(2) clock_frame by auto

end

text \<open>C31: Admission decides freshness exactly: with an installed topology and a valid
  policy, the answer is the clock's own error, an internal error when the clock is
  behind the time of receipt, stale when more than the maximum age has passed, and OK
  exactly when neither holds, in unbounded arithmetic (no subtraction wraps). The
  limit is inclusive.\<close>

theorem evaluate_policy_decides:
  assumes "cl_has_topology c" "sp_max_topology_age_ns p \<noteq> 0" "sp_target_limit p \<noteq> 0"
    and "cl_monotonic_time_fn c (cl_monotonic_time_context c) True w = (st, t, w')"
  shows "solana_delivery_client_evaluate_submission_policy (Some c) (Some p) w =
    (let now = unat (written t); received = unat (ot_received_monotonic_ns (cl_topology c)) in
     (if st \<noteq> SOLANA_DELIVERY_STATUS_OK then st
      else if now < received then SOLANA_DELIVERY_STATUS_INTERNAL_ERROR
      else if received + unat (sp_max_topology_age_ns p) < now
      then SOLANA_DELIVERY_STATUS_TOPOLOGY_STALE
      else SOLANA_DELIVERY_STATUS_OK, w'))"
  using assms age_iff [of "ot_received_monotonic_ns (cl_topology c)" "written t"
      "sp_max_topology_age_ns p"]
  by (simp add: solana_delivery_client_evaluate_submission_policy_def Let_def not_less
      word_less_nat_alt word_le_nat_alt not_le [symmetric])

text \<open>The example client with the topology of the example, received at second 1.\<close>

definition example_policy :: solana_delivery_submission_policy_t where
  "example_policy = \<lparr>sp_max_topology_age_ns = 1000000000, sp_target_limit = 1\<rparr>"

lemma evaluate_policy_decides_witness:
  "\<exists>c w'. ot_received_monotonic_ns (cl_topology (c :: unit solana_delivery_client_t)) = 2000000000 \<and>
     solana_delivery_client_evaluate_submission_policy (Some c) (Some example_policy)
       (example_world\<lparr>clock_script := [(True, 3, 1)]\<rparr>) =
       (SOLANA_DELIVERY_STATUS_TOPOLOGY_STALE, w')"
proof -
  define c where "c = example_client\<lparr>cl_has_topology := True,
    cl_topology := zero_owned\<lparr>ot_received_monotonic_ns := 2000000000\<rparr>\<rparr>"
  define w where "w = example_world\<lparr>clock_script := [(True, 3, 1)]\<rparr>"
  have "cl_monotonic_time_fn c (cl_monotonic_time_context c) True w =
      (0, Some 3000000001, w\<lparr>clock_script := []\<rparr>)"
    by (simp add: c_def w_def system_clock_eq clock_gettime_def valid_reading_def)
  from evaluate_policy_decides [OF _ _ _ this, of example_policy] show ?thesis
    by (intro exI [of _ c]) (simp add: c_def example_policy_def w_def)
qed

end
