(* ===== verification/Resolution.thy ===== *)
theory Resolution
  imports Topology_Install
begin

text \<open>
  Slot resolution, \<open>solana_delivery_resolution.c\<close>: counting and emitting the
  (leader, validator, endpoint) candidates of a slot from the owned topology. The
  abstract specification is the list \<open>slot_candidates\<close>.
\<close>

section \<open>The code\<close>

definition leader_contains_slot :: "solana_delivery_leader_t \<Rightarrow> u64 \<Rightarrow> bool" where
  "leader_contains_slot leader slot \<longleftrightarrow> ld_first_slot leader \<le> slot \<and> slot \<le> ld_last_slot leader"

text \<open>The second component is \<open>*out_count\<close> afterwards.\<close>

definition count_slot_candidates ::
  "'u solana_delivery_client_t \<Rightarrow> u64 \<Rightarrow> usize \<Rightarrow> solana_delivery_status_t \<times> usize" where
  "count_slot_candidates client slot out_count =
     (let topology = cl_topology client in
      case for_loop (tp_leader_count (ot_view topology))
        (\<lambda>leader_index cnt.
           let leader = bl_data (ot_leaders topology) ! unat leader_index in
           if \<not> leader_contains_slot leader slot then Inr cnt
           else for_loop (tp_validator_endpoint_count (ot_view topology))
             (\<lambda>association_index cnt.
                let association =
                  bl_data (ot_validator_endpoints topology) ! unat association_index in
                if ve_validator_index association \<noteq> ld_validator_index leader then Inr cnt
                else if cnt = SIZE_MAX
                then Inl SOLANA_DELIVERY_STATUS_RESOURCE_EXHAUSTED
                else Inr (cnt + 1)) cnt) 0
      of Inl status \<Rightarrow> (status, out_count)
       | Inr cnt \<Rightarrow> (SOLANA_DELIVERY_STATUS_OK, cnt))"

text \<open>
  The buffer \<open>candidates\<close> is None for NULL and otherwise the array it points to;
  \<open>out_count\<close> is None for NULL and otherwise the pointed-to count.
\<close>

definition solana_delivery_client_resolve_slot ::
  "'u solana_delivery_client_t option \<Rightarrow> u64 \<Rightarrow>
   solana_delivery_topology_candidate_t list option \<Rightarrow> usize \<Rightarrow> usize option \<Rightarrow>
   solana_delivery_status_t \<times> solana_delivery_topology_candidate_t list option \<times> usize option" where
  "solana_delivery_client_resolve_slot client slot candidates capacity out_count =
     (if out_count = None then (SOLANA_DELIVERY_STATUS_INVALID_ARGUMENT, candidates, out_count)
      else
        let out_count = Some 0 in
        if client = None \<or> (capacity \<noteq> 0 \<and> candidates = None)
        then (SOLANA_DELIVERY_STATUS_INVALID_ARGUMENT, candidates, out_count)
        else
        let c = the client in
        if \<not> cl_has_topology c
        then (SOLANA_DELIVERY_STATUS_TOPOLOGY_UNAVAILABLE, candidates, out_count)
        else
        let (status, required) = count_slot_candidates c slot 0 in
        if status \<noteq> SOLANA_DELIVERY_STATUS_OK then (status, candidates, out_count)
        else if required = 0
        then (SOLANA_DELIVERY_STATUS_TOPOLOGY_UNAVAILABLE, candidates, out_count)
        else
        let out_count = Some required in
        if capacity < required
        then (SOLANA_DELIVERY_STATUS_RESOURCE_EXHAUSTED, candidates, out_count)
        else
        let topology = cl_topology c in
        case for_loop (tp_leader_count (ot_view topology))
          (\<lambda>leader_index (output_index, buffer).
             let leader = bl_data (ot_leaders topology) ! unat leader_index in
             if \<not> leader_contains_slot leader slot then Inr (output_index, buffer)
             else for_loop (tp_validator_endpoint_count (ot_view topology))
               (\<lambda>association_index (output_index, buffer).
                  let association =
                    bl_data (ot_validator_endpoints topology) ! unat association_index in
                  if ve_validator_index association \<noteq> ld_validator_index leader
                  then Inr (output_index, buffer)
                  else Inr (output_index + 1, buffer[unat output_index :=
                    \<lparr>cd_leader_index = leader_index,
                     cd_validator_index = ld_validator_index leader,
                     cd_endpoint_index = ve_endpoint_index association\<rparr>]))
               (output_index, buffer)) (0 :: usize, the candidates)
        of Inl (r :: unit) \<Rightarrow> (SOLANA_DELIVERY_STATUS_OK, candidates, out_count)
         | Inr (output_index, buffer) \<Rightarrow> (SOLANA_DELIVERY_STATUS_OK, Some buffer, out_count))"

section \<open>Specification\<close>

definition leads :: "solana_delivery_owned_topology_t \<Rightarrow> u64 \<Rightarrow> u32 \<Rightarrow> bool" where
  "leads ow slot i \<longleftrightarrow> leader_contains_slot (bl_data (ot_leaders ow) ! unat i) slot"

definition associated :: "solana_delivery_owned_topology_t \<Rightarrow> u32 \<Rightarrow> u32 \<Rightarrow> bool" where
  "associated ow i j \<longleftrightarrow>
     ve_validator_index (bl_data (ot_validator_endpoints ow) ! unat j) =
     ld_validator_index (bl_data (ot_leaders ow) ! unat i)"

text \<open>The pairs of a leader range over the slot and an association of its validator.\<close>

definition slot_pairs :: "solana_delivery_owned_topology_t \<Rightarrow> u64 \<Rightarrow> (u32 \<times> u32) list" where
  "slot_pairs ow slot =
     concat (map (\<lambda>i. map (Pair i)
         (filter (associated ow i) (index_list (tp_validator_endpoint_count (ot_view ow)))))
       (filter (leads ow slot) (index_list (tp_leader_count (ot_view ow)))))"

definition candidate_of ::
  "solana_delivery_owned_topology_t \<Rightarrow> u32 \<times> u32 \<Rightarrow> solana_delivery_topology_candidate_t" where
  "candidate_of ow ij =
     \<lparr>cd_leader_index = fst ij,
      cd_validator_index = ld_validator_index (bl_data (ot_leaders ow) ! unat (fst ij)),
      cd_endpoint_index = ve_endpoint_index (bl_data (ot_validator_endpoints ow) ! unat (snd ij))\<rparr>"

definition slot_candidates ::
  "solana_delivery_owned_topology_t \<Rightarrow> u64 \<Rightarrow> solana_delivery_topology_candidate_t list" where
  "slot_candidates ow slot = map (candidate_of ow) (slot_pairs ow slot)"

lemma length_slot_pairs: "length (slot_pairs ow slot) < 2 ^ 64 - 1"
proof -
  let ?A = "filter (leads ow slot) (index_list (tp_leader_count (ot_view ow)))"
  have l: "length (filter P (index_list n)) \<le> 4294967295" for P and n :: u32
    using length_filter_le [of P "index_list n"] unat_lt_32 [of n]
    unfolding length_index_list by linarith
  have "length (concat (map (\<lambda>i. map (Pair i) (filter (associated ow i) (index_list n)))  xs)) \<le>
      length xs * 4294967295" for xs and n :: u32
    by (induction xs) (auto intro: add_mono l)
  from this [of "tp_validator_endpoint_count (ot_view ow)" ?A]
  have "length (slot_pairs ow slot) \<le> length ?A * 4294967295" by (simp add: slot_pairs_def)
  also have "\<dots> \<le> 4294967295 * 4294967295" by (intro mult_le_mono1 l)
  finally show ?thesis by simp
qed

lemma nested_pairs:
  "for_loop (tp_leader_count (ot_view ow))
     (\<lambda>i s. if \<not> leads ow slot i then Inr s
        else for_loop (tp_validator_endpoint_count (ot_view ow))
          (\<lambda>j s. if \<not> associated ow i j then Inr s else body i j s) s) s =
   fold_body (\<lambda>(i, j). body i j) (slot_pairs ow slot) s"
  by (simp add: for_loop_index_list fold_skip fold_nested slot_pairs_def)

lemma count_slot_candidates_eq:
  "count_slot_candidates c slot out =
     (SOLANA_DELIVERY_STATUS_OK, of_nat (length (slot_candidates (cl_topology c) slot)))"
  unfolding count_slot_candidates_def Let_def leads_def [symmetric] associated_def [symmetric]
    nested_pairs case_prod_unfold
  using fold_count [of "0 :: usize" "slot_pairs (cl_topology c) slot" "3 :: u32"]
    length_slot_pairs [of "cl_topology c" slot]
  by (simp add: slot_candidates_def)

lemma emit_candidates:
  assumes "length (slot_candidates ow slot) \<le> length buf" "length buf < 2 ^ 64"
  shows "for_loop (tp_leader_count (ot_view ow))
     (\<lambda>i (n, ys). if \<not> leads ow slot i then Inr (n, ys)
        else for_loop (tp_validator_endpoint_count (ot_view ow))
          (\<lambda>j (n, ys). if \<not> associated ow i j then Inr (n, ys)
             else Inr (n + 1, ys[unat n := candidate_of ow (i, j)])) (n, ys)) (0 :: usize, buf) =
    (Inr (of_nat (length (slot_candidates ow slot)),
      slot_candidates ow slot @ drop (length (slot_candidates ow slot)) buf) :: unit + _)"
proof -
  have *: "for_loop (tp_leader_count (ot_view ow))
     (\<lambda>i (n, ys). if \<not> leads ow slot i then Inr (n, ys)
        else for_loop (tp_validator_endpoint_count (ot_view ow))
          (\<lambda>j (n, ys). if \<not> associated ow i j then Inr (n, ys)
             else Inr (n + 1, ys[unat n := candidate_of ow (i, j)])) (n, ys)) s =
    (fold_body (\<lambda>x (n, ys). Inr (n + 1, ys[unat n := candidate_of ow x]))
       (slot_pairs ow slot) s :: unit + usize \<times> _)" for s
    using nested_pairs [of ow slot
      "\<lambda>i j (n, ys). Inr (n + 1 :: usize, ys[unat n := candidate_of ow (i, j)])" s]
    by (simp only: case_prod_unfold prod.collapse)
  show ?thesis unfolding *
    using assms by (simp add: fold_emit [of 0, simplified] slot_candidates_def)
qed

text \<open>What the call does, on every path.\<close>

definition resolve_result ::
  "'u solana_delivery_client_t \<Rightarrow> u64 \<Rightarrow> solana_delivery_topology_candidate_t list option \<Rightarrow>
   usize \<Rightarrow> solana_delivery_status_t \<times> solana_delivery_topology_candidate_t list option \<times> usize" where
  "resolve_result c slot candidates capacity =
     (let found = slot_candidates (cl_topology c) slot in
      if capacity \<noteq> 0 \<and> candidates = None
      then (SOLANA_DELIVERY_STATUS_INVALID_ARGUMENT, candidates, 0)
      else if \<not> cl_has_topology c \<or> found = []
      then (SOLANA_DELIVERY_STATUS_TOPOLOGY_UNAVAILABLE, candidates, 0)
      else if unat capacity < length found
      then (SOLANA_DELIVERY_STATUS_RESOURCE_EXHAUSTED, candidates, of_nat (length found))
      else (SOLANA_DELIVERY_STATUS_OK, Some (found @ drop (length found) (the candidates)),
            of_nat (length found)))"

lemma resolve_slot_eq:
  assumes "\<And>buf. candidates = Some buf \<Longrightarrow> length buf = unat capacity"
  shows "solana_delivery_client_resolve_slot (Some c) slot candidates capacity (Some x) =
    (case resolve_result c slot candidates capacity of (st, buf, n) \<Rightarrow> (st, buf, Some n))"
proof -
  let ?found = "slot_candidates (cl_topology c) slot"
  have small: "length ?found < 2 ^ 64" using length_slot_pairs [of "cl_topology c" slot]
    by (simp add: slot_candidates_def)
  then have u: "unat (of_nat (length ?found) :: usize) = length ?found"
    by (intro unat_of_nat_small) simp
  then have z: "(of_nat (length ?found) = (0 :: usize)) = (?found = [])"
    by (simp only: word_eq_iff_unsigned [where ?'a = nat] unsigned_0 length_0_conv)
  have l: "(capacity < of_nat (length ?found)) = (unat capacity < length ?found)"
    by (simp add: word_less_nat_alt u)
  show ?thesis
  proof (cases "?found \<noteq> [] \<and> length ?found \<le> unat capacity")
    case True
    then have "capacity \<noteq> 0" by auto
    show ?thesis
    proof (cases candidates)
      case None
      with \<open>capacity \<noteq> 0\<close> show ?thesis
        by (simp add: solana_delivery_client_resolve_slot_def resolve_result_def)
    next
      case (Some buf)
      then have "length ?found \<le> length buf" "length buf < 2 ^ 64" using True assms by auto
      note e = emit_candidates [OF this]
      note e' = e [unfolded candidate_of_def fst_conv snd_conv]
      have "solana_delivery_client_resolve_slot (Some c) slot candidates capacity (Some x) =
        (if \<not> cl_has_topology c then (SOLANA_DELIVERY_STATUS_TOPOLOGY_UNAVAILABLE, candidates, Some 0)
         else (SOLANA_DELIVERY_STATUS_OK, Some (?found @ drop (length ?found) buf),
           Some (of_nat (length ?found))))"
        unfolding solana_delivery_client_resolve_slot_def Let_def count_slot_candidates_eq Some
          option.sel leads_def [symmetric] associated_def [symmetric] e'
        using True by (simp add: z l)
      with True Some show ?thesis by (simp add: resolve_result_def Let_def)
    qed
  next
    case False
    then have "?found = [] \<or> unat capacity < length ?found" by auto
    then show ?thesis
      unfolding solana_delivery_client_resolve_slot_def resolve_result_def Let_def
        count_slot_candidates_eq z l
      by (elim disjE) (simp_all add: z l word_gt_0 split: option.splits)
  qed
qed

lemma slot_candidates_iff:
  "cand \<in> set (slot_candidates ow slot) \<longleftrightarrow>
     (\<exists>i < tp_leader_count (ot_view ow). \<exists>j < tp_validator_endpoint_count (ot_view ow).
        leads ow slot i \<and> associated ow i j \<and> cand = candidate_of ow (i, j))"
  by (auto simp: slot_candidates_def slot_pairs_def)

lemma slot_candidates_in_range:
  assumes "owned_consistent ow" "cand \<in> set (slot_candidates ow slot)"
  shows "cd_leader_index cand < tp_leader_count (ot_view ow)"
    "cd_validator_index cand < tp_validator_count (ot_view ow)"
    "cd_endpoint_index cand < tp_endpoint_count (ot_view ow)"
proof -
  obtain i j where ij: "i < tp_leader_count (ot_view ow)"
    "j < tp_validator_endpoint_count (ot_view ow)" "cand = candidate_of ow (i, j)"
    using assms(2) by (auto simp: slot_candidates_iff)
  with assms(1) have "bl_data (ot_leaders ow) ! unat i \<in> set (bl_data (ot_leaders ow))"
    "bl_data (ot_validator_endpoints ow) ! unat j \<in> set (bl_data (ot_validator_endpoints ow))"
    by (auto simp: owned_consistent_def word_less_nat_alt)
  with assms(1) ij show "cd_leader_index cand < tp_leader_count (ot_view ow)"
    "cd_validator_index cand < tp_validator_count (ot_view ow)"
    "cd_endpoint_index cand < tp_endpoint_count (ot_view ow)"
    by (auto simp: owned_consistent_def candidate_of_def)
qed

lemma associations_index:
  assumes "owned_consistent ow"
  shows "(\<exists>a \<in> set (bl_data (ot_validator_endpoints ow)). Q a) \<longleftrightarrow>
    (\<exists>j < tp_validator_endpoint_count (ot_view ow). Q (bl_data (ot_validator_endpoints ow) ! unat j))"
proof -
  have "length (bl_data (ot_validator_endpoints ow)) = unat (tp_validator_endpoint_count (ot_view ow))"
    using assms by (simp add: owned_consistent_def)
  then show ?thesis
    using ex_index_nat [of "tp_validator_endpoint_count (ot_view ow)"
        "\<lambda>k. Q (bl_data (ot_validator_endpoints ow) ! k)"]
    by (auto simp: in_set_conv_nth Bex_def)
qed

lemma candidate_targets:
  assumes "owned_consistent ow"
  shows "(\<lambda>cand. (cd_validator_index cand, cd_endpoint_index cand)) ` set (slot_candidates ow slot) =
    {(v, e). \<exists>l < tp_leader_count (ot_view ow).
        leader_contains_slot (bl_data (ot_leaders ow) ! unat l) slot \<and>
        v = ld_validator_index (bl_data (ot_leaders ow) ! unat l) \<and>
        (\<exists>a \<in> set (bl_data (ot_validator_endpoints ow)).
          ve_validator_index a = v \<and> ve_endpoint_index a = e)}"
  unfolding associations_index [OF assms]
  by (force simp: slot_candidates_iff candidate_of_def leads_def associated_def image_iff)

lemma sorted_pairs: "sorted (map fst (slot_pairs ow slot))"
proof -
  have "sorted xs \<Longrightarrow> sorted (map fst (concat (map (\<lambda>i. map (Pair i) (ys i)) xs)))"
    for xs :: "u32 list" and ys :: "u32 \<Rightarrow> u32 list"
    by (induction xs) (auto simp: sorted_append comp_def map_replicate_const)
  moreover have "sorted (filter (leads ow slot) (index_list n))" for n :: u32
    using sorted_filter [of "\<lambda>x. x" "index_list n"] by simp
  ultimately show ?thesis by (simp add: slot_pairs_def)
qed

text \<open>C29: Resolution on every path, for a client and a valid count pointer. A NULL buffer
  with a nonzero capacity is invalid; no topology, or no candidate for the slot, is
  \<open>TOPOLOGY_UNAVAILABLE\<close> with count zero; too small a buffer reports the exact number
  required and is not written; otherwise the candidates fill the buffer's prefix, the
  rest of it keeps its contents, and the count is their number. The count never
  overflows, so the code's own \<open>SIZE_MAX\<close> branch is not taken.\<close>

theorem resolve_slot_outcome:
  assumes "\<And>buf. candidates = Some buf \<Longrightarrow> length buf = unat capacity"
  shows "solana_delivery_client_resolve_slot (Some c) slot candidates capacity (Some x) =
    (let found = slot_candidates (cl_topology c) slot in
     if capacity \<noteq> 0 \<and> candidates = None
     then (SOLANA_DELIVERY_STATUS_INVALID_ARGUMENT, candidates, Some 0)
     else if \<not> cl_has_topology c \<or> found = []
     then (SOLANA_DELIVERY_STATUS_TOPOLOGY_UNAVAILABLE, candidates, Some 0)
     else if unat capacity < length found
     then (SOLANA_DELIVERY_STATUS_RESOURCE_EXHAUSTED, candidates, Some (of_nat (length found)))
     else (SOLANA_DELIVERY_STATUS_OK, Some (found @ drop (length found) (the candidates)),
           Some (of_nat (length found)))) \<and>
   unat (of_nat (length (slot_candidates (cl_topology c) slot)) :: usize) =
     length (slot_candidates (cl_topology c) slot)"
  using resolve_slot_eq [OF assms, where c = c and slot = slot and x = x]
    length_slot_pairs [of "cl_topology c" slot]
  by (auto simp: resolve_result_def Let_def slot_candidates_def intro!: unat_of_nat_small)

text \<open>C15: A successful resolution is sound, complete and ordered: the reported entries
  are exactly the triples of a leader range that contains the slot (inclusive at both
  ends) and an endpoint associated with that leader's validator, in leader order, and
  with a consistent topology every index is in range.\<close>

theorem resolve_slot_sound_complete:
  assumes "solana_delivery_client_resolve_slot (Some c) slot (Some buf) capacity (Some x) =
      (SOLANA_DELIVERY_STATUS_OK, Some out, Some n)"
    and "length buf = unat capacity" "owned_consistent (cl_topology c)"
  shows "(\<forall>l v e. \<lparr>cd_leader_index = l, cd_validator_index = v, cd_endpoint_index = e\<rparr>
        \<in> set (take (unat n) out) \<longleftrightarrow>
      l < tp_leader_count (ot_view (cl_topology c)) \<and>
      (let leader = bl_data (ot_leaders (cl_topology c)) ! unat l in
       ld_first_slot leader \<le> slot \<and> slot \<le> ld_last_slot leader \<and> v = ld_validator_index leader) \<and>
      (\<exists>a \<in> set (bl_data (ot_validator_endpoints (cl_topology c))).
        ve_validator_index a = v \<and> ve_endpoint_index a = e)) \<and>
    sorted (map cd_leader_index (take (unat n) out)) \<and>
    (\<forall>cand \<in> set (take (unat n) out).
      cd_validator_index cand < tp_validator_count (ot_view (cl_topology c)) \<and>
      cd_endpoint_index cand < tp_endpoint_count (ot_view (cl_topology c)))"
proof -
  let ?ow = "cl_topology c"
  let ?found = "slot_candidates ?ow slot"
  have r: "out = ?found @ drop (length ?found) buf" "n = of_nat (length ?found)"
    using assms(1) resolve_slot_eq [of "Some buf" capacity c slot x] assms(2)
    by (auto simp: resolve_result_def Let_def split: if_splits)
  have "unat n = length ?found" unfolding r(2)
    using length_slot_pairs [of ?ow slot]
    by (intro unat_of_nat_small) (simp add: slot_candidates_def)
  then have out: "take (unat n) out = ?found" by (simp add: r(1))
  have "map cd_leader_index ?found = map fst (slot_pairs ?ow slot)"
    by (simp add: slot_candidates_def candidate_of_def)
  then have s: "sorted (map cd_leader_index ?found)" by (simp add: sorted_pairs)
  show ?thesis
    unfolding out associations_index [OF assms(3)] Let_def
    using s slot_candidates_in_range [OF assms(3)]
    by (auto simp: slot_candidates_iff candidate_of_def leads_def associated_def
        leader_contains_slot_def)
qed

section \<open>Witnesses\<close>

definition blank_candidate :: solana_delivery_topology_candidate_t where
  "blank_candidate = \<lparr>cd_leader_index = 9, cd_validator_index = 9, cd_endpoint_index = 9\<rparr>"

definition example_candidate :: solana_delivery_topology_candidate_t where
  "example_candidate = \<lparr>cd_leader_index = 0, cd_validator_index = 0, cd_endpoint_index = 0\<rparr>"

lemma example_candidates: "slot_candidates example_owned 10 = [example_candidate]"
  by (simp add: slot_candidates_def slot_pairs_def candidate_of_def example_owned_def
      example_topology_def index_list_def leads_def associated_def leader_contains_slot_def
      example_leader_def example_association_def example_candidate_def)

lemma resolve_slot_outcome_witness:
  "solana_delivery_client_resolve_slot (Some installed_client) 10
     (Some [blank_candidate, blank_candidate]) 2 (Some 7) =
   (SOLANA_DELIVERY_STATUS_OK, Some [example_candidate, blank_candidate], Some 1)"
  using resolve_slot_outcome [of "Some [blank_candidate, blank_candidate]" 2 installed_client 10 7]
  by (simp add: example_candidates)

lemma resolve_slot_sound_complete_witness:
  "\<exists>out. solana_delivery_client_resolve_slot (Some installed_client) 10 (Some [blank_candidate]) 1
      (Some 7) = (SOLANA_DELIVERY_STATUS_OK, Some out, Some 1) \<and>
    (\<forall>v e. \<lparr>cd_leader_index = 0, cd_validator_index = v, cd_endpoint_index = e\<rparr> \<in> set (take 1 out) \<longleftrightarrow>
       v = 0 \<and> e = 0) \<and> (\<forall>cand \<in> set (take 1 out). cd_endpoint_index cand < 1)"
proof -
  have r: "solana_delivery_client_resolve_slot (Some installed_client) 10 (Some [blank_candidate]) 1
      (Some 7) = (SOLANA_DELIVERY_STATUS_OK, Some [example_candidate], Some 1)"
    using resolve_slot_eq [of "Some [blank_candidate]" 1 installed_client 10 7]
    by (simp add: resolve_result_def example_candidates)
  from r resolve_slot_sound_complete [OF r, simplified] show ?thesis
    by (simp add: example_owned_def example_topology_def example_leader_def example_association_def)
qed

end
