(* ===== verification/Route_Planner.thy ===== *)
theory Route_Planner
  imports Client_State "HOL-Library.Sublist"
begin

text \<open>
  The route planner, \<open>solana_delivery_route.c\<close>: the first occurrence of every
  (validator, endpoint) pair among the candidates, in order, up to a limit. The
  specification is \<open>unique_candidates\<close>.
\<close>

section \<open>The code\<close>

definition candidate_has_same_target ::
  "solana_delivery_topology_candidate_t \<Rightarrow> solana_delivery_topology_candidate_t \<Rightarrow> bool" where
  "candidate_has_same_target left right \<longleftrightarrow>
     cd_validator_index left = cd_validator_index right \<and>
     cd_endpoint_index left = cd_endpoint_index right"

definition candidate_is_first_occurrence ::
  "solana_delivery_topology_candidate_t list \<Rightarrow> usize \<Rightarrow> bool" where
  "candidate_is_first_occurrence candidates index =
     (case for_loop index
        (\<lambda>prior u. if candidate_has_same_target (candidates ! unat prior) (candidates ! unat index)
           then Inl False else Inr u) ()
      of Inl r \<Rightarrow> r | Inr u \<Rightarrow> True)"

definition count_unique_targets ::
  "solana_delivery_topology_candidate_t list \<Rightarrow> usize \<Rightarrow> usize" where
  "count_unique_targets candidates candidate_count =
     (case for_loop candidate_count
        (\<lambda>index unique_count. if candidate_is_first_occurrence candidates index
           then Inr (unique_count + 1) else Inr unique_count) 0
      of Inl r \<Rightarrow> r | Inr unique_count \<Rightarrow> unique_count)"

text \<open>
  \<open>candidates\<close> and \<open>targets\<close> are None for NULL; the two counters are None for NULL and
  otherwise the pointed-to value.
\<close>

definition solana_delivery_plan_routes ::
  "solana_delivery_topology_candidate_t list option \<Rightarrow> usize \<Rightarrow> usize \<Rightarrow>
   solana_delivery_route_target_t list option \<Rightarrow> usize \<Rightarrow> usize option \<Rightarrow> usize option \<Rightarrow>
   solana_delivery_status_t \<times> solana_delivery_route_target_t list option \<times>
   usize option \<times> usize option" where
  "solana_delivery_plan_routes candidates candidate_count target_limit targets capacity
       out_target_count out_unique_target_count =
     (if out_target_count = None \<or> out_unique_target_count = None
      then (SOLANA_DELIVERY_STATUS_INVALID_ARGUMENT, targets, out_target_count,
            out_unique_target_count)
      else if target_limit = 0 \<or> (candidate_count \<noteq> 0 \<and> candidates = None)
         \<or> (capacity \<noteq> 0 \<and> targets = None)
      then (SOLANA_DELIVERY_STATUS_INVALID_ARGUMENT, targets, Some 0, Some 0)
      else if candidate_count = 0
      then (SOLANA_DELIVERY_STATUS_TOPOLOGY_UNAVAILABLE, targets, Some 0, Some 0)
      else
        let cands = the candidates;
            unique_count = count_unique_targets cands candidate_count;
            selected_count = (if unique_count < target_limit then unique_count else target_limit)
        in if capacity < selected_count
        then (SOLANA_DELIVERY_STATUS_RESOURCE_EXHAUSTED, targets, Some selected_count,
              Some unique_count)
        else
        case for_guard 0 candidate_count (\<lambda>(output_index, buffer). output_index < selected_count)
          (\<lambda>index (output_index, buffer).
             if \<not> candidate_is_first_occurrence cands index then Inr (output_index, buffer)
             else Inr (output_index + 1, buffer[unat output_index :=
               \<lparr>rr_leader_index = cd_leader_index (cands ! unat index),
                rr_validator_index = cd_validator_index (cands ! unat index),
                rr_endpoint_index = cd_endpoint_index (cands ! unat index)\<rparr>]))
          (0 :: usize, case targets of None \<Rightarrow> [] | Some buffer \<Rightarrow> buffer)
        of Inl (r :: unit) \<Rightarrow>
             (SOLANA_DELIVERY_STATUS_OK, targets, Some selected_count, Some unique_count)
         | Inr (output_index, buffer) \<Rightarrow>
             (SOLANA_DELIVERY_STATUS_OK, Some buffer, Some selected_count, Some unique_count))"

section \<open>Specification\<close>

definition target_of :: "solana_delivery_topology_candidate_t \<Rightarrow> u32 \<times> u32" where
  "target_of c = (cd_validator_index c, cd_endpoint_index c)"

definition route_of :: "solana_delivery_topology_candidate_t \<Rightarrow> solana_delivery_route_target_t" where
  "route_of c =
     \<lparr>rr_leader_index = cd_leader_index c, rr_validator_index = cd_validator_index c,
      rr_endpoint_index = cd_endpoint_index c\<rparr>"

fun unique_candidates ::
  "solana_delivery_topology_candidate_t list \<Rightarrow> solana_delivery_topology_candidate_t list" where
  "unique_candidates [] = []"
| "unique_candidates (c # cs) = c # filter (\<lambda>d. target_of d \<noteq> target_of c) (unique_candidates cs)"

lemma set_unique: "target_of ` set (unique_candidates cs) = target_of ` set cs"
proof (induction cs)
  case (Cons c cs)
  have "target_of ` {x \<in> S. target_of x \<noteq> target_of c} = target_of ` S - {target_of c}" for S
    by auto
  with Cons show ?case by auto
qed simp

lemma distinct_unique: "distinct (map target_of (unique_candidates cs))"
  by (induction cs) (auto simp: distinct_map_filter)

lemma subseq_unique: "subseq (unique_candidates cs) cs"
  by (induction cs) (auto intro: subseq_order.trans subseq_filter_left)

lemma set_unique_subset: "set (unique_candidates cs) \<subseteq> set cs"
  by (induction cs) auto

lemma unique_snoc:
  "unique_candidates (cs @ [c]) =
     unique_candidates cs @ (if target_of c \<in> target_of ` set cs then [] else [c])"
  by (induction cs) auto

text \<open>The chosen candidate of a target is its earliest one.\<close>

lemma unique_earliest:
  "c \<in> set (unique_candidates cs) \<Longrightarrow>
     find (\<lambda>d. target_of d = target_of c) cs = Some c"
  by (induction cs) auto

lemma first_occurrence_iff:
  assumes "unat index < length cs"
  shows "candidate_is_first_occurrence cs index \<longleftrightarrow>
    target_of (cs ! unat index) \<notin> target_of ` set (take (unat index) cs)"
proof -
  have "(\<exists>i < index. candidate_has_same_target (cs ! unat i) (cs ! unat index)) \<longleftrightarrow>
    (\<exists>k < unat index. target_of (cs ! k) = target_of (cs ! unat index))"
    using ex_index_nat [of index "\<lambda>k. target_of (cs ! k) = target_of (cs ! unat index)"]
    by (simp add: candidate_has_same_target_def target_of_def)
  moreover have "\<dots> \<longleftrightarrow> target_of (cs ! unat index) \<in> target_of ` set (take (unat index) cs)"
    using assms by (auto simp: image_iff nth_image [symmetric, OF less_imp_le] Bex_def)
  ultimately show ?thesis
    by (simp add: candidate_is_first_occurrence_def for_loop_index_list fold_body_search Bex_def)
qed

lemma unique_candidates_filter:
  "k \<le> length cs \<Longrightarrow> k < 2 ^ 64 \<Longrightarrow>
     map (\<lambda>i. cs ! unat i) (filter (candidate_is_first_occurrence cs) (map of_nat [0..<k])) =
     unique_candidates (take k cs)"
proof (induction k)
  case 0
  then show ?case by simp
next
  case (Suc k)
  then have "unat (of_nat k :: usize) = k" by (intro unat_of_nat_small) simp
  with Suc first_occurrence_iff [of "of_nat k" cs] show ?case
    by (simp add: take_Suc_snoc unique_snoc)
qed

lemma filter_first_occurrence:
  assumes "length cs = unat n"
  shows "map (\<lambda>i. cs ! unat i) (filter (candidate_is_first_occurrence cs) (index_list n)) =
    unique_candidates cs"
  using unique_candidates_filter [of "unat n" cs] assms unat_lt_64 [of n]
  by (simp add: index_list_def)

lemma length_unique_le: "length (unique_candidates cs) \<le> length cs"
  by (rule list_emb_length [OF subseq_unique])

lemma count_unique_targets_eq:
  assumes "length cs = unat n"
  shows "count_unique_targets cs n = of_nat (length (unique_candidates cs))"
  unfolding filter_first_occurrence [OF assms, symmetric]
  by (simp add: count_unique_targets_def for_loop_index_list fold_count_if)

lemma plan_loop:
  assumes "length cs = unat n" "unat selected \<le> length buf"
    "unat selected \<le> length (unique_candidates cs)"
  shows "for_guard 0 n (\<lambda>(output_index, buffer). output_index < selected)
      (\<lambda>index (output_index, buffer).
         if \<not> candidate_is_first_occurrence cs index then Inr (output_index, buffer)
         else Inr (output_index + 1, buffer[unat output_index := route_of (cs ! unat index)]))
      (0 :: usize, buf) =
    (Inr (selected, map route_of (take (unat selected) (unique_candidates cs)) @
       drop (unat selected) buf) :: unit + _)"
proof -
  have "map (\<lambda>i. route_of (cs ! unat i)) (filter (candidate_is_first_occurrence cs) (index_list n)) =
      map route_of (unique_candidates cs)"
    unfolding filter_first_occurrence [OF assms(1), symmetric] by simp
  then show ?thesis
    using fold_emit_guard [of 0 selected buf "candidate_is_first_occurrence cs"
      "\<lambda>i. route_of (cs ! unat i)" "index_list n"] assms(2,3)
    by (simp add: for_guard_index_list Let_def take_map min_absorb2)
qed

lemma length_selected:
  assumes "length cs = unat (n :: usize)"
  shows "(if (of_nat (length (unique_candidates cs)) :: usize) < target_limit
      then of_nat (length (unique_candidates cs)) else target_limit) =
    of_nat (length (take (unat target_limit) (unique_candidates cs)))"
    "unat (of_nat (length (take (unat target_limit) (unique_candidates cs))) :: usize) =
      length (take (unat target_limit) (unique_candidates cs))"
proof -
  have "length (unique_candidates cs) < 2 ^ 64"
    using length_unique_le [of cs] assms unat_lt_64 [of n] by (simp del: unat_lt_64)
  then have u: "unat (of_nat k :: usize) = k" if "k \<le> length (unique_candidates cs)" for k
    using that by (intro unat_of_nat_small) simp
  then show "(if (of_nat (length (unique_candidates cs)) :: usize) < target_limit
      then of_nat (length (unique_candidates cs)) else target_limit) =
    of_nat (length (take (unat target_limit) (unique_candidates cs)))"
    by (auto simp: word_less_nat_alt min_def)
  show "unat (of_nat (length (take (unat target_limit) (unique_candidates cs))) :: usize) =
      length (take (unat target_limit) (unique_candidates cs))"
    by (rule u) simp
qed

lemma plan_routes_eq:
  assumes "length cs = unat candidate_count"
    and "\<And>buf. targets = Some buf \<Longrightarrow> length buf = unat capacity"
    and "target_limit \<noteq> 0" "\<not> (capacity \<noteq> 0 \<and> targets = None)" "cs \<noteq> []"
  shows "solana_delivery_plan_routes (Some cs) candidate_count target_limit targets capacity
      (Some x) (Some y) =
    (let unique = unique_candidates cs; selected = take (unat target_limit) unique;
         chosen = Some (of_nat (length selected)); total = Some (of_nat (length unique)) in
     if unat capacity < length selected
     then (SOLANA_DELIVERY_STATUS_RESOURCE_EXHAUSTED, targets, chosen, total)
     else (SOLANA_DELIVERY_STATUS_OK,
           Some (map route_of selected @ drop (length selected) (the targets)), chosen, total))"
proof -
  let ?sel = "take (unat target_limit) (unique_candidates cs)"
  have n: "candidate_count \<noteq> 0" using assms(1,5) by auto
  have cap: "capacity < of_nat (length ?sel) \<longleftrightarrow> unat capacity < length ?sel"
    by (simp only: word_less_nat_alt length_selected(2) [OF assms(1)])
  show ?thesis
  proof (cases "unat capacity < length ?sel")
    case True
    with assms(3,4) n show ?thesis
      unfolding solana_delivery_plan_routes_def Let_def option.sel cap
        count_unique_targets_eq [OF assms(1)] length_selected(1) [OF assms(1)]
      by (simp del: length_take)
  next
    case False
    have "length ?sel \<noteq> 0" using assms(3,5) unsigned_eq_0_iff [of target_limit, where ?'a = nat]
      by (cases cs) auto
    then have "capacity \<noteq> 0" using False by auto
    with assms(4) obtain buf where b: "targets = Some buf" by auto
    with False assms(2) have "unat (of_nat (length ?sel) :: usize) \<le> length buf"
      "unat (of_nat (length ?sel) :: usize) \<le> length (unique_candidates cs)"
      by (simp_all add: length_selected(2) [OF assms(1)] del: length_take) simp_all
    note loop = plan_loop [OF assms(1) this, unfolded route_of_def]
    have r: "(\<lambda>c. \<lparr>rr_leader_index = cd_leader_index c, rr_validator_index = cd_validator_index c,
        rr_endpoint_index = cd_endpoint_index c\<rparr>) = route_of"
      by (simp add: fun_eq_iff route_of_def)
    have t: "take (length ?sel) (unique_candidates cs) = ?sel"
      by (simp add: min_def)
    show ?thesis
      unfolding solana_delivery_plan_routes_def Let_def option.sel cap b option.case loop
        count_unique_targets_eq [OF assms(1)] length_selected(1) [OF assms(1)]
      using False assms(3) n length_selected(2) [OF assms(1), of target_limit]
      by (simp add: r t del: length_take)
  qed
qed

lemma plan_routes_result:
  assumes "length cs = unat candidate_count"
    and "\<And>buf. targets = Some buf \<Longrightarrow> length buf = unat capacity"
  shows "solana_delivery_plan_routes (Some cs) candidate_count target_limit targets capacity
      (Some x) (Some y) =
    (let unique = unique_candidates cs; selected = take (unat target_limit) unique;
         chosen = Some (of_nat (length selected)); total = Some (of_nat (length unique)) in
     if target_limit = 0 \<or> capacity \<noteq> 0 \<and> targets = None
     then (SOLANA_DELIVERY_STATUS_INVALID_ARGUMENT, targets, Some 0, Some 0)
     else if cs = [] then (SOLANA_DELIVERY_STATUS_TOPOLOGY_UNAVAILABLE, targets, Some 0, Some 0)
     else if unat capacity < length selected
     then (SOLANA_DELIVERY_STATUS_RESOURCE_EXHAUSTED, targets, chosen, total)
     else (SOLANA_DELIVERY_STATUS_OK,
           Some (map route_of selected @ drop (length selected) (the targets)), chosen, total))"
proof (cases "target_limit = 0 \<or> capacity \<noteq> 0 \<and> targets = None \<or> cs = []")
  case False
  with plan_routes_eq [OF assms, where target_limit = target_limit and x = x and y = y]
  show ?thesis by (auto simp: Let_def)
next
  case True
  have "cs = [] \<longleftrightarrow> candidate_count = 0"
    using assms(1) unsigned_eq_0_iff [of candidate_count, where ?'a = nat] by auto
  with True show ?thesis by (auto simp: solana_delivery_plan_routes_def Let_def)
qed

text \<open>C30: The planner on every path, for candidate and target arrays of the declared
  lengths: the selection is the first \<open>target_limit\<close> of the distinct targets in candidate
  order; both counts are always reported once the arguments are valid; a buffer that is
  too small is not written; entries beyond the selection keep their contents.\<close>

theorem plan_routes_outcome:
  assumes "length cs = unat candidate_count"
    and "\<And>buf. targets = Some buf \<Longrightarrow> length buf = unat capacity"
  shows "solana_delivery_plan_routes (Some cs) candidate_count target_limit targets capacity
      (Some x) (Some y) =
    (let unique = unique_candidates cs; selected = take (unat target_limit) unique;
         chosen = Some (of_nat (length selected)); total = Some (of_nat (length unique)) in
     if target_limit = 0 \<or> capacity \<noteq> 0 \<and> targets = None
     then (SOLANA_DELIVERY_STATUS_INVALID_ARGUMENT, targets, Some 0, Some 0)
     else if cs = [] then (SOLANA_DELIVERY_STATUS_TOPOLOGY_UNAVAILABLE, targets, Some 0, Some 0)
     else if unat capacity < length selected
     then (SOLANA_DELIVERY_STATUS_RESOURCE_EXHAUSTED, targets, chosen, total)
     else (SOLANA_DELIVERY_STATUS_OK,
           Some (map route_of selected @ drop (length selected) (the targets)), chosen, total))"
  by (rule plan_routes_result [OF assms])

text \<open>C16: What the planner selects: the routes are some of the candidates in their
  order; no two have the same validator and endpoint; each carries the leader index of
  the earliest candidate for its target; there are at most \<open>target_limit\<close>; and when the
  limit does not cut, every target of a candidate has a route.\<close>

theorem plan_routes_selection:
  assumes "length cs = unat candidate_count" "length buf = unat capacity"
    and "solana_delivery_plan_routes (Some cs) candidate_count target_limit (Some buf) capacity
      (Some x) (Some y) = (SOLANA_DELIVERY_STATUS_OK, Some out, Some chosen, Some uniq)"
  shows "\<exists>selected. take (unat chosen) out = map route_of selected \<and> subseq selected cs \<and>
    distinct (map target_of selected) \<and>
    (\<forall>c \<in> set selected. find (\<lambda>d. target_of d = target_of c) cs = Some c) \<and>
    unat chosen = min (unat target_limit) (card (target_of ` set cs)) \<and>
    unat uniq = card (target_of ` set cs) \<and>
    (unat uniq \<le> unat target_limit \<longrightarrow> target_of ` set selected = target_of ` set cs)"
proof -
  let ?U = "unique_candidates cs"
  let ?sel = "take (unat target_limit) ?U"
  have r: "out = map route_of ?sel @ drop (length ?sel) buf" "chosen = of_nat (length ?sel)"
    "uniq = of_nat (length ?U)"
    using assms(3) plan_routes_result [OF assms(1), of "Some buf" capacity] assms(2)
    by (auto simp: Let_def simp del: length_take split: if_splits)
  have c: "unat chosen = length ?sel" unfolding r(2) by (rule length_selected(2) [OF assms(1)])
  have t: "unat uniq = length ?U" unfolding r(3)
    using length_unique_le [of cs] assms(1) unat_lt_64 [of candidate_count]
    by (intro unat_of_nat_small) (simp del: unat_lt_64)
  have card: "length ?U = card (target_of ` set cs)"
    using distinct_card [OF distinct_unique [of cs]] by (simp add: set_unique)
  have "subseq ?sel cs"
    using subseq_order.trans [OF _ subseq_unique] by (simp add: prefix_imp_subseq take_is_prefix)
  moreover have "distinct (map target_of ?sel)"
    using distinct_unique [of cs] by (simp add: take_map [symmetric] distinct_take)
  moreover have "\<forall>c \<in> set ?sel. find (\<lambda>d. target_of d = target_of c) cs = Some c"
    using unique_earliest by (auto dest: in_set_takeD)
  moreover have "unat uniq \<le> unat target_limit \<longrightarrow> target_of ` set ?sel = target_of ` set cs"
    by (simp add: t set_unique)
  ultimately show ?thesis
    using c t card by (intro exI [of _ ?sel]) (auto simp: r(1))
qed

section \<open>Witnesses\<close>

text \<open>Two leaders of one validator with the same endpoint, then another endpoint.\<close>

definition route_example :: "solana_delivery_topology_candidate_t list" where
  "route_example =
     [\<lparr>cd_leader_index = 0, cd_validator_index = 5, cd_endpoint_index = 7\<rparr>,
      \<lparr>cd_leader_index = 1, cd_validator_index = 5, cd_endpoint_index = 7\<rparr>,
      \<lparr>cd_leader_index = 1, cd_validator_index = 5, cd_endpoint_index = 8\<rparr>]"

definition blank_route :: solana_delivery_route_target_t where
  "blank_route = \<lparr>rr_leader_index = 9, rr_validator_index = 9, rr_endpoint_index = 9\<rparr>"

lemma unique_route_example:
  "unique_candidates route_example = [route_example ! 0, route_example ! 2]"
  by (simp add: route_example_def target_of_def)

lemma plan_routes_outcome_witness:
  "solana_delivery_plan_routes (Some route_example) 3 2 (Some [blank_route]) 1 (Some 0) (Some 0) =
   (SOLANA_DELIVERY_STATUS_RESOURCE_EXHAUSTED, Some [blank_route], Some 2, Some 2)"
  using plan_routes_outcome [of route_example 3 "Some [blank_route]" 1 2 0 0]
  by (simp add: unique_route_example Let_def) (simp add: route_example_def Let_def)

lemma plan_routes_selection_witness:
  "\<exists>selected. [\<lparr>rr_leader_index = 0, rr_validator_index = 5, rr_endpoint_index = 7\<rparr>,
      \<lparr>rr_leader_index = 1, rr_validator_index = 5, rr_endpoint_index = 8\<rparr>] = map route_of selected \<and>
    subseq selected route_example \<and> distinct (map target_of selected)"
proof -
  have "solana_delivery_plan_routes (Some route_example) 3 2 (Some [blank_route, blank_route, blank_route]) 3
      (Some 0) (Some 0) =
    (SOLANA_DELIVERY_STATUS_OK,
     Some [route_of (route_example ! 0), route_of (route_example ! 2), blank_route], Some 2, Some 2)"
    using plan_routes_eq [of route_example 3 "Some [blank_route, blank_route, blank_route]" 3 2 0 0]
    by (simp add: unique_route_example Let_def) (simp add: route_example_def Let_def)
  moreover have "length route_example = unat (3 :: usize)"
    "length [blank_route, blank_route, blank_route] = unat (3 :: usize)"
    by (simp_all add: route_example_def)
  ultimately obtain sel where sel: "take (unat (2 :: usize))
      [route_of (route_example ! 0), route_of (route_example ! 2), blank_route] = map route_of sel"
    "subseq sel route_example" "distinct (map target_of sel)"
    using plan_routes_selection by blast
  from sel(1) have "[route_of (route_example ! 0), route_of (route_example ! 2)] = map route_of sel"
    by simp
  with sel(2,3) show ?thesis
    by (intro exI [of _ sel]) (simp add: route_example_def route_of_def)
qed

end
