(* ===== verification/Event_Queue.thy ===== *)
theory Event_Queue
  imports Client_State
begin

text \<open>
  The event ring and its polling, \<open>solana_delivery_events.c\<close>. The contract of the
  ring is the locale \<open>bounded_fifo\<close>: a list that grows at the end and is read from
  the front. The ring of the client is an interpretation, and the polling loop is
  verified against the contract.
\<close>

section \<open>The code\<close>

text \<open>The helper of the same name in the events, submission and discovery files.\<close>

definition pointer_is_aligned_for :: "addr \<Rightarrow> usize \<Rightarrow> bool" where
  "pointer_is_aligned_for pointer alignment \<longleftrightarrow>
     pointer \<noteq> NULL \<and> alignment \<noteq> 0 \<and> pointer mod alignment = 0"

definition solana_delivery_event_queue_has_capacity ::
  "'u solana_delivery_client_t option \<Rightarrow> bool" where
  "solana_delivery_event_queue_has_capacity client =
     (case client of None \<Rightarrow> False
      | Some c \<Rightarrow> eq_count (cl_event_queue c) < SOLANA_DELIVERY_EVENT_QUEUE_CAPACITY)"

text \<open>The three moves on the ring itself.\<close>

definition queue_append ::
  "solana_delivery_event_t \<Rightarrow> solana_delivery_event_queue_t \<Rightarrow> solana_delivery_event_queue_t" where
  "queue_append event q =
     (let tail = (eq_head q + eq_count q) mod SOLANA_DELIVERY_EVENT_QUEUE_CAPACITY
      in q\<lparr>eq_entries := (eq_entries q)[unat tail := event], eq_count := eq_count q + 1\<rparr>)"

definition queue_front :: "solana_delivery_event_queue_t \<Rightarrow> solana_delivery_event_t" where
  "queue_front q = eq_entries q ! unat (eq_head q)"

definition queue_advance :: "solana_delivery_event_queue_t \<Rightarrow> solana_delivery_event_queue_t" where
  "queue_advance q =
     q\<lparr>eq_head := (eq_head q + 1) mod SOLANA_DELIVERY_EVENT_QUEUE_CAPACITY,
       eq_count := eq_count q - 1\<rparr>"

definition solana_delivery_event_queue_push ::
  "'u solana_delivery_client_t option \<Rightarrow> solana_delivery_event_t option \<Rightarrow>
   solana_delivery_status_t \<times> 'u solana_delivery_client_t option" where
  "solana_delivery_event_queue_push client event =
     (if client = None \<or> event = None then (SOLANA_DELIVERY_STATUS_INTERNAL_ERROR, client)
      else if \<not> solana_delivery_event_queue_has_capacity client
      then (SOLANA_DELIVERY_STATUS_RESOURCE_EXHAUSTED, client)
      else let c = the client in
        (SOLANA_DELIVERY_STATUS_OK,
         Some (c\<lparr>cl_event_queue := queue_append (the event) (cl_event_queue c)\<rparr>)))"

definition solana_delivery_client_poll_events ::
  "'u solana_delivery_client_t option \<Rightarrow> addr \<Rightarrow> usize \<Rightarrow> u32 \<Rightarrow> addr \<Rightarrow> memory \<Rightarrow>
   solana_delivery_status_t \<times> 'u solana_delivery_client_t option \<times> memory" where
  "solana_delivery_client_poll_events client events event_capacity event_stride
       out_event_count m =
     (if \<not> pointer_is_aligned_for out_event_count 8
      then (SOLANA_DELIVERY_STATUS_INVALID_ARGUMENT, client, m)
      else
      let m = store_u64 m out_event_count 0 in
      case client of None \<Rightarrow> (SOLANA_DELIVERY_STATUS_INVALID_ARGUMENT, client, m)
      | Some c \<Rightarrow>
      if event_capacity = 0 then (SOLANA_DELIVERY_STATUS_OK, client, m)
      else if \<not> pointer_is_aligned_for events (of_nat (c_alignof event_layout))
      then (SOLANA_DELIVERY_STATUS_INVALID_ARGUMENT, client, m)
      else
      let stride = (ucast event_stride :: usize);
          minimum_event_size = (of_nat (c_sizeof event_layout) :: usize);
          event_alignment = (of_nat (c_alignof event_layout) :: usize) in
      if stride < minimum_event_size \<or> stride mod event_alignment \<noteq> 0
      then (SOLANA_DELIVERY_STATUS_INVALID_ARGUMENT, client, m)
      else if SIZE_MAX div stride < event_capacity
      then (SOLANA_DELIVERY_STATUS_INVALID_ARGUMENT, client, m)
      else
      let copy_count = eq_count (cl_event_queue c);
          copy_count = (if event_capacity < copy_count then event_capacity else copy_count) in
      case for_loop copy_count
        (\<lambda>index (q, m).
           Inr (queue_advance q,
                store_bytes m (events + index * stride) (bytes_of_event (queue_front q))))
        (cl_event_queue c, m)
      of Inl (r :: unit) \<Rightarrow> (SOLANA_DELIVERY_STATUS_OK, client, m)
       | Inr (q, m) \<Rightarrow>
           let q = (if eq_count q = 0 then q\<lparr>eq_head := 0\<rparr> else q);
               m = store_u64 m out_event_count copy_count
           in (SOLANA_DELIVERY_STATUS_OK, Some (c\<lparr>cl_event_queue := q\<rparr>), m))"

section \<open>The contract of the ring\<close>

locale bounded_fifo =
  fixes wf :: "'s \<Rightarrow> bool"
    and contents :: "'s \<Rightarrow> 'e list"
    and bound :: nat
    and append :: "'e \<Rightarrow> 's \<Rightarrow> 's"
    and front :: "'s \<Rightarrow> 'e"
    and advance :: "'s \<Rightarrow> 's"
  assumes bounded: "wf s \<Longrightarrow> length (contents s) \<le> bound"
    and append_wf: "wf s \<Longrightarrow> length (contents s) < bound \<Longrightarrow> wf (append e s)"
    and append_contents: "wf s \<Longrightarrow> length (contents s) < bound \<Longrightarrow>
          contents (append e s) = contents s @ [e]"
    and front_contents: "wf s \<Longrightarrow> contents s \<noteq> [] \<Longrightarrow> front s = hd (contents s)"
    and advance_wf: "wf s \<Longrightarrow> contents s \<noteq> [] \<Longrightarrow> wf (advance s)"
    and advance_contents: "wf s \<Longrightarrow> contents s \<noteq> [] \<Longrightarrow> contents (advance s) = tl (contents s)"
begin

text \<open>A loop that takes the front element and stores it somewhere, for each index of a list.\<close>

lemma drain_loop:
  assumes "wf s" "length is \<le> length (contents s)"
  shows "\<exists>s'. fold_body (\<lambda>i (s, m). Inr (advance s, put i (front s) m)) is (s, m) =
      (Inr (s', fold (\<lambda>(i, e). put i e) (zip is (contents s)) m) :: 'r + _) \<and>
    wf s' \<and> contents s' = drop (length is) (contents s)"
  using assms
proof (induction "is" arbitrary: s m)
  case Nil
  then show ?case by auto
next
  case (Cons i "is")
  then have ne: "contents s \<noteq> []" by auto
  then obtain e es where c: "contents s = e # es" by (cases "contents s") auto
  have "wf (advance s)" "contents (advance s) = es" "front s = e"
    using Cons.prems(1) ne c advance_wf advance_contents front_contents by auto
  with Cons.IH [of "advance s" "put i e m"] Cons.prems(2) c show ?case by simp
qed

text \<open>Appending and then draining returns the elements in the order they were appended.\<close>

lemma append_list:
  assumes "wf s" "length (contents s) + length es \<le> bound"
  shows "wf (fold append es s) \<and> contents (fold append es s) = contents s @ es"
  using assms
  by (induction es arbitrary: s) (auto simp: append_wf append_contents)

end

section \<open>The ring of the client\<close>

definition queue_wf :: "solana_delivery_event_queue_t \<Rightarrow> bool" where
  "queue_wf q \<longleftrightarrow> length (eq_entries q) = 64 \<and> unat (eq_head q) < 64 \<and> unat (eq_count q) \<le> 64"

text \<open>The queued events, oldest first.\<close>

definition queue_events :: "solana_delivery_event_queue_t \<Rightarrow> solana_delivery_event_t list" where
  "queue_events q =
     map (\<lambda>i. eq_entries q ! ((unat (eq_head q) + i) mod 64)) [0..<unat (eq_count q)]"

lemma length_queue_events [simp]: "length (queue_events q) = unat (eq_count q)"
  by (simp add: queue_events_def)

lemma unat_mod_64: "unat ((x :: usize) mod 64) = unat x mod 64"
  by (simp add: unat_mod)

lemma unat_plus_small: "unat (x :: usize) + unat y < 2 ^ 64 \<Longrightarrow> unat (x + y) = unat x + unat y"
  by (simp add: unat_word_ariths)

lemma queue_zero [simp]: "queue_wf zero_queue" "queue_events zero_queue = []"
  by (simp_all add: queue_wf_def zero_queue_def queue_events_def)

interpretation ring: bounded_fifo queue_wf queue_events 64 queue_append queue_front queue_advance
proof
  fix q e assume q: "queue_wf q"
  then show "length (queue_events q) \<le> 64" by (simp add: queue_wf_def)
  assume "length (queue_events q) < 64"
  then have c: "unat (eq_count q) < 64" by simp
  have tail: "unat ((eq_head q + eq_count q) mod 64) = (unat (eq_head q) + unat (eq_count q)) mod 64"
    using q c by (simp add: queue_wf_def unat_mod_64 unat_plus_small)
  have inc: "unat (eq_count q + 1) = Suc (unat (eq_count q))"
    using c by (intro unat_inc [where n = 64]) (simp add: word_less_nat_alt)
  show "queue_wf (queue_append e q)"
    using q c by (simp add: queue_wf_def queue_append_def Let_def inc)
  have "(unat (eq_head q) + i) mod 64 \<noteq> (unat (eq_head q) + unat (eq_count q)) mod 64"
    if "i < unat (eq_count q)" for i
    using that c q by (auto simp: queue_wf_def mod_if split: if_splits)
  then have "(eq_entries q)[(unat (eq_head q) + unat (eq_count q)) mod 64 := e] !
      ((unat (eq_head q) + i) mod 64) = eq_entries q ! ((unat (eq_head q) + i) mod 64)"
    if "i < unat (eq_count q)" for i
    using that by (metis nth_list_update_neq)
  then show "queue_events (queue_append e q) = queue_events q @ [e]"
    using q c by (simp add: queue_events_def queue_append_def Let_def inc tail queue_wf_def)
next
  fix q assume q: "queue_wf q" and "queue_events q \<noteq> []"
  then have c: "0 < unat (eq_count q)" by (metis length_queue_events length_greater_0_conv)
  then have u: "[0..<unat (eq_count q)] = 0 # map Suc [0..<unat (eq_count q) - 1]"
    by (metis Suc_pred' map_Suc_upt upt_conv_Cons)
  have dec: "unat (eq_count q - 1) = unat (eq_count q) - 1"
    using c by (subst unat_minus_one) auto
  have adv: "unat ((eq_head q + 1) mod 64) = (unat (eq_head q) + 1) mod 64"
    using q by (simp add: queue_wf_def unat_mod_64 unat_plus_small)
  show "queue_front q = hd (queue_events q)"
    using q by (simp add: queue_front_def queue_events_def u queue_wf_def)
  show "queue_wf (queue_advance q)"
    using q by (auto simp: queue_wf_def queue_advance_def adv dec)
  show "queue_events (queue_advance q) = tl (queue_events q)"
    by (simp add: queue_events_def queue_advance_def adv dec u comp_def mod_simps)
qed

section \<open>Polling\<close>

text \<open>The arguments with which a poll transfers events.\<close>

definition poll_arguments_ok :: "addr \<Rightarrow> usize \<Rightarrow> u32 \<Rightarrow> addr \<Rightarrow> bool" where
  "poll_arguments_ok events event_capacity event_stride out_event_count \<longleftrightarrow>
     pointer_is_aligned_for out_event_count 8 \<and> event_capacity \<noteq> 0 \<and>
     pointer_is_aligned_for events 8 \<and> 64 \<le> unat event_stride \<and> unat event_stride mod 8 = 0 \<and>
     unat event_capacity * unat event_stride < 2 ^ 64"

definition polled_slots ::
  "addr \<Rightarrow> u32 \<Rightarrow> solana_delivery_event_t list \<Rightarrow> (addr \<times> u8 list) list" where
  "polled_slots events event_stride es =
     map (\<lambda>i. (events + of_nat i * ucast event_stride, bytes_of_event (es ! i))) [0..<length es]"

lemma capacity_check:
  assumes "stride \<noteq> (0 :: usize)"
  shows "SIZE_MAX div stride < cap \<longleftrightarrow> 2 ^ 64 \<le> unat cap * unat stride"
proof -
  have s: "0 < unat stride" using assms unsigned_eq_0_iff [of stride, where ?'a = nat] by auto
  have "SIZE_MAX div stride < cap \<longleftrightarrow> (2 ^ 64 - 1) div unat stride < unat cap"
    by (simp add: word_less_nat_alt unat_div)
  also have "\<dots> \<longleftrightarrow> 2 ^ 64 - 1 < unat cap * unat stride"
    using s by (simp add: div_less_iff_less_mult)
  finally show ?thesis by auto
qed

lemma zip_index_list:
  assumes "unat n \<le> length es"
  shows "zip (index_list n) es = map (\<lambda>i. (of_nat i, es ! i)) [0..<unat n]"
  using assms by (intro nth_equalityI) (auto simp: index_list_def)

lemma poll_run:
  assumes "queue_wf (cl_event_queue c)"
    and "poll_arguments_ok events event_capacity event_stride out"
    and "k = min (unat event_capacity) (length (queue_events (cl_event_queue c)))"
  shows "\<exists>q. solana_delivery_client_poll_events (Some c) events event_capacity event_stride out m =
      (SOLANA_DELIVERY_STATUS_OK, Some (c\<lparr>cl_event_queue := q\<rparr>),
       store_u64 (store_all (polled_slots events event_stride
           (take k (queue_events (cl_event_queue c)))) (store_u64 m out 0)) out (of_nat k)) \<and>
    queue_wf q \<and> queue_events q = drop k (queue_events (cl_event_queue c))"
proof -
  let ?q = "cl_event_queue c"
  let ?es = "queue_events ?q"
  let ?stride = "ucast event_stride :: usize"
  let ?m = "store_u64 m out 0"
  define n where "n = (if event_capacity < eq_count ?q then event_capacity else eq_count ?q)"
  have n: "unat n = k" by (simp add: n_def assms(3) word_less_nat_alt)
  then have n': "n = of_nat k" by (metis of_nat_unat ucast_id)
  have kl: "k \<le> length ?es" by (simp add: assms(3))
  define put where "put i e m = store_bytes m (events + i * ?stride) (bytes_of_event e)" for i e m
  obtain q where q: "fold_body (\<lambda>i (s, m). Inr (queue_advance s, put i (queue_front s) m))
      (index_list n) (?q, ?m) =
      (Inr (q, fold (\<lambda>(i, e). put i e) (zip (index_list n) ?es) ?m) :: unit + _)"
    "queue_wf q" "queue_events q = drop k ?es"
    using ring.drain_loop [OF assms(1), of "index_list n" put ?m] n kl by auto
  have f: "fold (\<lambda>(i, e). put i e) (zip (index_list n) ?es) ?m =
      store_all (polled_slots events event_stride (take k ?es)) ?m"
  proof -
    have "length (take k ?es) = k" using kl by (simp add: min_def)
    then show ?thesis
      using kl n by (simp add: zip_index_list store_all_def polled_slots_def fold_map comp_def
          case_prod_unfold del: length_take)
        (intro fold_cong, auto simp: put_def fun_eq_iff)
  qed
  define q' where "q' = (if eq_count q = 0 then q\<lparr>eq_head := 0\<rparr> else q)"
  have q': "queue_wf q'" "queue_events q' = drop k ?es"
    using q(2,3) by (auto simp: q'_def queue_wf_def queue_events_def split: if_splits)
  have args: "pointer_is_aligned_for out 8" "event_capacity \<noteq> 0" "pointer_is_aligned_for events 8"
    "\<not> ?stride < 64" "?stride mod 8 = 0" "\<not> SIZE_MAX div ?stride < event_capacity"
    using assms(2) capacity_check [of ?stride event_capacity]
    by (auto simp: poll_arguments_ok_def word_less_nat_alt word_eq_iff_unsigned [where ?'a = nat] unat_mod)
  have "solana_delivery_client_poll_events (Some c) events event_capacity event_stride out m =
    (SOLANA_DELIVERY_STATUS_OK, Some (c\<lparr>cl_event_queue := q'\<rparr>),
     store_u64 (store_all (polled_slots events event_stride (take k ?es)) ?m) out n)"
    using args q(1) unfolding f put_def
    by (simp add: solana_delivery_client_poll_events_def Let_def n_def [symmetric] q'_def
        for_loop_index_list case_prod_unfold)
  with q' n' show ?thesis by blast
qed

lemma poll_invalid:
  assumes "\<not> poll_arguments_ok events event_capacity event_stride out"
  shows "solana_delivery_client_poll_events (Some c) events event_capacity event_stride out m =
    (if pointer_is_aligned_for out 8 \<and> event_capacity = 0 then SOLANA_DELIVERY_STATUS_OK
     else SOLANA_DELIVERY_STATUS_INVALID_ARGUMENT,
     Some c, if pointer_is_aligned_for out 8 then store_u64 m out 0 else m)"
proof (cases "pointer_is_aligned_for out 8 \<and> event_capacity \<noteq> 0 \<and>
    pointer_is_aligned_for events 8 \<and> 64 \<le> unat event_stride")
  case False
  have "(ucast event_stride < (64 :: usize)) = (\<not> 64 \<le> unat event_stride)"
    by (simp add: word_less_nat_alt not_le)
  with False show ?thesis
    by (auto simp: solana_delivery_client_poll_events_def Let_def)
next
  case True
  let ?stride = "ucast event_stride :: usize"
  have "?stride \<noteq> 0" using True by (auto simp: word_eq_iff_unsigned [where ?'a = nat])
  with True assms capacity_check [of ?stride event_capacity]
  have "?stride mod 8 \<noteq> 0 \<or> SIZE_MAX div ?stride < event_capacity"
    by (auto simp: poll_arguments_ok_def not_less word_eq_iff_unsigned [where ?'a = nat] unat_mod)
  with True show ?thesis
    by (auto simp: solana_delivery_client_poll_events_def Let_def)
qed

lemma polled_slots_disjoint:
  assumes "length es * unat event_stride < 2 ^ 64" "64 \<le> unat event_stride"
  shows "sorted_wrt (\<lambda>(a, bs) (b, cs). disjoint_regions a (length bs) b (length cs))
    (polled_slots events event_stride es)"
  using assms
  by (auto simp: polled_slots_def sorted_wrt_map event.length_encode
      intro!: sorted_wrt_mono_rel [OF _ sorted_wrt_upt] slots_disjoint [where n = "length es"])

lemma poll_transfers:
  assumes "queue_wf (cl_event_queue c)"
    and "poll_arguments_ok events event_capacity event_stride out"
    and "k = min (unat event_capacity) (length (queue_events (cl_event_queue c)))"
  shows "\<exists>q m'. solana_delivery_client_poll_events (Some c) events event_capacity event_stride out m =
      (SOLANA_DELIVERY_STATUS_OK, Some (c\<lparr>cl_event_queue := q\<rparr>), m') \<and>
    queue_wf q \<and> queue_events q = drop k (queue_events (cl_event_queue c)) \<and>
    unat (load_u64 m' out) = k \<and>
    (\<forall>x. \<not> in_region x out 8 \<and>
       (\<forall>i < k. \<not> in_region x (events + of_nat i * ucast event_stride) 64) \<longrightarrow> m' x = m x) \<and>
    ((\<forall>i < k. disjoint_regions (events + of_nat i * ucast event_stride) 64 out 8) \<longrightarrow>
       map (\<lambda>i. event_of_bytes (load_bytes m' (events + of_nat i * ucast event_stride) 64)) [0..<k] =
       take k (queue_events (cl_event_queue c)))"
proof -
  let ?es = "take k (queue_events (cl_event_queue c))"
  let ?slot = "\<lambda>i. events + of_nat i * ucast event_stride :: addr"
  let ?m0 = "store_u64 m out 0"
  define m' where "m' = store_u64 (store_all (polled_slots events event_stride ?es) ?m0) out (of_nat k)"
  have len: "length ?es = k" using assms(3) by (simp add: min_def)
  have k: "k < 2 ^ 64" using assms(3) unat_lt_64 [of event_capacity] by (simp del: unat_lt_64)
  have dis: "sorted_wrt (\<lambda>(a, bs) (b, cs). disjoint_regions a (length bs) b (length cs))
      (polled_slots events event_stride ?es)"
  proof (rule polled_slots_disjoint)
    have "k * unat event_stride \<le> unat event_capacity * unat event_stride"
      using assms(3) by (intro mult_le_mono1) simp
    also have "\<dots> < 2 ^ 64" using assms(2) by (simp add: poll_arguments_ok_def)
    finally show "length ?es * unat event_stride < 2 ^ 64" unfolding len .
    show "64 \<le> unat event_stride" using assms(2) by (simp add: poll_arguments_ok_def)
  qed
  have frame: "m' x = m x"
    if "\<not> in_region x out 8" "\<forall>i < k. \<not> in_region x (?slot i) 64" for x
  proof -
    have "store_all (polled_slots events event_stride ?es) ?m0 x = ?m0 x"
      using that(2) len
      by (intro store_all_outside) (auto simp: polled_slots_def event.length_encode)
    with that(1) show ?thesis by (simp add: m'_def store_bytes_outside)
  qed
  have readback: "event_of_bytes (load_bytes m' (?slot i) 64) = ?es ! i"
    if "i < k" "disjoint_regions (?slot i) 64 out 8" for i
  proof -
    have "(?slot i, bytes_of_event (?es ! i)) \<in> set (polled_slots events event_stride ?es)"
      using that(1) len by (auto simp: polled_slots_def)
    from store_all_read [OF dis this, of ?m0] that(2) show ?thesis
      by (simp add: m'_def load_store_disjoint event.length_encode event.decode_encode)
  qed
  have "map (\<lambda>i. event_of_bytes (load_bytes m' (?slot i) 64)) [0..<k] = ?es"
    if "\<forall>i < k. disjoint_regions (?slot i) 64 out 8"
    using that readback len by (intro nth_equalityI) auto
  moreover have "unat (load_u64 m' out) = k"
    using k by (simp add: m'_def unat_of_nat_small)
  ultimately show ?thesis
    using poll_run [OF assms, of m] frame unfolding m'_def [symmetric] by blast
qed

text \<open>C13: Polling transfers a prefix of the queue, oldest first. With usable arguments the
  call succeeds, moves \<open>min(capacity, queued)\<close> events, reports that number, leaves the
  rest queued in order, and writes nothing outside the 64-byte prefix of each filled
  slot and the counter. If the counter does not lie in the event array, every slot
  reads back as its event.\<close>

theorem poll_transfers_fifo:
  assumes "queue_wf (cl_event_queue c)"
    and "poll_arguments_ok events event_capacity event_stride out"
    and "k = min (unat event_capacity) (length (queue_events (cl_event_queue c)))"
  shows "\<exists>q m'. solana_delivery_client_poll_events (Some c) events event_capacity event_stride out m =
      (SOLANA_DELIVERY_STATUS_OK, Some (c\<lparr>cl_event_queue := q\<rparr>), m') \<and>
    queue_wf q \<and> queue_events q = drop k (queue_events (cl_event_queue c)) \<and>
    unat (load_u64 m' out) = k \<and>
    (\<forall>x. \<not> in_region x out 8 \<and>
       (\<forall>i < k. \<not> in_region x (events + of_nat i * ucast event_stride) 64) \<longrightarrow> m' x = m x) \<and>
    ((\<forall>i < k. disjoint_regions (events + of_nat i * ucast event_stride) 64 out 8) \<longrightarrow>
       map (\<lambda>i. event_of_bytes (load_bytes m' (events + of_nat i * ucast event_stride) 64)) [0..<k] =
       take k (queue_events (cl_event_queue c)))"
  by (rule poll_transfers [OF assms])

text \<open>C34: A poll whose arguments cannot be used keeps every queued event and writes at
  most a zero to the counter: a misaligned or NULL counter writes nothing; capacity
  zero succeeds with count zero; a NULL or misaligned array, a stride below the event
  size or off its alignment, and a capacity whose extent exceeds the address space are
  invalid arguments.\<close>

theorem poll_rejects:
  assumes "\<not> poll_arguments_ok events event_capacity event_stride out"
  shows "solana_delivery_client_poll_events (Some c) events event_capacity event_stride out m =
    (if pointer_is_aligned_for out 8 \<and> event_capacity = 0 then SOLANA_DELIVERY_STATUS_OK
     else SOLANA_DELIVERY_STATUS_INVALID_ARGUMENT,
     Some c, if pointer_is_aligned_for out 8 then store_u64 m out 0 else m)"
  by (rule poll_invalid [OF assms])

text \<open>C14: Pushing refines appending to the list of queued events: below 64 events the
  push succeeds and the queue's contents grow by the new event at the end; a full ring
  is \<open>RESOURCE_EXHAUSTED\<close> and nothing changes, so an event is never overwritten.\<close>

theorem push_refines_append:
  assumes "queue_wf (cl_event_queue c)"
  shows "if length (queue_events (cl_event_queue c)) < 64
    then \<exists>q. solana_delivery_event_queue_push (Some c) (Some e) =
        (SOLANA_DELIVERY_STATUS_OK, Some (c\<lparr>cl_event_queue := q\<rparr>)) \<and>
      queue_wf q \<and> queue_events q = queue_events (cl_event_queue c) @ [e]
    else solana_delivery_event_queue_push (Some c) (Some e) =
      (SOLANA_DELIVERY_STATUS_RESOURCE_EXHAUSTED, Some c)"
  using ring.append_wf [OF assms] ring.append_contents [OF assms]
  by (auto simp: solana_delivery_event_queue_push_def solana_delivery_event_queue_has_capacity_def
      word_less_nat_alt)

section \<open>Witnesses\<close>

definition plain_event :: "u64 \<Rightarrow> solana_delivery_event_t" where
  "plain_event n =
     \<lparr>ev_struct_size = 64, ev_event_class = 1, ev_event_code = 1, ev_diagnostic_code = 0,
      ev_request_id = n, ev_attempt_id = 0, ev_request_sequence = 1, ev_monotonic_time_ns = n,
      ev_reserved = (0, 0)\<rparr>"

text \<open>A ring that wraps: head at the last slot, two events.\<close>

definition wrapped_client :: "unit solana_delivery_client_t" where
  "wrapped_client = (fresh_client 0x100 SYSTEM_ALLOCATOR system_monotonic_time_ns NULL)
     \<lparr>cl_event_queue := \<lparr>eq_entries = (replicate 64 (plain_event 0))[63 := plain_event 1, 0 := plain_event 2],
        eq_head = 63, eq_count = 2\<rparr>\<rparr>"

lemma wrapped_client_queue:
  "queue_wf (cl_event_queue wrapped_client)"
  "queue_events (cl_event_queue wrapped_client) = [plain_event 1, plain_event 2]"
  by (simp_all add: queue_wf_def wrapped_client_def queue_events_def upt_conv_Cons)

lemma poll_transfers_fifo_witness:
  "\<exists>q m'. solana_delivery_client_poll_events (Some wrapped_client) 0x1000 1 72 0x800 (\<lambda>_. 0) =
     (SOLANA_DELIVERY_STATUS_OK, Some (wrapped_client\<lparr>cl_event_queue := q\<rparr>), m') \<and>
   queue_events q = [plain_event 2] \<and> event_of_bytes (load_bytes m' 0x1000 64) = plain_event 1"
proof -
  have "poll_arguments_ok 0x1000 1 72 0x800"
    by (simp add: poll_arguments_ok_def pointer_is_aligned_for_def)
  from poll_transfers_fifo [OF wrapped_client_queue(1) this, of 1 "\<lambda>_. 0"] obtain q m' where
    "solana_delivery_client_poll_events (Some wrapped_client) 0x1000 1 72 0x800 (\<lambda>_. 0) =
      (SOLANA_DELIVERY_STATUS_OK, Some (wrapped_client\<lparr>cl_event_queue := q\<rparr>), m')"
    "queue_events q = [plain_event 2]"
    "map (\<lambda>i. event_of_bytes (load_bytes m' (0x1000 + of_nat i * ucast (72 :: u32)) 64)) [0..<1] =
      [plain_event 1]"
    unfolding wrapped_client_queue(2) by (auto simp: disjoint_regions_def)
  then show ?thesis by (intro exI [of _ q] exI [of _ m']) simp
qed

lemma poll_rejects_witness:
  "solana_delivery_client_poll_events (Some wrapped_client) 0x1000 1 56 0x800 (\<lambda>_. 0) =
     (SOLANA_DELIVERY_STATUS_INVALID_ARGUMENT, Some wrapped_client, store_u64 (\<lambda>_. 0) 0x800 0)"
  using poll_rejects [of "0x1000" 1 56 "0x800" wrapped_client "\<lambda>_. 0"]
  by (simp add: poll_arguments_ok_def pointer_is_aligned_for_def)

lemma push_refines_append_witness:
  "\<exists>q. solana_delivery_event_queue_push (Some wrapped_client) (Some (plain_event 3)) =
     (SOLANA_DELIVERY_STATUS_OK, Some (wrapped_client\<lparr>cl_event_queue := q\<rparr>)) \<and>
   queue_events q = [plain_event 1, plain_event 2, plain_event 3]"
  using push_refines_append [OF wrapped_client_queue(1), of "plain_event 3"]
  unfolding wrapped_client_queue(2) by auto

end
