(* ===== verification/Submission.thy ===== *)
theory Submission
  imports Admission Resolution Route_Planner Event_Queue
begin

text \<open>
  Submission, \<open>solana_delivery_submission.c\<close>: from caller-owned transaction bytes and
  options to an accepted, library-owned request and its accepted event.
  \<open>solana_delivery_client_submit\<close> is split at its stages; a stage that executes
  \<open>goto cleanup\<close> returns \<open>Inl\<close> of the status, and the pointers live at that moment are in
  the record of the function's locals.
\<close>

section \<open>The code\<close>

abbreviation load_options :: "memory \<Rightarrow> addr \<Rightarrow> solana_delivery_submit_options_t" where
  "load_options m p \<equiv> submit_options_of_bytes (load_bytes m p 24)"

text \<open>The macro \<open>SUBMIT_OPTIONS_MIN_SIZE\<close>.\<close>

definition SUBMIT_OPTIONS_MIN_SIZE :: usize where
  "SUBMIT_OPTIONS_MIN_SIZE = of_nat (STRUCT_MIN_SIZE submit_options_layout 4)"

text \<open>
  An out pointer of the static functions is its non-nullness; what they return for it
  is the value written, None if it was left alone.
\<close>

definition validate_submit_options ::
  "memory \<Rightarrow> addr \<Rightarrow> bool \<Rightarrow>
   solana_delivery_status_t \<times> solana_delivery_submission_policy_t option" where
  "validate_submit_options m options out_policy =
     (if options = NULL \<or> \<not> out_policy \<or>
         \<not> pointer_is_aligned_for options (of_nat (c_alignof submit_options_layout))
      then (SOLANA_DELIVERY_STATUS_INVALID_ARGUMENT, None)
      else let opts = load_options m options in
      if (ucast (so_struct_size opts) :: usize) < SUBMIT_OPTIONS_MIN_SIZE
      then (SOLANA_DELIVERY_STATUS_INVALID_ARGUMENT, None)
      else if so_flags opts \<noteq> SOLANA_DELIVERY_SUBMIT_FLAGS_NONE
      then (SOLANA_DELIVERY_STATUS_UNSUPPORTED, None)
      else if so_reserved0 opts \<noteq> 0 \<or> so_max_topology_age_ns opts = 0 \<or> so_target_limit opts = 0
      then (SOLANA_DELIVERY_STATUS_INVALID_ARGUMENT, None)
      else (SOLANA_DELIVERY_STATUS_OK,
            Some \<lparr>sp_max_topology_age_ns = so_max_topology_age_ns opts,
                  sp_target_limit = ucast (so_target_limit opts)\<rparr>))"

definition allocate_array ::
  "'u solana_delivery_client_t option \<Rightarrow> usize \<Rightarrow> usize \<Rightarrow> bool \<Rightarrow> 'u world \<Rightarrow>
   solana_delivery_status_t \<times> addr option \<times> 'u world" where
  "allocate_array client cnt element_size out_pointer w =
     (if client = None \<or> \<not> out_pointer \<or> element_size = 0
      then (SOLANA_DELIVERY_STATUS_INTERNAL_ERROR, None, w)
      else if cnt = 0 then (SOLANA_DELIVERY_STATUS_OK, Some NULL, w)
      else if SIZE_MAX div element_size < cnt
      then (SOLANA_DELIVERY_STATUS_RESOURCE_EXHAUSTED, Some NULL, w)
      else
        let (pointer, w) = call_calloc (cl_allocator (the client)) cnt element_size w
        in if pointer = NULL then (SOLANA_DELIVERY_STATUS_RESOURCE_EXHAUSTED, Some NULL, w)
           else (SOLANA_DELIVERY_STATUS_OK, Some pointer, w))"

text \<open>The buffers \<open>routes\<close> and \<open>targets\<close> are None for NULL.\<close>

definition materialize_targets ::
  "'u solana_delivery_client_t option \<Rightarrow> solana_delivery_route_target_t list option \<Rightarrow> usize \<Rightarrow>
   solana_delivery_owned_request_target_t list option \<Rightarrow>
   solana_delivery_status_t \<times> solana_delivery_owned_request_target_t list option" where
  "materialize_targets client routes route_count targets =
     (if client = None \<or> routes = None \<or> targets = None \<or> route_count = 0
      then (SOLANA_DELIVERY_STATUS_INTERNAL_ERROR, targets)
      else
        let topology = cl_topology (the client) in
        case for_loop route_count
          (\<lambda>index ts.
             let route = the routes ! unat index in
             if tp_leader_count (ot_view topology) \<le> rr_leader_index route \<or>
                tp_validator_count (ot_view topology) \<le> rr_validator_index route \<or>
                tp_endpoint_count (ot_view topology) \<le> rr_endpoint_index route
             then Inl (SOLANA_DELIVERY_STATUS_INTERNAL_ERROR, Some ts)
             else Inr (ts[unat index :=
               \<lparr>rt_leader_index = rr_leader_index route,
                rt_validator_index = rr_validator_index route,
                rt_endpoint_index = rr_endpoint_index route,
                rt_validator_identity =
                  va_identity (bl_data (ot_validators topology) ! unat (rr_validator_index route)),
                rt_endpoint = bl_data (ot_endpoints topology) ! unat (rr_endpoint_index route)\<rparr>]))
          (the targets)
        of Inl r \<Rightarrow> r | Inr ts \<Rightarrow> (SOLANA_DELIVERY_STATUS_OK, Some ts))"

text \<open>The pointers \<open>solana_delivery_client_submit\<close> holds, with the contents of their blocks.\<close>

record submit_locals =
  lc_candidates :: "solana_delivery_topology_candidate_t block"
  lc_routes :: "solana_delivery_route_target_t block"
  lc_transaction_copy :: "u8 block"
  lc_owned_targets :: "solana_delivery_owned_request_target_t block"
  lc_request :: addr

definition null_locals :: submit_locals where
  "null_locals = \<lparr>lc_candidates = null_block, lc_routes = null_block,
     lc_transaction_copy = null_block, lc_owned_targets = null_block, lc_request = NULL\<rparr>"

definition buffer_of :: "'a block \<Rightarrow> 'a list option" where
  "buffer_of b = (if bl_ptr b = NULL then None else Some (bl_data b))"

text \<open>Elements of zeroed memory.\<close>

definition zero_candidate :: solana_delivery_topology_candidate_t where
  "zero_candidate = \<lparr>cd_leader_index = 0, cd_validator_index = 0, cd_endpoint_index = 0\<rparr>"

definition zero_route :: solana_delivery_route_target_t where
  "zero_route = \<lparr>rr_leader_index = 0, rr_validator_index = 0, rr_endpoint_index = 0\<rparr>"

definition zero_target :: solana_delivery_owned_request_target_t where
  "zero_target =
     \<lparr>rt_leader_index = 0, rt_validator_index = 0, rt_endpoint_index = 0,
      rt_validator_identity = replicate 32 0,
      rt_endpoint = endpoint_of_bytes (replicate 32 0)\<rparr>"

text \<open>Allocate and fill the candidates (lines 207 to 241).\<close>

definition submit_resolve ::
  "'u solana_delivery_client_t \<Rightarrow> u64 \<Rightarrow> usize \<Rightarrow> submit_locals \<Rightarrow> 'u world \<Rightarrow>
   (solana_delivery_status_t + unit) \<times> submit_locals \<times> 'u world" where
  "submit_resolve client routing_slot candidate_count lc w =
     (let (status, candidates, w) =
        allocate_array (Some client) candidate_count (of_nat (c_sizeof candidate_layout)) True w in
      if status \<noteq> SOLANA_DELIVERY_STATUS_OK then (Inl status, lc, w)
      else
      let block = \<lparr>bl_ptr = written candidates, bl_data = replicate (unat candidate_count) zero_candidate\<rparr>;
          (status, buffer, resolved_count) = solana_delivery_client_resolve_slot (Some client)
            routing_slot (buffer_of block) candidate_count (Some 0);
          lc = lc\<lparr>lc_candidates := block\<lparr>bl_data := (case buffer of None \<Rightarrow> [] | Some xs \<Rightarrow> xs)\<rparr>\<rparr> in
      if status \<noteq> SOLANA_DELIVERY_STATUS_OK then (Inl status, lc, w)
      else if resolved_count \<noteq> Some candidate_count
      then (Inl SOLANA_DELIVERY_STATUS_INTERNAL_ERROR, lc, w)
      else (Inr (), lc, w))"

text \<open>Count, allocate and plan the routes (lines 243 to 300); \<open>Inr\<close> of the target count.\<close>

definition submit_plan ::
  "'u solana_delivery_client_t \<Rightarrow> usize \<Rightarrow> usize \<Rightarrow> submit_locals \<Rightarrow> 'u world \<Rightarrow>
   (solana_delivery_status_t + usize) \<times> submit_locals \<times> 'u world" where
  "submit_plan client target_limit candidate_count lc w =
     (let (status, _, out_count, out_unique) = solana_delivery_plan_routes
        (buffer_of (lc_candidates lc)) candidate_count target_limit None 0 (Some 0) (Some 0);
          target_count = the out_count; unique_target_count = the out_unique in
      if status \<noteq> SOLANA_DELIVERY_STATUS_RESOURCE_EXHAUSTED then (Inl status, lc, w)
      else if target_count = 0 \<or> unique_target_count < target_count
      then (Inl SOLANA_DELIVERY_STATUS_INTERNAL_ERROR, lc, w)
      else
      let (status, routes, w) =
        allocate_array (Some client) target_count (of_nat (c_sizeof route_target_layout)) True w in
      if status \<noteq> SOLANA_DELIVERY_STATUS_OK then (Inl status, lc, w)
      else
      let block = \<lparr>bl_ptr = written routes, bl_data = replicate (unat target_count) zero_route\<rparr>;
          (status, buffer, planned_count, planned_unique) = solana_delivery_plan_routes
            (buffer_of (lc_candidates lc)) candidate_count target_limit (buffer_of block)
            target_count (Some 0) (Some 0);
          lc = lc\<lparr>lc_routes := block\<lparr>bl_data := (case buffer of None \<Rightarrow> [] | Some xs \<Rightarrow> xs)\<rparr>\<rparr> in
      if status \<noteq> SOLANA_DELIVERY_STATUS_OK then (Inl status, lc, w)
      else if planned_count \<noteq> Some target_count \<or> planned_unique \<noteq> Some unique_target_count
      then (Inl SOLANA_DELIVERY_STATUS_INTERNAL_ERROR, lc, w)
      else (Inr target_count, lc, w))"

text \<open>Copy the transaction, materialise the targets, allocate the request (lines 302 to 350).\<close>

definition submit_own ::
  "'u solana_delivery_client_t \<Rightarrow> addr \<Rightarrow> usize \<Rightarrow> usize \<Rightarrow> submit_locals \<Rightarrow> 'u world \<Rightarrow>
   (solana_delivery_status_t + unit) \<times> submit_locals \<times> 'u world" where
  "submit_own client transaction_bytes transaction_length target_count lc w =
     (let (status, copy, w) = allocate_array (Some client) 1 transaction_length True w in
      if status \<noteq> SOLANA_DELIVERY_STATUS_OK then (Inl status, lc, w)
      else
      let lc = lc\<lparr>lc_transaction_copy := \<lparr>bl_ptr = written copy,
            bl_data = load_bytes (mem w) transaction_bytes (unat transaction_length)\<rparr>\<rparr>;
          (status, targets, w) =
            allocate_array (Some client) target_count (of_nat (c_sizeof request_target_layout)) True w in
      if status \<noteq> SOLANA_DELIVERY_STATUS_OK then (Inl status, lc, w)
      else
      let block = \<lparr>bl_ptr = written targets, bl_data = replicate (unat target_count) zero_target\<rparr>;
          (status, buffer) = materialize_targets (Some client) (buffer_of (lc_routes lc))
            target_count (buffer_of block);
          lc = lc\<lparr>lc_owned_targets := block\<lparr>bl_data := (case buffer of None \<Rightarrow> [] | Some xs \<Rightarrow> xs)\<rparr>\<rparr> in
      if status \<noteq> SOLANA_DELIVERY_STATUS_OK then (Inl status, lc, w)
      else
      let (status, request, w) =
        allocate_array (Some client) 1 (of_nat (c_sizeof request_layout)) True w in
      if status \<noteq> SOLANA_DELIVERY_STATUS_OK then (Inl status, lc, w)
      else (Inr (), lc\<lparr>lc_request := written request\<rparr>, w))"

text \<open>The event pushed for an accepted request (lines 397 to 411).\<close>

definition accepted_event :: "solana_delivery_request_id_t \<Rightarrow> u64 \<Rightarrow> solana_delivery_event_t" where
  "accepted_event request_id accepted_time_ns =
     \<lparr>ev_struct_size = of_nat (c_sizeof event_layout),
      ev_event_class = SOLANA_DELIVERY_EVENT_CLASS_REQUEST,
      ev_event_code = SOLANA_DELIVERY_REQUEST_EVENT_ACCEPTED,
      ev_diagnostic_code = 0, ev_request_id = request_id,
      ev_attempt_id = SOLANA_DELIVERY_ATTEMPT_ID_NONE, ev_request_sequence = 1,
      ev_monotonic_time_ns = accepted_time_ns, ev_reserved = (0, 0)\<rparr>"

text \<open>The request block as it is filled in (lines 359 to 375); \<open>next\<close> is the list's tail.\<close>

definition fill_request ::
  "'u solana_delivery_client_t \<Rightarrow> solana_delivery_request_id_t \<Rightarrow> usize \<Rightarrow> u64 \<Rightarrow> usize \<Rightarrow>
   submit_locals \<Rightarrow> solana_delivery_owned_request_t" where
  "fill_request client request_id transaction_length routing_slot target_count lc =
     \<lparr>rq_self = lc_request lc, rq_request_id = request_id,
      rq_topology_generation = tp_generation (ot_view (cl_topology client)),
      rq_routing_slot = routing_slot,
      rq_transaction_bytes = lc_transaction_copy lc,
      rq_transaction_length = transaction_length,
      rq_targets = lc_owned_targets lc, rq_target_count = target_count,
      rq_state = SOLANA_DELIVERY_REQUEST_STATE_ACCEPTED, rq_next_event_sequence = 2\<rparr>"

text \<open>
  Fill in the request, check for room, read the clock, push the event and publish
  the request (lines 352 to 432).
\<close>

definition submit_accept ::
  "'u solana_delivery_client_t \<Rightarrow> usize \<Rightarrow> u64 \<Rightarrow> usize \<Rightarrow> addr \<Rightarrow> submit_locals \<Rightarrow> 'u world \<Rightarrow>
   solana_delivery_status_t \<times> 'u solana_delivery_client_t \<times> 'u world" where
  "submit_accept client transaction_length routing_slot target_count out_request_id lc w =
     (if cl_next_request_id client = SOLANA_DELIVERY_REQUEST_ID_NONE
      then (SOLANA_DELIVERY_STATUS_RESOURCE_EXHAUSTED, client, w)
      else
      let request_id = cl_next_request_id client;
          request = fill_request client request_id transaction_length routing_slot target_count lc in
      if \<not> solana_delivery_event_queue_has_capacity (Some client)
      then (SOLANA_DELIVERY_STATUS_RESOURCE_EXHAUSTED, client, w)
      else
      let (status, time, w) =
            cl_monotonic_time_fn client (cl_monotonic_time_context client) True w;
          accepted_time_ns = written time in
      if status \<noteq> SOLANA_DELIVERY_STATUS_OK then (status, client, w)
      else if accepted_time_ns < ot_received_monotonic_ns (cl_topology client)
      then (SOLANA_DELIVERY_STATUS_INTERNAL_ERROR, client, w)
      else
      let (status, pushed) = solana_delivery_event_queue_push (Some client)
            (Some (accepted_event request_id accepted_time_ns));
          client = the pushed in
      if status \<noteq> SOLANA_DELIVERY_STATUS_OK then (status, client, w)
      else
      let client = client\<lparr>cl_request_head := request # cl_request_head client,
            cl_next_request_id := (if request_id = UINT64_MAX
              then SOLANA_DELIVERY_REQUEST_ID_NONE else request_id + 1)\<rparr>;
          w = w\<lparr>mem := store_u64 (mem w) out_request_id request_id\<rparr>
      in (SOLANA_DELIVERY_STATUS_OK, client, w))"

text \<open>The label \<open>cleanup\<close> (lines 434 to 460).\<close>

definition submit_cleanup ::
  "'u solana_delivery_client_t \<Rightarrow> solana_delivery_status_t \<Rightarrow> submit_locals \<Rightarrow> 'u world \<Rightarrow>
   'u world" where
  "submit_cleanup client status lc w =
     (let a = cl_allocator client;
          w = call_free a (bl_ptr (lc_candidates lc)) w;
          w = call_free a (bl_ptr (lc_routes lc)) w
      in if status \<noteq> SOLANA_DELIVERY_STATUS_OK
         then
           let w = call_free a (bl_ptr (lc_transaction_copy lc)) w;
               w = call_free a (bl_ptr (lc_owned_targets lc)) w
           in call_free a (lc_request lc) w
         else w)"

text \<open>The stages in order, each of them leaving for \<open>cleanup\<close> on \<open>Inl\<close>.\<close>

definition submit_stages ::
  "'u solana_delivery_client_t \<Rightarrow> addr \<Rightarrow> usize \<Rightarrow> solana_delivery_submission_policy_t \<Rightarrow>
   u64 \<Rightarrow> usize \<Rightarrow> addr \<Rightarrow> 'u world \<Rightarrow>
   solana_delivery_status_t \<times> 'u solana_delivery_client_t \<times> submit_locals \<times> 'u world" where
  "submit_stages client transaction_bytes transaction_length policy routing_slot
       candidate_count out_request_id w =
     (let (r, lc, w) = submit_resolve client routing_slot candidate_count null_locals w in
      case r of Inl status \<Rightarrow> (status, client, lc, w) | Inr _ \<Rightarrow>
      let (r, lc, w) = submit_plan client (sp_target_limit policy) candidate_count lc w in
      case r of Inl status \<Rightarrow> (status, client, lc, w) | Inr target_count \<Rightarrow>
      let (r, lc, w) = submit_own client transaction_bytes transaction_length target_count lc w in
      case r of Inl status \<Rightarrow> (status, client, lc, w) | Inr _ \<Rightarrow>
      let (status, client, w) = submit_accept client transaction_length routing_slot target_count
            out_request_id lc w
      in (status, client, lc, w))"

definition solana_delivery_client_submit ::
  "'u solana_delivery_client_t option \<Rightarrow> addr \<Rightarrow> usize \<Rightarrow> addr \<Rightarrow> addr \<Rightarrow> 'u world \<Rightarrow>
   solana_delivery_status_t \<times> 'u solana_delivery_client_t option \<times> 'u world" where
  "solana_delivery_client_submit client transaction_bytes transaction_length options
       out_request_id w =
     (if \<not> pointer_is_aligned_for out_request_id 8
      then (SOLANA_DELIVERY_STATUS_INVALID_ARGUMENT, client, w)
      else
      let w = w\<lparr>mem := store_u64 (mem w) out_request_id SOLANA_DELIVERY_REQUEST_ID_NONE\<rparr> in
      if client = None \<or> transaction_bytes = NULL \<or> transaction_length = 0
      then (SOLANA_DELIVERY_STATUS_INVALID_ARGUMENT, client, w)
      else
      let c = the client;
          (status, policy) = validate_submit_options (mem w) options True in
      if status \<noteq> SOLANA_DELIVERY_STATUS_OK then (status, client, w)
      else
      let (status, w) = solana_delivery_client_evaluate_submission_policy client policy w in
      if status \<noteq> SOLANA_DELIVERY_STATUS_OK then (status, client, w)
      else
      let routing_slot = tp_current_slot (ot_view (cl_topology c));
          (status, _, out_count) =
            solana_delivery_client_resolve_slot client routing_slot None 0 (Some 0);
          candidate_count = the out_count in
      if status \<noteq> SOLANA_DELIVERY_STATUS_RESOURCE_EXHAUSTED then (status, client, w)
      else if candidate_count = 0 then (SOLANA_DELIVERY_STATUS_INTERNAL_ERROR, client, w)
      else
      let (status, c, lc, w) = submit_stages c transaction_bytes transaction_length (the policy)
            routing_slot candidate_count out_request_id w
      in (status, Some c, submit_cleanup c status lc w))"

section \<open>What the stages do\<close>

text \<open>The targets of a request: the selected candidates with copies of what they point at.\<close>

definition request_target ::
  "solana_delivery_owned_topology_t \<Rightarrow> solana_delivery_topology_candidate_t \<Rightarrow>
   solana_delivery_owned_request_target_t" where
  "request_target ow cand =
     \<lparr>rt_leader_index = cd_leader_index cand, rt_validator_index = cd_validator_index cand,
      rt_endpoint_index = cd_endpoint_index cand,
      rt_validator_identity = va_identity (bl_data (ot_validators ow) ! unat (cd_validator_index cand)),
      rt_endpoint = bl_data (ot_endpoints ow) ! unat (cd_endpoint_index cand)\<rparr>"

definition selected_candidates ::
  "solana_delivery_owned_topology_t \<Rightarrow> u64 \<Rightarrow> usize \<Rightarrow> solana_delivery_topology_candidate_t list" where
  "selected_candidates ow slot limit =
     take (unat limit) (unique_candidates (slot_candidates ow slot))"

lemma allocate_ok:
  "allocate_array (Some c) n s True w = (0, p, w') \<Longrightarrow> n \<noteq> 0 \<Longrightarrow> written p \<noteq> NULL"
  by (auto simp: allocate_array_def split: prod.splits if_splits)

lemma buffer_of_block [simp]: "p \<noteq> NULL \<Longrightarrow> buffer_of \<lparr>bl_ptr = p, bl_data = xs\<rparr> = Some xs"
  by (simp add: buffer_of_def)

lemma found_count:
  "unat (of_nat (length (slot_candidates ow slot)) :: usize) = length (slot_candidates ow slot)"
  using length_slot_pairs [of ow slot]
  by (intro unat_of_nat_small) (simp add: slot_candidates_def)

lemma found_nonzero:
  "slot_candidates ow slot \<noteq> [] \<Longrightarrow> (of_nat (length (slot_candidates ow slot)) :: usize) \<noteq> 0"
  using found_count [of ow slot] by (metis length_0_conv unsigned_0)

lemma selected_facts:
  assumes "slot_candidates ow slot \<noteq> []" "limit \<noteq> 0"
  shows "selected_candidates ow slot limit \<noteq> []"
    "unat (of_nat (length (selected_candidates ow slot limit)) :: usize) =
       length (selected_candidates ow slot limit)"
    "(of_nat (length (selected_candidates ow slot limit)) :: usize) \<noteq> 0"
proof -
  show u: "unat (of_nat (length (selected_candidates ow slot limit)) :: usize) =
      length (selected_candidates ow slot limit)"
    unfolding selected_candidates_def
    by (rule length_selected(2) [OF found_count [symmetric]])
  show ne: "selected_candidates ow slot limit \<noteq> []"
    using assms unsigned_eq_0_iff [of limit, where ?'a = nat]
    by (cases "slot_candidates ow slot") (auto simp: selected_candidates_def)
  then show "(of_nat (length (selected_candidates ow slot limit)) :: usize) \<noteq> 0"
    using u by (metis length_0_conv unsigned_0)
qed

lemma submit_resolve_eq:
  assumes "cl_has_topology c" "slot_candidates (cl_topology c) slot \<noteq> []"
  shows "submit_resolve c slot (of_nat (length (slot_candidates (cl_topology c) slot))) lc w =
    (let (st, p, w) = allocate_array (Some c)
           (of_nat (length (slot_candidates (cl_topology c) slot))) 12 True w
     in if st \<noteq> SOLANA_DELIVERY_STATUS_OK then (Inl st, lc, w)
        else (Inr (), lc\<lparr>lc_candidates := \<lparr>bl_ptr = written p, bl_data = slot_candidates (cl_topology c) slot\<rparr>\<rparr>, w))"
proof -
  let ?f = "slot_candidates (cl_topology c) slot"
  obtain st p w1 where a: "allocate_array (Some c) (of_nat (length ?f)) 12 True w = (st, p, w1)"
    by (cases "allocate_array (Some c) (of_nat (length ?f)) 12 True w")
  have "st = 0 \<Longrightarrow> written p \<noteq> NULL" using allocate_ok a found_nonzero [OF assms(2)] by blast
  moreover have "solana_delivery_client_resolve_slot (Some c) slot
      (Some (replicate (length ?f) zero_candidate)) (of_nat (length ?f)) (Some 0) =
      (SOLANA_DELIVERY_STATUS_OK, Some ?f, Some (of_nat (length ?f)))"
    using resolve_slot_eq [of "Some (replicate (length ?f) zero_candidate)" "of_nat (length ?f)" c slot 0]
      assms by (simp add: resolve_result_def found_count Let_def)
  ultimately show ?thesis
    by (cases "st = 0") (simp_all add: submit_resolve_def a found_count)
qed

lemma submit_plan_eq:
  assumes "slot_candidates ow slot \<noteq> []" "limit \<noteq> 0"
    and "buffer_of (lc_candidates lc) = Some (slot_candidates ow slot)"
  shows "submit_plan c limit (of_nat (length (slot_candidates ow slot))) lc w =
    (let (st, p, w) = allocate_array (Some c)
           (of_nat (length (selected_candidates ow slot limit))) 12 True w
     in if st \<noteq> SOLANA_DELIVERY_STATUS_OK then (Inl st, lc, w)
        else (Inr (of_nat (length (selected_candidates ow slot limit))),
              lc\<lparr>lc_routes := \<lparr>bl_ptr = written p, bl_data = map route_of (selected_candidates ow slot limit)\<rparr>\<rparr>,
              w))"
proof -
  let ?f = "slot_candidates ow slot"
  let ?s = "selected_candidates ow slot limit"
  let ?n = "of_nat (length ?s) :: usize"
  let ?u = "of_nat (length (unique_candidates ?f)) :: usize"
  note sel = selected_facts [OF assms(1,2)]
  obtain st p w1 where a: "allocate_array (Some c) ?n 12 True w = (st, p, w1)"
    by (cases "allocate_array (Some c) ?n 12 True w")
  have p: "st = 0 \<Longrightarrow> written p \<noteq> NULL" using allocate_ok a sel(3) by blast
  have le: "\<not> ?u < ?n"
    using length_selected(1) [OF found_count [symmetric], of ow slot limit]
    unfolding selected_candidates_def by (auto split: if_splits)
  have 1: "solana_delivery_plan_routes (Some ?f) (of_nat (length ?f)) limit None 0 (Some 0) (Some 0) =
      (SOLANA_DELIVERY_STATUS_RESOURCE_EXHAUSTED, None, Some ?n, Some ?u)"
    using plan_routes_eq [of ?f "of_nat (length ?f)" None 0 limit 0 0] assms(1,2) found_count sel(1)
    unfolding selected_candidates_def [symmetric] Let_def by simp
  have 2: "solana_delivery_plan_routes (Some ?f) (of_nat (length ?f)) limit
      (Some (replicate (length ?s) zero_route)) ?n (Some 0) (Some 0) =
      (SOLANA_DELIVERY_STATUS_OK, Some (map route_of ?s), Some ?n, Some ?u)"
    using plan_routes_eq [of ?f "of_nat (length ?f)" "Some (replicate (length ?s) zero_route)" ?n limit 0 0]
      assms(1,2) found_count sel
    unfolding selected_candidates_def [symmetric] Let_def by simp
  show ?thesis
    using p by (cases "st = 0") (simp_all add: submit_plan_def assms(3) 1 2 a sel le)
qed

lemma materialize_eq:
  assumes "length routes = unat n" "n \<noteq> 0" "length ts = unat n"
    and "\<And>r. r \<in> set routes \<Longrightarrow>
      rr_leader_index r < tp_leader_count (ot_view (cl_topology c)) \<and>
      rr_validator_index r < tp_validator_count (ot_view (cl_topology c)) \<and>
      rr_endpoint_index r < tp_endpoint_count (ot_view (cl_topology c))"
  shows "materialize_targets (Some c) (Some routes) n (Some ts) =
    (SOLANA_DELIVERY_STATUS_OK, Some (map (\<lambda>r. request_target (cl_topology c)
       \<lparr>cd_leader_index = rr_leader_index r, cd_validator_index = rr_validator_index r,
        cd_endpoint_index = rr_endpoint_index r\<rparr>) routes))"
proof -
  let ?ow = "cl_topology c"
  let ?g = "\<lambda>r. request_target ?ow \<lparr>cd_leader_index = rr_leader_index r,
    cd_validator_index = rr_validator_index r, cd_endpoint_index = rr_endpoint_index r\<rparr>"
  have "for_loop n
      (\<lambda>index ts. let route = routes ! unat index in
         if tp_leader_count (ot_view ?ow) \<le> rr_leader_index route \<or>
            tp_validator_count (ot_view ?ow) \<le> rr_validator_index route \<or>
            tp_endpoint_count (ot_view ?ow) \<le> rr_endpoint_index route
         then Inl (SOLANA_DELIVERY_STATUS_INTERNAL_ERROR, Some ts)
         else Inr (ts[unat index :=
           \<lparr>rt_leader_index = rr_leader_index route, rt_validator_index = rr_validator_index route,
            rt_endpoint_index = rr_endpoint_index route,
            rt_validator_identity = va_identity (bl_data (ot_validators ?ow) ! unat (rr_validator_index route)),
            rt_endpoint = bl_data (ot_endpoints ?ow) ! unat (rr_endpoint_index route)\<rparr>])) ts =
    for_loop n (\<lambda>i ts. Inr (ts[unat i := (\<lambda>i t. ?g (routes ! unat i)) i (ts ! unat i)])) ts"
  proof (rule for_loop_cong [OF refl _ refl])
    fix i :: usize and ts assume "i < n"
    then have "routes ! unat i \<in> set routes" using assms(1) by (simp add: word_less_nat_alt)
    from assms(4) [OF this] show "(let route = routes ! unat i in
         if tp_leader_count (ot_view ?ow) \<le> rr_leader_index route \<or>
            tp_validator_count (ot_view ?ow) \<le> rr_validator_index route \<or>
            tp_endpoint_count (ot_view ?ow) \<le> rr_endpoint_index route
         then Inl (SOLANA_DELIVERY_STATUS_INTERNAL_ERROR, Some ts)
         else Inr (ts[unat i :=
           \<lparr>rt_leader_index = rr_leader_index route, rt_validator_index = rr_validator_index route,
            rt_endpoint_index = rr_endpoint_index route,
            rt_validator_identity = va_identity (bl_data (ot_validators ?ow) ! unat (rr_validator_index route)),
            rt_endpoint = bl_data (ot_endpoints ?ow) ! unat (rr_endpoint_index route)\<rparr>])) =
      Inr (ts[unat i := (\<lambda>i t. ?g (routes ! unat i)) i (ts ! unat i)])"
      by (simp add: Let_def request_target_def not_le)
  qed
  also have "\<dots> = Inr (map ?g routes)"
  proof -
    have "map (\<lambda>i. ?g (routes ! unat (of_nat i :: usize))) [0..<unat n] = map ?g routes"
      using assms(1) by (auto intro!: nth_equalityI simp: unat_of_nat_index)
    then show ?thesis
      using for_loop_update [OF assms(3), of "\<lambda>i t. ?g (routes ! unat i)"] by simp
  qed
  finally show ?thesis
    using assms(2) by (simp add: materialize_targets_def Let_def)
qed

text \<open>The three allocations of the owning stage, without its branches that are not taken.\<close>

lemma submit_own_eq:
  assumes "owned_consistent (cl_topology c)" "slot_candidates (cl_topology c) slot \<noteq> []" "limit \<noteq> 0"
    and "buffer_of (lc_routes lc) =
      Some (map route_of (selected_candidates (cl_topology c) slot limit))"
  defines "sel \<equiv> selected_candidates (cl_topology c) slot limit"
  shows "submit_own c tx len (of_nat (length sel)) lc w =
    (let (st, p, w) = allocate_array (Some c) 1 len True w in
     if st \<noteq> SOLANA_DELIVERY_STATUS_OK then (Inl st, lc, w) else
     let lc = lc\<lparr>lc_transaction_copy := \<lparr>bl_ptr = written p, bl_data = load_bytes (mem w) tx (unat len)\<rparr>\<rparr>;
         (st, p, w) = allocate_array (Some c) (of_nat (length sel)) 76 True w in
     if st \<noteq> SOLANA_DELIVERY_STATUS_OK then (Inl st, lc, w) else
     let lc = lc\<lparr>lc_owned_targets :=
           \<lparr>bl_ptr = written p, bl_data = map (request_target (cl_topology c)) sel\<rparr>\<rparr>;
         (st, p, w) = allocate_array (Some c) 1 80 True w in
     if st \<noteq> SOLANA_DELIVERY_STATUS_OK then (Inl st, lc, w)
     else (Inr (), lc\<lparr>lc_request := written p\<rparr>, w))"
proof -
  note s = selected_facts [OF assms(2,3), folded sel_def]
  obtain st1 p1 w1 where a1: "allocate_array (Some c) 1 len True w = (st1, p1, w1)"
    by (cases "allocate_array (Some c) 1 len True w")
  obtain st2 p2 w2 where a2: "allocate_array (Some c) (of_nat (length sel)) 76 True w1 = (st2, p2, w2)"
    by (cases "allocate_array (Some c) (of_nat (length sel)) 76 True w1")
  have p2: "st2 = 0 \<Longrightarrow> written p2 \<noteq> NULL" using allocate_ok a2 s(3) by blast
  have in_range: "cd_leader_index cand < tp_leader_count (ot_view (cl_topology c))"
    "cd_validator_index cand < tp_validator_count (ot_view (cl_topology c))"
    "cd_endpoint_index cand < tp_endpoint_count (ot_view (cl_topology c))"
    if "cand \<in> set sel" for cand
  proof -
    have "cand \<in> set (slot_candidates (cl_topology c) slot)"
      using that set_unique_subset [of "slot_candidates (cl_topology c) slot"]
      by (auto simp: sel_def selected_candidates_def dest!: in_set_takeD)
    from slot_candidates_in_range [OF assms(1) this]
    show "cd_leader_index cand < tp_leader_count (ot_view (cl_topology c))"
      "cd_validator_index cand < tp_validator_count (ot_view (cl_topology c))"
      "cd_endpoint_index cand < tp_endpoint_count (ot_view (cl_topology c))" by auto
  qed
  have "map (\<lambda>r. request_target (cl_topology c) \<lparr>cd_leader_index = rr_leader_index r,
      cd_validator_index = rr_validator_index r, cd_endpoint_index = rr_endpoint_index r\<rparr>)
      (map route_of sel) = map (request_target (cl_topology c)) sel"
    by (simp add: route_of_def request_target_def comp_def)
  moreover have "materialize_targets (Some c) (Some (map route_of sel)) (of_nat (length sel))
      (Some (replicate (length sel) zero_target)) =
    (SOLANA_DELIVERY_STATUS_OK, Some (map (\<lambda>r. request_target (cl_topology c)
       \<lparr>cd_leader_index = rr_leader_index r, cd_validator_index = rr_validator_index r,
        cd_endpoint_index = rr_endpoint_index r\<rparr>) (map route_of sel)))"
    by (rule materialize_eq) (use s in_range in \<open>auto simp: route_of_def\<close>)
  ultimately have "materialize_targets (Some c) (Some (map route_of sel)) (of_nat (length sel))
      (Some (replicate (length sel) zero_target)) =
    (SOLANA_DELIVERY_STATUS_OK, Some (map (request_target (cl_topology c)) sel))" by simp
  then show ?thesis
    using p2 by (cases "st1 = 0"; cases "st2 = 0")
      (simp_all add: submit_own_def a1 a2 assms(4) [folded sel_def] s)
qed

section \<open>Submission options\<close>

definition options_ok :: "memory \<Rightarrow> addr \<Rightarrow> bool" where
  "options_ok m p \<longleftrightarrow>
     p \<noteq> NULL \<and> p mod 8 = 0 \<and> 24 \<le> unat (so_struct_size (load_options m p)) \<and>
     so_flags (load_options m p) = 0 \<and> so_reserved0 (load_options m p) = 0 \<and>
     so_max_topology_age_ns (load_options m p) \<noteq> 0 \<and> so_target_limit (load_options m p) \<noteq> 0"

definition options_policy :: "memory \<Rightarrow> addr \<Rightarrow> solana_delivery_submission_policy_t" where
  "options_policy m p =
     \<lparr>sp_max_topology_age_ns = so_max_topology_age_ns (load_options m p),
      sp_target_limit = ucast (so_target_limit (load_options m p))\<rparr>"

lemma ucast_32_64_zero [simp]: "(ucast (x :: u32) :: u64) = 0 \<longleftrightarrow> x = 0"
  by (simp add: word_eq_iff_unsigned [where ?'a = nat])

lemma validate_options_ok:
  "validate_submit_options m p True = (SOLANA_DELIVERY_STATUS_OK, pol) \<longleftrightarrow>
     options_ok m p \<and> pol = Some (options_policy m p)"
  by (auto simp: validate_submit_options_def Let_def options_ok_def options_policy_def
      pointer_is_aligned_for_def SUBMIT_OPTIONS_MIN_SIZE_def word_less_nat_alt)

lemma options_policy_limit [simp]:
  "options_ok m p \<Longrightarrow> sp_target_limit (options_policy m p) \<noteq> 0"
  by (simp add: options_ok_def options_policy_def)

text \<open>What a request says, compared with the call that made it and the client it was made on.\<close>

definition accepted_request ::
  "'u solana_delivery_client_t \<Rightarrow> memory \<Rightarrow> addr \<Rightarrow> usize \<Rightarrow> addr \<Rightarrow>
   solana_delivery_owned_request_t \<Rightarrow> bool" where
  "accepted_request c m tx len options r \<longleftrightarrow>
     (let ow = cl_topology c; slot = tp_current_slot (ot_view ow);
          sel = selected_candidates ow slot (sp_target_limit (options_policy m options)) in
      rq_request_id r = cl_next_request_id c \<and>
      rq_topology_generation r = tp_generation (ot_view ow) \<and> rq_routing_slot r = slot \<and>
      bl_data (rq_transaction_bytes r) = load_bytes m tx (unat len) \<and>
      rq_transaction_length r = len \<and>
      bl_data (rq_targets r) = map (request_target ow) sel \<and>
      unat (rq_target_count r) = length sel \<and> sel \<noteq> [] \<and>
      rq_state r = SOLANA_DELIVERY_REQUEST_STATE_ACCEPTED \<and> rq_next_event_sequence r = 2)"

text \<open>The client after accepting a request.\<close>

definition after_accept ::
  "'u solana_delivery_client_t \<Rightarrow> solana_delivery_owned_request_t \<Rightarrow>
   solana_delivery_event_queue_t \<Rightarrow> 'u solana_delivery_client_t" where
  "after_accept c r q =
     c\<lparr>cl_event_queue := q, cl_request_head := r # cl_request_head c,
       cl_next_request_id := cl_next_request_id c + 1\<rparr>"

text \<open>The call once its arguments are usable: options, freshness, first resolution.\<close>

lemma submit_unfold:
  assumes "pointer_is_aligned_for out 8" "tx \<noteq> NULL" "len \<noteq> 0"
    and "w0 = w\<lparr>mem := store_u64 (mem w) out 0\<rparr>"
    and v: "validate_submit_options (mem w0) options True = (s1, pol)"
    and e: "solana_delivery_client_evaluate_submission_policy (Some c) pol w0 = (s2, wa)"
  defines "slot \<equiv> tp_current_slot (ot_view (cl_topology c))"
  defines "f \<equiv> slot_candidates (cl_topology c) slot"
  shows "solana_delivery_client_submit (Some c) tx len options out w =
    (if s1 \<noteq> 0 then (s1, Some c, w0) else if s2 \<noteq> 0 then (s2, Some c, wa)
     else if \<not> cl_has_topology c \<or> f = []
     then (SOLANA_DELIVERY_STATUS_TOPOLOGY_UNAVAILABLE, Some c, wa)
     else let (st, c1, lc, w1) = submit_stages c tx len (the pol) slot (of_nat (length f)) out wa
          in (st, Some c1, submit_cleanup c1 st lc w1))"
proof -
  have rs: "solana_delivery_client_resolve_slot (Some c) slot None 0 (Some 0) =
      (if \<not> cl_has_topology c \<or> f = [] then (SOLANA_DELIVERY_STATUS_TOPOLOGY_UNAVAILABLE, None, Some 0)
       else (SOLANA_DELIVERY_STATUS_RESOURCE_EXHAUSTED, None, Some (of_nat (length f))))"
    using resolve_slot_eq [of None 0 c slot 0] by (auto simp: resolve_result_def Let_def f_def)
  show ?thesis
    using assms(1-3) v e found_nonzero [of "cl_topology c" slot, folded f_def]
    by (cases "s1 = 0"; cases "s2 = 0"; cases "cl_has_topology c"; cases "f = []")
      (simp_all add: solana_delivery_client_submit_def assms(4) [symmetric]
        slot_def [symmetric] rs)
qed

text \<open>The stages when every allocation is served.\<close>

lemma stages_run:
  assumes "cl_has_topology c" "owned_consistent (cl_topology c)"
    and "slot_candidates (cl_topology c) slot \<noteq> []" "sp_target_limit policy \<noteq> 0"
  defines "f \<equiv> slot_candidates (cl_topology c) slot"
  defines "sel \<equiv> selected_candidates (cl_topology c) slot (sp_target_limit policy)"
  assumes a: "allocate_array (Some c) (of_nat (length f)) 12 True w = (0, p1, w1)"
    "allocate_array (Some c) (of_nat (length sel)) 12 True w1 = (0, p2, w2)"
    "allocate_array (Some c) 1 len True w2 = (0, p3, w3)"
    "allocate_array (Some c) (of_nat (length sel)) 76 True w3 = (0, p4, w4)"
    "allocate_array (Some c) 1 80 True w4 = (0, p5, w5)"
  shows "\<exists>lc. submit_stages c tx len policy slot (of_nat (length f)) out w =
    (let (st, c', w') = submit_accept c len slot (of_nat (length sel)) out lc w5 in (st, c', lc, w'))"
proof -
  note nz = found_nonzero [OF assms(3), folded f_def] selected_facts(3) [OF assms(3,4), folded sel_def]
  let ?l1 = "null_locals\<lparr>lc_candidates := \<lparr>bl_ptr = written p1, bl_data = f\<rparr>\<rparr>"
  let ?l2 = "?l1\<lparr>lc_routes := \<lparr>bl_ptr = written p2, bl_data = map route_of sel\<rparr>\<rparr>"
  have b1: "buffer_of (lc_candidates ?l1) = Some (slot_candidates (cl_topology c) slot)"
    using allocate_ok [OF a(1) nz(1)] by (simp add: f_def)
  have b2: "buffer_of (lc_routes ?l2) = Some (map route_of (selected_candidates (cl_topology c) slot
      (sp_target_limit policy)))"
    using allocate_ok [OF a(2) nz(2)] by (simp add: sel_def)
  show ?thesis
    unfolding submit_stages_def
      submit_resolve_eq [OF assms(1,3), folded f_def] a Let_def prod.case
    using submit_plan_eq [OF assms(3,4) b1, where c = c and w = w1, folded f_def sel_def]
      submit_own_eq [OF assms(2,3,4) b2, folded sel_def, where tx = tx and len = len and w = w2]
    by (simp add: a) (rule exI, rule refl)
qed

section \<open>Accounting\<close>

definition locals_ptrs :: "submit_locals \<Rightarrow> addr list" where
  "locals_ptrs lc =
     [bl_ptr (lc_candidates lc), bl_ptr (lc_routes lc), bl_ptr (lc_transaction_copy lc),
      bl_ptr (lc_owned_targets lc), lc_request lc]"

lemma owns_null_locals [simp]: "owns (locals_ptrs null_locals) = {#}"
  by (simp add: locals_ptrs_def null_locals_def)

context client_platform
begin

lemma allocate_accounts:
  assumes "allocate_array (Some c) n s True w = (st, p, w')" "cl_allocator c = A"
  shows "live w' = live w + owns [written p] \<and> mem w' = mem w \<and> faults w' = faults w \<and>
    clk w' = clk w \<and> (st \<noteq> 0 \<longrightarrow> written p = NULL)"
  using assms calloc_live calloc_clock
  by (auto simp: allocate_array_def split: prod.splits if_splits)

lemma accept_effect:
  assumes "submit_accept c len slot tc out lc w = (st, c', w')"
    and "cl_monotonic_time_fn c = T" "queue_wf (cl_event_queue c)"
  shows "live w' = live w \<and> faults w' = faults w \<and>
    (st \<noteq> 0 \<and> c' = c \<and> mem w' = mem w \<or>
     st = 0 \<and> cl_next_request_id c \<noteq> 0 \<and>
     mem w' = store_u64 (mem w) out (cl_next_request_id c) \<and>
     (\<exists>t w2 q. T (cl_monotonic_time_context c) True w = (0, t, w2) \<and> clk w' = clk w2 \<and>
        ot_received_monotonic_ns (cl_topology c) \<le> written t \<and>
        queue_wf q \<and> queue_events q = queue_events (cl_event_queue c) @
          [accepted_event (cl_next_request_id c) (written t)] \<and>
        c' = c\<lparr>cl_event_queue := q,
          cl_request_head := fill_request c (cl_next_request_id c) len slot tc lc # cl_request_head c,
          cl_next_request_id := cl_next_request_id c + 1\<rparr>))"
proof (cases "cl_next_request_id c = 0 \<or> \<not> solana_delivery_event_queue_has_capacity (Some c)")
  case True
  with assms(1) show ?thesis by (auto simp: submit_accept_def Let_def split: if_splits)
next
  case False
  then have room: "length (queue_events (cl_event_queue c)) < 64"
    by (simp add: solana_delivery_event_queue_has_capacity_def word_less_nat_alt)
  obtain s t w2 where T: "T (cl_monotonic_time_context c) True w = (s, t, w2)"
    by (cases "T (cl_monotonic_time_context c) True w")
  let ?q = "queue_append (accepted_event (cl_next_request_id c) (written t)) (cl_event_queue c)"
  have q: "queue_wf ?q" "queue_events ?q = queue_events (cl_event_queue c) @
      [accepted_event (cl_next_request_id c) (written t)]"
    using ring.append_wf ring.append_contents assms(3) room by auto
  note frame = clock_frame [OF T]
  show ?thesis
  proof (cases "s = 0 \<and> ot_received_monotonic_ns (cl_topology c) \<le> written t")
    case True
    have "(if x = UINT64_MAX then 0 else x + 1) = x + (1 :: u64)" for x by simp
    with False True assms(1,2) T have "st = 0" "w' = w2\<lparr>mem := store_u64 (mem w2) out (cl_next_request_id c)\<rparr>"
      "c' = c\<lparr>cl_event_queue := ?q,
          cl_request_head := fill_request c (cl_next_request_id c) len slot tc lc # cl_request_head c,
          cl_next_request_id := cl_next_request_id c + 1\<rparr>"
      by (simp_all add: submit_accept_def solana_delivery_event_queue_push_def Let_def not_less [symmetric])
    with False True T frame store_frame store_clock q show ?thesis by auto
  next
    case False': False
    then have "s \<noteq> 0 \<or> written t < ot_received_monotonic_ns (cl_topology c)" by auto
    with False assms(1,2) T have "st \<noteq> 0 \<and> c' = c \<and> w' = w2"
      by (cases "s = 0") (auto simp: submit_accept_def)
    with frame show ?thesis by simp
  qed
qed

lemma stages_effect:
  assumes "submit_stages c tx len policy slot (of_nat (length (slot_candidates (cl_topology c) slot)))
      out w = (st, c', lc, w')"
    and "cl_allocator c = A" "cl_monotonic_time_fn c = T" "queue_wf (cl_event_queue c)"
    and "cl_has_topology c" "owned_consistent (cl_topology c)"
    and "slot_candidates (cl_topology c) slot \<noteq> []" "sp_target_limit policy \<noteq> 0"
  defines "sel \<equiv> selected_candidates (cl_topology c) slot (sp_target_limit policy)"
  shows "live w' = live w + owns (locals_ptrs lc) \<and> faults w' = faults w \<and>
    (st \<noteq> 0 \<and> c' = c \<and> mem w' = mem w \<or>
     st = 0 \<and> cl_next_request_id c \<noteq> 0 \<and>
     mem w' = store_u64 (mem w) out (cl_next_request_id c) \<and>
     bl_data (lc_transaction_copy lc) = load_bytes (mem w) tx (unat len) \<and>
     bl_data (lc_owned_targets lc) = map (request_target (cl_topology c)) sel \<and>
     (\<exists>t w2 q. T (cl_monotonic_time_context c) True w = (0, t, w2) \<and> clk w' = clk w2 \<and>
        ot_received_monotonic_ns (cl_topology c) \<le> written t \<and>
        queue_wf q \<and> queue_events q = queue_events (cl_event_queue c) @
          [accepted_event (cl_next_request_id c) (written t)] \<and>
        c' = c\<lparr>cl_event_queue := q,
          cl_request_head := fill_request c (cl_next_request_id c) len slot
            (of_nat (length sel)) lc # cl_request_head c,
          cl_next_request_id := cl_next_request_id c + 1\<rparr>))"
proof -
  let ?ow = "cl_topology c"
  let ?f = "slot_candidates ?ow slot"
  note sel = selected_facts [OF assms(7,8), folded sel_def]
  obtain s1 p1 w1 where a1: "allocate_array (Some c) (of_nat (length ?f)) 12 True w = (s1, p1, w1)"
    by (cases "allocate_array (Some c) (of_nat (length ?f)) 12 True w")
  obtain s2 p2 w2 where a2: "allocate_array (Some c) (of_nat (length sel)) 12 True w1 = (s2, p2, w2)"
    by (cases "allocate_array (Some c) (of_nat (length sel)) 12 True w1")
  obtain s3 p3 w3 where a3: "allocate_array (Some c) 1 len True w2 = (s3, p3, w3)"
    by (cases "allocate_array (Some c) 1 len True w2")
  obtain s4 p4 w4 where a4: "allocate_array (Some c) (of_nat (length sel)) 76 True w3 = (s4, p4, w4)"
    by (cases "allocate_array (Some c) (of_nat (length sel)) 76 True w3")
  obtain s5 p5 w5 where a5: "allocate_array (Some c) 1 80 True w4 = (s5, p5, w5)"
    by (cases "allocate_array (Some c) 1 80 True w4")
  note acc = allocate_accounts [OF a1 assms(2)] allocate_accounts [OF a2 assms(2)]
    allocate_accounts [OF a3 assms(2)] allocate_accounts [OF a4 assms(2)]
    allocate_accounts [OF a5 assms(2)]
  define l1 where "l1 = null_locals\<lparr>lc_candidates := \<lparr>bl_ptr = written p1, bl_data = ?f\<rparr>\<rparr>"
  define l2 where "l2 = l1\<lparr>lc_routes := \<lparr>bl_ptr = written p2, bl_data = map route_of sel\<rparr>\<rparr>"
  define l3 where "l3 = l2\<lparr>lc_transaction_copy := \<lparr>bl_ptr = written p3, bl_data = load_bytes (mem w3) tx (unat len)\<rparr>\<rparr>"
  define l4 where "l4 = l3\<lparr>lc_owned_targets := \<lparr>bl_ptr = written p4, bl_data = map (request_target ?ow) sel\<rparr>\<rparr>"
  define l5 where "l5 = l4\<lparr>lc_request := written p5\<rparr>"
  note ptrs = l5_def l4_def l3_def l2_def l1_def null_locals_def locals_ptrs_def
  have r: "submit_resolve c slot (of_nat (length ?f)) null_locals w =
      (if s1 \<noteq> 0 then (Inl s1, null_locals, w1) else (Inr (), l1, w1))"
    by (simp add: submit_resolve_eq [OF assms(5,7)] a1 l1_def)
  have p: "submit_plan c (sp_target_limit policy) (of_nat (length ?f)) l1 w1 =
      (if s2 \<noteq> 0 then (Inl s2, l1, w2) else (Inr (of_nat (length sel)), l2, w2))" if "s1 = 0"
  proof -
    have "buffer_of (lc_candidates l1) = Some ?f"
      using allocate_ok a1 that found_nonzero [OF assms(7)] by (fastforce simp: l1_def)
    from submit_plan_eq [OF assms(7,8) this, where c = c and w = w1, folded sel_def] show ?thesis
      by (simp add: a2 l2_def)
  qed
  have o: "submit_own c tx len (of_nat (length sel)) l2 w2 =
      (if s3 \<noteq> 0 then (Inl s3, l2, w3) else if s4 \<noteq> 0 then (Inl s4, l3, w4)
       else if s5 \<noteq> 0 then (Inl s5, l4, w5) else (Inr (), l5, w5))" if "s2 = 0"
  proof -
    have "buffer_of (lc_routes l2) = Some (map route_of sel)"
      using allocate_ok a2 that sel(3) by (fastforce simp: l2_def)
    from submit_own_eq [OF assms(6,7,8) this [unfolded sel_def], folded sel_def] show ?thesis
      by (simp add: a3 a4 a5 l5_def l4_def l3_def)
  qed
  note run = assms(1) [unfolded submit_stages_def r]
  consider "s1 \<noteq> 0" | "s1 = 0" "s2 \<noteq> 0" | "s1 = 0" "s2 = 0" "s3 \<noteq> 0 \<or> s4 \<noteq> 0 \<or> s5 \<noteq> 0"
    | "s1 = 0" "s2 = 0" "s3 = 0" "s4 = 0" "s5 = 0" by auto
  then show ?thesis
  proof cases
    case 1
    with run have "st = s1" "c' = c" "lc = null_locals" "w' = w1" by simp_all
    with 1 acc(1) show ?thesis by (simp add: ptrs)
  next
    case 2
    with run p have "st = s2" "c' = c" "lc = l1" "w' = w2" by simp_all
    with 2 acc(1,2) show ?thesis by (simp add: ptrs)
  next
    case 3
    consider "s3 \<noteq> 0" | "s3 = 0" "s4 \<noteq> 0" | "s3 = 0" "s4 = 0" "s5 \<noteq> 0" using 3 by auto
    then show ?thesis
    proof cases
      case 1
      with 3 run p o have "st = s3" "c' = c" "lc = l2" "w' = w3" by simp_all
      with 1 acc(1,2,3) show ?thesis by (simp add: ptrs)
    next
      case 2
      with 3 run p o have "st = s4" "c' = c" "lc = l3" "w' = w4" by simp_all
      with 2 acc(1-4) show ?thesis by (simp add: ptrs)
    next
      case c3: 3
      with 3 run p o have "st = s5" "c' = c" "lc = l4" "w' = w5" by simp_all
      with c3 acc show ?thesis by (simp add: ptrs)
    qed
  next
    case 4
    obtain s6 c6 w6 where a6: "submit_accept c len slot (of_nat (length sel)) out l5 w5 = (s6, c6, w6)"
      by (cases "submit_accept c len slot (of_nat (length sel)) out l5 w5")
    from 4 run p o a6 have "st = s6" "c' = c6" "lc = l5" "w' = w6" by simp_all
    moreover have acc5: "live w5 = live w + owns (locals_ptrs l5)" "faults w5 = faults w"
      "mem w5 = mem w" "mem w3 = mem w" "clk w = clk w5"
      using acc by (simp_all add: ptrs ac_simps)
    moreover have "bl_data (lc_transaction_copy l5) = load_bytes (mem w3) tx (unat len)"
      "bl_data (lc_owned_targets l5) = map (request_target ?ow) sel"
      by (simp_all add: l5_def l4_def l3_def)
    moreover have "\<exists>v. T (cl_monotonic_time_context c) True w = (0, t, v) \<and> clk v = clk u"
      if "T (cl_monotonic_time_context c) True w5 = (0, t, u)" for t u
      using clock_reads [OF that acc5(5)] .
    ultimately show ?thesis using accept_effect [OF a6 assms(3,4)] by (cases "s6 = 0") (simp, metis, simp)
  qed
qed

lemma cleanup_effect:
  assumes "cl_allocator c = A" "live w = L + owns (locals_ptrs lc)"
  shows "live (submit_cleanup c st lc w) =
      (if st = 0 then L + owns [bl_ptr (lc_transaction_copy lc), bl_ptr (lc_owned_targets lc), lc_request lc]
       else L) \<and>
    faults (submit_cleanup c st lc w) = faults w \<and> mem (submit_cleanup c st lc w) = mem w \<and>
    clk (submit_cleanup c st lc w) = clk w"
proof -
  define ps where "ps = (if st = 0 then [bl_ptr (lc_candidates lc), bl_ptr (lc_routes lc)]
    else locals_ptrs lc)"
  have "submit_cleanup c st lc w = fold (call_free A) ps w"
    by (simp add: submit_cleanup_def assms(1) ps_def locals_ptrs_def Let_def)
  moreover have "locals_ptrs lc = [bl_ptr (lc_candidates lc), bl_ptr (lc_routes lc)] @
      [bl_ptr (lc_transaction_copy lc), bl_ptr (lc_owned_targets lc), lc_request lc]"
    by (simp add: locals_ptrs_def)
  then have split: "live w = L + owns [bl_ptr (lc_transaction_copy lc), bl_ptr (lc_owned_targets lc), lc_request lc]
      + owns [bl_ptr (lc_candidates lc), bl_ptr (lc_routes lc)]"
    by (simp only: assms(2) owns_simps(3) ac_simps)
  moreover have "owns ps \<subseteq># live w"
  proof (cases "st = 0")
    case True
    then show ?thesis unfolding split ps_def by (simp del: owns_simps)
  next
    case False
    then show ?thesis unfolding assms(2) ps_def by (simp del: owns_simps)
  qed
  ultimately show ?thesis
    using free_list [of ps w] frees_clock [of ps w] assms(2) by (simp add: ps_def del: owns_simps)
qed

lemma submit_effect:
  assumes "solana_delivery_client_submit (Some c) tx len options out w = (st, c', w')"
    and "cl_allocator c = A" "cl_monotonic_time_fn c = T" "queue_wf (cl_event_queue c)"
    and "cl_has_topology c \<Longrightarrow> owned_consistent (cl_topology c)"
  defines "m0 \<equiv> if pointer_is_aligned_for out 8 then store_u64 (mem w) out 0 else mem w"
  shows "faults w' = faults w \<and>
    (st \<noteq> 0 \<and> c' = Some c \<and> live w' = live w \<and> mem w' = m0 \<or>
     st = 0 \<and> pointer_is_aligned_for out 8 \<and> tx \<noteq> NULL \<and> len \<noteq> 0 \<and> options_ok m0 options \<and>
     cl_has_topology c \<and> cl_next_request_id c \<noteq> 0 \<and>
     mem w' = store_u64 (mem w) out (cl_next_request_id c) \<and>
     (\<exists>r q t0 t w1 w2. c' = Some (after_accept c r q) \<and> accepted_request c m0 tx len options r \<and>
        live w' = live w + owns (request_ptrs r) \<and>
        T (cl_monotonic_time_context c) True w = (0, t0, w1) \<and>
        fresh_at c (sp_max_topology_age_ns (options_policy m0 options)) (written t0) \<and>
        T (cl_monotonic_time_context c) True w1 = (0, t, w2) \<and> clk w' = clk w2 \<and>
        ot_received_monotonic_ns (cl_topology c) \<le> written t \<and>
        queue_wf q \<and> queue_events q = queue_events (cl_event_queue c) @
          [accepted_event (cl_next_request_id c) (written t)]))"
proof (cases "pointer_is_aligned_for out 8 \<and> tx \<noteq> NULL \<and> len \<noteq> 0")
  case False
  with assms(1) store_frame show ?thesis
    by (auto simp: solana_delivery_client_submit_def m0_def Let_def)
next
  case True
  define w0 where "w0 = w\<lparr>mem := store_u64 (mem w) out 0\<rparr>"
  have w0: "live w0 = live w" "faults w0 = faults w" "mem w0 = m0"
    using store_frame True by (auto simp: w0_def m0_def)
  obtain s1 pol where v: "validate_submit_options m0 options True = (s1, pol)"
    by (cases "validate_submit_options m0 options True")
  obtain s2 wa where e: "solana_delivery_client_evaluate_submission_policy (Some c) pol w0 = (s2, wa)"
    by (cases "solana_delivery_client_evaluate_submission_policy (Some c) pol w0")
  note ef = evaluate_policy_frame [OF e assms(3)]
  let ?ow = "cl_topology c"
  let ?slot = "tp_current_slot (ot_view ?ow)"
  let ?f = "slot_candidates ?ow ?slot"
  note start = submit_unfold [of out tx len w0 w options s1 pol c s2 wa, unfolded assms(1) w0(3)]
  show ?thesis
  proof (cases "s1 = 0 \<and> s2 = 0 \<and> cl_has_topology c \<and> ?f \<noteq> []")
    case False
    with start True v e w0_def w0 ef show ?thesis by (auto split: if_splits)
  next
    case True': True
    have pol: "options_ok m0 options" "pol = Some (options_policy m0 options)"
      using v True' by (auto simp: validate_options_ok)
    obtain c1 lc w1 where sg: "submit_stages c tx len (options_policy m0 options) ?slot
        (of_nat (length ?f)) out wa = (st, c1, lc, w1)"
      and r: "c' = Some c1" "w' = submit_cleanup c1 st lc w1"
      using start True True' v e w0_def pol(2)
      by (cases "submit_stages c tx len (options_policy m0 options) ?slot (of_nat (length ?f)) out wa")
        auto
    have cons: "owned_consistent ?ow" "?f \<noteq> []" "cl_has_topology c" using True' assms(5) by auto
    note sf = selected_facts [OF cons(2) options_policy_limit [OF pol(1)]]
    note se = stages_effect [OF sg assms(2-4) cons(3,1,2) options_policy_limit [OF pol(1)]]
    have alloc: "cl_allocator c1 = A" using se assms(2) by auto
    have "live w1 = live w + owns (locals_ptrs lc)" using se ef w0 by simp
    note cl = cleanup_effect [OF alloc this, of st]
    obtain t0 where t0: "T (cl_monotonic_time_context c) True w0 = (0, t0, wa)"
      "fresh_at c (sp_max_topology_age_ns (options_policy m0 options)) (written t0)"
      using evaluate_policy_ok [of c "options_policy m0 options" w0 wa] e True' pol(2) assms(3) by auto
    have "clk w = clk w0" by (simp add: w0_def store_clock)
    then obtain v0 where first: "T (cl_monotonic_time_context c) True w = (0, t0, v0)" "clk v0 = clk wa"
      using clock_reads [OF t0(1)] by blast
    show ?thesis
    proof (cases "st = 0")
      case False
      with se cl r ef w0 show ?thesis by auto
    next
      case True'': True
      then obtain t wc q where ok: "T (cl_monotonic_time_context c) True wa = (0, t, wc)"
        "ot_received_monotonic_ns ?ow \<le> written t" "queue_wf q"
        "queue_events q = queue_events (cl_event_queue c) @
          [accepted_event (cl_next_request_id c) (written t)]"
        "cl_next_request_id c \<noteq> 0" "mem w1 = store_u64 m0 out (cl_next_request_id c)"
        and lc: "bl_data (lc_transaction_copy lc) = load_bytes m0 tx (unat len)"
        "bl_data (lc_owned_targets lc) = map (request_target ?ow)
           (selected_candidates ?ow ?slot (sp_target_limit (options_policy m0 options)))"
        and script: "clk w1 = clk wc"
        and c1: "c1 = after_accept c (fill_request c (cl_next_request_id c) len ?slot
          (of_nat (length (selected_candidates ?ow ?slot (sp_target_limit (options_policy m0 options))))) lc) q"
        using se ef w0 unfolding after_accept_def by auto
      obtain v1 where second: "T (cl_monotonic_time_context c) True v0 = (0, t, v1)" "clk v1 = clk wc"
        using clock_reads [OF ok(1) first(2)] by blast
      have "clk w' = clk v1" using cl script second(2) r(2) by simp
      let ?r = "fill_request c (cl_next_request_id c) len ?slot
          (of_nat (length (selected_candidates ?ow ?slot (sp_target_limit (options_policy m0 options))))) lc"
      have "accepted_request c m0 tx len options ?r"
        using lc sf by (simp add: accepted_request_def fill_request_def Let_def)
      moreover have "live w' = live w + owns (request_ptrs ?r)"
        using cl True'' r(2) by (simp add: request_ptrs_def fill_request_def)
      moreover have "mem w' = store_u64 (mem w) out (cl_next_request_id c)"
        using cl r(2) ok(6) True by (simp add: m0_def)
      moreover have "faults w' = faults w" using cl r(2) se ef w0 by simp
      ultimately show ?thesis
        using \<open>clk w' = clk v1\<close> True True'' pol(1) cons(3) ok(2-5) t0(2) first(1) second(1) c1 r(1)
        by blast
    qed
  qed
qed

end

end
