(* ===== verification/Submission_Properties.thy ===== *)
theory Submission_Properties
  imports Submission
begin

text \<open>
  What \<open>solana_delivery_client_submit\<close> promises on the system allocator and clock:
  outcome, atomicity, the heap ledger, back-pressure, the targets of a request and
  when it succeeds.
\<close>

section \<open>Properties of submission\<close>

lemma client_ptrs_after_accept:
  "owns (client_ptrs (after_accept c r q)) = owns (client_ptrs c) + owns (request_ptrs r)"
  by (simp add: client_ptrs_def after_accept_def)

lemma system_submit:
  fixes c :: "'u solana_delivery_client_t"
  assumes "solana_delivery_client_submit (Some c) tx len options out w = (st, c', w')"
    and "system_client c" "queue_wf (cl_event_queue c)"
    and "cl_has_topology c \<Longrightarrow> owned_consistent (cl_topology c)"
  defines "m0 \<equiv> if pointer_is_aligned_for out 8 then store_u64 (mem w) out 0 else mem w"
  shows "heap_faults w' = heap_faults w \<and>
    (st \<noteq> 0 \<and> c' = Some c \<and> libc_live w' = libc_live w \<and> mem w' = m0 \<or>
     st = 0 \<and> pointer_is_aligned_for out 8 \<and> tx \<noteq> NULL \<and> len \<noteq> 0 \<and> options_ok m0 options \<and>
     cl_has_topology c \<and> cl_next_request_id c \<noteq> 0 \<and>
     mem w' = store_u64 (mem w) out (cl_next_request_id c) \<and>
     (\<exists>r q t0 t w1 w2. c' = Some (after_accept c r q) \<and> accepted_request c m0 tx len options r \<and>
        libc_live w' = libc_live w + owns (request_ptrs r) \<and>
        system_monotonic_time_ns (cl_monotonic_time_context c) True w = (0, t0, w1) \<and>
        fresh_at c (sp_max_topology_age_ns (options_policy m0 options)) (written t0) \<and>
        system_monotonic_time_ns (cl_monotonic_time_context c) True w1 = (0, t, w2) \<and>
        clock_script w' = clock_script w2 \<and>
        ot_received_monotonic_ns (cl_topology c) \<le> written t \<and>
        queue_wf q \<and> queue_events q = queue_events (cl_event_queue c) @
          [accepted_event (cl_next_request_id c) (written t)]))"
  unfolding m0_def
  by (rule sys.submit_effect [OF assms(1) _ _ assms(3,4)])
    (use assms(2) in \<open>auto simp: system_client_def\<close>)

lemma system_submit_heap:
  assumes "solana_delivery_client_submit (Some c) tx len options out w = (st, c', w')"
    and "system_client c" "queue_wf (cl_event_queue c)"
    and "cl_has_topology c \<Longrightarrow> owned_consistent (cl_topology c)" "heap_exact c F w"
  shows "heap_exact (the c') F w' \<and> heap_faults w' = heap_faults w"
  using system_submit [OF assms(1-4)] assms(5)
  by (auto simp: heap_exact_def client_ptrs_after_accept)

text \<open>C5: A successful submission returns the next request identifier, which is not zero,
  and adds exactly one request to the client: it holds a copy of the transaction bytes,
  the topology's generation and slot, and the selected targets with copies of their
  validator identity and endpoint. It takes two readings of the clock and leaves the
  others: at the first the topology was fresh for the maximum age of the options; the second,
  which is not earlier than the topology's receipt, is the time of the one accepted event
  queued last for that identifier. Outside the identifier's eight bytes the caller's
  memory is unchanged.\<close>

theorem submit_success:
  assumes "solana_delivery_client_submit (Some c) tx len options out w =
      (SOLANA_DELIVERY_STATUS_OK, c', w')"
    and "system_client c" "queue_wf (cl_event_queue c)"
    and "cl_has_topology c \<Longrightarrow> owned_consistent (cl_topology c)"
  shows "\<exists>r q now1 now2 w1 w2. c' = Some (after_accept c r q) \<and>
    accepted_request c (store_u64 (mem w) out 0) tx len options r \<and>
    load_u64 (mem w') out = cl_next_request_id c \<and> cl_next_request_id c \<noteq> SOLANA_DELIVERY_REQUEST_ID_NONE \<and>
    system_monotonic_time_ns (cl_monotonic_time_context c) True w =
      (SOLANA_DELIVERY_STATUS_OK, Some now1, w1) \<and>
    system_monotonic_time_ns (cl_monotonic_time_context c) True w1 =
      (SOLANA_DELIVERY_STATUS_OK, Some now2, w2) \<and>
    clock_script w' = clock_script w2 \<and>
    fresh_at c (so_max_topology_age_ns (load_options (store_u64 (mem w) out 0) options)) now1 \<and>
    ot_received_monotonic_ns (cl_topology c) \<le> now2 \<and>
    queue_wf q \<and> queue_events q = queue_events (cl_event_queue c) @
      [accepted_event (cl_next_request_id c) now2] \<and>
    (\<forall>x. \<not> in_region x out 8 \<longrightarrow> mem w' x = mem w x)"
proof -
  from system_submit [OF assms] obtain r q t0 t w1 w2 where
    "c' = Some (after_accept c r q)" "pointer_is_aligned_for out 8" "cl_next_request_id c \<noteq> 0"
    "accepted_request c (store_u64 (mem w) out 0) tx len options r"
    "mem w' = store_u64 (mem w) out (cl_next_request_id c)"
    and clock: "system_monotonic_time_ns (cl_monotonic_time_context c) True w = (0, t0, w1)"
    "system_monotonic_time_ns (cl_monotonic_time_context c) True w1 = (0, t, w2)"
    "clock_script w' = clock_script w2"
    and "fresh_at c (so_max_topology_age_ns (load_options (store_u64 (mem w) out 0) options)) (written t0)"
    "ot_received_monotonic_ns (cl_topology c) \<le> written t" "queue_wf q"
    "queue_events q = queue_events (cl_event_queue c) @
      [accepted_event (cl_next_request_id c) (written t)]"
    by (auto simp: options_policy_def)
  moreover from clock have "t0 = Some (written t0)" "t = Some (written t)"
    by (auto dest: system_clock_writes)
  ultimately show ?thesis
    by (intro exI [of _ r] exI [of _ q] exI [of _ "written t0"] exI [of _ "written t"]
        exI [of _ w1] exI [of _ w2]) (simp add: store_bytes_outside)
qed

text \<open>C6: A submission that fails, wherever it fails (arguments, options, freshness,
  resolution, any of the five allocations, an exhausted identifier, a full event queue,
  the clock), changes nothing of the client, returns every block it allocated, frees
  nothing else, and writes at most the null identifier to the caller's memory.\<close>

theorem submit_failure_atomic:
  assumes "solana_delivery_client_submit (Some c) tx len options out w = (st, c', w')"
    and "st \<noteq> SOLANA_DELIVERY_STATUS_OK"
    and "system_client c" "queue_wf (cl_event_queue c)"
    and "cl_has_topology c \<Longrightarrow> owned_consistent (cl_topology c)"
  shows "c' = Some c \<and> libc_live w' = libc_live w \<and> heap_faults w' = heap_faults w \<and>
    mem w' = (if pointer_is_aligned_for out 8
      then store_u64 (mem w) out SOLANA_DELIVERY_REQUEST_ID_NONE else mem w)"
  using system_submit [OF assms(1,3-5)] assms(2) by auto

text \<open>Submission keeps the heap ledger exact: the temporary candidate and route
  arrays are gone on every path, the request's three blocks are owned by the client
  exactly when it was accepted, and no free was invalid.\<close>

lemma submit_heap_exact:
  assumes "solana_delivery_client_submit (Some c) tx len options out w = (st, c', w')"
    and "system_client c" "queue_wf (cl_event_queue c)"
    and "cl_has_topology c \<Longrightarrow> owned_consistent (cl_topology c)" "heap_exact c F w"
  shows "heap_exact (the c') F w' \<and> heap_faults w' = heap_faults w"
  using system_submit_heap [OF assms] .

text \<open>C32: Back-pressure: with 64 events queued, or after the last request identifier has
  been given out, no submission is accepted.\<close>

theorem submit_backpressure:
  assumes "solana_delivery_client_submit (Some c) tx len options out w = (st, c', w')"
    and "system_client c" "queue_wf (cl_event_queue c)"
    and "cl_has_topology c \<Longrightarrow> owned_consistent (cl_topology c)"
    and "length (queue_events (cl_event_queue c)) = 64 \<or>
      cl_next_request_id c = SOLANA_DELIVERY_REQUEST_ID_NONE"
  shows "st \<noteq> SOLANA_DELIVERY_STATUS_OK"
proof
  assume "st = SOLANA_DELIVERY_STATUS_OK"
  with system_submit [OF assms(1-4)] obtain q e where "cl_next_request_id c \<noteq> 0" "queue_wf q"
    "queue_events q = queue_events (cl_event_queue c) @ [e]" by auto
  with ring.bounded [of q] assms(5) show False by auto
qed

text \<open>C33: The refusals before anything is allocated, in order, each with its status and
  with no more than the null identifier written: a misaligned or NULL identifier
  pointer (not written at all); no bytes; options that are unsupported or invalid; no
  topology; whatever the policy evaluation answers (clock failure, a clock behind the
  receipt, a stale topology); and a slot without candidates.\<close>

theorem submit_rejects_early:
  fixes c :: "'u solana_delivery_client_t" and w :: "'u world" and len :: usize
    and tx options out :: addr
  defines "run \<equiv> solana_delivery_client_submit (Some c) tx len options out w"
    and "w0 \<equiv> w\<lparr>mem := store_u64 (mem w) out SOLANA_DELIVERY_REQUEST_ID_NONE\<rparr>"
  shows "if \<not> pointer_is_aligned_for out 8
      then run = (SOLANA_DELIVERY_STATUS_INVALID_ARGUMENT, Some c, w)
    else if tx = NULL \<or> len = 0 then run = (SOLANA_DELIVERY_STATUS_INVALID_ARGUMENT, Some c, w0)
    else if \<not> options_ok (mem w0) options
      then run = (if options \<noteq> NULL \<and> options mod 8 = 0 \<and>
            24 \<le> unat (so_struct_size (load_options (mem w0) options)) \<and>
            so_flags (load_options (mem w0) options) \<noteq> SOLANA_DELIVERY_SUBMIT_FLAGS_NONE
          then SOLANA_DELIVERY_STATUS_UNSUPPORTED
          else SOLANA_DELIVERY_STATUS_INVALID_ARGUMENT, Some c, w0)
    else if \<not> cl_has_topology c
      then run = (SOLANA_DELIVERY_STATUS_TOPOLOGY_UNAVAILABLE, Some c, w0)
    else case solana_delivery_client_evaluate_submission_policy (Some c)
          (Some (options_policy (mem w0) options)) w0 of (st, wa) \<Rightarrow>
      if st \<noteq> SOLANA_DELIVERY_STATUS_OK then run = (st, Some c, wa)
      else slot_candidates (cl_topology c) (tp_current_slot (ot_view (cl_topology c))) = [] \<longrightarrow>
        run = (SOLANA_DELIVERY_STATUS_TOPOLOGY_UNAVAILABLE, Some c, wa)"
proof (cases "pointer_is_aligned_for out 8 \<and> tx \<noteq> NULL \<and> len \<noteq> 0")
  case False
  then show ?thesis
    by (auto simp: run_def w0_def solana_delivery_client_submit_def Let_def)
next
  case True
  then have args: "pointer_is_aligned_for out 8" "tx \<noteq> NULL" "len \<noteq> 0" by simp_all
  show ?thesis
  proof (cases "options_ok (mem w0) options")
    case False
    define aligned where "aligned \<longleftrightarrow> options mod 8 = 0"
    have al: "pointer_is_aligned_for options (of_nat 8) \<longleftrightarrow> options \<noteq> NULL \<and> aligned"
      by (simp add: pointer_is_aligned_for_def aligned_def)
    have "validate_submit_options (mem w0) options True =
        (if options \<noteq> NULL \<and> options mod 8 = 0 \<and>
            24 \<le> unat (so_struct_size (load_options (mem w0) options)) \<and>
            so_flags (load_options (mem w0) options) \<noteq> 0 then 2 else 1, None)"
      using False
      unfolding validate_submit_options_def options_ok_def alignof_simps al aligned_def [symmetric]
      by (auto simp: SUBMIT_OPTIONS_MIN_SIZE_def Let_def word_less_nat_alt)
    with args False show ?thesis
      by (simp add: run_def w0_def solana_delivery_client_submit_def)
  next
    case True
    let ?pol = "options_policy (mem w0) options"
    have v: "validate_submit_options (mem w0) options True = (0, Some ?pol)"
      using True validate_options_ok by blast
    obtain st wa where e: "solana_delivery_client_evaluate_submission_policy (Some c) (Some ?pol) w0 = (st, wa)"
      by (cases "solana_delivery_client_evaluate_submission_policy (Some c) (Some ?pol) w0")
    have "\<not> cl_has_topology c \<Longrightarrow> st = 4 \<and> wa = w0"
      using e True by (simp add: solana_delivery_client_evaluate_submission_policy_def
          options_ok_def options_policy_def)
    with submit_unfold [OF args w0_def [THEN meta_eq_to_obj_eq] v e] args True e show ?thesis
      by (simp add: run_def)
  qed
qed

text \<open>The targets of an accepted request, against the pairs the topology routes the slot to.\<close>

lemma request_targets:
  assumes "accepted_request c m tx len options r" "owned_consistent (cl_topology c)"
  defines "ow \<equiv> cl_topology c"
  defines "pair \<equiv> \<lambda>t. (rt_validator_index t, rt_endpoint_index t)"
  shows "let ts = bl_data (rq_targets r); limit = unat (so_target_limit (load_options m options));
      routed = {(v, e). \<exists>l < tp_leader_count (ot_view ow).
        leader_contains_slot (bl_data (ot_leaders ow) ! unat l) (rq_routing_slot r) \<and>
        v = ld_validator_index (bl_data (ot_leaders ow) ! unat l) \<and>
        (\<exists>a \<in> set (bl_data (ot_validator_endpoints ow)).
          ve_validator_index a = v \<and> ve_endpoint_index a = e)} in
    ts \<noteq> [] \<and> length ts = unat (rq_target_count r) \<and> length ts \<le> limit \<and>
    distinct (map pair ts) \<and>
    (\<forall>t \<in> set ts. pair t \<in> routed \<and>
       rt_validator_identity t = va_identity (bl_data (ot_validators ow) ! unat (rt_validator_index t)) \<and>
       rt_endpoint t = bl_data (ot_endpoints ow) ! unat (rt_endpoint_index t)) \<and>
    (card routed \<le> limit \<longrightarrow> pair ` set ts = routed)"
proof -
  let ?slot = "tp_current_slot (ot_view ow)"
  let ?f = "slot_candidates ow ?slot"
  let ?limit = "unat (so_target_limit (load_options m options))"
  let ?sel = "take ?limit (unique_candidates ?f)"
  have r: "rq_routing_slot r = ?slot" "bl_data (rq_targets r) = map (request_target ow) ?sel"
    "unat (rq_target_count r) = length ?sel" "?sel \<noteq> []"
    using assms(1) unfolding accepted_request_def Let_def selected_candidates_def options_policy_def
    by (simp_all add: ow_def del: length_take)
  have pair: "pair (request_target ow cand) = target_of cand" for cand
    by (simp add: pair_def request_target_def target_of_def)
  define routed where "routed = {(v, e). \<exists>l < tp_leader_count (ot_view ow).
      leader_contains_slot (bl_data (ot_leaders ow) ! unat l) ?slot \<and>
      v = ld_validator_index (bl_data (ot_leaders ow) ! unat l) \<and>
      (\<exists>a \<in> set (bl_data (ot_validator_endpoints ow)).
        ve_validator_index a = v \<and> ve_endpoint_index a = e)}"
  have routed: "routed = target_of ` set ?f"
    using candidate_targets [of ow ?slot] assms(2) by (simp add: routed_def target_of_def ow_def)
  have "card routed = length (unique_candidates ?f)"
    using distinct_card [OF distinct_unique [of ?f]] by (simp add: set_unique routed)
  then have all: "card routed \<le> ?limit \<longrightarrow> target_of ` set ?sel = routed"
    by (simp add: set_unique routed)
  have dist: "distinct (map target_of ?sel)"
    using distinct_unique [of ?f] by (simp add: take_map [symmetric] distinct_take)
  have sound: "target_of cand \<in> routed" if "cand \<in> set ?sel" for cand
    using that set_unique_subset [of ?f] by (auto simp: routed dest: in_set_takeD)
  have "map pair (bl_data (rq_targets r)) = map target_of ?sel"
    by (simp add: r(2) pair comp_def)
  moreover from this have "pair ` set (bl_data (rq_targets r)) = target_of ` set ?sel"
    by (metis list.set_map)
  moreover have "\<forall>t \<in> set (bl_data (rq_targets r)). pair t \<in> routed \<and>
       rt_validator_identity t = va_identity (bl_data (ot_validators ow) ! unat (rt_validator_index t)) \<and>
       rt_endpoint t = bl_data (ot_endpoints ow) ! unat (rt_endpoint_index t)"
    using sound pair by (auto simp: r(2) request_target_def)
  moreover have "length (bl_data (rq_targets r)) = unat (rq_target_count r)"
    by (simp add: r(2,3))
  moreover have "length (bl_data (rq_targets r)) \<le> ?limit" "bl_data (rq_targets r) \<noteq> []"
    using r(4) by (simp_all add: r(2))
  ultimately show ?thesis
    unfolding Let_def r(1) routed_def [symmetric] using dist all by simp
qed

text \<open>C9: The targets of the request a successful submission adds: at least one and at most
  \<open>target_limit\<close>, no two with the same validator and endpoint; each has the identity of
  its validator, the endpoint record of its endpoint, a leader range of that validator
  that contains the topology's current slot, and an association of the two; and every
  such associated pair is a target when the limit does not cut.\<close>

theorem submit_targets_sound:
  assumes "solana_delivery_client_submit (Some c) tx len options out w =
      (SOLANA_DELIVERY_STATUS_OK, Some c', w')"
    and "system_client c" "queue_wf (cl_event_queue c)" "owned_consistent (cl_topology c)"
  defines "ow \<equiv> cl_topology c"
  defines "pair \<equiv> \<lambda>t. (rt_validator_index t, rt_endpoint_index t)"
  shows "\<exists>r. cl_request_head c' = r # cl_request_head c \<and> cl_topology c' = ow \<and>
   (let ts = bl_data (rq_targets r);
      limit = unat (so_target_limit (load_options (store_u64 (mem w) out 0) options));
      routed = {(v, e). \<exists>l < tp_leader_count (ot_view ow).
        leader_contains_slot (bl_data (ot_leaders ow) ! unat l) (tp_current_slot (ot_view ow)) \<and>
        v = ld_validator_index (bl_data (ot_leaders ow) ! unat l) \<and>
        (\<exists>a \<in> set (bl_data (ot_validator_endpoints ow)).
          ve_validator_index a = v \<and> ve_endpoint_index a = e)} in
    ts \<noteq> [] \<and> length ts = unat (rq_target_count r) \<and> length ts \<le> limit \<and>
    distinct (map pair ts) \<and>
    (\<forall>t \<in> set ts. pair t \<in> routed \<and>
       rt_validator_identity t = va_identity (bl_data (ot_validators ow) ! unat (rt_validator_index t)) \<and>
       rt_endpoint t = bl_data (ot_endpoints ow) ! unat (rt_endpoint_index t)) \<and>
    (card routed \<le> limit \<longrightarrow> pair ` set ts = routed))"
proof -
  from system_submit [OF assms(1-3)] assms(4) obtain r q where c': "c' = after_accept c r q"
    and r: "accepted_request c (store_u64 (mem w) out 0) tx len options r"
    by auto
  have "rq_routing_slot r = tp_current_slot (ot_view ow)"
    using r by (simp add: accepted_request_def Let_def ow_def)
  with request_targets [OF r assms(4)] show ?thesis
    unfolding ow_def pair_def by (intro exI [of _ r]) (simp add: c' after_accept_def)
qed

section \<open>When submission succeeds\<close>

lemma allocate_serves:
  assumes "heap_serves (p # ps) w" "cl_allocator c = SYSTEM_ALLOCATOR"
    and "n \<noteq> 0" "s \<noteq> 0" "unat n * unat s < 2 ^ 64"
  shows "\<exists>w'. allocate_array (Some c) n s True w = (0, Some p, w') \<and> heap_serves ps w' \<and>
    mem w' = mem w \<and> clock_script w' = clock_script w"
proof -
  have "\<not> SIZE_MAX div s < n"
    using capacity_check [OF assms(4), of n] assms(5) by simp
  moreover obtain w' where "libc_calloc n s w = (p, w')" "p \<noteq> NULL" "heap_serves ps w'"
    "mem w' = mem w" "clock_script w' = clock_script w"
    using calloc_serves [OF assms(1,5)] .
  ultimately show ?thesis using assms(2-4) by (simp add: allocate_array_def)
qed

lemma accept_run:
  assumes "cl_next_request_id c \<noteq> 0" "queue_wf (cl_event_queue c)"
    and "length (queue_events (cl_event_queue c)) < 64"
    and "cl_monotonic_time_fn c (cl_monotonic_time_context c) True w = (0, Some t, w1)"
    and "ot_received_monotonic_ns (cl_topology c) \<le> t"
  shows "\<exists>c' w'. submit_accept c len slot tc out lc w = (SOLANA_DELIVERY_STATUS_OK, c', w')"
  using assms
  by (auto simp: submit_accept_def solana_delivery_event_queue_push_def Let_def not_less [symmetric]
      solana_delivery_event_queue_has_capacity_def word_less_nat_alt)

lemma submit_run:
  fixes c :: "'u solana_delivery_client_t"
  defines "ow \<equiv> cl_topology c"
  assumes "system_client c" "queue_wf (cl_event_queue c)" "cl_has_topology c" "owned_consistent ow"
    and "pointer_is_aligned_for out 8" "tx \<noteq> NULL" "len \<noteq> 0"
    and "w0 = w\<lparr>mem := store_u64 (mem w) out 0\<rparr>" "options_ok (mem w0) options"
    and "slot_candidates ow (tp_current_slot (ot_view ow)) \<noteq> []"
    and "length (slot_candidates ow (tp_current_slot (ot_view ow))) * 12 < 2 ^ 64"
    and "heap_serves [p1, p2, p3, p4, p5] w"
    and "system_monotonic_time_ns (cl_monotonic_time_context c) True w0 = (0, Some t1, w1)"
    and "fresh_at c (so_max_topology_age_ns (load_options (mem w0) options)) t1"
    and "clock_script w1 = r2 # rest" "valid_reading r2" "unat (fst (snd r2)) < 18446744073"
    and "unat (ot_received_monotonic_ns ow) \<le> reading_ns r2"
    and "cl_next_request_id c \<noteq> 0" "length (queue_events (cl_event_queue c)) < 64"
  shows "\<exists>c' w'. solana_delivery_client_submit (Some c) tx len options out w =
    (SOLANA_DELIVERY_STATUS_OK, c', w')"
proof -
  let ?slot = "tp_current_slot (ot_view ow)"
  let ?f = "slot_candidates ow ?slot"
  let ?pol = "options_policy (mem w0) options"
  let ?sel = "selected_candidates ow ?slot (sp_target_limit ?pol)"
  have sys: "cl_allocator c = SYSTEM_ALLOCATOR" "cl_monotonic_time_fn c = system_monotonic_time_ns"
    using assms(2) by (simp_all add: system_client_def)
  note lim = options_policy_limit [OF assms(10)]
  note sf = selected_facts [OF assms(11) lim]
  have w1: "heap_supply w1 = heap_supply w" "heap_live w1 = heap_live w" "mem w1 = mem w0"
    using system_clock_props [OF assms(14)] assms(9) by simp_all
  have "length ?sel \<le> unat (sp_target_limit ?pol)" by (simp add: selected_candidates_def)
  also have "\<dots> < 4294967296" by (simp add: options_policy_def)
  finally have small: "length ?sel * 12 < 2 ^ 64" "length ?sel * 76 < 2 ^ 64" by simp_all
  have "heap_serves [p1, p2, p3, p4, p5] w1" using assms(13) w1 by (simp add: heap_serves_def)
  then obtain v1 where v1: "allocate_array (Some c) (of_nat (length ?f)) 12 True w1 = (0, Some p1, v1)"
    "heap_serves [p2, p3, p4, p5] v1" "clock_script v1 = clock_script w1"
    using allocate_serves [of p1 _ w1 c "of_nat (length ?f)" 12] sys(1) found_nonzero [OF assms(11)]
      found_count [of ow ?slot] assms(12) by auto
  obtain v2 where v2: "allocate_array (Some c) (of_nat (length ?sel)) 12 True v1 = (0, Some p2, v2)"
    "heap_serves [p3, p4, p5] v2" "clock_script v2 = clock_script w1"
    using allocate_serves [OF v1(2) sys(1) sf(3), of 12] sf(2) small(1) v1(3) by auto
  obtain v3 where v3: "allocate_array (Some c) 1 len True v2 = (0, Some p3, v3)"
    "heap_serves [p4, p5] v3" "clock_script v3 = clock_script w1"
    using allocate_serves [OF v2(2) sys(1), of 1 len] assms(8) v2(3) by auto
  obtain v4 where v4: "allocate_array (Some c) (of_nat (length ?sel)) 76 True v3 = (0, Some p4, v4)"
    "heap_serves [p5] v4" "clock_script v4 = clock_script w1"
    using allocate_serves [OF v3(2) sys(1) sf(3), of 76] sf(2) small(2) v3(3) by auto
  obtain v5 where v5: "allocate_array (Some c) 1 80 True v4 = (0, Some p5, v5)"
    "clock_script v5 = clock_script w1"
    using allocate_serves [OF v4(2) sys(1), of 1 80] v4(3) by auto
  obtain t2 v6 where t2: "system_monotonic_time_ns (cl_monotonic_time_context c) True v5 = (0, Some t2, v6)"
    "unat t2 = reading_ns r2"
    using reading_sum [of "fst r2" "fst (snd r2)" "snd (snd r2)"] assms(16-18) v5(2)
    by (auto simp: system_clock_eq clock_gettime_def)
  obtain lc where st: "submit_stages c tx len ?pol ?slot (of_nat (length ?f)) out w1 =
    (let (st, c', w') = submit_accept c len ?slot (of_nat (length ?sel)) out lc v5 in (st, c', lc, w'))"
    using stages_run [OF assms(4) assms(5,11)[unfolded ow_def] lim v1(1)[unfolded ow_def]
        v2(1)[unfolded ow_def] v3(1) v4(1)[unfolded ow_def] v5(1), where out = out]
    unfolding ow_def by blast
  have "ot_received_monotonic_ns (cl_topology c) \<le> t2"
    using t2(2) assms(19) by (simp add: word_le_nat_alt ow_def)
  then obtain c' w' where ac: "submit_accept c len ?slot (of_nat (length ?sel)) out lc v5 = (0, c', w')"
    using accept_run [OF assms(20,3,21) t2(1)[folded sys(2)]] by blast
  have v: "validate_submit_options (mem w0) options True = (0, Some ?pol)"
    using assms(10) validate_options_ok by blast
  have e: "solana_delivery_client_evaluate_submission_policy (Some c) (Some ?pol) w0 = (0, w1)"
  proof -
    have "\<not> t1 < ot_received_monotonic_ns (cl_topology c)"
      "\<not> sp_max_topology_age_ns ?pol < t1 - ot_received_monotonic_ns (cl_topology c)"
      using assms(15) age_iff [of "ot_received_monotonic_ns (cl_topology c)" t1 "sp_max_topology_age_ns ?pol"]
      by (auto simp: fresh_at_def options_policy_def word_le_nat_alt not_less)
    then show ?thesis
      using assms(4,10,14) sys(2) lim
      by (simp add: solana_delivery_client_evaluate_submission_policy_def options_ok_def options_policy_def)
  qed
  show ?thesis
    using submit_unfold [OF assms(6-9) v e] assms(4,11) st ac by (simp add: ow_def)
qed

text \<open>
  Everything a submission needs: usable arguments, options and topology, a candidate
  for the slot, five allocations, an identifier, room for the event, and two clock
  readings, the first within the maximum age and the second not before the receipt.
\<close>

definition submission_ready ::
  "'u solana_delivery_client_t \<Rightarrow> addr \<Rightarrow> usize \<Rightarrow> addr \<Rightarrow> addr \<Rightarrow> 'u world \<Rightarrow> bool" where
  "submission_ready c tx len options out w \<longleftrightarrow>
     (let ow = cl_topology c; found = slot_candidates ow (tp_current_slot (ot_view ow));
          w0 = w\<lparr>mem := store_u64 (mem w) out 0\<rparr> in
      pointer_is_aligned_for out 8 \<and> tx \<noteq> NULL \<and> len \<noteq> 0 \<and> options_ok (mem w0) options \<and>
      cl_has_topology c \<and> owned_consistent ow \<and> found \<noteq> [] \<and> length found * 12 < 2 ^ 64 \<and>
      (\<exists>p1 p2 p3 p4 p5. heap_serves [p1, p2, p3, p4, p5] w) \<and>
      cl_next_request_id c \<noteq> 0 \<and> length (queue_events (cl_event_queue c)) < 64 \<and>
      (\<exists>t1 w1 r2 rest. system_monotonic_time_ns (cl_monotonic_time_context c) True w0 = (0, Some t1, w1) \<and>
         fresh_at c (so_max_topology_age_ns (load_options (mem w0) options)) t1 \<and>
         clock_script w1 = r2 # rest \<and> valid_reading r2 \<and> unat (fst (snd r2)) < 18446744073 \<and>
         unat (ot_received_monotonic_ns ow) \<le> reading_ns r2))"

text \<open>C17: Submission is not vacuously safe: when everything it needs is there
  (\<open>submission_ready\<close>), it returns \<open>SOLANA_DELIVERY_STATUS_OK\<close>.\<close>

theorem submit_succeeds:
  assumes "system_client c" "queue_wf (cl_event_queue c)" "submission_ready c tx len options out w"
  shows "\<exists>c' w'. solana_delivery_client_submit (Some c) tx len options out w =
    (SOLANA_DELIVERY_STATUS_OK, c', w')"
  using assms submit_run [of c out tx len _ w options]
  unfolding submission_ready_def Let_def by blast

section \<open>Witnesses\<close>

lemma installed_loads [simp]:
  "load_options (store_u64 example_mem 0x8000 x) 0x7000 = example_options"
  "load_bytes (store_u64 example_mem 0x8000 x) 0x6000 1 = [1]"
  using example_loads by (simp_all add: load_store_disjoint disjoint_regions_def)

lemma installed_mem [simp]: "mem installed_world = example_mem"
  by (simp add: installed_world_def)

lemma example_options_ok: "options_ok (store_u64 example_mem 0x8000 0) 0x7000"
  by (simp add: options_ok_def example_options_def)

lemma example_found [simp]:
  "slot_candidates example_owned (tp_current_slot (ot_view example_owned)) = [example_candidate]"
  using example_candidates by (simp add: example_owned_def example_topology_def)

lemma example_received [simp]: "ot_received_monotonic_ns example_owned = 1000000000"
  by (simp add: example_owned_def)

lemma example_ready: "submission_ready installed_client 0x6000 1 0x7000 0x8000 installed_world"
proof -
  have "heap_serves [0x600, 0x700, 0x800, 0x900, 0xA00] installed_world"
    by (simp add: heap_serves_def installed_world_def upt_conv_Cons)
  then have "\<exists>p1 p2 p3 p4 p5. heap_serves [p1, p2, p3, p4, p5] installed_world" by blast
  moreover have "system_monotonic_time_ns (cl_monotonic_time_context installed_client) True
      (installed_world\<lparr>mem := store_u64 example_mem 0x8000 0\<rparr>) =
    (0, Some 2000000000, installed_world\<lparr>mem := store_u64 example_mem 0x8000 0,
       clock_script := [(True, 3, 0)]\<rparr>)"
    by (simp add: installed_world_def system_clock_eq clock_gettime_def valid_reading_def)
  ultimately show ?thesis
    using example_options_ok
    by (auto simp: submission_ready_def Let_def pointer_is_aligned_for_def fresh_at_def
        example_options_def valid_reading_def reading_ns_def)
qed

lemma submit_succeeds_witness:
  "\<exists>c' w'. solana_delivery_client_submit (Some installed_client) 0x6000 1 0x7000 0x8000 installed_world =
    (SOLANA_DELIVERY_STATUS_OK, c', w')"
  using submit_succeeds [OF _ _ example_ready] by simp

lemma example_submit:
  "\<exists>c' w'. solana_delivery_client_submit (Some installed_client) 0x6000 1 0x7000 0x8000 installed_world =
    (SOLANA_DELIVERY_STATUS_OK, c', w')"
proof -
  note r = example_ready [unfolded submission_ready_def Let_def]
  from r submit_run [of installed_client "0x8000" "0x6000" 1 _ installed_world "0x7000"]
  show ?thesis by auto
qed

lemma submit_success_witness:
  "\<exists>w' r q. solana_delivery_client_submit (Some installed_client) 0x6000 1 0x7000 0x8000 installed_world =
      (SOLANA_DELIVERY_STATUS_OK, Some (after_accept installed_client r q), w') \<and>
    load_u64 (mem w') 0x8000 = 1 \<and> queue_events q = [accepted_event 1 3000000000] \<and>
    fresh_at installed_client 60000000000 2000000000 \<and> clock_script w' = [] \<and>
    bl_data (rq_transaction_bytes r) = [1]"
proof -
  obtain c' w' where s: "solana_delivery_client_submit (Some installed_client) 0x6000 1 0x7000 0x8000
      installed_world = (SOLANA_DELIVERY_STATUS_OK, c', w')" using example_submit by blast
  from submit_success [OF s] obtain r q now1 now2 w1 w2 where
    r: "c' = Some (after_accept installed_client r q)" "load_u64 (mem w') 0x8000 = 1"
    "accepted_request installed_client (store_u64 example_mem 0x8000 0) 0x6000 1 0x7000 r"
    and q: "queue_events q = [accepted_event 1 now2]"
    and clock: "system_monotonic_time_ns (cl_monotonic_time_context installed_client) True
      installed_world = (SOLANA_DELIVERY_STATUS_OK, Some now1, w1)"
    "system_monotonic_time_ns (cl_monotonic_time_context installed_client) True w1 =
      (SOLANA_DELIVERY_STATUS_OK, Some now2, w2)" "clock_script w' = clock_script w2"
    and fresh: "fresh_at installed_client (so_max_topology_age_ns example_options) now1" by auto
  have "now1 = 2000000000" "clock_script w1 = [(True, 3, 0)]"
    using clock(1)
    by (auto simp: installed_world_def system_clock_eq clock_gettime_def valid_reading_def)
  moreover from this have "now2 = 3000000000" "clock_script w2 = []"
    using clock(2) by (auto simp: system_clock_eq clock_gettime_def valid_reading_def)
  moreover have "bl_data (rq_transaction_bytes r) = [1]"
    using r(3) installed_loads(2) [of 0] by (simp only: accepted_request_def Let_def unsigned_1)
  ultimately show ?thesis
    using s r q clock(3) fresh
    by (intro exI [of _ w'] exI [of _ r] exI [of _ q]) (simp add: example_options_def)
qed

text \<open>A client that has given out its last identifier: every block is allocated and released.\<close>

definition exhausted_client :: "unit solana_delivery_client_t" where
  "exhausted_client = installed_client\<lparr>cl_next_request_id := 0\<rparr>"

lemma exhausted_facts [simp]:
  "system_client exhausted_client" "cl_event_queue exhausted_client = zero_queue"
  "cl_has_topology exhausted_client" "cl_topology exhausted_client = example_owned"
  "cl_next_request_id exhausted_client = 0"
  "heap_exact exhausted_client {#} installed_world"
  using installed_client_facts installed_heap_exact
  by (simp_all add: exhausted_client_def system_client_def heap_exact_def client_ptrs_def)

lemma exhausted_submit:
  "\<exists>st w'. solana_delivery_client_submit (Some exhausted_client) 0x6000 1 0x7000 0x8000 installed_world =
      (st, Some exhausted_client, w') \<and> st \<noteq> SOLANA_DELIVERY_STATUS_OK"
proof -
  obtain st c' w' where s: "solana_delivery_client_submit (Some exhausted_client) 0x6000 1 0x7000 0x8000
      installed_world = (st, c', w')"
    by (cases "solana_delivery_client_submit (Some exhausted_client) 0x6000 1 0x7000 0x8000 installed_world")
  from system_submit [OF s] s show ?thesis by auto
qed

lemma submit_failure_atomic_witness:
  "\<exists>st w'. solana_delivery_client_submit (Some exhausted_client) 0x6000 1 0x7000 0x8000 installed_world =
      (st, Some exhausted_client, w') \<and> st \<noteq> SOLANA_DELIVERY_STATUS_OK \<and>
    libc_live w' = libc_live installed_world \<and> mem w' = store_u64 example_mem 0x8000 0"
proof -
  obtain st w' where s: "solana_delivery_client_submit (Some exhausted_client) 0x6000 1 0x7000 0x8000
      installed_world = (st, Some exhausted_client, w')" "st \<noteq> 0" using exhausted_submit by blast
  from submit_failure_atomic [OF s] s show ?thesis by (auto simp: pointer_is_aligned_for_def)
qed

lemma submit_heap_exact_witness:
  "\<exists>st c' w'. solana_delivery_client_submit (Some installed_client) 0x6000 1 0x7000 0x8000 installed_world =
      (st, c', w') \<and> heap_exact (the c') {#} w' \<and> st = SOLANA_DELIVERY_STATUS_OK"
proof -
  obtain c' w' where s: "solana_delivery_client_submit (Some installed_client) 0x6000 1 0x7000 0x8000
      installed_world = (SOLANA_DELIVERY_STATUS_OK, c', w')" using example_submit by blast
  from submit_heap_exact [OF s _ _ _ installed_heap_exact] s show ?thesis by auto
qed

lemma submit_backpressure_witness:
  "\<exists>st w'. solana_delivery_client_submit (Some exhausted_client) 0x6000 1 0x7000 0x8000 installed_world =
      (st, Some exhausted_client, w') \<and> st \<noteq> SOLANA_DELIVERY_STATUS_OK"
proof -
  obtain st w' where s: "solana_delivery_client_submit (Some exhausted_client) 0x6000 1 0x7000 0x8000
      installed_world = (st, Some exhausted_client, w')" using exhausted_submit by blast
  from submit_backpressure [OF s] s show ?thesis by simp
qed

lemma submit_rejects_early_witness:
  "\<exists>w'. solana_delivery_client_submit (Some example_client) 0x6000 1 0x7000 0x8000 installed_world =
      (SOLANA_DELIVERY_STATUS_TOPOLOGY_UNAVAILABLE, Some example_client, w') \<and>
   solana_delivery_client_submit (Some example_client) 0x6000 1 0x7000 0x8004 installed_world =
      (SOLANA_DELIVERY_STATUS_INVALID_ARGUMENT, Some example_client, installed_world)"
  using submit_rejects_early [of "0x8000" example_client "0x6000" 1 "0x7000" installed_world]
    submit_rejects_early [of "0x8004" example_client "0x6000" 1 "0x7000" installed_world]
    example_options_ok
  by (simp add: pointer_is_aligned_for_def Let_def)

lemma submit_targets_sound_witness:
  "\<exists>c' w' r. solana_delivery_client_submit (Some installed_client) 0x6000 1 0x7000 0x8000 installed_world =
      (SOLANA_DELIVERY_STATUS_OK, Some c', w') \<and>
    cl_request_head c' = [r] \<and> length (bl_data (rq_targets r)) = 1"
proof -
  obtain c' w' where s: "solana_delivery_client_submit (Some installed_client) 0x6000 1 0x7000 0x8000
      installed_world = (SOLANA_DELIVERY_STATUS_OK, c', w')" using example_submit by blast
  then obtain d where d: "c' = Some d" using system_submit [OF s] by auto
  from submit_targets_sound [OF s [unfolded d]] obtain r where
    "cl_request_head d = [r]" "bl_data (rq_targets r) \<noteq> []" "length (bl_data (rq_targets r)) \<le> 1"
    by (auto simp: Let_def example_options_def)
  then show ?thesis
    using s d by (intro exI [of _ d] exI [of _ w'] exI [of _ r]) (cases "bl_data (rq_targets r)", auto)
qed


end
