(* ===== verification/Client_Lifecycle.thy ===== *)
theory Client_Lifecycle
  imports Topology_Install
begin

text \<open>
  Creation and destruction of a client, \<open>solana_delivery.c\<close> lines 440 to 465 and
  684 to 766. The list of accepted requests is released head first, then the
  topology, then the client block itself.
\<close>

section \<open>The code\<close>

text \<open>
  The second component is what \<open>*out_client\<close> holds afterwards: None if it was not
  written, \<open>Some None\<close> if it was set to NULL. \<open>out_client\<close> says whether the
  pointer itself is valid.
\<close>

definition solana_delivery_client_create_with_dependencies ::
  "'u solana_delivery_allocator_t option \<Rightarrow> 'u solana_delivery_monotonic_time_fn option \<Rightarrow>
   addr \<Rightarrow> bool \<Rightarrow> 'u world \<Rightarrow>
   solana_delivery_status_t \<times> 'u solana_delivery_client_t option option \<times> 'u world" where
  "solana_delivery_client_create_with_dependencies allocator monotonic_time_fn
       monotonic_time_context out_client w =
     (if \<not> allocator_is_valid allocator \<or> monotonic_time_fn = None \<or> \<not> out_client
      then (SOLANA_DELIVERY_STATUS_INVALID_ARGUMENT, None, w)
      else
        let (client, w) = call_calloc (the allocator) 1 (of_nat (c_sizeof client_layout)) w
        in if client = NULL then (SOLANA_DELIVERY_STATUS_RESOURCE_EXHAUSTED, Some None, w)
           else (SOLANA_DELIVERY_STATUS_OK,
                 Some (Some (fresh_client client (the allocator) (the monotonic_time_fn)
                   monotonic_time_context)), w))"

definition solana_delivery_client_create_with_allocator ::
  "'u solana_delivery_allocator_t option \<Rightarrow> bool \<Rightarrow> 'u world \<Rightarrow>
   solana_delivery_status_t \<times> 'u solana_delivery_client_t option option \<times> 'u world" where
  "solana_delivery_client_create_with_allocator allocator out_client w =
     solana_delivery_client_create_with_dependencies allocator (Some system_monotonic_time_ns)
       NULL out_client w"

definition solana_delivery_client_create ::
  "bool \<Rightarrow> 'u world \<Rightarrow>
   solana_delivery_status_t \<times> 'u solana_delivery_client_t option option \<times> 'u world" where
  "solana_delivery_client_create out_client w =
     solana_delivery_client_create_with_allocator (Some SYSTEM_ALLOCATOR) out_client w"

text \<open>The loop of \<open>owned_requests_release\<close>: unlink the head, free its three blocks.\<close>

fun release_request_list ::
  "'u solana_delivery_allocator_t \<Rightarrow> solana_delivery_owned_request_t list \<Rightarrow> 'u world \<Rightarrow>
   'u world" where
  "release_request_list a [] w = w"
| "release_request_list a (request # next_requests) w =
     (let w = call_free a (bl_ptr (rq_transaction_bytes request)) w;
          w = call_free a (bl_ptr (rq_targets request)) w;
          w = call_free a (rq_self request) w
      in release_request_list a next_requests w)"

text \<open>\<open>head\<close> is None for a null pointer, and otherwise the list behind \<open>*head\<close>.\<close>

definition owned_requests_release ::
  "'u solana_delivery_allocator_t option \<Rightarrow> solana_delivery_owned_request_t list option \<Rightarrow>
   'u world \<Rightarrow> solana_delivery_owned_request_t list option \<times> 'u world" where
  "owned_requests_release allocator head w =
     (if \<not> allocator_is_valid allocator \<or> head = None then (head, w)
      else (Some [], release_request_list (the allocator) (the head) w))"

definition solana_delivery_client_destroy ::
  "'u solana_delivery_client_t option \<Rightarrow> 'u world \<Rightarrow> 'u world" where
  "solana_delivery_client_destroy client w =
     (case client of None \<Rightarrow> w
      | Some c \<Rightarrow>
        let allocator = cl_allocator c;
            (_, w) = owned_requests_release (Some allocator) (Some (cl_request_head c)) w;
            (_, w) = owned_topology_release (Some allocator) (Some (cl_topology c)) w
        in call_free allocator (cl_self c) w)"

section \<open>Every block is released exactly once\<close>

lemma release_request_list_fold:
  "release_request_list a rs w = fold (call_free a) (requests_ptrs rs) w"
  by (induction a rs w rule: release_request_list.induct) (simp_all add: request_ptrs_def)

context client_platform
begin

lemma destroy_accounts:
  assumes "cl_allocator c = A" "owns (client_ptrs c) \<subseteq># live w"
  shows "live (solana_delivery_client_destroy (Some c) w) = live w - owns (client_ptrs c) \<and>
    faults (solana_delivery_client_destroy (Some c) w) = faults w \<and>
    mem (solana_delivery_client_destroy (Some c) w) = mem w"
proof -
  have "solana_delivery_client_destroy (Some c) w = fold (call_free A) (client_ptrs c) w"
    using assms(1) valid
    by (simp add: solana_delivery_client_destroy_def owned_requests_release_def
        owned_topology_release_eq release_request_list_fold client_ptrs_def)
  with free_list [OF assms(2)] show ?thesis by simp
qed

lemma create_accounts:
  assumes "solana_delivery_client_create_with_dependencies (Some A) (Some T) ctx True w =
    (st, out, w')"
  shows "mem w' = mem w \<and> faults w' = faults w \<and>
    (st = 3 \<and> out = Some None \<and> live w' = live w \<or>
     st = 0 \<and> (\<exists>p. p \<noteq> NULL \<and> p \<notin># live w \<and> out = Some (Some (fresh_client p A T ctx)) \<and>
       live w' = add_mset p (live w)))"
  using assms valid calloc_null calloc_block calloc_frame
  by (auto simp: solana_delivery_client_create_with_dependencies_def
      split: prod.splits if_splits)

end

lemma fresh_client_simps [simp]:
  "cl_self (fresh_client p a t ctx) = p" "cl_allocator (fresh_client p a t ctx) = a"
  "cl_monotonic_time_fn (fresh_client p a t ctx) = t"
  "cl_has_topology (fresh_client p a t ctx) = False"
  "cl_topology (fresh_client p a t ctx) = zero_owned"
  "cl_next_request_id (fresh_client p a t ctx) = 1"
  "cl_request_head (fresh_client p a t ctx) = []"
  "cl_event_queue (fresh_client p a t ctx) = zero_queue"
  by (simp_all add: fresh_client_def)

lemma client_ptrs_fresh [simp]: "p \<noteq> NULL \<Longrightarrow> owns (client_ptrs (fresh_client p a t ctx)) = {#p#}"
  by (simp add: client_ptrs_def)

lemma fresh_system [simp]:
  "system_client (fresh_client p SYSTEM_ALLOCATOR system_monotonic_time_ns ctx)"
  by (simp add: system_client_def)

lemma system_create:
  assumes "solana_delivery_client_create True w = (st, out, w')"
  obtains "st = SOLANA_DELIVERY_STATUS_RESOURCE_EXHAUSTED" "out = Some None"
      "mem w' = mem w" "heap_faults w' = heap_faults w" "libc_live w' = libc_live w"
  | p where "st = SOLANA_DELIVERY_STATUS_OK"
      "out = Some (Some (fresh_client p SYSTEM_ALLOCATOR system_monotonic_time_ns NULL))"
      "p \<noteq> NULL" "p \<notin># libc_live w" "mem w' = mem w" "heap_faults w' = heap_faults w"
      "heap_exact (fresh_client p SYSTEM_ALLOCATOR system_monotonic_time_ns NULL) (libc_live w) w'"
  using assms sys.create_accounts [of NULL w st out w']
  by (auto simp: solana_delivery_client_create_def solana_delivery_client_create_with_allocator_def
      heap_exact_def)

lemma create_ready:
  assumes "heap_ready (Suc n) w"
  obtains p w' where "solana_delivery_client_create True w = (SOLANA_DELIVERY_STATUS_OK,
      Some (Some (fresh_client p SYSTEM_ALLOCATOR system_monotonic_time_ns NULL)), w')"
    "heap_ready n w'" "mem w' = mem w" "clock_script w' = clock_script w"
proof -
  have "unat (1 :: usize) * unat (of_nat (c_sizeof client_layout) :: usize) < 2 ^ 64" by simp
  from ready_calloc [OF assms this] obtain p w' where
    "libc_calloc 1 (of_nat (c_sizeof client_layout)) w = (p, w')" "p \<noteq> NULL" "heap_ready n w'"
    "mem w' = mem w" "clock_script w' = clock_script w" .
  then show thesis using sys.valid
    by (intro that [of p w'])
      (simp_all add: solana_delivery_client_create_def solana_delivery_client_create_with_allocator_def
        solana_delivery_client_create_with_dependencies_def)
qed

text \<open>C39: Creating a client either fails for lack of memory, setting the out pointer
  to NULL and allocating nothing, or yields an empty client (no topology, no requests,
  no events, first request identifier 1) in one new block on the system allocator
  and clock.\<close>

theorem create_outcome:
  "case solana_delivery_client_create True w of (st, out, w') \<Rightarrow>
     mem w' = mem w \<and> heap_faults w' = heap_faults w \<and>
     (st = SOLANA_DELIVERY_STATUS_RESOURCE_EXHAUSTED \<and> out = Some None \<and> libc_live w' = libc_live w
      \<or> st = SOLANA_DELIVERY_STATUS_OK \<and>
        (\<exists>c. out = Some (Some c) \<and> system_client c \<and> heap_exact c (libc_live w) w' \<and>
           \<not> cl_has_topology c \<and> cl_request_head c = [] \<and> eq_count (cl_event_queue c) = 0 \<and>
           cl_next_request_id c = 1 \<and> cl_self c \<notin># libc_live w))"
proof -
  obtain st out w' where r: "solana_delivery_client_create True w = (st, out, w')"
    by (cases "solana_delivery_client_create True w")
  from r show ?thesis by (cases rule: system_create) (auto simp: r zero_queue_def)
qed

text \<open>Destroying a client frees each of its blocks exactly once: request bytes,
  request targets, requests, topology arrays and the client itself. What stays live
  is the rest of the process's, and no free was invalid.\<close>

lemma destroy_releases_everything:
  assumes "system_client c" "heap_exact c F w"
  shows "libc_live (solana_delivery_client_destroy (Some c) w) = F \<and>
    heap_faults (solana_delivery_client_destroy (Some c) w) = heap_faults w \<and>
    mem (solana_delivery_client_destroy (Some c) w) = mem w"
  using assms sys.destroy_accounts [of c w] by (simp add: system_client_def heap_exact_def)

lemma destroy_releases_everything_witness:
  "\<exists>c w. length (cl_request_head c) = 1 \<and> size (libc_live (w :: unit world)) = 6 \<and>
     libc_live (solana_delivery_client_destroy (Some c) w) = {#0x900#}"
proof -
  define r where "r = \<lparr>rq_self = 0x300, rq_request_id = 1, rq_topology_generation = 1,
    rq_routing_slot = 10, rq_transaction_bytes = \<lparr>bl_ptr = 0x400, bl_data = [1]\<rparr>,
    rq_transaction_length = 1, rq_targets = \<lparr>bl_ptr = 0x500, bl_data = []\<rparr>,
    rq_target_count = 0, rq_state = 1, rq_next_event_sequence = 2\<rparr>"
  define c where "c = example_client\<lparr>cl_request_head := [r],
    cl_topology := zero_owned\<lparr>ot_leaders := \<lparr>bl_ptr = 0x600, bl_data = []\<rparr>\<rparr>\<rparr>"
  define w where "w = example_world\<lparr>heap_live := [0x100, 0x300, 0x900, 0x400, 0x500, 0x600]\<rparr>"
  have "heap_exact c {#0x900#} w" "system_client c"
    by (simp_all add: heap_exact_def client_ptrs_def request_ptrs_def topology_ptrs_def
        zero_owned_def c_def r_def w_def example_client_def system_client_def)
  from destroy_releases_everything [OF this(2,1)] show ?thesis
    by (intro exI [of _ c] exI [of _ w]) (simp add: c_def w_def)
qed

end
