(* ===== verification/Discovery.thy ===== *)
theory Discovery
  imports Client_Lifecycle Event_Queue
begin

text \<open>
  Discovery through a caller-owned provider, \<open>solana_delivery_discovery.c\<close>: the
  descriptor is checked, one snapshot is acquired, installed and released. What the
  refresh relies on in a provider is the locale \<open>discovery_provider\<close>; the provider of
  \<open>examples/discovery_refresh.c\<close> is an interpretation (theory \<open>Example_Programs\<close>).
\<close>

section \<open>The provider interface of \<open>discovery.h\<close>\<close>

text \<open>
  The callbacks are the caller's code: values of the model. \<open>acquire\<close> reads whether
  its out pointer is valid and returns the pointer it wrote, if it wrote one.
\<close>

type_synonym 'u solana_delivery_discovery_acquire_fn =
  "addr \<Rightarrow> bool \<Rightarrow> 'u world \<Rightarrow> solana_delivery_status_t \<times> addr option \<times> 'u world"

type_synonym 'u solana_delivery_discovery_release_fn =
  "addr \<Rightarrow> addr \<Rightarrow> 'u world \<Rightarrow> 'u world"

abbreviation (input) SOLANA_DELIVERY_DISCOVERY_PROVIDER_FLAGS_NONE :: u32 where
  "SOLANA_DELIVERY_DISCOVERY_PROVIDER_FLAGS_NONE \<equiv> 0"

record 'u solana_delivery_discovery_provider_t =
  pv_struct_size :: u32
  pv_flags :: u32
  pv_context :: addr
  pv_acquire :: "'u solana_delivery_discovery_acquire_fn option"
  pv_release :: "'u solana_delivery_discovery_release_fn option"

definition discovery_provider_layout :: layout where
  "discovery_provider_layout = [(4, 4), (4, 4), (8, 8), (8, 8), (8, 8)]"

lemma discovery_provider_sizes [simp]:
  "c_sizeof discovery_provider_layout = 32" "c_alignof discovery_provider_layout = 8"
  "STRUCT_MIN_SIZE discovery_provider_layout 4 = 32"
  by code_simp+

section \<open>The code\<close>

definition DISCOVERY_PROVIDER_MIN_SIZE :: usize where
  "DISCOVERY_PROVIDER_MIN_SIZE = of_nat (STRUCT_MIN_SIZE discovery_provider_layout 4)"

text \<open>The descriptor is None for NULL, and otherwise its address and its contents.\<close>

definition validate_provider ::
  "'u solana_delivery_client_t option \<Rightarrow>
   (addr \<times> 'u solana_delivery_discovery_provider_t) option \<Rightarrow> solana_delivery_status_t" where
  "validate_provider client provider =
     (if client = None \<or> provider = None \<or>
         \<not> pointer_is_aligned_for (fst (the provider)) (of_nat (c_alignof discovery_provider_layout))
      then SOLANA_DELIVERY_STATUS_INVALID_ARGUMENT
      else let p = snd (the provider) in
      if (ucast (pv_struct_size p) :: usize) < DISCOVERY_PROVIDER_MIN_SIZE
      then SOLANA_DELIVERY_STATUS_INVALID_ARGUMENT
      else if pv_flags p \<noteq> SOLANA_DELIVERY_DISCOVERY_PROVIDER_FLAGS_NONE
      then SOLANA_DELIVERY_STATUS_UNSUPPORTED
      else if pv_acquire p = None then SOLANA_DELIVERY_STATUS_INVALID_ARGUMENT
      else SOLANA_DELIVERY_STATUS_OK)"

definition solana_delivery_client_refresh_topology ::
  "'u solana_delivery_client_t option \<Rightarrow>
   (addr \<times> 'u solana_delivery_discovery_provider_t) option \<Rightarrow> 'u world \<Rightarrow>
   solana_delivery_status_t \<times> 'u solana_delivery_client_t option \<times> 'u world" where
  "solana_delivery_client_refresh_topology client provider w =
     (let status = validate_provider client provider in
      if status \<noteq> SOLANA_DELIVERY_STATUS_OK then (status, client, w)
      else
      let context = pv_context (snd (the provider));
          acquire = the (pv_acquire (snd (the provider)));
          release = pv_release (snd (the provider));
          (status, written_topology, w) = acquire context True w;
          topology = (case written_topology of None \<Rightarrow> NULL | Some p \<Rightarrow> p) in
      if status \<noteq> SOLANA_DELIVERY_STATUS_OK then (status, client, w)
      else if topology = NULL then (SOLANA_DELIVERY_STATUS_INTERNAL_ERROR, client, w)
      else
      let (status, client, w) = solana_delivery_client_install_topology client topology w;
          w = (case release of None \<Rightarrow> w | Some f \<Rightarrow> f context topology w)
      in (status, client, w))"

section \<open>Which descriptors are used\<close>

definition provider_ok :: "addr \<times> 'u solana_delivery_discovery_provider_t \<Rightarrow> bool" where
  "provider_ok provider \<longleftrightarrow>
     fst provider \<noteq> NULL \<and> fst provider mod 8 = 0 \<and> 32 \<le> unat (pv_struct_size (snd provider)) \<and>
     pv_flags (snd provider) = 0 \<and> pv_acquire (snd provider) \<noteq> None"

lemma validate_provider_ok:
  "validate_provider (Some c) (Some p) = SOLANA_DELIVERY_STATUS_OK \<longleftrightarrow> provider_ok p"
  by (auto simp: validate_provider_def provider_ok_def pointer_is_aligned_for_def
      DISCOVERY_PROVIDER_MIN_SIZE_def Let_def word_less_nat_alt)

text \<open>What an acquisition that establishes a borrow returns.\<close>

definition borrowed ::
  "solana_delivery_status_t \<times> addr option \<times> 'u world \<Rightarrow> addr \<Rightarrow> 'u world \<Rightarrow> bool" where
  "borrowed r p w1 \<longleftrightarrow> r = (SOLANA_DELIVERY_STATUS_OK, Some p, w1) \<and> p \<noteq> NULL"

lemma refresh_cases:
  assumes "provider_ok pv" "the (pv_acquire (snd pv)) (pv_context (snd pv)) True w = r"
  obtains p w1 where "borrowed r p w1"
      "solana_delivery_client_refresh_topology (Some c) (Some pv) w =
        (case solana_delivery_client_install_topology (Some c) p w1 of (st, c', w2) \<Rightarrow>
          (st, c', case pv_release (snd pv) of None \<Rightarrow> w2 | Some f \<Rightarrow> f (pv_context (snd pv)) p w2))"
  | st w1 t where "r = (st, t, w1)" "\<nexists>p w'. borrowed r p w'"
      "solana_delivery_client_refresh_topology (Some c) (Some pv) w =
        (if st = SOLANA_DELIVERY_STATUS_OK then SOLANA_DELIVERY_STATUS_INTERNAL_ERROR else st, Some c, w1)"
proof -
  obtain st t w1 where r: "r = (st, t, w1)" by (cases r)
  have v: "validate_provider (Some c) (Some pv) = 0" using assms(1) validate_provider_ok by blast
  show thesis
  proof (cases "\<exists>p. borrowed r p w1")
    case True
    then obtain p where p: "borrowed r p w1" by blast
    show thesis
    proof (rule that(1) [OF p])
      show "solana_delivery_client_refresh_topology (Some c) (Some pv) w =
        (case solana_delivery_client_install_topology (Some c) p w1 of (st, c', w2) \<Rightarrow>
          (st, c', case pv_release (snd pv) of None \<Rightarrow> w2 | Some f \<Rightarrow> f (pv_context (snd pv)) p w2))"
        using p v assms(2) by (simp add: solana_delivery_client_refresh_topology_def borrowed_def)
    qed
  next
    case False
    then have none: "\<nexists>p w'. borrowed r p w'" by (auto simp: borrowed_def r)
    show thesis
    proof (rule that(2) [OF r none])
      show "solana_delivery_client_refresh_topology (Some c) (Some pv) w =
        (if st = SOLANA_DELIVERY_STATUS_OK then SOLANA_DELIVERY_STATUS_INTERNAL_ERROR else st, Some c, w1)"
        using False v assms(2) r
        by (auto simp: solana_delivery_client_refresh_topology_def borrowed_def split: option.splits)
    qed
  qed
qed

section \<open>The contract of a provider\<close>

text \<open>
  \<open>releases\<close> counts the calls of the release callback, as the provider's own storage
  records them. The callbacks leave the library's heap alone.
\<close>

locale discovery_provider =
  fixes pv :: "addr \<times> 'u solana_delivery_discovery_provider_t"
    and releases :: "'u world \<Rightarrow> nat"
    and ready :: "'u world \<Rightarrow> bool"
  assumes provider: "provider_ok pv" and releasing: "pv_release (snd pv) \<noteq> None"
    and acquire_frame: "the (pv_acquire (snd pv)) (pv_context (snd pv)) True w = (st, t, w') \<Longrightarrow>
      heap_live w' = heap_live w \<and> heap_faults w' = heap_faults w \<and> releases w' = releases w \<and>
      (ready w \<longrightarrow> ready w')"
    and release_frame: "heap_live (the (pv_release (snd pv)) (pv_context (snd pv)) p w) = heap_live w \<and>
      heap_faults (the (pv_release (snd pv)) (pv_context (snd pv)) p w) = heap_faults w"
    and release_counts: "borrowed (the (pv_acquire (snd pv)) (pv_context (snd pv)) True w) p w1 \<Longrightarrow>
      ready w \<Longrightarrow> mem v = mem w1 \<Longrightarrow> user v = user w1 \<Longrightarrow>
      releases (the (pv_release (snd pv)) (pv_context (snd pv)) p v) = Suc (releases w)"
begin

text \<open>
  Exactly one release for a borrow, none otherwise, whatever the installation
  returns; and the library's heap stays exact.
\<close>

lemma refresh_releases:
  assumes "solana_delivery_client_refresh_topology (Some c) (Some pv) w = (st, c', w')"
    and "system_client c" "heap_exact c F w" "ready w"
  shows "releases w' = releases w +
      (if \<exists>p w1. borrowed (the (pv_acquire (snd pv)) (pv_context (snd pv)) True w) p w1 then 1 else 0) \<and>
    c' \<noteq> None \<and> system_client (the c') \<and>
    heap_exact (the c') F w' \<and> heap_faults w' = heap_faults w \<and>
    (st \<noteq> SOLANA_DELIVERY_STATUS_OK \<longrightarrow> c' = Some c \<and> libc_live w' = libc_live w)"
proof -
  define r where "r = the (pv_acquire (snd pv)) (pv_context (snd pv)) True w"
  from provider r_def [symmetric] show ?thesis
  proof (cases rule: refresh_cases [where c = c])
    case (1 p w1)
    from 1(1) have a: "the (pv_acquire (snd pv)) (pv_context (snd pv)) True w = (0, Some p, w1)"
      by (simp add: borrowed_def r_def)
    note af = acquire_frame [OF a]
    obtain st1 c1 w2 where i: "solana_delivery_client_install_topology (Some c) p w1 = (st1, c1, w2)"
      by (cases "solana_delivery_client_install_topology (Some c) p w1")
    have h: "heap_exact c F w1" using assms(3) af by (simp add: heap_exact_def)
    have "mem w2 = mem w1" using system_install [OF i assms(2) h] by simp
    moreover have "user w2 = user w1" using system_install_user [OF i assms(2) h] .
    ultimately have rel: "releases (the (pv_release (snd pv)) (pv_context (snd pv)) p w2) = Suc (releases w)"
      using release_counts [OF 1(1)[unfolded r_def] assms(4)] by simp
    have res: "st = st1" "c' = c1" "w' = the (pv_release (snd pv)) (pv_context (snd pv)) p w2"
      using 1(2) i assms(1) releasing by auto
    note rf = release_frame [of p w2]
    have "heap_exact (the c') F w' \<and> heap_faults w' = heap_faults w"
      using system_install_heap [OF i assms(2) h] af rf by (simp add: res heap_exact_def)
    moreover have "c' \<noteq> None \<and> system_client (the c')"
      using system_install [OF i assms(2) h] assms(2) by (auto simp: res system_client_def)
    moreover have "st \<noteq> 0 \<longrightarrow> c' = Some c \<and> libc_live w' = libc_live w"
      using system_install [OF i assms(2) h] af rf by (auto simp: res)
    ultimately show ?thesis using rel 1(1) unfolding res r_def by auto
  next
    case (2 st1 w1 t)
    have a: "the (pv_acquire (snd pv)) (pv_context (snd pv)) True w = (st1, t, w1)"
      using 2(1) by (simp add: r_def)
    note af = acquire_frame [OF a]
    have "st \<noteq> 0" "c' = Some c" "w' = w1" using 2(3) assms(1) by (auto split: if_splits)
    with af 2(2) assms(2,3) show ?thesis by (auto simp: r_def heap_exact_def)
  qed
qed

end

section \<open>Properties for every provider\<close>

text \<open>The status of an installation, from the view, the heap and the clock.\<close>

lemma install_answer:
  fixes c :: "'u solana_delivery_client_t"
  assumes "solana_delivery_client_install_topology (Some c) p w = (st, c', w')" "system_client c"
  shows "(\<not> topology_ok (mem w) p \<longrightarrow> st = solana_delivery_topology_validate (mem w) p) \<and>
    (topology_ok (mem w) p \<longrightarrow> st = SOLANA_DELIVERY_STATUS_TOPOLOGY_STALE \<longleftrightarrow>
       \<not> (cl_has_topology c \<longrightarrow>
         tp_generation (ot_view (cl_topology c)) < tp_generation (load_topology (mem w) p))) \<and>
    (topology_ok (mem w) p \<and>
       (cl_has_topology c \<longrightarrow>
         tp_generation (ot_view (cl_topology c)) < tp_generation (load_topology (mem w) p)) \<and>
       heap_ready 4 w \<and>
       (\<exists>r rest. clock_script w = r # rest \<and> valid_reading r \<and> unat (fst (snd r)) < 18446744073)
     \<longrightarrow> st = SOLANA_DELIVERY_STATUS_OK)"
proof -
  have "st = solana_delivery_topology_validate (mem w) p" if "\<not> topology_ok (mem w) p"
    using that assms(1)
    by (auto simp: solana_delivery_client_install_topology_def validate_topology_ok [symmetric])
  moreover have "st = SOLANA_DELIVERY_STATUS_OK"
    if "topology_ok (mem w) p" "cl_has_topology c \<longrightarrow>
        tp_generation (ot_view (cl_topology c)) < tp_generation (load_topology (mem w) p)"
      "heap_ready 4 w" "clock_script w = r # rest" "valid_reading r" "unat (fst (snd r)) < 18446744073"
    for r rest
  proof -
    have "heap_ready (Suc (Suc (Suc (Suc 0)))) w" using that(3) by (simp add: numeral_eq_Suc)
    from install_ready [OF assms(2) that(1) that(2) [rule_format] this that(4-6)] assms(1)
    show ?thesis by (metis prod.inject)
  qed
  ultimately show ?thesis
    using install_status [OF assms] by (auto simp: not_less split: if_splits)
qed

text \<open>C22: Refresh of a client on the system allocator and clock follows the documented
  protocol for every usable descriptor and every answer of a provider that leaves the
  client's blocks live. Without a borrow (a failed acquisition, passed through, or a
  NULL snapshot, an internal error) the client and the world are as acquisition left
  them: nothing is installed or released. A borrowed snapshot is installed and then
  released, once, with the context and the pointer of the acquisition, whatever
  installation decided; until then the caller's memory and the provider's state are as
  acquisition left them. The status is that of installing the snapshot: its validation
  error, stale exactly for a generation that is not new, OK where heap and clock serve.
  On OK the client holds a copy of the snapshot as it was borrowed, on any other status it
  is unchanged and every block is returned; the heap stays exact.\<close>

theorem refresh_protocol:
  fixes c :: "'u solana_delivery_client_t" and p :: addr
  assumes "solana_delivery_client_refresh_topology (Some c) (Some pv) w = (st, c', w')"
    and "provider_ok pv"
    and "the (pv_acquire (snd pv)) (pv_context (snd pv)) True w = (acquired, t, w1)"
    and "system_client c" "heap_exact c F w1"
  defines "p \<equiv> the t"
  defines "new_generation \<equiv> cl_has_topology c \<longrightarrow>
    tp_generation (ot_view (cl_topology c)) < tp_generation (load_topology (mem w1) p)"
  shows "if acquired \<noteq> SOLANA_DELIVERY_STATUS_OK \<or> t = None \<or> t = Some NULL
    then st \<noteq> SOLANA_DELIVERY_STATUS_OK \<and> c' = Some c \<and> w' = w1 \<and>
      st = (if acquired = SOLANA_DELIVERY_STATUS_OK then SOLANA_DELIVERY_STATUS_INTERNAL_ERROR else acquired)
    else \<exists>w2. w' = (case pv_release (snd pv) of None \<Rightarrow> w2
                     | Some release \<Rightarrow> release (pv_context (snd pv)) p w2) \<and>
      mem w2 = mem w1 \<and> user w2 = user w1 \<and>
      heap_exact (the c') F w2 \<and> heap_faults w2 = heap_faults w1 \<and>
      (\<not> topology_ok (mem w1) p \<longrightarrow> st = solana_delivery_topology_validate (mem w1) p) \<and>
      (topology_ok (mem w1) p \<longrightarrow> st = SOLANA_DELIVERY_STATUS_TOPOLOGY_STALE \<longleftrightarrow> \<not> new_generation) \<and>
      (topology_ok (mem w1) p \<and> new_generation \<and> heap_ready 4 w1 \<and>
         (\<exists>r rest. clock_script w1 = r # rest \<and> valid_reading r \<and> unat (fst (snd r)) < 18446744073)
       \<longrightarrow> st = SOLANA_DELIVERY_STATUS_OK) \<and>
      (if st = SOLANA_DELIVERY_STATUS_OK
       then topology_ok (mem w1) p \<and> new_generation \<and>
         (\<exists>ow. c' = Some (c\<lparr>cl_topology := ow, cl_has_topology := True\<rparr>) \<and> owned_consistent ow \<and>
           copied_topology (mem w1) (load_topology (mem w1) p) ow)
       else c' = Some c \<and> libc_live w2 = libc_live w1)"
  using assms(2,3)
proof (cases rule: refresh_cases [where c = c])
  case (2 st1 w1' t')
  with assms(1) show ?thesis by (cases t) (auto simp: borrowed_def split: if_splits)
next
  case (1 q w1')
  then have t: "acquired = 0" "t = Some p" "p \<noteq> NULL" "w1' = w1" "q = p"
    by (auto simp: borrowed_def p_def)
  obtain st2 c2 w2 where i: "solana_delivery_client_install_topology (Some c) p w1 = (st2, c2, w2)"
    by (cases "solana_delivery_client_install_topology (Some c) p w1")
  have res: "st = st2" "c' = c2" "w' = (case pv_release (snd pv) of None \<Rightarrow> w2
      | Some release \<Rightarrow> release (pv_context (snd pv)) p w2)"
    using 1(2) [unfolded t(4,5)] assms(1) i by simp_all
  note spec = system_install [OF i assms(4,5)] and exact = system_install_heap [OF i assms(4,5)]
    and user = system_install_user [OF i assms(4,5)]
  have effect: "if st2 = SOLANA_DELIVERY_STATUS_OK
       then topology_ok (mem w1) p \<and> new_generation \<and>
         (\<exists>ow. c2 = Some (c\<lparr>cl_topology := ow, cl_has_topology := True\<rparr>) \<and> owned_consistent ow \<and>
           copied_topology (mem w1) (load_topology (mem w1) p) ow)
       else c2 = Some c \<and> libc_live w2 = libc_live w1"
    using spec copied_consistent [of "mem w1" p] by (auto simp: new_generation_def)
  note answer = install_answer [OF i assms(4), folded new_generation_def]
  have frame: "mem w2 = mem w1" "heap_faults w2 = heap_faults w1" using spec by simp_all
  have borrow: "\<not> (acquired \<noteq> SOLANA_DELIVERY_STATUS_OK \<or> t = None \<or> t = Some NULL)" using t by simp
  show ?thesis
    unfolding if_not_P [OF borrow] res(1,2)
    by (intro exI [of _ w2] conjI; (rule res(3) frame user exact [THEN conjunct1] effect
        answer [THEN conjunct1] answer [THEN conjunct2, THEN conjunct1]
        answer [THEN conjunct2, THEN conjunct2])?)
qed

text \<open>C35: A descriptor that cannot be used is refused before any callback runs: the
  world, and so the provider's state, is the one before the call. NULL, misaligned or
  short descriptors and a missing acquire are invalid; unknown flags are unsupported.\<close>

theorem refresh_rejects_descriptor:
  assumes "\<not> provider_ok (a, pv)"
  shows "solana_delivery_client_refresh_topology (Some c) (Some (a, pv)) w =
     (if a \<noteq> NULL \<and> a mod 8 = 0 \<and> 32 \<le> unat (pv_struct_size pv) \<and> pv_flags pv \<noteq> 0
      then SOLANA_DELIVERY_STATUS_UNSUPPORTED else SOLANA_DELIVERY_STATUS_INVALID_ARGUMENT,
      Some c, w) \<and>
    solana_delivery_client_refresh_topology (Some c) None w =
      (SOLANA_DELIVERY_STATUS_INVALID_ARGUMENT, Some c, w)"
  using assms
  by (auto simp: solana_delivery_client_refresh_topology_def validate_provider_def provider_ok_def
      pointer_is_aligned_for_def DISCOVERY_PROVIDER_MIN_SIZE_def Let_def word_less_nat_alt not_le [symmetric])

end
