(* ===== verification/Session.thy ===== *)
theory Session
  imports Submission_Properties Discovery
begin

text \<open>
  The client over its lifetime: the invariant that every operation keeps; the state
  machine of a session, in which the caller installs, refreshes, submits and polls in
  any order, with any arguments, writing its own memory in between; what holds in every
  reachable state; and the abstract client that the whole API refines. The ghost
  components of a session record what the caller was told.
\<close>

section \<open>The client invariant\<close>

text \<open>
  The requests are numbered 1, 2, \<dots> in the order of acceptance, the newest at the head,
  and the next identifier is one more than their number (zero after the last one).
\<close>

definition ids_ok :: "'u solana_delivery_client_t \<Rightarrow> bool" where
  "ids_ok c \<longleftrightarrow>
     length (cl_request_head c) < 2 ^ 64 \<and>
     cl_next_request_id c = of_nat (Suc (length (cl_request_head c))) \<and>
     map rq_request_id (rev (cl_request_head c)) =
       map of_nat [1..<Suc (length (cl_request_head c))]"

text \<open>
  What the copies hold is typed as the structures declare: byte arrays at their
  declared length, native sizes, and a request's arrays as long as its counts say.
\<close>

definition owned_typed :: "solana_delivery_owned_topology_t \<Rightarrow> bool" where
  "owned_typed ow \<longleftrightarrow>
     (\<forall>v \<in> set (bl_data (ot_validators ow)). wf_validator v \<and> va_struct_size v = 48) \<and>
     (\<forall>e \<in> set (bl_data (ot_endpoints ow)). wf_endpoint e \<and> ep_struct_size e = 32) \<and>
     (\<forall>a \<in> set (bl_data (ot_validator_endpoints ow)). ve_struct_size a = 16) \<and>
     (\<forall>l \<in> set (bl_data (ot_leaders ow)). ld_struct_size l = 32)"

definition request_typed :: "solana_delivery_owned_request_t \<Rightarrow> bool" where
  "request_typed r \<longleftrightarrow>
     rq_transaction_length r \<noteq> 0 \<and>
     length (bl_data (rq_transaction_bytes r)) = unat (rq_transaction_length r) \<and>
     rq_target_count r \<noteq> 0 \<and> length (bl_data (rq_targets r)) = unat (rq_target_count r) \<and>
     (\<forall>t \<in> set (bl_data (rq_targets r)).
        length (rt_validator_identity t) = 32 \<and> wf_endpoint (rt_endpoint t) \<and>
        ep_struct_size (rt_endpoint t) = 32) \<and>
     rq_state r = SOLANA_DELIVERY_REQUEST_STATE_ACCEPTED \<and> rq_next_event_sequence r = 2"

lemma copied_typed: "copied_topology m s ow \<Longrightarrow> owned_typed ow"
proof -
  assume c: "copied_topology m s ow"
  have "length bs = k" if "bs \<in> set (array_prefixes m b cnt stride k)" for bs b cnt stride k
    using that by (auto simp: set_array_prefixes)
  with validator.wf_decode endpoint.wf_decode c show ?thesis
    by (auto simp: copied_topology_def owned_typed_def wf_validator_def wf_endpoint_def)
qed

lemma accepted_typed:
  assumes "accepted_request c m tx len options r" "len \<noteq> 0"
    and "owned_typed (cl_topology c)" "owned_consistent (cl_topology c)"
  shows "request_typed r"
proof -
  let ?ow = "cl_topology c"
  define sel where "sel = selected_candidates ?ow (tp_current_slot (ot_view ?ow))
    (sp_target_limit (options_policy m options))"
  have r: "bl_data (rq_targets r) = map (request_target ?ow) sel" "sel \<noteq> []"
    "unat (rq_target_count r) = length sel" "bl_data (rq_transaction_bytes r) = load_bytes m tx (unat len)"
    "rq_transaction_length r = len" "rq_state r = 1" "rq_next_event_sequence r = 2"
    using assms(1) unfolding accepted_request_def Let_def sel_def by simp_all
  have "length (rt_validator_identity (request_target ?ow cand)) = 32 \<and>
      wf_endpoint (rt_endpoint (request_target ?ow cand)) \<and>
      ep_struct_size (rt_endpoint (request_target ?ow cand)) = 32" if "cand \<in> set sel" for cand
  proof -
    have "cand \<in> set (slot_candidates ?ow (tp_current_slot (ot_view ?ow)))"
      using that set_unique_subset unfolding sel_def selected_candidates_def by (blast dest: in_set_takeD)
    from slot_candidates_in_range [OF assms(4) this] assms(3,4) show ?thesis
      by (auto simp: request_target_def owned_typed_def owned_consistent_def wf_validator_def word_less_nat_alt)
  qed
  moreover have "rq_target_count r \<noteq> 0" using r(2,3) by (metis length_0_conv unsigned_0)
  ultimately show ?thesis using r assms(2) by (auto simp: request_typed_def)
qed

definition client_ok :: "'u solana_delivery_client_t \<Rightarrow> bool" where
  "client_ok c \<longleftrightarrow> system_client c \<and> queue_wf (cl_event_queue c) \<and>
     owned_consistent (cl_topology c) \<and> ids_ok c \<and>
     owned_typed (cl_topology c) \<and> (\<forall>r \<in> set (cl_request_head c). request_typed r)"

lemma accepted_below:
  assumes "ids_ok c" "cl_next_request_id c \<noteq> 0"
  shows "Suc (length (cl_request_head c)) < 2 ^ 64"
proof -
  let ?n = "length (cl_request_head c)"
  have "Suc ?n \<noteq> 2 ^ 64"
  proof
    assume "Suc ?n = 2 ^ 64"
    then have "(of_nat (Suc ?n) :: u64) = of_nat (2 ^ 64)" by (simp only:)
    also have "\<dots> = 0" by simp
    finally show False using assms unfolding ids_ok_def by metis
  qed
  with assms show ?thesis by (simp add: ids_ok_def)
qed

lemma ids_ok_accept:
  assumes "ids_ok c" "cl_next_request_id c \<noteq> 0" "rq_request_id r = cl_next_request_id c"
  shows "ids_ok (after_accept c r q)"
  using assms accepted_below [OF assms(1,2)] by (auto simp: ids_ok_def after_accept_def)

lemma client_okD:
  "client_ok c \<Longrightarrow> system_client c" "client_ok c \<Longrightarrow> queue_wf (cl_event_queue c)"
  "client_ok c \<Longrightarrow> owned_consistent (cl_topology c)" "client_ok c \<Longrightarrow> ids_ok c"
  "client_ok c \<Longrightarrow> owned_typed (cl_topology c)"
  by (simp_all add: client_ok_def)

text \<open>
  One fact per operation: it keeps the invariant and the ledger, with \<open>F\<close> the blocks of
  the rest of the process.
\<close>

definition client_in :: "addr multiset \<Rightarrow> 'u solana_delivery_client_t option \<Rightarrow> 'u world \<Rightarrow> bool" where
  "client_in F client w \<longleftrightarrow> (\<exists>c. client = Some c \<and> client_ok c \<and> heap_exact c F w)"

lemma client_inE:
  assumes "client_in F client w"
  obtains c where "client = Some c" "client_ok c" "heap_exact c F w"
  using assms by (auto simp: client_in_def)

lemma client_in_Some [simp]: "client_in F (Some c) w \<longleftrightarrow> client_ok c \<and> heap_exact c F w"
  by (auto simp: client_in_def)

lemma fresh_client_ok [simp]:
  "client_ok (fresh_client p SYSTEM_ALLOCATOR system_monotonic_time_ns NULL)"
  by (simp add: client_ok_def ids_ok_def owned_typed_def zero_owned_def)
    (simp add: zero_owned_def [symmetric])

lemma create_keeps:
  assumes "solana_delivery_client_create True w = (SOLANA_DELIVERY_STATUS_OK, out, w')"
  shows "\<exists>c. out = Some c \<and> client_in (libc_live w) c w' \<and> heap_faults w' = heap_faults w"
  using assms by (cases rule: system_create) auto

lemma install_keeps:
  assumes "solana_delivery_client_install_topology (Some c) p w = (st, c', w')"
    and "client_in F (Some c) w"
  shows "client_in F c' w' \<and> heap_faults w' = heap_faults w"
proof -
  have ok: "client_ok c" and hx: "heap_exact c F w" using assms(2) by simp_all
  note h = client_okD(1) [OF ok] hx
  note s = system_install [OF assms(1) h] and e = system_install_heap [OF assms(1) h]
  show ?thesis
  proof (cases "st = 0")
    case False
    with s ok hx show ?thesis by (auto simp: heap_exact_def)
  next
    case True
    with s obtain ow where c': "c' = Some (c\<lparr>cl_topology := ow, cl_has_topology := True\<rparr>)"
      and ow: "owned_consistent ow" "owned_typed ow" by (auto dest: copied_consistent copied_typed)
    have "client_ok (c\<lparr>cl_topology := ow, cl_has_topology := True\<rparr>)"
      using ok ow by (simp add: client_ok_def system_client_def ids_ok_def)
    with c' e show ?thesis by simp
  qed
qed

lemma submit_keeps:
  assumes "solana_delivery_client_submit (Some c) tx len options out w = (st, c', w')"
    and "client_in F (Some c) w"
  shows "client_in F c' w' \<and> heap_faults w' = heap_faults w"
proof -
  have ok: "client_ok c" and hx: "heap_exact c F w" using assms(2) by simp_all
  have h: "system_client c" "queue_wf (cl_event_queue c)"
    "cl_has_topology c \<Longrightarrow> owned_consistent (cl_topology c)" using client_okD [OF ok] by simp_all
  note s = system_submit [OF assms(1) h] and e = system_submit_heap [OF assms(1) h hx]
  show ?thesis
  proof (cases "st = 0")
    case False
    with s ok hx show ?thesis by (auto simp: heap_exact_def)
  next
    case True
    with s obtain r q m where c': "c' = Some (after_accept c r q)" "queue_wf q"
      "accepted_request c m tx len options r" "cl_next_request_id c \<noteq> 0" and len: "len \<noteq> 0" by auto
    have "ids_ok (after_accept c r q)"
      using client_okD(4) [OF ok] c'(3,4) by (intro ids_ok_accept) (simp_all add: accepted_request_def Let_def)
    moreover have "request_typed r"
      using accepted_typed [OF c'(3) len client_okD(5) [OF ok] client_okD(3) [OF ok]] .
    ultimately have "client_ok (after_accept c r q)"
      using ok c'(2) by (simp add: client_ok_def) (simp add: after_accept_def system_client_def)
    with c' e show ?thesis by simp
  qed
qed

lemma poll_effect:
  assumes "solana_delivery_client_poll_events (Some c) events cap stride out m = (st, c', m')"
    and "queue_wf (cl_event_queue c)"
  shows "\<exists>q. c' = Some (c\<lparr>cl_event_queue := q\<rparr>) \<and> queue_wf q \<and>
    (\<exists>k. queue_events q = drop k (queue_events (cl_event_queue c)))"
proof (cases "poll_arguments_ok events cap stride out")
  case True
  from poll_run [OF assms(2) True refl, of m] assms(1) show ?thesis by auto
next
  case False
  have "c' = Some c" using poll_invalid [OF False, of c m] assms(1) by (simp split: if_splits)
  then show ?thesis
    using assms(2) by (intro exI [of _ "cl_event_queue c"]) (auto intro: exI [of _ 0])
qed

lemma poll_keeps:
  assumes "solana_delivery_client_poll_events (Some c) events cap stride out (mem w) = (st, c', m')"
    and "client_in F (Some c) w"
  shows "client_in F c' (w\<lparr>mem := m'\<rparr>)"
proof -
  have ok: "client_ok c" and hx: "heap_exact c F w" using assms(2) by simp_all
  from poll_effect [OF assms(1) client_okD(2) [OF ok]] obtain q
    where c': "c' = Some (c\<lparr>cl_event_queue := q\<rparr>)" "queue_wf q" by blast
  have "client_ok (c\<lparr>cl_event_queue := q\<rparr>)"
    using ok c'(2) by (simp add: client_ok_def system_client_def ids_ok_def)
  with c' hx show ?thesis by (simp add: heap_exact_def client_ptrs_def)
qed

lemma destroy_exact:
  assumes "client_in F client w"
  shows "libc_live (solana_delivery_client_destroy client w) = F \<and>
    heap_faults (solana_delivery_client_destroy client w) = heap_faults w \<and>
    mem (solana_delivery_client_destroy client w) = mem w"
proof -
  from assms obtain c where c: "client = Some c" "client_ok c" "heap_exact c F w" by (rule client_inE)
  from c(3) sys.destroy_accounts [of c w] client_okD(1) [OF c(2)] show ?thesis
    unfolding c(1) by (simp add: system_client_def heap_exact_def)
qed

text \<open>How installing through either entry point changes a client.\<close>

definition topology_replaced ::
  "'u solana_delivery_client_t \<Rightarrow> solana_delivery_status_t \<Rightarrow> 'u solana_delivery_client_t option \<Rightarrow> bool" where
  "topology_replaced c st c' \<longleftrightarrow>
     (if st = SOLANA_DELIVERY_STATUS_OK
      then \<exists>ow. c' = Some (c\<lparr>cl_topology := ow, cl_has_topology := True\<rparr>) \<and>
        (cl_has_topology c \<longrightarrow> tp_generation (ot_view (cl_topology c)) < tp_generation (ot_view ow))
      else c' = Some c)"

lemma install_replaces:
  assumes "solana_delivery_client_install_topology (Some c) p w = (st, c', w')"
    and "client_in F (Some c) w"
  shows "topology_replaced c st c'"
proof -
  have ok: "client_ok c" and hx: "heap_exact c F w" using assms(2) by simp_all
  from system_install [OF assms(1) client_okD(1) [OF ok] hx] show ?thesis
    by (auto simp: topology_replaced_def copied_topology_def)
qed

text \<open>A provider whose callbacks leave the library's heap alone; its own storage, the
  caller's memory and the clock may change in any way.\<close>

definition provider_frame :: "'u solana_delivery_discovery_provider_t \<Rightarrow> bool" where
  "provider_frame pv \<longleftrightarrow>
     (\<forall>acquire w st t w'. pv_acquire pv = Some acquire \<and> acquire (pv_context pv) True w = (st, t, w') \<longrightarrow>
        heap_live w' = heap_live w \<and> heap_faults w' = heap_faults w) \<and>
     (\<forall>release p w. pv_release pv = Some release \<longrightarrow>
        heap_live (release (pv_context pv) p w) = heap_live w \<and>
        heap_faults (release (pv_context pv) p w) = heap_faults w)"

lemma refresh_effect:
  assumes "solana_delivery_client_refresh_topology (Some c) provider w = (st, c', w')"
    and "client_in F (Some c) w" "\<And>a pv. provider = Some (a, pv) \<Longrightarrow> provider_frame pv"
  shows "client_in F c' w' \<and> heap_faults w' = heap_faults w \<and> topology_replaced c st c'"
proof (cases "validate_provider (Some c) provider = SOLANA_DELIVERY_STATUS_OK")
  case False
  with assms(1,2) show ?thesis
    by (auto simp: solana_delivery_client_refresh_topology_def topology_replaced_def Let_def)
next
  case True
  then obtain a pv where pv: "provider = Some (a, pv)" by (cases provider) (auto simp: validate_provider_def)
  with True have ok: "provider_ok (a, pv)" by (simp add: validate_provider_ok)
  then obtain acquire where acq: "pv_acquire pv = Some acquire" by (auto simp: provider_ok_def)
  have fr: "provider_frame pv" using assms(3) pv by blast
  from ok refl show ?thesis
  proof (cases rule: refresh_cases [where c = c and w = w])
    case (1 p w1)
    from 1(1) acq have "acquire (pv_context pv) True w = (0, Some p, w1)" by (simp add: borrowed_def)
    with fr acq have w1: "heap_live w1 = heap_live w" "heap_faults w1 = heap_faults w"
      unfolding provider_frame_def by blast+
    obtain st1 c1 w2 where i: "solana_delivery_client_install_topology (Some c) p w1 = (st1, c1, w2)"
      by (cases "solana_delivery_client_install_topology (Some c) p w1")
    have in1: "client_in F (Some c) w1" using assms(2) w1 by (simp add: heap_exact_def)
    have "st = st1" "c' = c1" "w' = (case pv_release pv of None \<Rightarrow> w2 | Some f \<Rightarrow> f (pv_context pv) p w2)"
      using 1(2) i assms(1) pv by (auto split: option.splits)
    moreover have "heap_live w' = heap_live w2 \<and> heap_faults w' = heap_faults w2"
      using fr calculation(3) by (auto simp: provider_frame_def split: option.splits)
    ultimately show ?thesis
      using install_keeps [OF i in1] install_replaces [OF i in1] w1
      by (auto simp: client_in_def heap_exact_def)
  next
    case (2 st1 w1 t)
    from 2(1) acq have "acquire (pv_context pv) True w = (st1, t, w1)" by simp
    with fr acq have w1: "heap_live w1 = heap_live w" "heap_faults w1 = heap_faults w"
      unfolding provider_frame_def by blast+
    with 2(3) assms(1,2) pv show ?thesis
      by (auto simp: topology_replaced_def heap_exact_def split: if_splits)
  qed
qed

section \<open>Sessions\<close>

record 'u session =
  se_client :: "'u solana_delivery_client_t"
  se_world :: "'u world"
  se_ids :: "solana_delivery_request_id_t list"
  se_polled :: "solana_delivery_event_t list"
  se_generations :: "u64 list"

text \<open>What the caller finds in its array after a poll.\<close>

definition events_read :: "memory \<Rightarrow> addr \<Rightarrow> u32 \<Rightarrow> addr \<Rightarrow> solana_delivery_event_t list" where
  "events_read m events event_stride out =
     map (\<lambda>i. event_of_bytes (load_bytes m (events + of_nat i * ucast event_stride) 64))
       [0..<unat (load_u64 m out)]"

text \<open>
  One step: a call of the library with any arguments, or the caller (and the rest of the
  process and the operating system) changing memory, callback state, clock and heap
  supply. The caller polls with a counter outside its event array.
\<close>

inductive session_step :: "'u session \<Rightarrow> 'u session \<Rightarrow> bool" where
  install: "solana_delivery_client_install_topology (Some (se_client s)) p (se_world s) =
      (st, Some c', w') \<Longrightarrow>
    session_step s (s\<lparr>se_client := c', se_world := w', se_generations := se_generations s @
      (if st = SOLANA_DELIVERY_STATUS_OK then [tp_generation (ot_view (cl_topology c'))] else [])\<rparr>)"
| refresh: "solana_delivery_client_refresh_topology (Some (se_client s)) provider (se_world s) =
      (st, Some c', w') \<Longrightarrow> (\<And>a pv. provider = Some (a, pv) \<Longrightarrow> provider_frame pv) \<Longrightarrow>
    session_step s (s\<lparr>se_client := c', se_world := w', se_generations := se_generations s @
      (if st = SOLANA_DELIVERY_STATUS_OK then [tp_generation (ot_view (cl_topology c'))] else [])\<rparr>)"
| submit: "solana_delivery_client_submit (Some (se_client s)) tx len options out (se_world s) =
      (st, Some c', w') \<Longrightarrow>
    session_step s (s\<lparr>se_client := c', se_world := w', se_ids := se_ids s @
      (if st = SOLANA_DELIVERY_STATUS_OK then [load_u64 (mem w') out] else [])\<rparr>)"
| poll: "solana_delivery_client_poll_events (Some (se_client s)) events cap stride out (mem (se_world s)) =
      (st, Some c', m') \<Longrightarrow>
    (\<And>i. i < unat cap \<Longrightarrow> disjoint_regions (events + of_nat i * ucast stride) 64 out 8) \<Longrightarrow>
    session_step s (s\<lparr>se_client := c', se_world := (se_world s)\<lparr>mem := m'\<rparr>,
      se_polled := se_polled s @
        (if st = SOLANA_DELIVERY_STATUS_OK then events_read m' events stride out else [])\<rparr>)"
| caller: "heap_live w' = heap_live (se_world s) \<Longrightarrow> heap_faults w' = heap_faults (se_world s) \<Longrightarrow>
    session_step s (s\<lparr>se_world := w'\<rparr>)"

text \<open>Sessions of a process that owned the blocks \<open>F\<close> before the client was created.\<close>

inductive session_of :: "addr multiset \<Rightarrow> nat \<Rightarrow> 'u session \<Rightarrow> bool" for F n where
  create: "solana_delivery_client_create True w = (SOLANA_DELIVERY_STATUS_OK, Some (Some c), w') \<Longrightarrow>
    libc_live w = F \<Longrightarrow> heap_faults w = n \<Longrightarrow>
    session_of F n \<lparr>se_client = c, se_world = w', se_ids = [], se_polled = [], se_generations = []\<rparr>"
| step: "session_of F n s \<Longrightarrow> session_step s s' \<Longrightarrow> session_of F n s'"

lemma poll_reads:
  assumes "solana_delivery_client_poll_events (Some c) events cap stride out m = (st, c', m')"
    and "queue_wf (cl_event_queue c)"
    and "\<And>i. i < unat cap \<Longrightarrow> disjoint_regions (events + of_nat i * ucast stride) 64 out 8"
  shows "\<exists>q. c' = Some (c\<lparr>cl_event_queue := q\<rparr>) \<and> queue_wf q \<and>
    (if st = SOLANA_DELIVERY_STATUS_OK then events_read m' events stride out else []) @ queue_events q =
      queue_events (cl_event_queue c)"
proof (cases "poll_arguments_ok events cap stride out")
  case True
  let ?k = "min (unat cap) (length (queue_events (cl_event_queue c)))"
  from poll_transfers [OF assms(2) True refl, of m] assms(1) obtain q where
    "st = 0" "c' = Some (c\<lparr>cl_event_queue := q\<rparr>)" "queue_wf q"
    "queue_events q = drop ?k (queue_events (cl_event_queue c))" "unat (load_u64 m' out) = ?k"
    "(\<forall>i < ?k. disjoint_regions (events + of_nat i * ucast stride) 64 out 8) \<longrightarrow>
       map (\<lambda>i. event_of_bytes (load_bytes m' (events + of_nat i * ucast stride) 64)) [0..<?k] =
       take ?k (queue_events (cl_event_queue c))"
    by auto
  with assms(3) show ?thesis
    by (intro exI [of _ q]) (simp add: events_read_def)
next
  case False
  have "c' = Some c" "st = 0 \<Longrightarrow> load_u64 m' out = 0"
    using poll_invalid [OF False, of c m] assms(1) by (auto split: if_splits)
  then show ?thesis
    using assms(2) by (intro exI [of _ "cl_event_queue c"]) (auto simp: events_read_def)
qed

section \<open>The invariant of a session\<close>

definition session_inv :: "addr multiset \<Rightarrow> nat \<Rightarrow> 'u session \<Rightarrow> bool" where
  "session_inv F n s \<longleftrightarrow>
     client_in F (Some (se_client s)) (se_world s) \<and> heap_faults (se_world s) = n \<and>
     se_ids s = map rq_request_id (rev (cl_request_head (se_client s))) \<and>
     map ev_request_id (se_polled s @ queue_events (cl_event_queue (se_client s))) = se_ids s \<and>
     (\<forall>e \<in> set (se_polled s @ queue_events (cl_event_queue (se_client s))).
        e = accepted_event (ev_request_id e) (ev_monotonic_time_ns e)) \<and>
     sorted_wrt (<) (se_generations s) \<and>
     (cl_has_topology (se_client s) \<longleftrightarrow> se_generations s \<noteq> []) \<and>
     (se_generations s \<noteq> [] \<longrightarrow>
        last (se_generations s) = tp_generation (ot_view (cl_topology (se_client s))))"

lemma accepted_event_simps [simp]:
  "ev_request_id (accepted_event i t) = i" "ev_monotonic_time_ns (accepted_event i t) = t"
  by (simp_all add: accepted_event_def)

lemma session_inv_replace:
  assumes "session_inv F n s" "topology_replaced (se_client s) st (Some c')"
    and "client_in F (Some c') w' \<and> heap_faults w' = heap_faults (se_world s)"
  shows "session_inv F n (s\<lparr>se_client := c', se_world := w', se_generations := se_generations s @
      (if st = SOLANA_DELIVERY_STATUS_OK then [tp_generation (ot_view (cl_topology c'))] else [])\<rparr>)"
proof (cases "st = 0")
  case False
  with assms show ?thesis by (simp add: session_inv_def topology_replaced_def)
next
  case True
  with assms(2) obtain ow where
    c': "c' = (se_client s)\<lparr>cl_topology := ow, cl_has_topology := True\<rparr>"
    and gen: "cl_has_topology (se_client s) \<Longrightarrow>
      tp_generation (ot_view (cl_topology (se_client s))) < tp_generation (ot_view ow)"
    by (auto simp: topology_replaced_def)
  have "\<forall>g \<in> set (se_generations s). g < tp_generation (ot_view ow)"
  proof
    fix g assume g: "g \<in> set (se_generations s)"
    then obtain gs l where gs: "se_generations s = gs @ [l]" by (cases "se_generations s" rule: rev_cases) auto
    then have "g \<le> l" using g assms(1) by (auto simp: session_inv_def sorted_wrt_append)
    also have "l < tp_generation (ot_view ow)" using gs gen assms(1) by (simp add: session_inv_def)
    finally show "g < tp_generation (ot_view ow)" .
  qed
  with True assms(1,3) show ?thesis
    by (simp add: session_inv_def c' sorted_wrt_append)
qed

lemma session_inv_step:
  assumes "session_step s s'" "session_inv F n s"
  shows "session_inv F n s'"
  using assms(1)
proof cases
  case (install p st c' w')
  have "client_in F (Some (se_client s)) (se_world s)" using assms(2) by (simp add: session_inv_def)
  from install_keeps [OF install(2) this] install_replaces [OF install(2) this] assms(2)
  show ?thesis unfolding install(1) by (intro session_inv_replace) auto
next
  case (refresh provider st c' w')
  have "client_in F (Some (se_client s)) (se_world s)" using assms(2) by (simp add: session_inv_def)
  from refresh_effect [OF refresh(2) this refresh(3)] assms(2)
  show ?thesis unfolding refresh(1) by (intro session_inv_replace) auto
next
  case (submit tx len options out st c' w')
  have i: "client_in F (Some (se_client s)) (se_world s)" using assms(2) by (simp add: session_inv_def)
  then have ok: "client_ok (se_client s)" by simp
  note keeps = submit_keeps [OF submit(2) i]
  show ?thesis
  proof (cases "st = 0")
    case False
    with system_submit [OF submit(2)] client_okD [OF ok] have "c' = se_client s" by auto
    with False keeps assms(2) show ?thesis unfolding submit(1) by (simp add: session_inv_def)
  next
    case True
    with system_submit [OF submit(2)] client_okD [OF ok] obtain r q t m where
      c': "c' = after_accept (se_client s) r q" and r: "accepted_request (se_client s) m tx len options r"
      and q: "queue_events q = queue_events (cl_event_queue (se_client s)) @
        [accepted_event (cl_next_request_id (se_client s)) (written t)]"
      and m: "mem w' = store_u64 (mem (se_world s)) out (cl_next_request_id (se_client s))"
      by auto
    have "rq_request_id r = cl_next_request_id (se_client s)"
      using r by (simp add: accepted_request_def Let_def)
    with True keeps assms(2) q m show ?thesis
      unfolding submit(1) by (simp add: session_inv_def c') (simp add: after_accept_def)
  qed
next
  case (poll events cap stride out st c' m')
  have i: "client_in F (Some (se_client s)) (se_world s)" using assms(2) by (simp add: session_inv_def)
  then have ok: "client_ok (se_client s)" by simp
  obtain q where c': "c' = (se_client s)\<lparr>cl_event_queue := q\<rparr>" and
    q: "(if st = 0 then events_read m' events stride out else []) @ queue_events q =
      queue_events (cl_event_queue (se_client s))"
    using poll_reads [OF poll(2) client_okD(2) [OF ok] poll(3)] by auto
  have "client_in F (Some c') ((se_world s)\<lparr>mem := m'\<rparr>)" by (rule poll_keeps [OF poll(2) i])
  with assms(2) show ?thesis
    unfolding poll(1) by (simp add: session_inv_def c' q [symmetric] ac_simps split: if_splits)
next
  case (caller w')
  with assms(2) show ?thesis by (simp add: session_inv_def heap_exact_def)
qed
lemma session_invariant: "session_of F n s \<Longrightarrow> session_inv F n s"
proof (induction rule: session_of.induct)
  case (create w c w')
  from create(1) show ?case
    by (cases rule: system_create) (use create in \<open>auto simp: session_inv_def\<close>)
next
  case (step s s')
  then show ?case using session_inv_step by blast
qed

text \<open>C11: Whatever the caller does, the client stays well formed: it runs on the system
  allocator and clock, its event ring is within bounds, its topology's arrays match
  their counts and hold valid indices, everything it owns is typed as its structures
  declare (byte arrays at their declared length, native \<open>struct_size\<close> values, in every
  request as many bytes and targets as its counts say, neither of them none), and its
  requests are numbered 1, 2, \<dots> in the order of acceptance with the next identifier
  one above.\<close>

theorem session_client_ok:
  assumes "session_of F n s"
  shows "client_ok (se_client s)"
  using session_invariant [OF assms] by (simp add: session_inv_def)

text \<open>C1: No event is lost, duplicated or reordered across submissions and polls: the
  identifiers returned to the caller are 1, 2, \<dots>, k, and the identifiers of the events
  the caller has read, followed by those still queued, are the same sequence; every one
  of them is an accepted event, first in its request's sequence.\<close>

theorem session_fifo:
  assumes "session_of F n s"
  defines "events \<equiv> se_polled s @ queue_events (cl_event_queue (se_client s))"
  shows "se_ids s = map of_nat [1..<Suc (length (se_ids s))] \<and>
    map ev_request_id events = se_ids s \<and>
    (\<forall>e \<in> set events. ev_event_class e = SOLANA_DELIVERY_EVENT_CLASS_REQUEST \<and>
       ev_event_code e = SOLANA_DELIVERY_REQUEST_EVENT_ACCEPTED \<and> ev_request_sequence e = 1)"
proof -
  have inv: "session_inv F n s" by (rule session_invariant [OF assms(1)])
  then have "ids_ok (se_client s)" by (simp add: session_inv_def client_ok_def)
  with inv have "se_ids s = map of_nat [1..<Suc (length (se_ids s))]"
    by (simp add: session_inv_def ids_ok_def del: upt_Suc)
  moreover have "ev_event_class e = 1 \<and> ev_event_code e = 1 \<and> ev_request_sequence e = 1"
    if "e \<in> set events" for e
  proof -
    have "e = accepted_event (ev_request_id e) (ev_monotonic_time_ns e)"
      using inv that unfolding session_inv_def events_def by blast
    then show ?thesis by (metis accepted_event_def solana_delivery_event_t.select_convs(2,3,7))
  qed
  moreover have "map ev_request_id events = se_ids s"
    using inv unfolding session_inv_def events_def by blast
  ultimately show ?thesis by blast
qed

text \<open>The caller can fall behind by at most the ring's 64 events: that many returned
  identifiers can be without a delivered event.\<close>

lemma session_backlog:
  assumes "session_of F n s"
  shows "length (se_ids s) \<le> length (se_polled s) + 64"
proof -
  have inv: "session_inv F n s" by (rule session_invariant [OF assms(1)])
  then have "length (queue_events (cl_event_queue (se_client s))) \<le> 64"
    by (intro ring.bounded) (simp add: session_inv_def client_ok_def)
  moreover have "length (se_ids s) = length (map ev_request_id
      (se_polled s @ queue_events (cl_event_queue (se_client s))))"
    using inv by (simp only: session_inv_def)
  ultimately show ?thesis by simp
qed

text \<open>C20: The topologies a session installs, through either entry point, have strictly
  increasing generations, and the client holds the last one.\<close>

theorem session_generations:
  assumes "session_of F n s"
  shows "sorted_wrt (<) (se_generations s) \<and>
    (cl_has_topology (se_client s) \<longleftrightarrow> se_generations s \<noteq> []) \<and>
    (se_generations s \<noteq> [] \<longrightarrow>
       tp_generation (ot_view (cl_topology (se_client s))) = last (se_generations s))"
  using session_invariant [OF assms] by (simp add: session_inv_def)

text \<open>C2: A client can be destroyed at any moment of a session: exactly the blocks the
  process owned before the client was created remain, and neither the session nor the
  destruction freed anything that was not a live block.\<close>

theorem session_no_leak:
  assumes "session_of F n s"
  shows "libc_live (solana_delivery_client_destroy (Some (se_client s)) (se_world s)) = F \<and>
    heap_faults (solana_delivery_client_destroy (Some (se_client s)) (se_world s)) = n"
  using session_invariant [OF assms] destroy_exact [of F "Some (se_client s)" "se_world s"]
  by (simp add: session_inv_def)

text \<open>C10: An accepted request is kept as it was accepted: no step changes it, drops it or
  reorders it; in particular the installation of a new topology leaves the copies in
  its targets alone.\<close>

theorem session_requests_kept:
  assumes "session_of F n s" "session_step\<^sup>*\<^sup>* s s'"
  shows "session_of F n s' \<and>
    (\<exists>new. cl_request_head (se_client s') = new @ cl_request_head (se_client s))"
  using assms(2)
proof (induction rule: rtranclp_induct)
  case base
  then show ?case using assms(1) by simp
next
  case (step s1 s2)
  have inv: "session_inv F n s1" using step.IH session_invariant by blast
  then have i: "client_in F (Some (se_client s1)) (se_world s1)" by (simp add: session_inv_def)
  then have ok: "client_ok (se_client s1)" by simp
  have "\<exists>new. cl_request_head (se_client s2) = new @ cl_request_head (se_client s1)"
    using step.hyps(2)
  proof cases
    case (install p st c' w')
    with install_replaces [OF install(2) i] show ?thesis
      by (auto simp: topology_replaced_def split: if_splits)
  next
    case (refresh provider st c' w')
    have "topology_replaced (se_client s1) st (Some c')"
      using refresh_effect [OF refresh(2) i] refresh(3) by blast
    with refresh(1) show ?thesis by (auto simp: topology_replaced_def split: if_splits)
  next
    case (submit tx len options out st c' w')
    with system_submit [OF submit(2)] client_okD [OF ok] show ?thesis
      by (auto simp: after_accept_def)
  next
    case (poll events cap stride out st c' m')
    with poll_effect [OF poll(2) client_okD(2) [OF ok]] show ?thesis by auto
  qed auto
  moreover have "session_of F n s2" using step session_of.step by blast
  ultimately show ?case using step.IH by fastforce
qed

lemma drain_step:
  assumes "session_of F n s" "poll_arguments_ok events cap stride out"
    and "length (queue_events (cl_event_queue (se_client s))) \<le> unat cap \<or> 64 \<le> unat cap"
    and "\<And>i. i < unat cap \<Longrightarrow> disjoint_regions (events + of_nat i * ucast stride) 64 out 8"
  obtains c' m' s' where
    "solana_delivery_client_poll_events (Some (se_client s)) events cap stride out
      (mem (se_world s)) = (SOLANA_DELIVERY_STATUS_OK, Some c', m')"
    "queue_events (cl_event_queue c') = []"
    "map ev_request_id (se_polled s @ events_read m' events stride out) = se_ids s"
    "s' = s\<lparr>se_client := c', se_world := (se_world s)\<lparr>mem := m'\<rparr>,
      se_polled := se_polled s @ events_read m' events stride out\<rparr>"
    "session_step s s'" "session_of F n s'"
proof -
  have "queue_wf (cl_event_queue (se_client s))"
    using session_invariant [OF assms(1)] by (simp add: session_inv_def client_ok_def)
  from poll_run [OF this assms(2) refl, of "mem (se_world s)"] ring.bounded [OF this] assms(3)
  obtain q m' where p: "solana_delivery_client_poll_events (Some (se_client s)) events cap stride out
      (mem (se_world s)) = (SOLANA_DELIVERY_STATUS_OK, Some ((se_client s)\<lparr>cl_event_queue := q\<rparr>), m')"
    and q: "queue_events q = []" by fastforce
  define s' where "s' = s\<lparr>se_client := (se_client s)\<lparr>cl_event_queue := q\<rparr>,
    se_world := (se_world s)\<lparr>mem := m'\<rparr>, se_polled := se_polled s @ events_read m' events stride out\<rparr>"
  have st: "session_step s s'" using session_step.poll [OF p assms(4)] by (simp add: s'_def)
  then have of: "session_of F n s'" using assms(1) session_of.step by blast
  have "map ev_request_id (se_polled s @ events_read m' events stride out) = se_ids s"
    using session_invariant [OF of] q by (simp add: session_inv_def s'_def)
  with p q s'_def st of show thesis by (intro that) simp_all
qed

text \<open>C19: A caller that polls with usable arguments, its counter outside its event array, and
  room for what is queued (64 events are always enough) catches up: that very poll succeeds, afterwards nothing is queued, and the events read
  so far, those of this poll last, are those of all identifiers the caller was given, in
  their order; the session goes on from there.\<close>

theorem session_drains:
  assumes "session_of F n s" "poll_arguments_ok events cap stride out"
    and "length (queue_events (cl_event_queue (se_client s))) \<le> unat cap \<or> 64 \<le> unat cap"
    and "\<And>i. i < unat cap \<Longrightarrow> disjoint_regions (events + of_nat i * ucast stride) 64 out 8"
  shows "\<exists>c' m'. solana_delivery_client_poll_events (Some (se_client s)) events cap stride out
      (mem (se_world s)) = (SOLANA_DELIVERY_STATUS_OK, Some c', m') \<and>
    queue_events (cl_event_queue c') = [] \<and>
    map ev_request_id (se_polled s @ events_read m' events stride out) = se_ids s \<and>
    session_of F n (s\<lparr>se_client := c', se_world := (se_world s)\<lparr>mem := m'\<rparr>,
      se_polled := se_polled s @ events_read m' events stride out\<rparr>)"
  by (rule drain_step [OF assms]) blast+

section \<open>The abstract client\<close>

text \<open>
  What the API promises, without memory, heap, rings or word arithmetic: the generation
  in force, how many submissions were accepted, and the identifiers whose event the
  caller has not yet read. A step is labelled with the identifiers it returns and those
  it delivers.
\<close>

record client_spec =
  cs_generation :: "u64 option"
  cs_accepted :: nat
  cs_pending :: "solana_delivery_request_id_t list"

inductive spec_step ::
  "client_spec \<Rightarrow> solana_delivery_request_id_t list \<Rightarrow> solana_delivery_request_id_t list \<Rightarrow> client_spec \<Rightarrow> bool" where
  publish: "(\<And>g0. cs_generation a = Some g0 \<Longrightarrow> g0 < g) \<Longrightarrow>
    spec_step a [] [] (a\<lparr>cs_generation := Some g\<rparr>)"
| accept: "cs_generation a \<noteq> None \<Longrightarrow> Suc (cs_accepted a) < 2 ^ 64 \<Longrightarrow> length (cs_pending a) < 64 \<Longrightarrow>
    i = of_nat (Suc (cs_accepted a)) \<Longrightarrow>
    spec_step a [i] [] (a\<lparr>cs_accepted := Suc (cs_accepted a), cs_pending := cs_pending a @ [i]\<rparr>)"
| deliver: "spec_step a [] (take k (cs_pending a)) (a\<lparr>cs_pending := drop k (cs_pending a)\<rparr>)"
| stutter: "spec_step a [] [] a"

definition client_abs :: "'u solana_delivery_client_t \<Rightarrow> client_spec" where
  "client_abs c =
     \<lparr>cs_generation = (if cl_has_topology c then Some (tp_generation (ot_view (cl_topology c))) else None),
      cs_accepted = length (cl_request_head c),
      cs_pending = map ev_request_id (queue_events (cl_event_queue c))\<rparr>"

lemma replaced_refines:
  assumes "topology_replaced c st (Some c')"
  shows "spec_step (client_abs c) [] [] (client_abs c')"
proof (cases "st = 0")
  case True
  with assms obtain ow where c': "c' = c\<lparr>cl_topology := ow, cl_has_topology := True\<rparr>"
    "cl_has_topology c \<Longrightarrow> tp_generation (ot_view (cl_topology c)) < tp_generation (ot_view ow)"
    by (auto simp: topology_replaced_def)
  have "spec_step (client_abs c) [] []
      ((client_abs c)\<lparr>cs_generation := Some (tp_generation (ot_view ow))\<rparr>)"
    using c'(2) by (intro spec_step.publish) (auto simp: client_abs_def split: if_splits)
  then show ?thesis by (simp add: client_abs_def c'(1))
next
  case False
  with assms show ?thesis by (simp add: topology_replaced_def spec_step.stutter)
qed

text \<open>C3: The client refines the abstract client: every call, whatever its arguments and
  whatever fails inside it, is a step of the specification or leaves it alone. A new
  generation is published only above the one in force; a submission is accepted only
  with a topology, an identifier left and room in the ring, and returns the successor
  of the last identifier; a poll delivers a prefix of what is pending.\<close>

theorem session_refines:
  assumes "session_of F n s" "session_step s s'"
  shows "\<exists>returned delivered.
    spec_step (client_abs (se_client s)) returned delivered (client_abs (se_client s')) \<and>
    se_ids s' = se_ids s @ returned \<and>
    map ev_request_id (se_polled s') = map ev_request_id (se_polled s) @ delivered"
proof -
  have inv: "session_inv F n s" by (rule session_invariant [OF assms(1)])
  then have i: "client_in F (Some (se_client s)) (se_world s)" by (simp add: session_inv_def)
  then have ok: "client_ok (se_client s)" by simp
  from assms(2) show ?thesis
  proof cases
    case (install p st c' w')
    from replaced_refines [OF install_replaces [OF install(2) i]] install(1) show ?thesis by fastforce
  next
    case (refresh provider st c' w')
    have "topology_replaced (se_client s) st (Some c')"
      using refresh_effect [OF refresh(2) i] refresh(3) by blast
    from replaced_refines [OF this] refresh(1) show ?thesis by fastforce
  next
    case (submit tx len options out st c' w')
    show ?thesis
    proof (cases "st = 0")
      case False
      with system_submit [OF submit(2)] client_okD [OF ok] have "c' = se_client s" by auto
      with False submit(1) spec_step.stutter show ?thesis by fastforce
    next
      case True
      with system_submit [OF submit(2)] client_okD [OF ok] obtain r q t where
        c': "c' = after_accept (se_client s) r q" and top: "cl_has_topology (se_client s)"
        and id: "cl_next_request_id (se_client s) \<noteq> 0" and wf: "queue_wf q"
        and q: "queue_events q = queue_events (cl_event_queue (se_client s)) @
          [accepted_event (cl_next_request_id (se_client s)) (written t)]"
        and m: "mem w' = store_u64 (mem (se_world s)) out (cl_next_request_id (se_client s))"
        by auto
      let ?a = "client_abs (se_client s)"
      let ?i = "cl_next_request_id (se_client s)"
      have "spec_step ?a [?i] [] (?a\<lparr>cs_accepted := Suc (cs_accepted ?a), cs_pending := cs_pending ?a @ [?i]\<rparr>)"
      proof (rule spec_step.accept)
        show "cs_generation ?a \<noteq> None" using top by (simp add: client_abs_def)
        show "Suc (cs_accepted ?a) < 2 ^ 64"
          using accepted_below [OF client_okD(4) [OF ok] id] by (simp add: client_abs_def)
        show "length (cs_pending ?a) < 64"
          using ring.bounded [OF wf] q by (simp add: client_abs_def)
        show "?i = of_nat (Suc (cs_accepted ?a))"
          using client_okD(4) [OF ok] by (simp add: ids_ok_def client_abs_def)
      qed
      moreover have "client_abs c' =
          ?a\<lparr>cs_accepted := Suc (cs_accepted ?a), cs_pending := cs_pending ?a @ [?i]\<rparr>"
        using q by (simp add: client_abs_def c' after_accept_def)
      ultimately show ?thesis using True m submit(1)
        by (intro exI [of _ "[?i]"] exI [of _ "[]"]) simp
    qed
  next
    case (poll events cap stride out st c' m')
    obtain q where c': "c' = (se_client s)\<lparr>cl_event_queue := q\<rparr>" and
      q: "(if st = 0 then events_read m' events stride out else []) @ queue_events q =
        queue_events (cl_event_queue (se_client s))"
      using poll_reads [OF poll(2) client_okD(2) [OF ok] poll(3)] by auto
    let ?a = "client_abs (se_client s)"
    define got where "got = (if st = 0 then events_read m' events stride out else [])"
    have pend: "cs_pending ?a = map ev_request_id got @ map ev_request_id (queue_events q)"
      using q by (simp add: client_abs_def got_def flip: map_append)
    have td: "take (length got) (cs_pending ?a) = map ev_request_id got"
      "drop (length got) (cs_pending ?a) = map ev_request_id (queue_events q)"
      unfolding pend by simp_all
    have "client_abs c' = ?a\<lparr>cs_pending := map ev_request_id (queue_events q)\<rparr>"
      by (simp add: client_abs_def c')
    then have "spec_step ?a [] (map ev_request_id got) (client_abs c')"
      using spec_step.deliver [of ?a "length got"] unfolding td by (simp only:)
    then show ?thesis using poll(1) by (intro exI [of _ "[]"] exI [of _ "map ev_request_id got"])
      (simp add: got_def)
  next
    case (caller w')
    with spec_step.stutter show ?thesis by fastforce
  qed
qed

end
