(* ===== verification/Ingress.thy ===== *)
theory Ingress
  imports C_Memory
begin

text \<open>
  The wire format of the local ingress prototype, \<open>ingress.h\<close> and the decoder of
  \<open>solana_ingress.c\<close>: one 33-byte datagram becomes one event in caller storage. The
  receive loop is in \<open>Ingress_Loop\<close>.
\<close>

section \<open>Events\<close>

abbreviation (input) SOLANA_INGRESS_WIRE_SIZE :: usize where "SOLANA_INGRESS_WIRE_SIZE \<equiv> 33"
abbreviation (input) SOLANA_INGRESS_EVENT_SIZE :: nat where "SOLANA_INGRESS_EVENT_SIZE \<equiv> 48"
abbreviation (input) SOLANA_TRADE_SIDE_BUY :: u8 where "SOLANA_TRADE_SIDE_BUY \<equiv> 0"
abbreviation (input) SOLANA_TRADE_SIDE_SELL :: u8 where "SOLANA_TRADE_SIDE_SELL \<equiv> 1"
abbreviation (input) SOLANA_MAX_DATAGRAM_SIZE :: nat where "SOLANA_MAX_DATAGRAM_SIZE \<equiv> 1500"
abbreviation (input) OFFSET_INSTRUCTION_TYPE :: addr where "OFFSET_INSTRUCTION_TYPE \<equiv> 0"
abbreviation (input) OFFSET_TIMESTAMP_MS :: addr where "OFFSET_TIMESTAMP_MS \<equiv> 8"
abbreviation (input) OFFSET_PRICE_RAW :: addr where "OFFSET_PRICE_RAW \<equiv> 16"
abbreviation (input) OFFSET_QUANTITY_RAW :: addr where "OFFSET_QUANTITY_RAW \<equiv> 24"
abbreviation (input) OFFSET_SIDE :: addr where "OFFSET_SIDE \<equiv> 32"

record solana_ingress_event_t =
  ie_instruction_type :: u64
  ie_source_timestamp_ms :: u64
  ie_price_raw :: u64
  ie_quantity_raw :: u64
  ie_ingress_sequence_id :: u64
  ie_side :: u8
  ie_reserved :: "u8 list"

definition wf_ingress_event :: "solana_ingress_event_t \<Rightarrow> bool" where
  "wf_ingress_event e \<longleftrightarrow> length (ie_reserved e) = 7"

definition ingress_event_of_bytes :: "u8 list \<Rightarrow> solana_ingress_event_t" where
  "ingress_event_of_bytes bs =
     \<lparr>ie_instruction_type = word_of_le (field bs 0 8),
      ie_source_timestamp_ms = word_of_le (field bs 8 8),
      ie_price_raw = word_of_le (field bs 16 8), ie_quantity_raw = word_of_le (field bs 24 8),
      ie_ingress_sequence_id = word_of_le (field bs 32 8), ie_side = word_of_le (field bs 40 1),
      ie_reserved = field bs 41 7\<rparr>"

definition bytes_of_ingress_event :: "solana_ingress_event_t \<Rightarrow> u8 list" where
  "bytes_of_ingress_event e =
     le_of_word 8 (ie_instruction_type e) @ le_of_word 8 (ie_source_timestamp_ms e) @
     le_of_word 8 (ie_price_raw e) @ le_of_word 8 (ie_quantity_raw e) @
     le_of_word 8 (ie_ingress_sequence_id e) @ le_of_word 1 (ie_side e) @ ie_reserved e"

interpretation ingress_event: structure_codec
    ingress_event_of_bytes bytes_of_ingress_event wf_ingress_event 48
  by unfold_locales
    (auto simp: ingress_event_of_bytes_def bytes_of_ingress_event_def wf_ingress_event_def codec field_join)

section \<open>Decoding\<close>

definition load_u64_le :: "memory \<Rightarrow> addr \<Rightarrow> u64" where
  "load_u64_le m p =
     ucast (m p) OR push_bit 8 (ucast (m (p + 1))) OR push_bit 16 (ucast (m (p + 2))) OR
     push_bit 24 (ucast (m (p + 3))) OR push_bit 32 (ucast (m (p + 4))) OR
     push_bit 40 (ucast (m (p + 5))) OR push_bit 48 (ucast (m (p + 6))) OR
     push_bit 56 (ucast (m (p + 7)))"

text \<open>
  The stores are in the code's order, and the wire is read between them, so a caller
  whose event overlaps its wire buffer sees what the code does.
\<close>

definition solana_ingress_decode ::
  "addr \<Rightarrow> usize \<Rightarrow> u64 \<Rightarrow> addr \<Rightarrow> memory \<Rightarrow> bool \<times> memory" where
  "solana_ingress_decode wire_buffer wire_len ingress_sequence_id out_event m =
     (if wire_buffer = NULL \<or> out_event = NULL \<or> wire_len \<noteq> SOLANA_INGRESS_WIRE_SIZE
      then (False, m)
      else
      let side = m (wire_buffer + OFFSET_SIDE) in
      if SOLANA_TRADE_SIDE_SELL < side then (False, m)
      else
      let m = store_bytes m out_event (replicate SOLANA_INGRESS_EVENT_SIZE 0);
          m = store_u64 m out_event (load_u64_le m (wire_buffer + OFFSET_INSTRUCTION_TYPE));
          m = store_u64 m (out_event + 8) (load_u64_le m (wire_buffer + OFFSET_TIMESTAMP_MS));
          m = store_u64 m (out_event + 16) (load_u64_le m (wire_buffer + OFFSET_PRICE_RAW));
          m = store_u64 m (out_event + 24) (load_u64_le m (wire_buffer + OFFSET_QUANTITY_RAW));
          m = store_u64 m (out_event + 32) ingress_sequence_id;
          m = store_bytes m (out_event + 40) [side]
      in (True, m))"

lemma load_u64_le_eq: "load_u64_le m p = load_u64 m p"
proof (rule bit_word_eqI)
  fix k assume k: "k < LENGTH(64)"
  have "[0..<8] = [0, 1, 2, 3, 4, 5, 6, 7 :: nat]" by code_simp
  then have "load_bytes m p 8 = [m p, m (p + 1), m (p + 2), m (p + 3), m (p + 4), m (p + 5), m (p + 6), m (p + 7)]"
    by (simp add: load_bytes_def)
  then show "bit (load_u64_le m p) k \<longleftrightarrow> bit (load_u64 m p) k"
    by (simp add: load_u64_le_def push_bit_or push_bit_push_bit or.assoc)
qed

text \<open>The event a wire buffer stands for.\<close>

definition wire_event :: "u8 list \<Rightarrow> u64 \<Rightarrow> solana_ingress_event_t" where
  "wire_event bs sequence =
     \<lparr>ie_instruction_type = word_of_le (field bs 0 8),
      ie_source_timestamp_ms = word_of_le (field bs 8 8),
      ie_price_raw = word_of_le (field bs 16 8), ie_quantity_raw = word_of_le (field bs 24 8),
      ie_ingress_sequence_id = sequence, ie_side = bs ! 32, ie_reserved = replicate 7 0\<rparr>"

lemma wf_wire_event [simp]: "wf_ingress_event (wire_event bs n)"
  by (simp add: wf_ingress_event_def wire_event_def)

lemma le_of_word_byte: "le_of_word (Suc 0) (b :: u8) = [b]"
  by (simp add: le_of_word.simps)

text \<open>The stores of the decoder in one piece, whatever it read between them.\<close>

lemma decode_chain:
  "store_bytes (store_u64 (store_u64 (store_u64 (store_u64 (store_u64
      (store_bytes m out (replicate 48 0)) out v1) (out + 8) v2) (out + 16) v3) (out + 24) v4)
      (out + 32) n) (out + 40) [s] =
   store_bytes m out (bytes_of_ingress_event
     \<lparr>ie_instruction_type = v1, ie_source_timestamp_ms = v2, ie_price_raw = v3,
      ie_quantity_raw = v4, ie_ingress_sequence_id = n, ie_side = s, ie_reserved = replicate 7 0\<rparr>)"
  using store_within [of 0 _ _ _ out] store_within [of 8 _ _ _ out] store_within [of 16 _ _ _ out]
    store_within [of 24 _ _ _ out] store_within [of 32 _ _ _ out] store_within [of 40 _ _ _ out]
  by (simp add: bytes_of_ingress_event_def le_of_word_byte)

lemma decode_stores_any:
  assumes "wire \<noteq> NULL" "out \<noteq> NULL" "m (wire + 32) \<le> SOLANA_TRADE_SIDE_SELL"
  obtains v1 v2 v3 v4 where "solana_ingress_decode wire 33 n out m =
    (True, store_bytes m out (bytes_of_ingress_event
     \<lparr>ie_instruction_type = v1, ie_source_timestamp_ms = v2, ie_price_raw = v3,
      ie_quantity_raw = v4, ie_ingress_sequence_id = n, ie_side = m (wire + 32),
      ie_reserved = replicate 7 0\<rparr>))"
  using assms
  by (simp add: solana_ingress_decode_def Let_def not_less [symmetric] decode_chain)

lemma decode_stores:
  assumes "disjoint_regions wire 33 out 48" "wire \<noteq> NULL" "out \<noteq> NULL"
    and "m (wire + 32) \<le> SOLANA_TRADE_SIDE_SELL"
  shows "solana_ingress_decode wire 33 n out m =
    (True, store_bytes m out (bytes_of_ingress_event (wire_event (load_bytes m wire 33) n)))"
proof -
  have part: "disjoint_regions (wire + of_nat off) 8 out 48" if "off + 8 \<le> 33" for off
    using disjoint_regions_part [OF assms(1) that] by simp
  have wire: "load_u64_le (store_bytes m out bs) (wire + of_nat off) = word_of_le (field (load_bytes m wire 33) off 8)"
    if "length bs = 48" "off + 8 \<le> 33" for bs off
    using that part [OF that(2)] by (simp add: load_u64_le_eq load_store_disjoint field_load)
  note reads = wire [of _ 0, simplified] wire [of _ 8, simplified] wire [of _ 16, simplified]
    wire [of _ 24, simplified]
  note merge = store_within [of 0 _ _ _ out, simplified] store_within [of 8 _ _ _ out, simplified]
    store_within [of 16 _ _ _ out, simplified] store_within [of 24 _ _ _ out, simplified]
    store_within [of 32 _ _ _ out, simplified] store_within [of 40 _ _ _ out, simplified]
  have "solana_ingress_decode wire 33 n out m =
    (True, store_bytes m out (le_of_word 8 (ie_instruction_type (wire_event (load_bytes m wire 33) n)) @
      le_of_word 8 (ie_source_timestamp_ms (wire_event (load_bytes m wire 33) n)) @
      le_of_word 8 (ie_price_raw (wire_event (load_bytes m wire 33) n)) @
      le_of_word 8 (ie_quantity_raw (wire_event (load_bytes m wire 33) n)) @
      le_of_word 8 n @ [m (wire + 32)] @ replicate 7 0))"
    using assms(2-4)
    by (simp add: solana_ingress_decode_def Let_def not_less [symmetric] reads merge wire_event_def)
  then show ?thesis
    by (simp add: bytes_of_ingress_event_def le_of_word_byte wire_event_def)
qed

lemma decode_rejects:
  assumes "wire = NULL \<or> out = NULL \<or> len \<noteq> 33 \<or> SOLANA_TRADE_SIDE_SELL < m (wire + 32)"
  shows "solana_ingress_decode wire len n out m = (False, m)"
  using assms by (auto simp: solana_ingress_decode_def Let_def)

text \<open>C27: Decoding on every input, overlapping buffers included. It is accepted exactly when
  both pointers are valid, the length is 33 and the side byte is buy or sell; a rejected
  datagram leaves memory untouched. An accepted one writes nothing outside the event's 48
  bytes, and the event reads back with the sequence number of the call, the side byte of
  the datagram and zeroed reserved bytes; where the event does not overlap the wire
  buffer, its other fields are the four little-endian words of the datagram.\<close>

theorem decode_outcome:
  "if wire \<noteq> NULL \<and> out \<noteq> NULL \<and> len = SOLANA_INGRESS_WIRE_SIZE \<and>
      m (wire + 32) \<in> {SOLANA_TRADE_SIDE_BUY, SOLANA_TRADE_SIDE_SELL}
    then \<exists>m' e. solana_ingress_decode wire len n out m = (True, m') \<and>
      ingress_event_of_bytes (load_bytes m' out 48) = e \<and>
      ie_ingress_sequence_id e = n \<and> ie_side e = m (wire + 32) \<and> ie_reserved e = replicate 7 0 \<and>
      (\<forall>x. \<not> in_region x out 48 \<longrightarrow> m' x = m x) \<and>
      (disjoint_regions wire 33 out 48 \<longrightarrow>
         ie_instruction_type e = load_u64 m wire \<and>
         ie_source_timestamp_ms e = load_u64 m (wire + 8) \<and>
         ie_price_raw e = load_u64 m (wire + 16) \<and> ie_quantity_raw e = load_u64 m (wire + 24))
    else solana_ingress_decode wire len n out m = (False, m)"
proof -
  have side: "(m (wire + 32) \<in> {0, 1}) = (m (wire + 32) \<le> 1)"
    by (auto simp: word_le_nat_alt word_eq_iff_unsigned [where ?'a = nat] le_Suc_eq)
  show ?thesis
  proof (cases "wire \<noteq> NULL \<and> out \<noteq> NULL \<and> len = 33 \<and> m (wire + 32) \<le> 1")
    case False
    then show ?thesis using decode_rejects [of wire out len m n] side by (auto simp: not_le)
  next
    case True
    then obtain v1 v2 v3 v4 where v: "solana_ingress_decode wire 33 n out m =
        (True, store_bytes m out (bytes_of_ingress_event
         \<lparr>ie_instruction_type = v1, ie_source_timestamp_ms = v2, ie_price_raw = v3,
          ie_quantity_raw = v4, ie_ingress_sequence_id = n, ie_side = m (wire + 32),
          ie_reserved = replicate 7 0\<rparr>))"
      using decode_stores_any [of wire out m n] by blast
    define e where "e = \<lparr>ie_instruction_type = v1, ie_source_timestamp_ms = v2, ie_price_raw = v3,
      ie_quantity_raw = v4, ie_ingress_sequence_id = n, ie_side = m (wire + 32),
      ie_reserved = replicate 7 (0 :: u8)\<rparr>"
    from v have dec: "solana_ingress_decode wire 33 n out m =
        (True, store_bytes m out (bytes_of_ingress_event e))" by (simp only: e_def)
    have wf: "wf_ingress_event e" and e: "ie_ingress_sequence_id e = n" "ie_side e = m (wire + 32)"
        "ie_reserved e = replicate 7 0"
      by (simp_all add: e_def wf_ingress_event_def)
    have readback: "ingress_event_of_bytes (load_bytes (store_bytes m out (bytes_of_ingress_event e)) out 48) = e"
      using wf by (rule ingress_event.load_of_store) simp
    have frame: "\<not> in_region x out 48 \<Longrightarrow> store_bytes m out (bytes_of_ingress_event e) x = m x" for x
      using ingress_event.length_encode [OF wf] by (simp add: store_bytes_outside)
    have "e = wire_event (load_bytes m wire 33) n" if d: "disjoint_regions wire 33 out 48"
    proof -
      have "store_bytes m out (bytes_of_ingress_event e) =
          store_bytes m out (bytes_of_ingress_event (wire_event (load_bytes m wire 33) n))"
        using decode_stores [OF d, of m n] True dec by simp
      with readback show ?thesis
        using ingress_event.load_of_store [of "wire_event (load_bytes m wire 33) n" 48 m out] by simp
    qed
    then have words: "disjoint_regions wire 33 out 48 \<Longrightarrow>
        ie_instruction_type e = load_u64 m wire \<and> ie_source_timestamp_ms e = load_u64 m (wire + 8) \<and>
        ie_price_raw e = load_u64 m (wire + 16) \<and> ie_quantity_raw e = load_u64 m (wire + 24)"
      by (simp add: wire_event_def field_load)
    from True dec e readback frame words side show ?thesis
      by (intro if_P [THEN iffD2]) auto
  qed
qed

text \<open>The wire form of an event: what a sender puts into a datagram.\<close>

definition encode_wire :: "solana_ingress_event_t \<Rightarrow> u8 list" where
  "encode_wire e =
     le_of_word 8 (ie_instruction_type e) @ le_of_word 8 (ie_source_timestamp_ms e) @
     le_of_word 8 (ie_price_raw e) @ le_of_word 8 (ie_quantity_raw e) @ [ie_side e]"

lemma length_encode_wire [simp]: "length (encode_wire e) = 33"
  by (simp add: encode_wire_def)

text \<open>C28: Round trip between wire and event: decoding the wire form of an event gives back
  its fields, and the wire form of a decoded event is the datagram, byte for byte, so
  two datagrams that decode alike are equal.\<close>

theorem wire_roundtrip:
  assumes "disjoint_regions wire 33 out 48" "wire \<noteq> NULL" "out \<noteq> NULL"
    and "load_bytes m wire 33 = bs" "bs ! 32 \<le> SOLANA_TRADE_SIDE_SELL"
  shows "let event = ingress_event_of_bytes (load_bytes (snd (solana_ingress_decode wire 33 n out m)) out 48) in
    encode_wire event = bs \<and>
    (\<forall>e. bs = encode_wire e \<and> ie_ingress_sequence_id e = n \<and> ie_reserved e = replicate 7 0 \<longrightarrow> event = e)"
proof -
  let ?e = "wire_event bs n"
  have len: "length bs = 33" using assms(4) by auto
  have "m (wire + 32) = bs ! 32" using assms(4) nth_load_bytes [of 32 33 m wire] by simp
  then have "snd (solana_ingress_decode wire 33 n out m) = store_bytes m out (bytes_of_ingress_event ?e)"
    using decode_stores [OF assms(1-3)] assms(4,5) by simp
  then have ev: "ingress_event_of_bytes (load_bytes (snd (solana_ingress_decode wire 33 n out m)) out 48) = ?e"
    using ingress_event.load_of_store [of ?e 48 m out] by simp
  have last: "[bs ! 32] = field bs 32 1"
    using len by (simp add: field_def take_Suc_conv_app_nth Cons_nth_drop_Suc [symmetric])
  have "encode_wire ?e = bs"
    unfolding encode_wire_def wire_event_def using len
    by (simp add: codec last field_join)
  moreover have "?e = e"
    if "bs = encode_wire e" "ie_ingress_sequence_id e = n" "ie_reserved e = replicate 7 0" for e
    using that by (simp add: wire_event_def encode_wire_def codec nth_append)
  ultimately show ?thesis unfolding ev Let_def by blast
qed

section \<open>Witnesses\<close>

definition sample_event :: solana_ingress_event_t where
  "sample_event =
     \<lparr>ie_instruction_type = 1, ie_source_timestamp_ms = 2, ie_price_raw = 0x1122334455667788,
      ie_quantity_raw = 4, ie_ingress_sequence_id = 7, ie_side = SOLANA_TRADE_SIDE_SELL,
      ie_reserved = replicate 7 0\<rparr>"

lemma sample_wire [simp]:
  "load_bytes (store_bytes (\<lambda>_. 0) 0x100 (encode_wire sample_event)) 0x100 33 = encode_wire sample_event"
  by (simp add: load_store_whole)

lemma sample_side [simp]: "encode_wire sample_event ! 32 = 1"
  by (simp add: encode_wire_def nth_append sample_event_def)

lemma sample_side_mem [simp]: "store_bytes (\<lambda>_. 0) 0x100 (encode_wire sample_event) 0x120 = 1"
  using nth_load_bytes [of 32 33 "store_bytes (\<lambda>_. 0) 0x100 (encode_wire sample_event)" "0x100"] by simp

text \<open>One run with separate buffers, one of a wrong length, one with the event over the wire.\<close>

lemma decode_outcome_witness:
  "let m = store_bytes (\<lambda>_. 0) 0x100 (encode_wire sample_event) in
   (\<exists>m' e. solana_ingress_decode 0x100 33 7 0x200 m = (True, m') \<and>
      ingress_event_of_bytes (load_bytes m' 0x200 48) = e \<and>
      ie_instruction_type e = 1 \<and> ie_side e = SOLANA_TRADE_SIDE_SELL) \<and>
   solana_ingress_decode 0x100 32 7 0x200 m = (False, m) \<and>
   (\<exists>m'. solana_ingress_decode 0x100 33 7 0x100 m = (True, m') \<and>
      ie_side (ingress_event_of_bytes (load_bytes m' 0x100 48)) = SOLANA_TRADE_SIDE_SELL)"
proof -
  let ?m = "store_bytes (\<lambda>_. 0) 0x100 (encode_wire sample_event)"
  have d: "disjoint_regions 0x100 33 0x200 48" by (simp add: disjoint_regions_def)
  have "load_u64 ?m 0x100 = word_of_le (field (encode_wire sample_event) 0 8)"
    using field_load [of 0 8 33 ?m "0x100"] by simp
  also have "\<dots> = ie_instruction_type sample_event" by (simp add: encode_wire_def codec)
  finally have "load_u64 ?m 0x100 = 1" by (simp add: sample_event_def)
  then show ?thesis
    using decode_outcome [of "0x100" "0x200" 33 ?m 7] decode_outcome [of "0x100" "0x200" 32 ?m 7]
      decode_outcome [of "0x100" "0x100" 33 ?m 7] d
    by (auto simp: Let_def)
qed

lemma wire_roundtrip_witness:
  "ingress_event_of_bytes (load_bytes (snd (solana_ingress_decode 0x100 33 7 0x200
     (store_bytes (\<lambda>_. 0) 0x100 (encode_wire sample_event)))) 0x200 48) = sample_event"
proof -
  have "disjoint_regions 0x100 33 0x200 48" by (simp add: disjoint_regions_def)
  from wire_roundtrip [OF this _ _ sample_wire, of 7] show ?thesis
    by (simp add: Let_def) (simp add: sample_event_def)
qed

end
