(* ===== verification/Example_Programs.thy ===== *)
theory Example_Programs
  imports Submission_Properties Discovery Ingress
begin

text \<open>
  \<open>examples/ingress_decode.c\<close> and \<open>examples/discovery_refresh.c\<close>, each \<open>main\<close> run against
  the models of the library, with the provider of the second as an interpretation of
  \<open>discovery_provider\<close>. Local variables are at fixed addresses of the caller's memory;
  everything else in that memory, the heap and the clock are arbitrary.
\<close>

section \<open>Zero-initialised objects\<close>

lemma field_zeros [simp]: "field (replicate n (0 :: u8)) off k = replicate (min k (n - off)) 0"
  by (simp add: field_def)

lemma word_of_le_zeros [simp]: "word_of_le (replicate n 0) = (0 :: 'a::len word)"
  by (induction n) simp_all

lemma zeroed_simps:
  "validator_of_bytes (replicate 48 0) = \<lparr>va_struct_size = 0, va_reserved0 = 0,
     va_identity = replicate 32 0, va_reserved1 = replicate 8 0\<rparr>"
  "endpoint_of_bytes (replicate 32 0) = \<lparr>ep_struct_size = 0, ep_address_family = 0, ep_transport = 0,
     ep_role = 0, ep_reserved0 = 0, ep_port = 0, ep_reserved1 = 0, ep_address = replicate 16 0,
     ep_reserved2 = replicate 4 0\<rparr>"
  "validator_endpoint_of_bytes (replicate 16 0) = \<lparr>ve_struct_size = 0, ve_validator_index = 0,
     ve_endpoint_index = 0, ve_reserved0 = 0\<rparr>"
  "leader_of_bytes (replicate 32 0) = \<lparr>ld_struct_size = 0, ld_validator_index = 0, ld_first_slot = 0,
     ld_last_slot = 0, ld_reserved0 = 0\<rparr>"
  by (simp_all add: validator_of_bytes_def endpoint_of_bytes_def validator_endpoint_of_bytes_def
      leader_of_bytes_def)

section \<open>\<open>examples/ingress_decode.c\<close>\<close>

definition ingress_decode_main :: "memory \<Rightarrow> int \<times> memory" where
  "ingress_decode_main m =
     (let wire = 0x1000; event = 0x2000;
          m = store_bytes m wire (replicate (unat SOLANA_INGRESS_WIRE_SIZE) 0);
          m = store_bytes m event (replicate SOLANA_INGRESS_EVENT_SIZE 0);
          m = store_bytes m (wire + 32) [SOLANA_TRADE_SIDE_BUY];
          (ok, m) = solana_ingress_decode wire SOLANA_INGRESS_WIRE_SIZE 1 event m;
          e = ingress_event_of_bytes (load_bytes m event SOLANA_INGRESS_EVENT_SIZE) in
      if \<not> ok then (1, m)
      else if ie_ingress_sequence_id e \<noteq> 1 then (1, m)
      else if ie_side e \<noteq> SOLANA_TRADE_SIDE_BUY then (1, m)
      else (0, m))"

text \<open>The ingress example exits with 0 from every initial memory, and writes nothing
  outside its two local objects.\<close>

lemma ingress_decode_main_exits_zero:
  "fst (ingress_decode_main m) = 0 \<and>
   (\<not> in_region x 0x1000 33 \<and> \<not> in_region x 0x2000 48 \<longrightarrow> snd (ingress_decode_main m) x = m x)"
proof -
  define m1 where "m1 = store_bytes (store_bytes (store_bytes m 0x1000 (replicate 33 0)) 0x2000
    (replicate 48 0)) 0x1020 [0]"
  let ?e = "wire_event (load_bytes m1 0x1000 33) 1"
  have "m1 0x1020 = 0" by (simp add: m1_def store_bytes_def)
  then have d: "solana_ingress_decode 0x1000 33 1 0x2000 m1 =
      (True, store_bytes m1 0x2000 (bytes_of_ingress_event ?e))"
    by (intro decode_stores [of "0x1000" "0x2000" m1 1, simplified]) (simp_all add: disjoint_regions_def)
  have "ie_ingress_sequence_id ?e = 1" "ie_side ?e = 0"
    using \<open>m1 0x1020 = 0\<close> by (simp_all add: wire_event_def)
  moreover have "ingress_event_of_bytes (load_bytes (store_bytes m1 0x2000 (bytes_of_ingress_event ?e)) 0x2000 48) = ?e"
    by (rule ingress_event.load_of_store) simp_all
  ultimately have r: "ingress_decode_main m = (0, store_bytes m1 0x2000 (bytes_of_ingress_event ?e))"
    unfolding ingress_decode_main_def using d by (simp add: m1_def [symmetric])
  have "store_bytes m1 0x2000 (bytes_of_ingress_event ?e) x = m x"
    if "\<not> in_region x 0x1000 33" "\<not> in_region x 0x2000 48"
  proof -
    have "\<not> in_region x 0x1020 1"
    proof
      assume "in_region x 0x1020 1"
      then have "unat (x - 0x1020) = 0" by (simp add: in_region_def)
      then have "x - 0x1020 = 0" by (simp only: unsigned_eq_0_iff)
      then have "x = 0x1020" by simp
      with that(1) show False by (simp add: in_region_def)
    qed
    with that show ?thesis
      using ingress_event.length_encode [of ?e] by (simp add: m1_def store_bytes_outside)
  qed
  with r show ?thesis by simp
qed

lemma ingress_decode_main_exits_zero_witness:
  "fst (ingress_decode_main (\<lambda>_. 0xAA)) = 0 \<and> snd (ingress_decode_main (\<lambda>_. 0xAA)) 0x1021 = 0xAA"
  using ingress_decode_main_exits_zero [of "\<lambda>_. 0xAA" "0x1021"] by (simp add: in_region_def)

section \<open>\<open>examples/discovery_refresh.c\<close>\<close>

text \<open>The provider's state: a structure in the caller's memory.\<close>

definition example_provider_state_layout :: layout where
  "example_provider_state_layout = [(48, 4), (32, 4), (16, 4), (32, 8), (88, 8), (8, 8)]"

lemma provider_state_layout:
  "map (c_offsetof example_provider_state_layout) [0..<6] = [0, 48, 80, 96, 128, 216]"
  "c_sizeof example_provider_state_layout = 224"
  by code_simp+

definition initialize_provider_state :: "addr \<Rightarrow> memory \<Rightarrow> memory" where
  "initialize_provider_state state m =
     (let m = store_bytes m state (replicate (c_sizeof example_provider_state_layout) 0);
          validator = (load_validator m state)\<lparr>va_struct_size := of_nat (c_sizeof validator_layout)\<rparr>;
          m = store_bytes m state (bytes_of_validator validator);
          endpoint = load_endpoint m (state + 48);
          endpoint = endpoint\<lparr>ep_struct_size := of_nat (c_sizeof endpoint_layout),
            ep_address_family := SOLANA_DELIVERY_ADDRESS_IPV4,
            ep_transport := SOLANA_DELIVERY_TRANSPORT_QUIC,
            ep_role := SOLANA_DELIVERY_ENDPOINT_ROLE_TPU, ep_port := 8000,
            ep_address := (ep_address endpoint)[0 := 127, 3 := 1]\<rparr>;
          m = store_bytes m (state + 48) (bytes_of_endpoint endpoint);
          association = (load_association m (state + 80))
            \<lparr>ve_struct_size := of_nat (c_sizeof validator_endpoint_layout)\<rparr>;
          m = store_bytes m (state + 80) (bytes_of_validator_endpoint association);
          leader = (load_leader m (state + 96))\<lparr>ld_struct_size := of_nat (c_sizeof leader_layout),
            ld_first_slot := 10, ld_last_slot := 10\<rparr>;
          m = store_bytes m (state + 96) (bytes_of_leader leader);
          topology = (load_topology m (state + 128))
            \<lparr>tp_struct_size := of_nat (c_sizeof topology_layout), tp_generation := 1,
             tp_current_slot := 10,
             tp_validators := state, tp_validator_count := 1,
             tp_validator_stride := of_nat (c_sizeof validator_layout),
             tp_endpoints := state + 48, tp_endpoint_count := 1,
             tp_endpoint_stride := of_nat (c_sizeof endpoint_layout),
             tp_validator_endpoints := state + 80, tp_validator_endpoint_count := 1,
             tp_validator_endpoint_stride := of_nat (c_sizeof validator_endpoint_layout),
             tp_leaders := state + 96, tp_leader_count := 1,
             tp_leader_stride := of_nat (c_sizeof leader_layout)\<rparr>
      in store_bytes m (state + 128) (bytes_of_topology topology))"

definition acquire_topology :: "'u solana_delivery_discovery_acquire_fn" where
  "acquire_topology context out_topology w =
     (if context = NULL \<or> \<not> out_topology then (SOLANA_DELIVERY_STATUS_INVALID_ARGUMENT, None, w)
      else (SOLANA_DELIVERY_STATUS_OK, Some (context + 128), w))"

definition release_topology :: "'u solana_delivery_discovery_release_fn" where
  "release_topology context topology w =
     (if context \<noteq> NULL \<and> topology = context + 128
      then w\<lparr>mem := store_u64 (mem w) (context + 216) (load_u64 (mem w) (context + 216) + 1)\<rparr>
      else w)"

text \<open>The locals of \<open>main\<close>: \<open>state\<close> at 0x9000, \<open>provider\<close> at 0xA000.\<close>

definition example_provider :: "addr \<times> 'u solana_delivery_discovery_provider_t" where
  "example_provider = (0xA000,
     \<lparr>pv_struct_size = of_nat (c_sizeof discovery_provider_layout),
      pv_flags = SOLANA_DELIVERY_DISCOVERY_PROVIDER_FLAGS_NONE, pv_context = 0x9000,
      pv_acquire = Some acquire_topology, pv_release = Some release_topology\<rparr>)"

definition discovery_refresh_main :: "'u world \<Rightarrow> int \<times> 'u world" where
  "discovery_refresh_main w =
     (let w = w\<lparr>mem := initialize_provider_state 0x9000 (mem w)\<rparr>;
          (status, out, w) = solana_delivery_client_create True w;
          client = (case out of None \<Rightarrow> None | Some c \<Rightarrow> c) in
      if status \<noteq> SOLANA_DELIVERY_STATUS_OK then (1, w)
      else
      let (status, client, w) =
            solana_delivery_client_refresh_topology client (Some example_provider) w;
          w = solana_delivery_client_destroy client w
      in (if status = SOLANA_DELIVERY_STATUS_OK \<and> load_u64 (mem w) (0x9000 + 216) = 1
          then 0 else 1, w))"

text \<open>What the initialisation leaves in memory.\<close>

definition provider_topology :: "addr \<Rightarrow> solana_delivery_topology_t" where
  "provider_topology state =
     \<lparr>tp_struct_size = 88, tp_reserved0 = 0, tp_generation = 1, tp_current_slot = 10,
      tp_validators = state, tp_validator_count = 1, tp_validator_stride = 48,
      tp_endpoints = state + 48, tp_endpoint_count = 1, tp_endpoint_stride = 32,
      tp_validator_endpoints = state + 80, tp_validator_endpoint_count = 1,
      tp_validator_endpoint_stride = 16,
      tp_leaders = state + 96, tp_leader_count = 1, tp_leader_stride = 32\<rparr>"

definition provider_bytes :: "addr \<Rightarrow> u8 list" where
  "provider_bytes state =
     bytes_of_validator example_validator @ bytes_of_endpoint example_endpoint @
     bytes_of_validator_endpoint example_association @ bytes_of_leader example_leader @
     bytes_of_topology (provider_topology state) @ replicate 8 0"

lemma loopback_address:
  "(replicate 16 (0 :: u8))[0 := 127, 3 := 1] = [127, 0, 0, 1] @ replicate 12 0"
  by code_simp

lemma example_zeroed:
  "(validator_of_bytes (replicate 48 0))\<lparr>va_struct_size := 48\<rparr> = example_validator"
  "(endpoint_of_bytes (replicate 32 0))\<lparr>ep_struct_size := 32,
     ep_address_family := SOLANA_DELIVERY_ADDRESS_IPV4, ep_transport := SOLANA_DELIVERY_TRANSPORT_QUIC,
     ep_role := SOLANA_DELIVERY_ENDPOINT_ROLE_TPU, ep_port := 8000,
     ep_address := (ep_address (endpoint_of_bytes (replicate 32 0)))[0 := 127, 3 := 1]\<rparr> = example_endpoint"
  "(validator_endpoint_of_bytes (replicate 16 0))\<lparr>ve_struct_size := 16\<rparr> = example_association"
  "(leader_of_bytes (replicate 32 0))\<lparr>ld_struct_size := 32, ld_first_slot := 10, ld_last_slot := 10\<rparr> =
     example_leader"
  "(topology_of_bytes (replicate 88 0))\<lparr>tp_struct_size := 88, tp_generation := 1, tp_current_slot := 10,
     tp_validators := state, tp_validator_count := 1, tp_validator_stride := 48,
     tp_endpoints := state + 48, tp_endpoint_count := 1, tp_endpoint_stride := 32,
     tp_validator_endpoints := state + 80, tp_validator_endpoint_count := 1,
     tp_validator_endpoint_stride := 16, tp_leaders := state + 96, tp_leader_count := 1,
     tp_leader_stride := 32\<rparr> = provider_topology state"
  by (simp_all add: zeroed_simps example_validator_def example_endpoint_def example_association_def
      example_leader_def topology_of_bytes_def provider_topology_def
      loopback_address)

lemma length_provider_topology [simp]: "length (bytes_of_topology (provider_topology state)) = 88"
  by (simp add: topology.length_encode)

lemma initialize_provider_state_eq:
  "initialize_provider_state state m = store_bytes m state (provider_bytes state)"
proof -
  note reads = load_store_same [of 0 _ _ _ state, simplified] load_store_same [of 48 _ _ _ state, simplified]
    load_store_same [of 80 _ _ _ state, simplified] load_store_same [of 96 _ _ _ state, simplified]
    load_store_same [of 128 _ _ _ state, simplified]
  note merge = store_within [of 0 _ _ _ state, simplified] store_within [of 48 _ _ _ state, simplified]
    store_within [of 80 _ _ _ state, simplified] store_within [of 96 _ _ _ state, simplified]
    store_within [of 128 _ _ _ state, simplified]
  show ?thesis
    unfolding initialize_provider_state_def Let_def provider_state_layout
    by (simp add: reads merge example_zeroed provider_bytes_def)
qed

lemma provider_loads:
  fixes state m
  defines "m' \<equiv> initialize_provider_state state m"
  shows "load_validator m' state = example_validator" "load_endpoint m' (state + 48) = example_endpoint"
    "load_association m' (state + 80) = example_association" "load_leader m' (state + 96) = example_leader"
    "load_topology m' (state + 128) = provider_topology state" "load_u64 m' (state + 216) = 0"
proof -
  note reads = load_store_same [of 0 _ _ _ state, simplified] load_store_same [of 48 _ _ _ state, simplified]
    load_store_same [of 80 _ _ _ state, simplified] load_store_same [of 96 _ _ _ state, simplified]
    load_store_same [of 128 _ _ _ state, simplified] load_store_same [of 216 _ _ _ state, simplified]
  show "load_validator m' state = example_validator" "load_endpoint m' (state + 48) = example_endpoint"
    "load_association m' (state + 80) = example_association" "load_leader m' (state + 96) = example_leader"
    "load_topology m' (state + 128) = provider_topology state" "load_u64 m' (state + 216) = 0"
    unfolding m'_def initialize_provider_state_eq
    by (simp_all add: reads provider_bytes_def validator.decode_encode endpoint.decode_encode
        validator_endpoint.decode_encode leader.decode_encode topology.decode_encode)
qed

lemma provider_topology_ok:
  "topology_ok (initialize_provider_state 0x9000 m) 0x9080"
proof -
  have "load_topology (initialize_provider_state 0x9000 m) 0x9080 = provider_topology 0x9000"
    "load_validator (initialize_provider_state 0x9000 m) 0x9000 = example_validator"
    "load_endpoint (initialize_provider_state 0x9000 m) 0x9030 = example_endpoint"
    "load_association (initialize_provider_state 0x9000 m) 0x9050 = example_association"
    "load_leader (initialize_provider_state 0x9000 m) 0x9060 = example_leader"
    using provider_loads [of "0x9000" m] by simp_all
  then show ?thesis
    using example_elements_ok
    by (simp add: topology_ok_def validators_ok_def endpoints_ok_def associations_ok_def
        leaders_ok_def layouts_ok_def layout_ok_def array_element_def provider_topology_def)
qed

lemma provider_release_count: "load_u64 (initialize_provider_state 0x9000 m) 0x90D8 = 0"
  using provider_loads(6) [of "0x9000" m] by simp

lemma example_provider_ok: "provider_ok example_provider"
  by (simp add: provider_ok_def example_provider_def)

lemma example_provider_simps [simp]:
  "pv_context (snd example_provider) = 0x9000"
  "pv_acquire (snd example_provider) = Some acquire_topology"
  "pv_release (snd example_provider) = Some release_topology"
  by (simp_all add: example_provider_def)

abbreviation release_count :: "'u world \<Rightarrow> u64" where
  "release_count w \<equiv> load_u64 (mem w) 0x90D8"

lemma acquire_example [simp]: "acquire_topology 0x9000 True w = (0, Some 0x9080, w)"
  by (simp add: acquire_topology_def)

lemma release_example [simp]:
  "release_topology 0x9000 p w =
     (if p = 0x9080 then w\<lparr>mem := store_u64 (mem w) 0x90D8 (release_count w + 1)\<rparr> else w)"
  by (simp add: release_topology_def)

lemma unat_Suc: "x \<noteq> UINT64_MAX \<Longrightarrow> unat (x + 1) = Suc (unat (x :: u64))"
  by (subst add.commute, rule unatSuc) (auto simp: add_eq_0_iff)

interpretation example: discovery_provider example_provider
    "\<lambda>w. unat (release_count w)" "\<lambda>w. release_count w \<noteq> UINT64_MAX"
  by unfold_locales (auto simp: example_provider_ok borrowed_def unat_Suc)


lemma discovery_refresh_main_eq:
  "discovery_refresh_main w =
     (case solana_delivery_client_create True (w\<lparr>mem := initialize_provider_state 0x9000 (mem w)\<rparr>) of
        (st, out, w1) \<Rightarrow>
        if st \<noteq> SOLANA_DELIVERY_STATUS_OK then (1, w1)
        else case solana_delivery_client_refresh_topology (case out of None \<Rightarrow> None | Some c \<Rightarrow> c)
            (Some example_provider) w1 of (st2, c2, w2) \<Rightarrow>
          (if st2 = SOLANA_DELIVERY_STATUS_OK \<and> release_count (solana_delivery_client_destroy c2 w2) = 1
           then 0 else 1, solana_delivery_client_destroy c2 w2))"
  by (simp add: discovery_refresh_main_def Let_def split: prod.splits)

text \<open>C23: The discovery example, from every memory, heap and clock: it exits with 0 or 1, every
  block it allocated is returned and no free is invalid; once the client exists the
  borrowed snapshot has been released exactly once, whether or not it was installed; it
  exits with 0 when five allocations succeed and the clock gives a valid reading before its
  last representable second (\<open>tv_sec\<close> below 18446744073, see \<open>Monotonic_Clock\<close>).\<close>

theorem discovery_refresh_main_outcome:
  assumes "discovery_refresh_main w = (r, w')"
  shows "r \<in> {0, 1} \<and> libc_live w' = libc_live w \<and> heap_faults w' = heap_faults w \<and>
    (heap_ready 1 w \<longrightarrow> release_count w' = 1) \<and>
    (heap_ready 5 w \<and> clock_script w = reading # rest \<and> valid_reading reading \<and>
       unat (fst (snd reading)) < 18446744073 \<longrightarrow> r = 0)"
proof -
  define w0 where "w0 = w\<lparr>mem := initialize_provider_state 0x9000 (mem w)\<rparr>"
  have w0: "release_count w0 = 0" "topology_ok (mem w0) 0x9080"
    "libc_live w0 = libc_live w" "heap_faults w0 = heap_faults w" "clock_script w0 = clock_script w"
    by (simp_all add: w0_def provider_topology_ok provider_release_count)
  have ready: "heap_ready n w0 \<longleftrightarrow> heap_ready n w" for n
    by (simp add: w0_def heap_ready_def heap_serves_def)
  obtain st out w1 where c: "solana_delivery_client_create True w0 = (st, out, w1)"
    by (cases "solana_delivery_client_create True w0")
  from c show ?thesis
  proof (cases rule: system_create)
    case 1
    have "\<not> heap_ready (Suc n) w" for n
    proof
      assume "heap_ready (Suc n) w"
      then have "heap_ready (Suc n) w0" by (simp add: ready)
      from create_ready [OF this] show False using c 1(1) by auto
    qed
    from this [of 0] this [of 4] have "\<not> heap_ready 1 w" "\<not> heap_ready 5 w" by simp_all
    moreover have "r = 1" "w' = w1"
      using discovery_refresh_main_eq [of w] assms c 1(1,2) by (simp_all add: w0_def)
    ultimately show ?thesis using 1 w0 by simp
  next
    case (2 p)
    let ?c = "fresh_client p SYSTEM_ALLOCATOR system_monotonic_time_ns NULL"
    obtain st' c' w2 where f: "solana_delivery_client_refresh_topology (Some ?c) (Some example_provider) w1 =
        (st', c', w2)"
      by (cases "solana_delivery_client_refresh_topology (Some ?c) (Some example_provider) w1")
    have "unat (release_count w2) = 1" and rel: "c' \<noteq> None" "heap_exact (the c') (libc_live w) w2"
        "heap_faults w2 = heap_faults w" "system_client (the c')"
      using example.refresh_releases [OF f _ 2(7)] 2(5,6) w0 by (auto simp: borrowed_def)
    then have one: "release_count w2 = 1" by (simp add: word_eq_iff_unsigned [where ?'a = nat])
    from rel obtain d where d: "c' = Some d" by auto
    have w': "w' = solana_delivery_client_destroy c' w2" "r = (if st' = 0 \<and> release_count w' = 1 then 0 else 1)"
      using discovery_refresh_main_eq [of w] assms c 2(1,2) f by (simp_all add: w0_def)
    have "libc_live w' = libc_live w" "heap_faults w' = heap_faults w" "mem w' = mem w2"
      using sys.destroy_accounts [of d w2] rel d by (auto simp: w' system_client_def heap_exact_def)
    moreover have "st' = 0" if "heap_ready 5 w" "clock_script w = reading # rest" "valid_reading reading"
       "unat (fst (snd reading)) < 18446744073"
    proof -
      have "heap_ready (Suc (Suc (Suc (Suc (Suc 0))))) w0" using that(1) ready by (simp add: numeral_eq_Suc)
      from create_ready [OF this] c 2(1,2) have h: "heap_ready (Suc (Suc (Suc (Suc 0)))) w1"
        "clock_script w1 = clock_script w0" by auto
      have ok: "topology_ok (mem w1) 0x9080" using w0(2) 2(5) by simp
      have "\<exists>c2 w3. solana_delivery_client_install_topology (Some ?c) 0x9080 w1 = (0, c2, w3)"
        using install_ready [OF fresh_system ok _ h(1), of p NULL reading rest] h(2) w0(5) that(2-4)
        by (metis fresh_client_simps(4))
      then show ?thesis
        using f by (auto simp add: solana_delivery_client_refresh_topology_def validate_provider_ok
            example_provider_ok)
    qed
    ultimately show ?thesis using one w'(2) by auto
  qed
qed

definition refresh_world :: "unit world" where
  "refresh_world = example_world\<lparr>mem := initialize_provider_state 0x9000 (\<lambda>_. 0)\<rparr>"

lemma discovery_refresh_main_outcome_witness:
  "\<exists>w'. discovery_refresh_main (example_world\<lparr>heap_live := []\<rparr>) = (0, w') \<and>
     release_count w' = 1 \<and> libc_live w' = {#}"
proof -
  let ?w = "example_world\<lparr>heap_live := []\<rparr>"
  obtain r w' where m: "discovery_refresh_main ?w = (r, w')" by (cases "discovery_refresh_main ?w")
  have "heap_serves [0x200] ?w" "heap_serves [0x200, 0x300, 0x400, 0x500, 0x600] ?w"
    by (simp_all add: heap_serves_def example_world_def upt_conv_Cons)
  then have "heap_ready 1 ?w" "heap_ready 5 ?w"
    unfolding heap_ready_def
    by (metis length_Cons list.size(3) One_nat_def, intro exI [of _ "[0x200, 0x300, 0x400, 0x500, 0x600]"]) simp
  with discovery_refresh_main_outcome [OF m, of "(True, 1, 0)" "[(True, 2, 0), (True, 3, 0)]"] m
  show ?thesis by (simp add: example_world_def valid_reading_def)
qed

text \<open>Witnesses of the protocol, with this provider.\<close>

lemma refresh_protocol_witness:
  "\<exists>ow w'. solana_delivery_client_refresh_topology (Some example_client) (Some example_provider)
      refresh_world = (SOLANA_DELIVERY_STATUS_OK,
        Some (example_client\<lparr>cl_topology := ow, cl_has_topology := True\<rparr>), w') \<and>
    copied_topology (mem refresh_world) (load_topology (mem refresh_world) 0x9080) ow \<and>
    release_count w' = 1"
proof -
  obtain st c' w' where r: "solana_delivery_client_refresh_topology (Some example_client)
      (Some example_provider) refresh_world = (st, c', w')"
    by (cases "solana_delivery_client_refresh_topology (Some example_client) (Some example_provider) refresh_world")
  have a: "the (pv_acquire (snd example_provider)) (pv_context (snd example_provider)) True refresh_world =
      (0, Some 0x9080, refresh_world)" by simp
  have h: "heap_exact example_client {#} refresh_world"
    using example_heap_exact by (simp add: refresh_world_def heap_exact_def)
  have ok: "topology_ok (mem refresh_world) 0x9080"
    by (simp add: refresh_world_def provider_topology_ok)
  have "heap_serves [0x200, 0x300, 0x400, 0x500] refresh_world"
    by (simp add: heap_serves_def refresh_world_def example_world_def upt_conv_Cons)
  then have ready: "heap_ready 4 refresh_world"
    unfolding heap_ready_def by (intro exI [of _ "[0x200, 0x300, 0x400, 0x500]"]) simp
  have clock: "\<exists>r rest. clock_script refresh_world = r # rest \<and> valid_reading r \<and> unat (fst (snd r)) < 18446744073"
    by (simp add: refresh_world_def example_world_def valid_reading_def)
  obtain w2 where w2: "w' = release_topology 0x9000 0x9080 w2" "mem w2 = mem refresh_world"
    and st: "st = SOLANA_DELIVERY_STATUS_OK"
    and ow: "\<exists>ow. c' = Some (example_client\<lparr>cl_topology := ow, cl_has_topology := True\<rparr>) \<and>
      owned_consistent ow \<and>
      copied_topology (mem refresh_world) (load_topology (mem refresh_world) 0x9080) ow"
    using refresh_protocol [OF r example_provider_ok a _ h] ok ready clock
    by (auto simp del: release_example)
  have "release_count w' = 1"
    using w2 by (simp add: refresh_world_def provider_release_count)
  with r st ow show ?thesis by blast
qed

lemma refresh_rejects_descriptor_witness:
  "solana_delivery_client_refresh_topology (Some example_client)
     (Some (0xA000, (snd example_provider)\<lparr>pv_flags := 1\<rparr>)) refresh_world =
   (SOLANA_DELIVERY_STATUS_UNSUPPORTED, Some example_client, refresh_world)"
  using refresh_rejects_descriptor [of "0xA000" "(snd example_provider)\<lparr>pv_flags := 1\<rparr>"
      example_client refresh_world]
  by (simp add: provider_ok_def) (simp add: example_provider_def)

end
