(* ===== verification/Local_Acceptance.thy ===== *)
theory Local_Acceptance
  imports Session Example_Programs
begin

text \<open>
  \<open>examples/delivery_local_acceptance.c\<close>: \<open>main\<close> creates a client, installs a topology,
  submits one transaction, polls its event and destroys the client. Its run is also the
  start of the concrete session the witnesses use.
\<close>

section \<open>The code\<close>

text \<open>
  The locals of \<open>main\<close>: \<open>topology\<close> at 0x1000, \<open>validator\<close> at 0x2000, \<open>endpoint\<close> at 0x3000,
  \<open>association\<close> at 0x4000, \<open>leader\<close> at 0x5000, \<open>transaction\<close> at 0x6000, \<open>options\<close> at
  0x7000, \<open>request_id\<close> at 0x8000, \<open>event\<close> at 0xB000, \<open>event_count\<close> at 0xC000.
\<close>

definition store_topology_locals :: "memory \<Rightarrow> memory" where
  "store_topology_locals m =
     (let validator = (validator_of_bytes (replicate 48 0))
            \<lparr>va_struct_size := of_nat (c_sizeof validator_layout)\<rparr>;
          m = store_bytes m 0x2000 (bytes_of_validator validator);
          endpoint = endpoint_of_bytes (replicate 32 0);
          endpoint = endpoint\<lparr>ep_struct_size := of_nat (c_sizeof endpoint_layout),
            ep_address_family := SOLANA_DELIVERY_ADDRESS_IPV4,
            ep_transport := SOLANA_DELIVERY_TRANSPORT_QUIC,
            ep_role := SOLANA_DELIVERY_ENDPOINT_ROLE_TPU, ep_port := 8000,
            ep_address := (ep_address endpoint)[0 := 127, 3 := 1]\<rparr>;
          m = store_bytes m 0x3000 (bytes_of_endpoint endpoint);
          association = (validator_endpoint_of_bytes (replicate 16 0))
            \<lparr>ve_struct_size := of_nat (c_sizeof validator_endpoint_layout),
             ve_validator_index := 0, ve_endpoint_index := 0\<rparr>;
          m = store_bytes m 0x4000 (bytes_of_validator_endpoint association);
          leader = (leader_of_bytes (replicate 32 0))\<lparr>ld_struct_size := of_nat (c_sizeof leader_layout),
            ld_validator_index := 0, ld_first_slot := 10, ld_last_slot := 10\<rparr>;
          m = store_bytes m 0x5000 (bytes_of_leader leader);
          topology = (topology_of_bytes (replicate 88 0))
            \<lparr>tp_struct_size := of_nat (c_sizeof topology_layout), tp_generation := 1,
             tp_current_slot := 10,
             tp_validators := 0x2000, tp_validator_count := 1,
             tp_validator_stride := of_nat (c_sizeof validator_layout),
             tp_endpoints := 0x3000, tp_endpoint_count := 1,
             tp_endpoint_stride := of_nat (c_sizeof endpoint_layout),
             tp_validator_endpoints := 0x4000, tp_validator_endpoint_count := 1,
             tp_validator_endpoint_stride := of_nat (c_sizeof validator_endpoint_layout),
             tp_leaders := 0x5000, tp_leader_count := 1,
             tp_leader_stride := of_nat (c_sizeof leader_layout)\<rparr>
      in store_bytes m 0x1000 (bytes_of_topology topology))"

definition store_submission_locals :: "memory \<Rightarrow> memory" where
  "store_submission_locals m =
     (let m = store_bytes m 0x6000 [1];
          options = (submit_options_of_bytes (replicate 24 0))
            \<lparr>so_struct_size := of_nat (c_sizeof submit_options_layout),
             so_flags := SOLANA_DELIVERY_SUBMIT_FLAGS_NONE,
             so_max_topology_age_ns := 60000000000, so_target_limit := 1\<rparr>;
          m = store_bytes m 0x7000 (bytes_of_submit_options options)
      in store_u64 m 0x8000 SOLANA_DELIVERY_REQUEST_ID_NONE)"

definition valid_event :: "memory \<Rightarrow> bool" where
  "valid_event m =
     (let event = event_of_bytes (load_bytes m 0xB000 64); request_id = load_u64 m 0x8000 in
      load_u64 m 0xC000 = 1 \<and> request_id \<noteq> SOLANA_DELIVERY_REQUEST_ID_NONE \<and>
      ev_event_class event = SOLANA_DELIVERY_EVENT_CLASS_REQUEST \<and>
      ev_event_code event = SOLANA_DELIVERY_REQUEST_EVENT_ACCEPTED \<and>
      ev_request_id event = request_id \<and> ev_attempt_id event = SOLANA_DELIVERY_ATTEMPT_ID_NONE)"

definition local_acceptance_main :: "'u world \<Rightarrow> int \<times> 'u world" where
  "local_acceptance_main w =
     (let w = w\<lparr>mem := store_topology_locals (mem w)\<rparr>;
          (status, out, w) = solana_delivery_client_create True w;
          client = (case out of None \<Rightarrow> None | Some c \<Rightarrow> c) in
      if status \<noteq> SOLANA_DELIVERY_STATUS_OK then (1, w)
      else
      let (status, client, w) = solana_delivery_client_install_topology client 0x1000 w in
      if status \<noteq> SOLANA_DELIVERY_STATUS_OK then (1, solana_delivery_client_destroy client w)
      else
      let w = w\<lparr>mem := store_submission_locals (mem w)\<rparr>;
          (status, client, w) = solana_delivery_client_submit client 0x6000 1 0x7000 0x8000 w in
      if status \<noteq> SOLANA_DELIVERY_STATUS_OK then (1, solana_delivery_client_destroy client w)
      else
      let m = store_u64 (store_bytes (mem w) 0xB000 (replicate 64 0)) 0xC000 0;
          (status, client, m) = solana_delivery_client_poll_events client 0xB000 1
            (of_nat (c_sizeof event_layout)) 0xC000 m;
          w = w\<lparr>mem := m\<rparr> in
      if status \<noteq> SOLANA_DELIVERY_STATUS_OK then (1, solana_delivery_client_destroy client w)
      else
      let valid = valid_event (mem w);
          w = solana_delivery_client_destroy client w
      in (if valid then 0 else 1, w))"

lemma topology_locals:
  "load_topology (store_topology_locals m) 0x1000 = example_topology"
  "load_association (store_topology_locals m) 0x4000 = example_association"
  "load_leader (store_topology_locals m) 0x5000 = example_leader"
  "topology_ok (store_topology_locals m) 0x1000"
proof -
  have e: "store_topology_locals m =
     store_bytes (store_bytes (store_bytes (store_bytes (store_bytes m
       0x2000 (bytes_of_validator example_validator))
       0x3000 (bytes_of_endpoint example_endpoint))
       0x4000 (bytes_of_validator_endpoint example_association))
       0x5000 (bytes_of_leader example_leader))
       0x1000 (bytes_of_topology example_topology)"
    unfolding store_topology_locals_def Let_def
    by (simp add: zeroed_simps loopback_address example_validator_def example_endpoint_def
        example_association_def example_leader_def topology_of_bytes_def example_topology_def)
  show t: "load_topology (store_topology_locals m) 0x1000 = example_topology"
    by (simp add: e load_store_whole topology.decode_encode)
  show a: "load_association (store_topology_locals m) 0x4000 = example_association"
    and l: "load_leader (store_topology_locals m) 0x5000 = example_leader"
    by (simp_all add: e load_store_whole load_store_disjoint disjoint_regions_def
      validator_endpoint.decode_encode leader.decode_encode)
  have "load_validator (store_topology_locals m) 0x2000 = example_validator"
    "load_endpoint (store_topology_locals m) 0x3000 = example_endpoint"
    by (simp_all add: e load_store_whole load_store_disjoint disjoint_regions_def
      validator.decode_encode endpoint.decode_encode)
  with t a l show "topology_ok (store_topology_locals m) 0x1000"
    using example_elements_ok
    by (simp add: topology_ok_def validators_ok_def endpoints_ok_def associations_ok_def
        leaders_ok_def layouts_ok_def layout_ok_def array_element_def)
     (simp add: example_topology_def)
qed

text \<open>The client's copy of that topology routes slot 10 to its one endpoint.\<close>

lemma copied_locals:
  assumes "copied_topology (store_topology_locals m) example_topology ow"
  shows "tp_current_slot (ot_view ow) = 10" "slot_candidates ow 10 = [example_candidate]"
proof -
  have v: "tp_current_slot (ot_view ow) = 10" "tp_leader_count (ot_view ow) = 1"
    "tp_validator_endpoint_count (ot_view ow) = 1"
    "bl_data (ot_validator_endpoints ow) = [example_association]" "bl_data (ot_leaders ow) = [example_leader]"
    using assms topology_locals [of m]
    by (simp_all add: copied_topology_def example_topology_def array_prefixes_def array_element_def)
      (simp_all add: example_association_def example_leader_def)
  then show "tp_current_slot (ot_view ow) = 10" by simp
  show "slot_candidates ow 10 = [example_candidate]"
    using v by (simp add: slot_candidates_def slot_pairs_def candidate_of_def index_list_def leads_def
      associated_def leader_contains_slot_def example_leader_def example_association_def
      example_candidate_def)
qed

lemma submission_locals:
  "load_options (store_u64 (store_submission_locals m) 0x8000 x) 0x7000 = example_options"
  "options_ok (store_u64 (store_submission_locals m) 0x8000 x) 0x7000"
proof -
  have z: "(submit_options_of_bytes (replicate 24 0))
      \<lparr>so_struct_size := 24, so_flags := 0, so_max_topology_age_ns := 60000000000, so_target_limit := 1\<rparr> =
    example_options"
    by (simp add: submit_options_of_bytes_def example_options_def)
  show l: "load_options (store_u64 (store_submission_locals m) 0x8000 x) 0x7000 = example_options"
    by (simp add: store_submission_locals_def Let_def z load_store_disjoint load_store_whole
        disjoint_regions_def submit_options.decode_encode)
  show "options_ok (store_u64 (store_submission_locals m) 0x8000 x) 0x7000"
    by (simp add: options_ok_def l) (simp add: example_options_def)
qed

text \<open>The local acceptance program, from every memory, heap and clock: it exits with 0
  or 1, returns every block it allocated, on whichever path it leaves, and frees
  nothing invalid.\<close>

lemma local_acceptance_no_leak:
  assumes "local_acceptance_main w = (r, w')"
  shows "r \<in> {0, 1} \<and> libc_live w' = libc_live w \<and> heap_faults w' = heap_faults w"
proof -
  define w0 where "w0 = w\<lparr>mem := store_topology_locals (mem w)\<rparr>"
  have w0: "libc_live w0 = libc_live w" "heap_faults w0 = heap_faults w" by (simp_all add: w0_def)
  obtain st out w1 where c: "solana_delivery_client_create True w0 = (st, out, w1)"
    by (cases "solana_delivery_client_create True w0")
  show ?thesis
  proof (cases "st = 0")
    case False
    from c show ?thesis
    proof (cases rule: system_create)
      case 1
      with assms c w0 show ?thesis
        unfolding local_acceptance_main_def w0_def [symmetric] by simp
    qed (use False in simp)
  next
    case True
    then obtain c1 where out: "out = Some c1" and k1: "client_in (libc_live w) c1 w1" "heap_faults w1 = heap_faults w"
      using create_keeps [of w0 out w1] c w0 by auto
    then obtain d1 where d1: "c1 = Some d1" by (auto simp: client_in_def)
    obtain st2 c2 w2 where i: "solana_delivery_client_install_topology (Some d1) 0x1000 w1 = (st2, c2, w2)"
      by (cases "solana_delivery_client_install_topology (Some d1) 0x1000 w1")
    have k2: "client_in (libc_live w) c2 w2" "heap_faults w2 = heap_faults w"
      using install_keeps [OF i] k1 d1 by auto
    define w3 where "w3 = w2\<lparr>mem := store_submission_locals (mem w2)\<rparr>"
    obtain d2 where d2: "c2 = Some d2" and k3: "client_in (libc_live w) (Some d2) w3" "heap_faults w3 = heap_faults w"
      using k2 by (auto simp: client_in_def w3_def heap_exact_def)
    obtain st3 c3 w4 where s: "solana_delivery_client_submit (Some d2) 0x6000 1 0x7000 0x8000 w3 = (st3, c3, w4)"
      by (cases "solana_delivery_client_submit (Some d2) 0x6000 1 0x7000 0x8000 w3")
    have k4: "client_in (libc_live w) c3 w4" "heap_faults w4 = heap_faults w"
      using submit_keeps [OF s] k3 by auto
    define w5 where "w5 = w4\<lparr>mem := store_u64 (store_bytes (mem w4) 0xB000 (replicate 64 0)) 0xC000 0\<rparr>"
    obtain d3 where d3: "c3 = Some d3" and k5: "client_in (libc_live w) (Some d3) w5" "heap_faults w5 = heap_faults w"
      using k4 by (auto simp: client_in_def w5_def heap_exact_def)
    obtain st4 c4 m4 where p: "solana_delivery_client_poll_events (Some d3) 0xB000 1 64 0xC000 (mem w5) = (st4, c4, m4)"
      by (cases "solana_delivery_client_poll_events (Some d3) 0xB000 1 64 0xC000 (mem w5)")
    note k6 = poll_keeps [OF p k5(1)]
    have m6: "w5\<lparr>mem := m4\<rparr> = w4\<lparr>mem := m4\<rparr>" by (simp add: w5_def)
    have "local_acceptance_main w =
      (if st2 \<noteq> 0 then (1, solana_delivery_client_destroy c2 w2)
       else if st3 \<noteq> 0 then (1, solana_delivery_client_destroy c3 w4)
       else if st4 \<noteq> 0 then (1, solana_delivery_client_destroy c4 (w4\<lparr>mem := m4\<rparr>))
       else (if valid_event m4 then 0 else 1, solana_delivery_client_destroy c4 (w4\<lparr>mem := m4\<rparr>)))"
      unfolding local_acceptance_main_def Let_def w0_def [symmetric]
      using c True out d1 i d2 s [unfolded w3_def] d3 p [unfolded w5_def]
      by simp
    then show ?thesis
      using assms destroy_exact [OF k2(1)] destroy_exact [OF k4(1)] destroy_exact [OF k6] k2 k4 k5 m6
      by (auto split: if_splits simp: w5_def)
  qed
qed
text \<open>The calls of the program when nothing fails.\<close>

definition good_reading :: "bool \<times> u64 \<times> u64 \<Rightarrow> bool" where
  "good_reading r \<longleftrightarrow> valid_reading r \<and> unat (fst (snd r)) < 18446744073"

lemma good_clock:
  assumes "clock_script w = r # rest" "good_reading r"
  obtains t where "system_monotonic_time_ns ctx True w = (SOLANA_DELIVERY_STATUS_OK, Some t, w\<lparr>clock_script := rest\<rparr>)"
    "unat t = reading_ns r"
  using assms reading_sum [of "fst r" "fst (snd r)" "snd (snd r)"]
  by (auto simp: good_reading_def system_clock_eq clock_gettime_def)

lemma acceptance_run:
  fixes w :: "'u world"
  assumes "heap_ready 10 w" "clock_script w = r1 # r2 # r3 # rest"
    and "good_reading r1" "good_reading r2" "good_reading r3"
    and "reading_ns r1 \<le> reading_ns r2" "reading_ns r2 - reading_ns r1 \<le> 60000000000"
    and "reading_ns r1 \<le> reading_ns r3"
  defines "w0 \<equiv> w\<lparr>mem := store_topology_locals (mem w)\<rparr>"
  obtains c1 w1 c2 w2 c3 w4 t where
    "solana_delivery_client_create True w0 = (SOLANA_DELIVERY_STATUS_OK, Some (Some c1), w1)"
    "solana_delivery_client_install_topology (Some c1) 0x1000 w1 = (SOLANA_DELIVERY_STATUS_OK, Some c2, w2)"
    "solana_delivery_client_submit (Some c2) 0x6000 1 0x7000 0x8000
       (w2\<lparr>mem := store_submission_locals (mem w2)\<rparr>) = (SOLANA_DELIVERY_STATUS_OK, Some c3, w4)"
    "client_ok c3" "queue_events (cl_event_queue c3) = [accepted_event 1 t]" "load_u64 (mem w4) 0x8000 = 1"
proof -
  have ten: "heap_ready (Suc (Suc (Suc (Suc (Suc 5))))) w0"
    using assms(1) by (simp add: w0_def heap_ready_def heap_serves_def)
  have m0: "mem w0 = store_topology_locals (mem w)" by (simp add: w0_def)
  obtain p w1 where c: "solana_delivery_client_create True w0 = (SOLANA_DELIVERY_STATUS_OK,
      Some (Some (fresh_client p SYSTEM_ALLOCATOR system_monotonic_time_ns NULL)), w1)"
    "heap_ready (Suc (Suc (Suc (Suc 5)))) w1" "mem w1 = mem w0" "clock_script w1 = clock_script w0"
    using create_ready [OF ten] .
  let ?c1 = "fresh_client p SYSTEM_ALLOCATOR system_monotonic_time_ns NULL :: 'u solana_delivery_client_t"
  have in1: "client_in (libc_live w0) (Some ?c1) w1" using create_keeps [OF c(1)] by simp
  have ok: "topology_ok (mem w1) 0x1000" using topology_locals(4) by (simp add: c(3) m0)
  have cl: "clock_script w1 = r1 # r2 # r3 # rest" using c(4) assms(2) by (simp add: w0_def)
  have gen: "cl_has_topology ?c1 \<Longrightarrow> tp_generation (ot_view (cl_topology ?c1)) <
      tp_generation (load_topology (mem w1) 0x1000)" by simp
  obtain ow w2 where i: "solana_delivery_client_install_topology (Some ?c1) 0x1000 w1 =
      (SOLANA_DELIVERY_STATUS_OK, Some (?c1\<lparr>cl_topology := ow, cl_has_topology := True\<rparr>), w2)"
    "heap_ready 5 w2" "mem w2 = mem w1" "clock_script w2 = r2 # r3 # rest"
    "unat (ot_received_monotonic_ns ow) = reading_ns r1"
    using install_ready [OF fresh_system ok gen c(2) cl] assms(3) by (auto simp: good_reading_def)
  let ?c2 = "?c1\<lparr>cl_topology := ow, cl_has_topology := True\<rparr>"
  have in2: "client_in (libc_live w0) (Some ?c2) w2" using install_keeps [OF i(1) in1] by simp
  then have ok2: "client_ok ?c2" by simp
  have "system_client ?c1" "heap_exact ?c1 (libc_live w0) w1" using in1 by simp_all
  from system_install [OF i(1) this] have "copied_topology (store_topology_locals (mem w)) example_topology ow"
    by (auto simp: c(3) m0 topology_locals dest: arg_cong [where f = cl_topology])
  note routed = copied_locals [OF this]
  define w3 where "w3 = w2\<lparr>mem := store_submission_locals (mem w2)\<rparr>"
  let ?w3 = "w3\<lparr>mem := store_u64 (mem w3) 0x8000 0\<rparr>"
  obtain t1 where t1: "system_monotonic_time_ns (cl_monotonic_time_context ?c2) True ?w3 =
      (0, Some t1, ?w3\<lparr>clock_script := r3 # rest\<rparr>)" "unat t1 = reading_ns r2"
    by (rule good_clock [of ?w3 r2 "r3 # rest"]) (use i(4) assms(4) in \<open>simp_all add: w3_def\<close>)
  have "heap_ready 5 w3" using i(2) by (simp add: w3_def heap_ready_def heap_serves_def)
  then obtain p1 p2 p3 p4 p5 where hs: "heap_serves [p1, p2, p3, p4, p5] w3"
    by (auto simp: heap_ready_def length_Suc_conv numeral_eq_Suc)
  have opts: "options_ok (mem ?w3) 0x7000" "load_options (mem ?w3) 0x7000 = example_options"
    using submission_locals by (simp_all add: w3_def)
  have "fresh_at ?c2 (so_max_topology_age_ns (load_options (mem ?w3) 0x7000)) t1"
    using assms(6,7) t1(2) i(5) unfolding opts(2) by (simp add: fresh_at_def example_options_def)
  moreover have "slot_candidates ow (tp_current_slot (ot_view ow)) = [example_candidate]"
    using routed by simp
  ultimately obtain c3 w4 where s: "solana_delivery_client_submit (Some ?c2) 0x6000 1 0x7000 0x8000 w3 =
      (SOLANA_DELIVERY_STATUS_OK, c3, w4)"
    using submit_run [of ?c2 "0x8000" "0x6000" 1 ?w3 w3 "0x7000" p1 p2 p3 p4 p5 t1 _ r3 rest]
      client_okD [OF ok2] opts(1) hs t1(1) assms(5,8) i(5)
    by (auto simp: pointer_is_aligned_for_def good_reading_def)
  have in3: "client_in (libc_live w0) (Some ?c2) w3" using in2 by (simp add: w3_def heap_exact_def)
  have "client_in (libc_live w0) c3 w4" using submit_keeps [OF s in3] by simp
  then obtain d3 where d3: "c3 = Some d3" "client_ok d3" by (auto simp: client_in_def)
  have sub: "\<exists>t. queue_events (cl_event_queue d3) = [accepted_event 1 t] \<and> load_u64 (mem w4) 0x8000 = 1"
    using system_submit [OF s] client_okD [OF ok2] d3(1) by (auto simp: after_accept_def)
  then obtain t where "queue_events (cl_event_queue d3) = [accepted_event 1 t]" "load_u64 (mem w4) 0x8000 = 1"
    by blast
  then show thesis using c(1) i(1) s d3 unfolding w3_def by (intro that) simp_all
qed

text \<open>C40: The local acceptance program exits with 0 whenever ten allocations succeed and the
  clock gives three valid readings before its last representable second (\<open>tv_sec\<close> below
  18446744073), of which the first is the smallest and the second at most a minute later.\<close>

theorem local_acceptance_exits_zero:
  assumes "heap_ready 10 w" "clock_script w = r1 # r2 # r3 # rest"
    and "good_reading r1" "good_reading r2" "good_reading r3"
    and "reading_ns r1 \<le> reading_ns r2" "reading_ns r2 - reading_ns r1 \<le> 60000000000"
    and "reading_ns r1 \<le> reading_ns r3"
  shows "fst (local_acceptance_main w) = 0"
proof -
  define w0 where "w0 = w\<lparr>mem := store_topology_locals (mem w)\<rparr>"
  obtain c1 w1 c2 w2 c3 w4 t where
    c: "solana_delivery_client_create True w0 = (SOLANA_DELIVERY_STATUS_OK, Some (Some c1), w1)" and
    i: "solana_delivery_client_install_topology (Some c1) 0x1000 w1 = (SOLANA_DELIVERY_STATUS_OK, Some c2, w2)" and
    s: "solana_delivery_client_submit (Some c2) 0x6000 1 0x7000 0x8000
       (w2\<lparr>mem := store_submission_locals (mem w2)\<rparr>) = (SOLANA_DELIVERY_STATUS_OK, Some c3, w4)" and
    q: "client_ok c3" "queue_events (cl_event_queue c3) = [accepted_event 1 t]" "load_u64 (mem w4) 0x8000 = 1"
    using acceptance_run [OF assms] unfolding w0_def by metis
  define m5 where "m5 = store_u64 (store_bytes (mem w4) 0xB000 (replicate 64 0)) 0xC000 0"
  have args: "poll_arguments_ok 0xB000 1 64 0xC000"
    by (simp add: poll_arguments_ok_def pointer_is_aligned_for_def)
  obtain q' m6 where p: "solana_delivery_client_poll_events (Some c3) 0xB000 1 64 0xC000 m5 =
      (SOLANA_DELIVERY_STATUS_OK, Some (c3\<lparr>cl_event_queue := q'\<rparr>), m6)"
    "unat (load_u64 m6 0xC000) = 1" "event_of_bytes (load_bytes m6 0xB000 64) = accepted_event 1 t"
    "\<forall>x. \<not> in_region x 0xC000 8 \<and> \<not> in_region x 0xB000 64 \<longrightarrow> m6 x = m5 x"
    using poll_transfers [OF client_okD(2) [OF q(1)] args refl, of m5] q(2)
    by (auto simp: disjoint_regions_def)
  have "load_bytes m6 0x8000 8 = load_bytes m5 0x8000 8"
    using p(4) in_region_disjoint [of _ "0x8000" 8 "0xC000" 8] in_region_disjoint [of _ "0x8000" 8 "0xB000" 64]
    by (intro load_bytes_cong) (auto simp: disjoint_regions_def)
  then have "load_u64 m6 0x8000 = 1" using q(3)
    by (simp add: m5_def load_store_disjoint disjoint_regions_def)
  moreover have "load_u64 m6 0xC000 = 1" using p(2) by (simp add: word_eq_iff_unsigned [where ?'a = nat])
  ultimately have "valid_event m6" using p(3) by (simp add: valid_event_def Let_def accepted_event_def)
  then show ?thesis
    unfolding local_acceptance_main_def Let_def w0_def [symmetric]
    using c i s p(1) [unfolded m5_def] by simp
qed

section \<open>Witnesses\<close>

definition acceptance_world :: "unit world" where
  "acceptance_world =
     \<lparr>mem = (\<lambda>_. 0xFF), heap_live = [], heap_supply = map (\<lambda>i. 0x100 * of_nat i) [1..<11],
      heap_faults = 0, clock_script = [(True, 1, 0), (True, 2, 0), (True, 3, 0)], user = ()\<rparr>"

lemma acceptance_ready:
  "heap_ready 10 acceptance_world"
  "clock_script acceptance_world = (True, 1, 0) # (True, 2, 0) # (True, 3, 0) # []"
  "good_reading (True, 1, 0)" "good_reading (True, 2, 0)" "good_reading (True, 3, 0)"
  "reading_ns (True, 1, 0) \<le> reading_ns (True, 2, 0)"
  "reading_ns (True, 2, 0) - reading_ns (True, 1, 0) \<le> 60000000000"
  "reading_ns (True, 1, 0) \<le> reading_ns (True, 3, 0)"
proof -
  have "heap_serves [0x100, 0x200, 0x300, 0x400, 0x500, 0x600, 0x700, 0x800, 0x900, 0xA00] acceptance_world"
    by (simp add: heap_serves_def acceptance_world_def upt_conv_Cons)
  then show "heap_ready 10 acceptance_world"
    unfolding heap_ready_def
    by (intro exI [of _ "[0x100, 0x200, 0x300, 0x400, 0x500, 0x600, 0x700, 0x800, 0x900, 0xA00]"]) simp
qed (simp_all add: acceptance_world_def good_reading_def valid_reading_def reading_ns_def)

lemma local_acceptance_exits_zero_witness:
  "fst (local_acceptance_main acceptance_world) = 0"
  by (rule local_acceptance_exits_zero [OF acceptance_ready])

lemma local_acceptance_no_leak_witness:
  "libc_live (snd (local_acceptance_main (acceptance_world\<lparr>heap_live := [0x42], clock_script := []\<rparr>))) = {#0x42#}"
  using local_acceptance_no_leak [of "acceptance_world\<lparr>heap_live := [0x42], clock_script := []\<rparr>"]
  by (cases "local_acceptance_main (acceptance_world\<lparr>heap_live := [0x42], clock_script := []\<rparr>)") simp

text \<open>A session after one accepted submission.\<close>

lemma example_session:
  "\<exists>s :: unit session. session_of {#} 0 s \<and> se_ids s = [1] \<and> se_polled s = [] \<and>
     length (se_generations s) = 1 \<and> length (cl_request_head (se_client s)) = 1"
proof -
  define w0 where "w0 = acceptance_world\<lparr>mem := store_topology_locals (mem acceptance_world)\<rparr>"
  obtain c1 w1 c2 w2 c3 w4 t where
    c: "solana_delivery_client_create True w0 = (SOLANA_DELIVERY_STATUS_OK, Some (Some c1), w1)" and
    i: "solana_delivery_client_install_topology (Some c1) 0x1000 w1 = (SOLANA_DELIVERY_STATUS_OK, Some c2, w2)" and
    s: "solana_delivery_client_submit (Some c2) 0x6000 1 0x7000 0x8000
       (w2\<lparr>mem := store_submission_locals (mem w2)\<rparr>) = (SOLANA_DELIVERY_STATUS_OK, Some c3, w4)" and
    q: "load_u64 (mem w4) 0x8000 = 1"
    using acceptance_run [OF acceptance_ready] unfolding w0_def by metis
  define s0 where "s0 = \<lparr>se_client = c1, se_world = w1, se_ids = [], se_polled = [], se_generations = []\<rparr>"
  define s1 where "s1 = s0\<lparr>se_client := c2, se_world := w2,
    se_generations := [tp_generation (ot_view (cl_topology c2))]\<rparr>"
  define s2 where "s2 = s1\<lparr>se_world := w2\<lparr>mem := store_submission_locals (mem w2)\<rparr>\<rparr>"
  define s3 where "s3 = s2\<lparr>se_client := c3, se_world := w4, se_ids := [1]\<rparr>"
  have "session_of {#} 0 s0" unfolding s0_def
    by (rule session_of.create [OF c]) (simp_all add: w0_def acceptance_world_def)
  moreover have "session_step s0 s1"
    using session_step.install [of s0 "0x1000" _ c2 w2] i by (simp add: s0_def s1_def)
  moreover have "session_step s1 s2"
    using session_step.caller [of "w2\<lparr>mem := store_submission_locals (mem w2)\<rparr>" s1]
    by (simp add: s1_def s2_def)
  moreover have "session_step s2 s3"
    using session_step.submit [of s2 "0x6000" 1 "0x7000" "0x8000" _ c3 w4] s q
    by (simp add: s0_def s1_def s2_def s3_def)
  ultimately have of: "session_of {#} 0 s3" using session_of.step by metis
  then have "se_ids s3 = map rq_request_id (rev (cl_request_head (se_client s3)))"
    using session_invariant [OF of] by (simp add: session_inv_def)
  then have "length (cl_request_head (se_client s3)) = 1"
    by (metis length_map length_rev list.size(3) length_Cons One_nat_def s3_def session.select_convs(3) session.surjective session.update_convs(3))
  with of show ?thesis by (intro exI [of _ s3]) (simp add: s3_def s2_def s1_def s0_def)
qed

lemma session_client_ok_witness:
  "\<exists>s :: unit session. client_ok (se_client s) \<and> se_ids s = [1]"
  using example_session session_client_ok by blast

lemma session_fifo_witness:
  "\<exists>s :: unit session. session_of {#} 0 s \<and>
     map ev_request_id (queue_events (cl_event_queue (se_client s))) = [1]"
proof -
  obtain s :: "unit session" where s: "session_of {#} 0 s" "se_ids s = [1]" "se_polled s = []"
    using example_session by blast
  from session_fifo [OF s(1)] s show ?thesis by auto
qed

lemma session_backlog_witness:
  "\<exists>s :: unit session. session_of {#} 0 s \<and> length (se_ids s) = 1 \<and> length (se_ids s) \<le> length (se_polled s) + 64"
proof -
  obtain s :: "unit session" where s: "session_of {#} 0 s" "se_ids s = [1]" using example_session by blast
  from session_backlog [OF s(1)] s show ?thesis by (intro exI [of _ s]) simp
qed

lemma session_generations_witness:
  "\<exists>s :: unit session. session_of {#} 0 s \<and> cl_has_topology (se_client s)"
proof -
  obtain s :: "unit session" where s: "session_of {#} 0 s" "length (se_generations s) = 1"
    using example_session by blast
  from session_generations [OF s(1)] s show ?thesis by auto
qed

lemma session_no_leak_witness:
  "\<exists>s :: unit session. session_of {#} 0 s \<and> se_ids s = [1] \<and>
     libc_live (solana_delivery_client_destroy (Some (se_client s)) (se_world s)) = {#}"
proof -
  obtain s :: "unit session" where s: "session_of {#} 0 s" "se_ids s = [1]" using example_session by blast
  from session_no_leak [OF s(1)] s show ?thesis by blast
qed

lemma session_requests_kept_witness:
  "\<exists>s s' :: unit session. session_step\<^sup>*\<^sup>* s s' \<and> session_of {#} 0 s' \<and>
     length (cl_request_head (se_client s')) \<ge> 1"
proof -
  obtain s :: "unit session" where s: "session_of {#} 0 s" "length (cl_request_head (se_client s)) = 1"
    using example_session by blast
  define s' where "s' = s\<lparr>se_world := (se_world s)\<lparr>mem := \<lambda>_. 0\<rparr>\<rparr>"
  have st: "session_step\<^sup>*\<^sup>* s s'"
    unfolding s'_def by (intro r_into_rtranclp session_step.caller) simp_all
  with session_requests_kept [OF s(1) st] s(2) show ?thesis
    by (intro exI [of _ s] exI [of _ s']) auto
qed

lemma drain_slots:
  "i < unat (64 :: u64) \<Longrightarrow> disjoint_regions (0x10000 + of_nat i * ucast (64 :: u32)) 64 0xC000 8"
proof -
  have "list_all (\<lambda>i. disjoint_regions (0x10000 + of_nat i * ucast (64 :: u32)) 64 0xC000 8) [0..<64]"
    by (simp add: upt_conv_Cons disjoint_regions_def)
  then show "i < unat (64 :: u64) \<Longrightarrow> disjoint_regions (0x10000 + of_nat i * ucast (64 :: u32)) 64 0xC000 8"
    by (simp add: list_all_iff)
qed

lemma drain_arguments: "poll_arguments_ok 0x10000 64 64 0xC000"
  by (simp add: poll_arguments_ok_def pointer_is_aligned_for_def)

lemma session_drains_witness:
  "\<exists>(s :: unit session) c' m'. session_of {#} 0 s \<and>
     solana_delivery_client_poll_events (Some (se_client s)) 0x10000 64 64 0xC000 (mem (se_world s)) =
       (SOLANA_DELIVERY_STATUS_OK, Some c', m') \<and>
     map ev_request_id (events_read m' 0x10000 64 0xC000) = [1] \<and> queue_events (cl_event_queue c') = []"
proof -
  obtain s :: "unit session" where s: "session_of {#} 0 s" "se_ids s = [1]" "se_polled s = []"
    using example_session by blast
  have "64 \<le> unat (64 :: u64)" by simp
  with session_drains [OF s(1) drain_arguments _ drain_slots] s show ?thesis
    by (intro exI [of _ s]) auto
qed

lemma session_refines_witness:
  "\<exists>(s :: unit session) s' returned. session_step s s' \<and>
     spec_step (client_abs (se_client s)) returned [1] (client_abs (se_client s'))"
proof -
  obtain s :: "unit session" where s: "session_of {#} 0 s" "se_ids s = [1]" "se_polled s = []"
    using example_session by blast
  have "64 \<le> unat (64 :: u64)" by simp
  then have "length (queue_events (cl_event_queue (se_client s))) \<le> unat (64 :: u64) \<or> 64 \<le> unat (64 :: u64)" ..
  from drain_step [OF s(1) drain_arguments this drain_slots] obtain s' where
    s': "session_step s s'" "map ev_request_id (se_polled s') = [1]"
    using s(2) by (metis session.select_convs(4) session.surjective session.update_convs(1,2,4))
  from session_refines [OF s(1) s'(1)] s(3) s' show ?thesis
    by (intro exI [of _ s] exI [of _ s']) auto
qed

end
