(* ===== verification/Ingress_Loop.thy ===== *)
theory Ingress_Loop
  imports Ingress
begin

text \<open>
  \<open>solana_ingress_run_local\<close>: socket set-up with its error paths, the receive loop and
  the final close. \<open>iw_delivered\<close> and \<open>iw_closed\<close> are ghost logs of the calls of
  \<open>on_event\<close> and \<open>close\<close>.
\<close>

section \<open>The operating system\<close>

text \<open>
  A call's result is the value it returns and the \<open>errno\<close> it sets when that is
  negative. \<open>recvfrom\<close> on the non-blocking socket takes the next arrival: a datagram,
  cut to the buffer, or an error; with no arrival it fails with \<open>EAGAIN\<close>.
\<close>

datatype arrival = Datagram "u8 list" | Receive_error int

record 'u ingress_world =
  iw_mem :: memory
  iw_errno :: int
  iw_socket :: "int \<times> int"
  iw_setsockopt :: "int \<times> int"
  iw_getfl :: "int \<times> int"
  iw_setfl :: "int \<times> int"
  iw_bind :: "int \<times> int"
  iw_close :: "int \<times> int"
  iw_arrivals :: "arrival list"
  iw_flags :: "int option"
  iw_bound :: "(u32 \<times> u16) option"
  iw_closed :: "int list"
  iw_delivered :: "solana_ingress_event_t list"
  iw_user :: 'u

abbreviation (input) EINVAL :: int where "EINVAL \<equiv> 22"
abbreviation (input) EAGAIN :: int where "EAGAIN \<equiv> 11"
abbreviation (input) EWOULDBLOCK :: int where "EWOULDBLOCK \<equiv> 11"
abbreviation (input) O_NONBLOCK :: int where "O_NONBLOCK \<equiv> 2048"
abbreviation (input) INADDR_LOOPBACK :: u32 where "INADDR_LOOPBACK \<equiv> 0x7F000001"

definition os_result :: "int \<times> int \<Rightarrow> 'u ingress_world \<Rightarrow> int \<times> 'u ingress_world" where
  "os_result r w = (if fst r < 0 then (fst r, w\<lparr>iw_errno := snd r\<rparr>) else (fst r, w))"

definition os_close :: "int \<Rightarrow> 'u ingress_world \<Rightarrow> int \<times> 'u ingress_world" where
  "os_close fd w = os_result (iw_close w) (w\<lparr>iw_closed := iw_closed w @ [fd]\<rparr>)"

text \<open>The locals \<open>buffer\<close> and \<open>event\<close> on the stack of the call.\<close>

abbreviation (input) local_buffer :: addr where "local_buffer \<equiv> 0x10000"
abbreviation (input) local_event :: addr where "local_event \<equiv> 0x20000"

definition os_recvfrom :: "'u ingress_world \<Rightarrow> int \<times> 'u ingress_world" where
  "os_recvfrom w =
     (case iw_arrivals w of [] \<Rightarrow> (-1, w\<lparr>iw_errno := EAGAIN\<rparr>)
      | Receive_error e # rest \<Rightarrow> (-1, w\<lparr>iw_errno := e, iw_arrivals := rest\<rparr>)
      | Datagram bs # rest \<Rightarrow>
          let got = take SOLANA_MAX_DATAGRAM_SIZE bs
          in (int (length got),
              w\<lparr>iw_mem := store_bytes (iw_mem w) local_buffer got, iw_arrivals := rest\<rparr>))"

section \<open>The code\<close>

type_synonym 'u solana_ingress_event_fn = "solana_ingress_event_t \<Rightarrow> addr \<Rightarrow> 'u \<Rightarrow> 'u"
type_synonym 'u solana_ingress_continue_fn = "addr \<Rightarrow> 'u \<Rightarrow> int \<times> 'u"

definition close_preserving_errno ::
  "int \<Rightarrow> int \<Rightarrow> 'u ingress_world \<Rightarrow> int \<times> 'u ingress_world" where
  "close_preserving_errno fd saved_errno w =
     (let (_, w) = os_close fd w in (-1, w\<lparr>iw_errno := saved_errno\<rparr>))"

text \<open>The call of \<open>on_event\<close> with the event in memory.\<close>

definition call_on_event ::
  "'u solana_ingress_event_fn \<Rightarrow> addr \<Rightarrow> 'u ingress_world \<Rightarrow> 'u ingress_world" where
  "call_on_event on_event context w =
     (let e = ingress_event_of_bytes (load_bytes (iw_mem w) local_event 48)
      in w\<lparr>iw_user := on_event e context (iw_user w), iw_delivered := iw_delivered w @ [e]\<rparr>)"

text \<open>The body of the loop: \<open>Inl\<close> the function's result, or \<open>Inr\<close> for the next iteration.\<close>

definition ingress_iteration ::
  "'u solana_ingress_event_fn \<Rightarrow> addr \<Rightarrow> int \<Rightarrow> u64 \<Rightarrow> 'u ingress_world \<Rightarrow>
   (int \<times> 'u ingress_world) + (u64 \<times> 'u ingress_world)" where
  "ingress_iteration on_event event_context sockfd sequence w =
     (let (received, w) = os_recvfrom w in
      if 0 < received then
        let sequence = sequence + 1;
            (ok, m) = solana_ingress_decode local_buffer (of_int received) sequence local_event (iw_mem w);
            w = w\<lparr>iw_mem := m\<rparr>
        in Inr (sequence, if ok then call_on_event on_event event_context w else w)
      else if received < 0 \<and> iw_errno w \<noteq> EAGAIN \<and> iw_errno w \<noteq> EWOULDBLOCK
      then Inl (close_preserving_errno sockfd (iw_errno w) w)
      else Inr (sequence, w))"

partial_function (option) ingress_loop ::
  "'u solana_ingress_event_fn \<Rightarrow> addr \<Rightarrow> 'u solana_ingress_continue_fn \<Rightarrow> addr \<Rightarrow> int \<Rightarrow>
   u64 \<Rightarrow> 'u ingress_world \<Rightarrow> (int \<times> 'u ingress_world) option" where
  "ingress_loop on_event event_context should_continue control_context sockfd sequence w =
     (case should_continue control_context (iw_user w) of (go, u) \<Rightarrow>
        if go = 0 then Some (os_close sockfd (w\<lparr>iw_user := u\<rparr>))
        else (case ingress_iteration on_event event_context sockfd sequence (w\<lparr>iw_user := u\<rparr>) of
                Inl r \<Rightarrow> Some r
              | Inr (sequence', w') \<Rightarrow>
                  ingress_loop on_event event_context should_continue control_context sockfd
                    sequence' w'))"

definition solana_ingress_run_local ::
  "u16 \<Rightarrow> 'u solana_ingress_event_fn option \<Rightarrow> addr \<Rightarrow> 'u solana_ingress_continue_fn option \<Rightarrow>
   addr \<Rightarrow> 'u ingress_world \<Rightarrow> (int \<times> 'u ingress_world) option" where
  "solana_ingress_run_local port on_event event_context should_continue control_context w =
     (if on_event = None \<or> should_continue = None then Some (-1, w\<lparr>iw_errno := EINVAL\<rparr>)
      else
      let (sockfd, w) = os_result (iw_socket w) w in
      if sockfd < 0 then Some (-1, w)
      else
      let (r, w) = os_result (iw_setsockopt w) w in
      if r < 0 then Some (close_preserving_errno sockfd (iw_errno w) w)
      else
      let (flags, w) = os_result (iw_getfl w) w in
      if flags < 0 then Some (close_preserving_errno sockfd (iw_errno w) w)
      else
      let (r, w) = os_result (iw_setfl w) (w\<lparr>iw_flags := Some (flags OR O_NONBLOCK)\<rparr>) in
      if r < 0 then Some (close_preserving_errno sockfd (iw_errno w) w)
      else
      let (r, w) = os_result (iw_bind w) (w\<lparr>iw_bound := Some (INADDR_LOOPBACK, port)\<rparr>) in
      if r < 0 then Some (close_preserving_errno sockfd (iw_errno w) w)
      else ingress_loop (the on_event) event_context (the should_continue) control_context
             sockfd 0 w)"

section \<open>One iteration\<close>

text \<open>The events a stream of arrivals stands for: every non-empty datagram counts.\<close>

fun accepted_events :: "u64 \<Rightarrow> arrival list \<Rightarrow> solana_ingress_event_t list" where
  "accepted_events n [] = []"
| "accepted_events n (Receive_error e # rs) = accepted_events n rs"
| "accepted_events n (Datagram bs # rs) =
     (if bs = [] then accepted_events n rs
      else (if length bs = 33 \<and> bs ! 32 \<le> SOLANA_TRADE_SIDE_SELL then [wire_event bs (n + 1)] else []) @
        accepted_events (n + 1) rs)"

lemma decode_local:
  assumes "bs \<noteq> []"
    and m_def: "m = store_bytes mm local_buffer (take SOLANA_MAX_DATAGRAM_SIZE bs)"
  shows "solana_ingress_decode local_buffer (of_int (int (length (take SOLANA_MAX_DATAGRAM_SIZE bs))))
      n local_event m =
    (if length bs = 33 \<and> bs ! 32 \<le> SOLANA_TRADE_SIDE_SELL
     then (True, store_bytes m local_event (bytes_of_ingress_event (wire_event bs n)))
     else (False, m))"
proof -
  let ?got = "take SOLANA_MAX_DATAGRAM_SIZE bs"
  have len: "(of_int (int (length ?got)) :: usize) = 33 \<longleftrightarrow> length bs = 33"
  proof -
    have "unat (of_nat (length ?got) :: usize) = length ?got" by (intro unat_of_nat_small) simp
    then have "(of_nat (length ?got) :: usize) = 33 \<longleftrightarrow> length ?got = 33"
      by (simp add: word_eq_iff_unsigned [where ?'a = nat] del: length_take)
    also have "\<dots> \<longleftrightarrow> length bs = 33" by (auto simp: min_def)
    finally show ?thesis by (simp add: of_int_of_nat_eq del: length_take)
  qed
  show ?thesis
  proof (cases "length bs = 33")
    case False
    with len show ?thesis by (simp add: decode_rejects del: of_int_of_nat_eq length_take)
  next
    case True
    then have got: "?got = bs" by simp
    have ld: "load_bytes m local_buffer 33 = bs"
      unfolding m_def got using True by (simp add: load_store_whole)
    have side: "m (local_buffer + 32) = bs ! 32"
      using nth_load_bytes [of 32 33 m local_buffer] ld by simp
    have dis: "disjoint_regions local_buffer 33 local_event 48"
      by (simp add: disjoint_regions_def)
    show ?thesis
    proof (cases "bs ! 32 \<le> 1")
      case True': True
      from decode_stores [OF dis, of m n] side True' show ?thesis by (simp add: got True ld)
    next
      case False
      with side have "1 < m (local_buffer + 32)" by (simp add: not_le)
      with decode_rejects [of local_buffer local_event 33 m n] False show ?thesis
        by (simp add: got True)
    qed
  qed
qed

lemma iteration_cases:
  "ingress_iteration oe ec fd n w =
     (case iw_arrivals w of
        [] \<Rightarrow> Inr (n, w\<lparr>iw_errno := EAGAIN\<rparr>)
      | Receive_error e # rest \<Rightarrow>
          let w = w\<lparr>iw_errno := e, iw_arrivals := rest\<rparr>
          in if e = EAGAIN then Inr (n, w) else Inl (close_preserving_errno fd e w)
      | Datagram bs # rest \<Rightarrow>
          let m = store_bytes (iw_mem w) local_buffer (take SOLANA_MAX_DATAGRAM_SIZE bs);
              w = w\<lparr>iw_mem := m, iw_arrivals := rest\<rparr>;
              e = wire_event bs (n + 1)
          in if bs = [] then Inr (n, w)
             else if length bs = 33 \<and> bs ! 32 \<le> SOLANA_TRADE_SIDE_SELL
             then Inr (n + 1, w\<lparr>iw_mem := store_bytes m local_event (bytes_of_ingress_event e),
                     iw_user := oe e ec (iw_user w), iw_delivered := iw_delivered w @ [e]\<rparr>)
             else Inr (n + 1, w))"
proof (cases "iw_arrivals w")
  case Nil
  then show ?thesis by (simp add: ingress_iteration_def os_recvfrom_def)
next
  case (Cons a rest)
  show ?thesis
  proof (cases a)
    case (Receive_error e)
    with Cons show ?thesis by (simp add: ingress_iteration_def os_recvfrom_def Let_def)
  next
    case (Datagram bs)
    show ?thesis
    proof (cases "bs = []")
      case True
      with Cons Datagram show ?thesis by (simp add: ingress_iteration_def os_recvfrom_def Let_def)
    next
      case False
      then have pos: "0 < int (length (take SOLANA_MAX_DATAGRAM_SIZE bs))" by simp
      have read: "ingress_event_of_bytes (load_bytes (store_bytes m local_event
          (bytes_of_ingress_event (wire_event bs k))) local_event 48) = wire_event bs k" for m k
        by (rule ingress_event.load_of_store) simp_all
      show ?thesis
        using decode_local [OF False refl, where mm = "iw_mem w" and n = "n + 1"] pos Cons Datagram False
        by (simp add: ingress_iteration_def os_recvfrom_def Let_def call_on_event_def read
            del: length_take of_int_of_nat_eq)
    qed
  qed
qed

section \<open>The whole run\<close>

fun fatal :: "arrival \<Rightarrow> bool" where
  "fatal (Receive_error e) = (e \<noteq> EAGAIN)"
| "fatal (Datagram bs) = False"

text \<open>How a run ends, with the arrivals it consumed.\<close>

definition run_result :: "'u ingress_world \<Rightarrow> arrival list \<Rightarrow> int \<Rightarrow> int \<Rightarrow> bool" where
  "run_result w consumed r errno \<longleftrightarrow>
     r = fst (iw_close w) \<and> (r < 0 \<longrightarrow> errno = snd (iw_close w)) \<and> \<not> list_ex fatal consumed \<or>
     r = -1 \<and> (\<exists>before. consumed = before @ [Receive_error errno] \<and> errno \<noteq> EAGAIN \<and>
       \<not> list_ex fatal before)"

lemma run_result_append:
  "run_result w consumed r errno \<Longrightarrow> \<not> list_ex fatal front \<Longrightarrow> run_result w (front @ consumed) r errno"
  by (auto simp: run_result_def)

definition run_trace :: "int \<Rightarrow> u64 \<Rightarrow> 'u ingress_world \<Rightarrow> int \<times> 'u ingress_world \<Rightarrow> bool" where
  "run_trace fd n w y \<longleftrightarrow>
     (\<exists>consumed. iw_arrivals w = consumed @ iw_arrivals (snd y) \<and>
        iw_delivered (snd y) = iw_delivered w @ accepted_events n consumed \<and>
        iw_closed (snd y) = iw_closed w @ [fd] \<and> iw_bound (snd y) = iw_bound w \<and>
        iw_flags (snd y) = iw_flags w \<and>
        run_result w consumed (fst y) (iw_errno (snd y)))"

lemma run_trace_close: "run_trace fd n w (os_close fd (w\<lparr>iw_user := u\<rparr>))"
  by (auto simp: run_trace_def os_close_def os_result_def run_result_def)

text \<open>One iteration, from the trace of the rest of the run.\<close>

lemma run_trace_step:
  assumes "ingress_iteration oe ec fd n (w\<lparr>iw_user := u\<rparr>) = Inr (n', w')" "run_trace fd n' w' y"
  shows "run_trace fd n w y"
proof -
  have frame: "iw_closed w' = iw_closed w" "iw_bound w' = iw_bound w" "iw_flags w' = iw_flags w"
    "iw_close w' = iw_close w"
    using assms(1) by (auto simp: iteration_cases Let_def split: list.splits arrival.splits if_splits)
  obtain front where front: "iw_arrivals w = front @ iw_arrivals w'"
    "iw_delivered w' = iw_delivered w @ accepted_events n front"
    "accepted_events n (front @ rs) = accepted_events n front @ accepted_events n' rs"
    "\<not> list_ex fatal front" for rs
    using assms(1)
    by (force simp: iteration_cases Let_def split: list.splits arrival.splits if_splits)
  obtain consumed where c: "iw_arrivals w' = consumed @ iw_arrivals (snd y)"
    "iw_delivered (snd y) = iw_delivered w' @ accepted_events n' consumed"
    "iw_closed (snd y) = iw_closed w' @ [fd] \<and> iw_bound (snd y) = iw_bound w' \<and>
      iw_flags (snd y) = iw_flags w'"
    "run_result w' consumed (fst y) (iw_errno (snd y))"
    using assms(2) unfolding run_trace_def by blast
  have "run_result w (front @ consumed) (fst y) (iw_errno (snd y))"
    using run_result_append [OF c(4) front(4)] frame(4) by (simp add: run_result_def)
  with frame front c show ?thesis
    unfolding run_trace_def by (intro exI [of _ "front @ consumed"]) simp
qed

lemma loop_trace:
  assumes "ingress_loop oe ec sc cc fd n w = Some y"
  shows "run_trace fd n w y"
proof (rule ingress_loop.raw_induct [where P = "\<lambda>oe ec sc cc fd n w y. run_trace fd n w y", OF _ assms])
  fix loop oe ec sc cc fd n w y
  assume 1: "\<And>oe ec sc cc fd n w y. loop oe ec sc cc fd n w = Some y \<Longrightarrow> run_trace fd n w y"
    "(case sc cc (iw_user w) of (go, u) \<Rightarrow>
        if go = 0 then Some (os_close fd (w\<lparr>iw_user := u\<rparr>))
        else (case ingress_iteration oe ec fd n (w\<lparr>iw_user := u\<rparr>) of Inl r \<Rightarrow> Some r
              | Inr (n', w') \<Rightarrow> loop oe ec sc cc fd n' w')) = Some y"
  obtain go u where sc: "sc cc (iw_user w) = (go, u)" by (cases "sc cc (iw_user w)")
  show "run_trace fd n w y"
  proof (cases "go = 0")
    case True
    with 1(2) sc run_trace_close show ?thesis by auto
  next
    case False
    show ?thesis
    proof (cases "ingress_iteration oe ec fd n (w\<lparr>iw_user := u\<rparr>)")
      case (Inr s)
      obtain n' w' where s: "s = (n', w')" by (cases s)
      from 1(2) sc False Inr s have "loop oe ec sc cc fd n' w' = Some y" by simp
      from run_trace_step [OF Inr [unfolded s] 1(1) [OF this]] show ?thesis .
    next
      case (Inl s)
      with 1(2) sc False have "y = s" by simp
      with Inl show ?thesis
        by (auto simp: run_trace_def iteration_cases Let_def close_preserving_errno_def os_close_def
            os_result_def run_result_def split: list.splits arrival.splits if_splits)
    qed
  qed
qed

text \<open>The calls before the loop, as the chain of their failures.\<close>

definition setup_failure :: "'u ingress_world \<Rightarrow> (bool \<times> int) option" where
  "setup_failure w =
     (if fst (iw_socket w) < 0 then Some (False, snd (iw_socket w))
      else if fst (iw_setsockopt w) < 0 then Some (True, snd (iw_setsockopt w))
      else if fst (iw_getfl w) < 0 then Some (True, snd (iw_getfl w))
      else if fst (iw_setfl w) < 0 then Some (True, snd (iw_setfl w))
      else if fst (iw_bind w) < 0 then Some (True, snd (iw_bind w))
      else None)"

text \<open>C26: Set-up failures: a NULL callback fails with EINVAL before any system call;
  otherwise the first failing call makes the run return -1 with that call's errno, even
  if closing the socket fails too, and the socket, if there is one, is closed exactly
  once. No event is delivered and no datagram is read.\<close>

theorem run_local_setup_errors:
  "solana_ingress_run_local port None ec sc cc w = Some (-1, w\<lparr>iw_errno := EINVAL\<rparr>) \<and>
   solana_ingress_run_local port oe ec None cc w = Some (-1, w\<lparr>iw_errno := EINVAL\<rparr>) \<and>
   (case setup_failure w of None \<Rightarrow> True
    | Some (opened, errno) \<Rightarrow>
        \<exists>w'. solana_ingress_run_local port (Some f) ec (Some g) cc w = Some (-1, w') \<and>
          iw_errno w' = errno \<and>
          iw_closed w' = iw_closed w @ (if opened then [fst (iw_socket w)] else []) \<and>
          iw_delivered w' = iw_delivered w \<and> iw_arrivals w' = iw_arrivals w)"
  by (simp add: solana_ingress_run_local_def setup_failure_def os_result_def close_preserving_errno_def
      os_close_def Let_def split: option.split)

lemma run_local_loop:
  assumes "setup_failure w = None"
  shows "solana_ingress_run_local port (Some oe) ec (Some sc) cc w =
    ingress_loop oe ec sc cc (fst (iw_socket w)) 0
      (w\<lparr>iw_flags := Some (fst (iw_getfl w) OR O_NONBLOCK), iw_bound := Some (INADDR_LOOPBACK, port)\<rparr>)"
  using assms
  by (simp add: solana_ingress_run_local_def setup_failure_def os_result_def split: if_splits)

text \<open>C24: A run that returns after set-up has consumed a prefix of the arrivals and
  delivered, in order, exactly the events of its acceptable datagrams, each numbered
  with its position among the non-empty datagrams; the socket was bound to the loopback
  address only, in non-blocking mode, and closed exactly once. The run
  ends at the first receive error other than \<open>EAGAIN\<close>, with -1 and that errno; without
  one the result is that of \<open>close\<close>, with its errno if it fails.\<close>

theorem run_local_delivers:
  assumes "setup_failure w = None"
    and "solana_ingress_run_local port (Some oe) ec (Some sc) cc w = Some (r, w')"
  shows "\<exists>consumed. iw_arrivals w = consumed @ iw_arrivals w' \<and>
    iw_delivered w' = iw_delivered w @ accepted_events 0 consumed \<and>
    iw_closed w' = iw_closed w @ [fst (iw_socket w)] \<and>
    iw_bound w' = Some (INADDR_LOOPBACK, port) \<and>
    iw_flags w' = Some (fst (iw_getfl w) OR O_NONBLOCK) \<and>
    (r = fst (iw_close w) \<and> (r < 0 \<longrightarrow> iw_errno w' = snd (iw_close w)) \<and> \<not> list_ex fatal consumed \<or>
     r = -1 \<and> (\<exists>before. consumed = before @ [Receive_error (iw_errno w')] \<and>
       iw_errno w' \<noteq> EAGAIN \<and> \<not> list_ex fatal before))"
  using loop_trace [OF assms(2) [unfolded run_local_loop [OF assms(1)]]]
  unfolding run_trace_def run_result_def by simp

lemma loop_returns:
  assumes "\<And>u. fst (sc cc u) \<noteq> 0 \<Longrightarrow> rem (snd (sc cc u)) < (rem u :: nat)"
    and "\<And>e u. rem (oe e ec u) \<le> rem u"
  shows "\<exists>y. ingress_loop oe ec sc cc fd n w = Some y"
proof (induction "rem (iw_user w)" arbitrary: n w rule: less_induct)
  case less
  obtain go u where sc: "sc cc (iw_user w) = (go, u)" by (cases "sc cc (iw_user w)")
  show ?case
  proof (cases "go = 0")
    case True
    with sc show ?thesis by (subst ingress_loop.simps) simp
  next
    case False
    then have u: "rem u < rem (iw_user w)" using assms(1) [of "iw_user w"] sc by simp
    show ?thesis
    proof (cases "ingress_iteration oe ec fd n (w\<lparr>iw_user := u\<rparr>)")
      case (Inl y)
      with sc False show ?thesis by (subst ingress_loop.simps) simp
    next
      case (Inr s)
      obtain n' w' where s: "s = (n', w')" by (cases s)
      have "rem (iw_user w') \<le> rem u"
        using Inr assms(2) unfolding s
        by (auto simp: iteration_cases Let_def split: list.splits arrival.splits if_splits)
      with u less [of w' n'] obtain y where "ingress_loop oe ec sc cc fd n' w' = Some y" by auto
      with sc False Inr s show ?thesis by (subst ingress_loop.simps) simp
    qed
  qed
qed

text \<open>C25: The run returns whenever the control callback lets it: if some measure of the
  caller's state falls with every answer to continue and does not grow with a delivery,
  then the call returns, whatever arrives.\<close>

theorem run_local_returns:
  assumes "\<And>u. fst (sc cc u) \<noteq> 0 \<Longrightarrow> rem (snd (sc cc u)) < (rem u :: nat)"
    and "\<And>e u. rem (oe e ec u) \<le> rem u"
  shows "\<exists>r w'. solana_ingress_run_local port (Some oe) ec (Some sc) cc w = Some (r, w')"
proof (cases "setup_failure w")
  case None
  obtain y where "solana_ingress_run_local port (Some oe) ec (Some sc) cc w = Some y"
    using loop_returns [of sc cc rem oe ec, OF assms] unfolding run_local_loop [OF None] by blast
  then show ?thesis by (cases y) auto
next
  case (Some p)
  then show ?thesis
    by (auto simp: solana_ingress_run_local_def setup_failure_def os_result_def close_preserving_errno_def
        os_close_def Let_def split: if_splits)
qed

section \<open>Witnesses\<close>

text \<open>Callbacks that count down and collect.\<close>

definition count_down :: "addr \<Rightarrow> nat \<times> solana_ingress_event_t list \<Rightarrow>
    int \<times> nat \<times> solana_ingress_event_t list" where
  "count_down context u = (if fst u = 0 then (0, u) else (1, (fst u - 1, snd u)))"

definition collect :: "solana_ingress_event_t \<Rightarrow> addr \<Rightarrow> nat \<times> solana_ingress_event_t list \<Rightarrow>
    nat \<times> solana_ingress_event_t list" where
  "collect e context u = (fst u, snd u @ [e])"

lemma count_down_less: "fst (count_down ctx u) \<noteq> 0 \<Longrightarrow> fst (snd (count_down ctx u)) < fst u"
  by (cases u) (simp add: count_down_def split: if_splits)

lemma collect_le: "fst (collect e ctx u) \<le> fst u"
  by (simp add: collect_def)

text \<open>A short datagram, then a well-formed one.\<close>

definition sample_world :: "(nat \<times> solana_ingress_event_t list) ingress_world" where
  "sample_world =
     \<lparr>iw_mem = (\<lambda>_. 0), iw_errno = 0, iw_socket = (3, 0), iw_setsockopt = (0, 0), iw_getfl = (2, 0),
      iw_setfl = (0, 0), iw_bind = (0, 0), iw_close = (0, 0),
      iw_arrivals = [Datagram [1, 2], Datagram (encode_wire sample_event), Receive_error 5],
      iw_flags = None, iw_bound = None, iw_closed = [], iw_delivered = [], iw_user = (9, [])\<rparr>"

lemma sample_run:
  "\<exists>y. solana_ingress_run_local 49000 (Some collect) NULL (Some count_down) NULL sample_world = Some y"
proof -
  have "setup_failure sample_world = None" by (simp add: setup_failure_def sample_world_def)
  then show ?thesis
    using loop_returns [of count_down NULL fst collect NULL, OF count_down_less collect_le]
    by (simp only: run_local_loop simp_thms)
qed

lemma run_local_returns_witness:
  "\<exists>r w'. solana_ingress_run_local 49000 (Some collect) NULL (Some count_down) NULL sample_world = Some (r, w')"
  by (rule run_local_returns [of count_down NULL fst collect NULL, OF count_down_less collect_le])

lemma run_local_delivers_witness:
  "\<exists>r w' consumed. solana_ingress_run_local 49000 (Some collect) NULL (Some count_down) NULL sample_world =
      Some (r, w') \<and>
    iw_arrivals sample_world = consumed @ iw_arrivals w' \<and> iw_closed w' = [3] \<and>
    iw_delivered w' = accepted_events 0 consumed"
proof -
  have s: "setup_failure sample_world = None" by (simp add: setup_failure_def sample_world_def)
  obtain r w' where run: "solana_ingress_run_local 49000 (Some collect) NULL (Some count_down) NULL
      sample_world = Some (r, w')" using sample_run by auto
  from run_local_delivers [OF s run] obtain consumed where
    "iw_arrivals sample_world = consumed @ iw_arrivals w'"
    "iw_delivered w' = iw_delivered sample_world @ accepted_events 0 consumed"
    "iw_closed w' = iw_closed sample_world @ [fst (iw_socket sample_world)]" by blast
  with run show ?thesis by (auto simp: sample_world_def)
qed

end
