(* ===== verification/Spec2Isabelle.thy ===== *)
theory Spec2Isabelle
  imports Local_Acceptance Ingress_Loop
begin

text \<open>
  A model of \<open>solana-tpu-client\<close>, the C library under \<open>src/\<close>, and its correctness. The
  library accepts already-signed transactions for local delivery: a caller installs a
  topology (validators, endpoints, who leads which slots), submits bytes, and polls
  events. A separate part decodes local UDP datagrams into trade events.

  \<^bold>\<open>Parts of the program and where they are modelled.\<close>

  \<^item> \<open>include/solana/delivery.h\<close>: theory \<open>Delivery_Abi\<close>. One record per structure, its
    layout by the rules of C, and a codec between record and bytes (locale
    \<open>structure_codec\<close> of \<open>C_Memory\<close>, interpreted for every structure); that the codecs
    read every member at the offset of that layout is a theorem. Caller memory is
    a function from 64-bit addresses to bytes, so strides, aliasing and untouched bytes
    are visible.
  \<^item> \<open>src/solana_delivery_internal.h\<close>: theories \<open>Platform\<close> (allocator and clock tables as
    values; heap, clock and memory as the record \<open>world\<close>) and \<open>Client_State\<close> (owned
    topology, requests, ring, client). An owned array is its block's address with its
    contents; the heap is a ledger of live blocks and a count of invalid frees.
  \<^item> \<open>src/solana_delivery.c\<close>: \<open>Topology_Validation\<close> (\<open>solana_delivery_topology_validate\<close> and
    its helpers), \<open>Topology_Install\<close> (clone, build with its failure path, release,
    \<open>solana_delivery_client_install_topology\<close>), \<open>Client_Lifecycle\<close> (create, destroy),
    \<open>Platform\<close> and \<open>Monotonic_Clock\<close> (system allocator and clock).
  \<^item> \<open>src/solana_delivery_admission.c\<close>: \<open>Admission\<close>. \<open>src/solana_delivery_resolution.c\<close>:
    \<open>Resolution\<close>. \<open>src/solana_delivery_route.c\<close>: \<open>Route_Planner\<close>.
    \<open>src/solana_delivery_events.c\<close>: \<open>Event_Queue\<close>.
  \<^item> \<open>src/solana_delivery_submission.c\<close>: \<open>Submission\<close>. \<open>solana_delivery_client_submit\<close> is
    split at its stages (candidates, routes, owned copies, acceptance, the label
    \<open>cleanup\<close>); \<open>goto cleanup\<close> is an \<open>Inl\<close> with the locals at that point.
    \<open>Submission_Properties\<close> states what it promises.
  \<^item> \<open>src/solana_delivery_discovery.c\<close> and \<open>discovery.h\<close>: \<open>Discovery\<close>. The provider's
    callbacks are values of the model; their contract is the locale
    \<open>discovery_provider\<close>, interpreted on the provider of the discovery example.
  \<^item> \<open>src/solana_ingress.c\<close> and \<open>ingress.h\<close>: \<open>Ingress\<close> (wire format, decoder) and
    \<open>Ingress_Loop\<close> (\<open>solana_ingress_run_local\<close> over a script of system call results).
  \<^item> \<open>examples/\<close>: \<open>Example_Programs\<close> (\<open>ingress_decode.c\<close>, \<open>discovery_refresh.c\<close>) and
    \<open>Local_Acceptance\<close> (\<open>delivery_local_acceptance.c\<close>), each \<open>main\<close> in full.
  \<^item> \<open>Prelude\<close> holds the integer types, the counting loop with early return
    (\<open>for_loop\<close>) and list and word lemmas; \<open>Example_Data\<close> the concrete objects of the
    witnesses.

  \<^bold>\<open>How the parts interact.\<close> \<open>Submission\<close> calls admission, resolution, planning and the
  queue in the code's order; discovery calls installation; everything calls the
  allocator and the clock through the client's tables. The interfaces are locales:
  \<open>allocator_contract\<close> and \<open>client_platform\<close> (\<open>Platform\<close>; interpreted on the system
  allocator and clock, once counting invalid frees and once observing the caller's
  state, the clock's own state being the script of readings to come), \<open>structure_codec\<close>, \<open>bounded_fifo\<close> (\<open>Event_Queue\<close>; interpreted on the ring) and
  \<open>discovery_provider\<close>. \<open>Session\<close> composes the API into a state machine: a step is any
  call with any arguments, or the caller changing memory, clock and heap supply.

  \<^bold>\<open>What the theorems show.\<close>

  \<^item> Validation accepts exactly the views that satisfy a declarative predicate, and reads
    only their footprint.
  \<^item> Installation copies the known prefix of every record, orders generations, and is
    atomic when anything fails; it succeeds when four allocations and a clock reading do.
  \<^item> Resolution returns exactly the associated pairs of the leaders of the slot; planning
    keeps first occurrences up to the limit; admission decides by unbounded arithmetic.
  \<^item> Submission: outcome, atomicity, targets, back-pressure, refusals in order, success.
  \<^item> The ring refines a list; polling transfers a prefix of it into strided storage.
  \<^item> Sessions: identifiers are 1, 2, \<dots>; events read and events queued are those
    identifiers in order; no block leaks and none is freed twice on any path; accepted
    requests never change; generations increase; a poll with room for what is queued catches up; and
    the whole client refines an abstract one.
  \<^item> Refresh follows its borrow protocol for every provider: a snapshot is installed as it
    was borrowed and released once, and nothing happens without a borrow.
  \<^item> The decoder on every input and its round trip; the receive loop delivers exactly the
    decodable datagrams in order, numbers all of them, reports the first fatal error and
    closes the socket once; it returns when \<open>should_continue\<close> eventually says so.
  \<^item> Clock readings are exact below the last representable second. In that second the
    code's guard lets the sums that do not fit wrap, which the code means to refuse.

  \<^bold>\<open>Bounds and loops.\<close> C's bounded loops are \<open>for_loop\<close>, which iterates over the word
  values below the bound and so always ends. The receive loop may run for ever and is a
  \<open>partial_function\<close>; that it returns is a theorem of its own. There is no fuel. Machine
  integers are words; the target is LP64 and little-endian.

  \<^bold>\<open>Assumptions.\<close> A live allocation is not handed out again and owned blocks do not
  overlap caller memory, so the contents of a block are kept with its owner. The contents
  of a block that failed to be initialised are never read. Caller callbacks leave the
  library's heap alone. Calls on one client are serialised, as the header requires.

  \<^bold>\<open>Not modelled.\<close> libc and the kernel beyond the results of the calls the code makes;
  the ABI version macros and event classes no code uses; tests, fuzz targets, benchmark,
  build files, documents and the document checker.
\<close>

end
